(* ===== verification/PyPrelude.thy ===== *)
theory PyPrelude
  imports Complex_Main "HOL-Library.AList" "HOL-Library.List_Lexorder" "HOL-Library.Char_ord"
    "HOL-Library.Sublist"
begin

text \<open>
  The part of Python the modelled modules share: the string methods they call
  (\<open>strip\<close>, \<open>lower\<close>, \<open>replace\<close>, \<open>split\<close>, \<open>int\<close>), the truth value of an optional
  string (\<open>x or ""\<close>), and dictionaries as association lists in insertion order
  (\<^const>\<open>AList.update\<close> overwrites in place and appends a new key at the end, as a
  Python dict does).  A string is a list of 8-bit characters, read as Latin-1 code
  points.  The theory ends with the interfaces (locales) that several components
  provide: a keyed store, a two-way selector, a normaliser, a step system and a simulation.
\<close>

named_theorems py_defs \<open>definitions of the Python operations, for evaluation\<close>

section \<open>Strings\<close>

text \<open>Characters \<open>str.strip()\<close> removes (the Latin-1 part of \<open>str.isspace\<close>).\<close>

definition py_space :: "char \<Rightarrow> bool" where
  "py_space c = List.member [CHR 0x20, CHR 0x09, CHR 0x0A, CHR 0x0B, CHR 0x0C, CHR 0x0D,
     CHR 0x1C, CHR 0x1D, CHR 0x1E, CHR 0x1F, CHR 0x85, CHR 0xA0] c"

definition py_strip :: "string \<Rightarrow> string" where
  "py_strip s = rev (dropWhile py_space (rev (dropWhile py_space s)))"

definition upper_char :: "char \<Rightarrow> bool" where
  "upper_char c = (let n = (of_char c :: nat) in
     (65 \<le> n \<and> n \<le> 90) \<or> (192 \<le> n \<and> n \<le> 222 \<and> n \<noteq> 215))"

definition lower_char :: "char \<Rightarrow> char" where
  "lower_char c = (if upper_char c then char_of (of_char c + 32 :: nat) else c)"

definition py_lower :: "string \<Rightarrow> string" where
  "py_lower = map lower_char"

text \<open>\<open>s.replace(c, "")\<close> for a one-character \<open>c\<close>.\<close>

definition py_remove :: "char \<Rightarrow> string \<Rightarrow> string" where
  "py_remove c = filter (\<lambda>x. x \<noteq> c)"

abbreviation nocolon :: "string \<Rightarrow> string" where
  "nocolon \<equiv> py_remove (CHR '':'')"

text \<open>\<open>x or ""\<close> for an optional string, and the truth value of one.\<close>

definition orE :: "string option \<Rightarrow> string" where
  "orE x = (case x of None \<Rightarrow> '''' | Some s \<Rightarrow> s)"

definition truthy :: "string option \<Rightarrow> bool" where
  "truthy x \<longleftrightarrow> orE x \<noteq> ''''"

text \<open>\<open>a or b\<close> on strings.\<close>

definition py_or :: "string \<Rightarrow> string \<Rightarrow> string" where
  "py_or a b = (if a = '''' then b else a)"

text \<open>\<open>s or None\<close>.\<close>

definition or_none :: "string \<Rightarrow> string option" where
  "or_none s = (if s = '''' then None else Some s)"

text \<open>\<open>s.split(c)\<close> for a one-character separator.\<close>

fun py_split :: "char \<Rightarrow> string \<Rightarrow> string list" where
  "py_split c [] = [[]]"
| "py_split c (x # xs) =
     (if x = c then [] # py_split c xs
      else (case py_split c xs of [] \<Rightarrow> [[x]] | p # ps \<Rightarrow> (x # p) # ps))"

text \<open>
  \<open>int(s)\<close> of a string: surrounding white space, an optional sign, decimal digits with
  single underscores between them; \<open>None\<close> stands for \<open>ValueError\<close>.
\<close>

definition digit_val :: "char \<Rightarrow> int option" where
  "digit_val c = (let n = (of_char c :: nat) in
     if 48 \<le> n \<and> n \<le> 57 then Some (int n - 48) else None)"

fun parse_digits :: "int \<Rightarrow> bool \<Rightarrow> string \<Rightarrow> int option" where
  "parse_digits acc ready [] = (if ready then Some acc else None)"
| "parse_digits acc ready (c # cs) =
     (if c = CHR ''_'' then (if ready \<and> cs \<noteq> [] then parse_digits acc False cs else None)
      else (case digit_val c of None \<Rightarrow> None
            | Some d \<Rightarrow> parse_digits (10 * acc + d) True cs))"

definition py_int :: "string \<Rightarrow> int option" where
  "py_int s = (case py_strip s of
      [] \<Rightarrow> None
    | c # cs \<Rightarrow>
        if c = CHR ''-'' then map_option uminus (parse_digits 0 False cs)
        else if c = CHR ''+'' then parse_digits 0 False cs
        else parse_digits 0 False (c # cs))"

text \<open>\<open>bytes.fromhex\<close>, with \<open>None\<close> for \<open>ValueError\<close>.\<close>

definition hex_digit :: "char \<Rightarrow> nat option" where
  "hex_digit c = (let n = (of_char c :: nat) in
     if 48 \<le> n \<and> n \<le> 57 then Some (n - 48)
     else if 97 \<le> n \<and> n \<le> 102 then Some (n - 87)
     else if 65 \<le> n \<and> n \<le> 70 then Some (n - 55) else None)"

definition ascii_space :: "char \<Rightarrow> bool" where
  "ascii_space c = List.member [CHR 0x20, CHR 0x09, CHR 0x0A, CHR 0x0B, CHR 0x0C, CHR 0x0D] c"

fun py_fromhex :: "string \<Rightarrow> nat list option" where
  "py_fromhex [] = Some []"
| "py_fromhex [c] = (if ascii_space c then Some [] else None)"
| "py_fromhex (c # d # cs) =
     (if ascii_space c then py_fromhex (d # cs)
      else case (hex_digit c, hex_digit d) of
          (Some x, Some y) \<Rightarrow> map_option ((#) (16 * x + y)) (py_fromhex cs)
        | _ \<Rightarrow> None)"

text \<open>\<open>bytes.hex\<close>.\<close>

definition nibble :: "nat \<Rightarrow> char" where
  "nibble n = (if n < 10 then char_of (48 + n) else char_of (87 + n))"

definition py_hex :: "nat list \<Rightarrow> string" where
  "py_hex bs = concat (map (\<lambda>b. [nibble (b div 16), nibble (b mod 16)]) bs)"

text \<open>
  A value that reached the program as JSON and is passed to \<open>int()\<close>: an integer, a
  finite float (\<open>int()\<close> truncates it towards zero), a string, or anything \<open>int()\<close> rejects
  with \<open>TypeError\<close>.
\<close>

datatype pyval = VInt int | VReal real | VStr string | VOther

definition py_trunc :: "real \<Rightarrow> int" where
  "py_trunc x = (if 0 \<le> x then \<lfloor>x\<rfloor> else \<lceil>x\<rceil>)"

fun py_int_val :: "pyval \<Rightarrow> int option" where
  "py_int_val (VInt n) = Some n"
| "py_int_val (VReal x) = Some (py_trunc x)"
| "py_int_val (VStr s) = py_int s"
| "py_int_val VOther = None"

text \<open>\<open>p in s\<close> for texts, and the last \<open>n\<close> elements of a list.\<close>

fun substr :: "string \<Rightarrow> string \<Rightarrow> bool" where
  "substr p [] = (p = [])"
| "substr p (c # s) = (prefix p (c # s) \<or> substr p s)"

definition last_n :: "nat \<Rightarrow> 'a list \<Rightarrow> 'a list" where
  "last_n n xs = drop (length xs - n) xs"

text \<open>The exceptions the modelled code raises.\<close>

datatype py_error = ValueError | KeyError

lemmas py_string_defs [py_defs] =
  py_space_def py_strip_def upper_char_def lower_char_def py_lower_def py_remove_def
  orE_def truthy_def py_or_def or_none_def digit_val_def py_int_def

lemma length_last_n [simp]: "length (last_n n xs) = min n (length xs)"
  by (simp add: last_n_def)

lemma set_last_n: "set (last_n n xs) \<subseteq> set xs"
  by (simp add: last_n_def set_drop_subset)

lemma last_n_snoc: "0 < n \<Longrightarrow> last_n n (xs @ [x]) \<noteq> [] \<and> last (last_n n (xs @ [x])) = x"
proof -
  assume "0 < n"
  then have d: "length (xs @ [x]) - n < length (xs @ [x])" by simp
  then have "drop (length (xs @ [x]) - n) (xs @ [x]) \<noteq> []" by (metis drop_eq_Nil not_le)
  moreover have "last (drop (length (xs @ [x]) - n) (xs @ [x])) = last (xs @ [x])" using d by (rule last_drop)
  ultimately show ?thesis unfolding last_n_def by simp
qed

lemma orE_simps [simp]: "orE None = ''''" "orE (Some s) = s"
  by (simp_all add: orE_def)

lemma truthy_simps [simp]: "truthy None = False" "truthy (Some s) = (s \<noteq> '''')"
  by (simp_all add: truthy_def)

lemma truthy_iff: "truthy x \<longleftrightarrow> (\<exists>s. x = Some s \<and> s \<noteq> '''')"
  by (cases x) auto

lemma py_or_simps [simp]: "py_or '''' b = b" "a \<noteq> '''' \<Longrightarrow> py_or a b = a"
  by (simp_all add: py_or_def)

lemma py_or_empty_iff [simp]: "py_or a b = '''' \<longleftrightarrow> a = '''' \<and> b = ''''"
  by (simp add: py_or_def)

lemma py_remove_idem [simp]: "py_remove c (py_remove c s) = py_remove c s"
  by (simp add: py_remove_def)

lemma py_remove_Nil [simp]: "py_remove c [] = []"
  by (simp add: py_remove_def)

lemma set_py_remove [simp]: "set (py_remove c s) = set s - {c}"
  by (auto simp: py_remove_def)

lemma py_strip_Nil [simp]: "py_strip [] = []"
  by (simp add: py_strip_def)

lemma hd_dropWhile_not: "dropWhile P xs \<noteq> [] \<Longrightarrow> \<not> P (hd (dropWhile P xs))"
  by (rule hd_dropWhile)

lemma dropWhile_id: "xs = [] \<or> \<not> P (hd xs) \<Longrightarrow> dropWhile P xs = xs"
  by (cases xs) auto

text \<open>A string without white space at its two ends is its own \<open>strip()\<close>.\<close>

lemma py_strip_id:
  assumes "s \<noteq> [] \<Longrightarrow> \<not> py_space (hd s)" and "s \<noteq> [] \<Longrightarrow> \<not> py_space (last s)"
  shows "py_strip s = s"
proof -
  have "dropWhile py_space s = s"
    using assms(1) by (auto intro: dropWhile_id)
  moreover have "dropWhile py_space (rev s) = rev s"
    using assms(2) by (cases "s = []") (auto intro: dropWhile_id simp: hd_rev)
  ultimately show ?thesis by (simp add: py_strip_def)
qed

lemma last_dropWhile: "dropWhile P xs \<noteq> [] \<Longrightarrow> last (dropWhile P xs) = last xs"
  by (induction xs) auto

lemma py_strip_last: "py_strip s \<noteq> [] \<Longrightarrow> \<not> py_space (last (py_strip s))"
  using hd_dropWhile [of py_space "rev (dropWhile py_space s)"]
  by (simp add: py_strip_def last_rev)

lemma py_strip_hd: "py_strip s \<noteq> [] \<Longrightarrow> \<not> py_space (hd (py_strip s))"
proof -
  assume ne: "py_strip s \<noteq> []"
  let ?t = "dropWhile py_space s"
  have ne': "dropWhile py_space (rev ?t) \<noteq> []" using ne by (simp add: py_strip_def)
  then have t: "?t \<noteq> []" by (cases "?t = []") simp_all
  have "hd (py_strip s) = last (dropWhile py_space (rev ?t))"
    using ne' by (simp add: py_strip_def hd_rev)
  also have "\<dots> = hd ?t" using ne' t by (simp add: last_dropWhile last_rev)
  finally show ?thesis using hd_dropWhile [of py_space s] t by simp
qed

lemma py_strip_idem [simp]: "py_strip (py_strip s) = py_strip s"
  by (rule py_strip_id) (auto dest: py_strip_hd py_strip_last)

lemma set_py_strip: "set (py_strip s) \<subseteq> set s"
  unfolding py_strip_def using set_dropWhileD by (metis set_rev subsetI)

lemma upper_lower_char: "\<not> upper_char (lower_char c)"
proof (cases "upper_char c")
  case True
  let ?n = "of_char c :: nat"
  from True have r: "(65 \<le> ?n \<and> ?n \<le> 90) \<or> (192 \<le> ?n \<and> ?n \<le> 222 \<and> ?n \<noteq> 215)"
    by (simp add: upper_char_def Let_def)
  then have "(?n + 32) mod 256 = ?n + 32" by (intro mod_less) linarith
  then have "of_char (char_of (?n + 32) :: char) = ?n + 32" by (simp only: of_char_of)
  with r True show ?thesis unfolding lower_char_def upper_char_def Let_def by simp linarith
next
  case False
  then show ?thesis by (simp add: lower_char_def)
qed

lemma lower_char_idem [simp]: "lower_char (lower_char c) = lower_char c"
  using upper_lower_char [of c] by (simp add: lower_char_def)

lemma py_lower_idem [simp]: "py_lower (py_lower s) = py_lower s"
  by (simp add: py_lower_def)

lemma py_lower_Nil_iff [simp]: "py_lower s = [] \<longleftrightarrow> s = []"
  by (simp add: py_lower_def)

lemma py_lower_Nil [simp]: "py_lower [] = []"
  by (simp add: py_lower_def)

text \<open>
  Lower-casing keeps white space and punctuation apart from letters, so a stripped
  string stays stripped.
\<close>

lemma lower_char_id: "\<not> upper_char c \<Longrightarrow> lower_char c = c"
  by (simp add: lower_char_def)

lemma of_char_lower: "upper_char c \<Longrightarrow> (of_char (lower_char c) :: nat) = of_char c + 32"
proof -
  let ?n = "of_char c :: nat"
  assume u: "upper_char c"
  then have "?n \<le> 222" by (auto simp: upper_char_def Let_def)
  then have "(?n + 32) mod 256 = ?n + 32" by (intro mod_less) linarith
  with u show ?thesis by (simp only: lower_char_def if_True of_char_of)
qed

lemma lower_char_special:
  assumes "lower_char c = d" and "(of_char d :: nat) < 97"
  shows "c = d"
proof (cases "upper_char c")
  case True
  from True have "97 \<le> (of_char (lower_char c) :: nat)"
    by (subst of_char_lower) (auto simp: upper_char_def Let_def)
  with assms show ?thesis by simp
next
  case False
  with assms(1) show ?thesis by (simp add: lower_char_id)
qed

lemma py_space_lower: "py_space (lower_char c) \<Longrightarrow> py_space c"
proof (cases "upper_char c")
  case True
  assume sp: "py_space (lower_char c)"
  from True have "97 \<le> (of_char (lower_char c) :: nat) \<and> (of_char (lower_char c) :: nat) \<noteq> 133
      \<and> (of_char (lower_char c) :: nat) \<noteq> 160"
    by (subst of_char_lower, simp, subst of_char_lower, simp, subst of_char_lower, simp)
       (auto simp: upper_char_def Let_def)
  with sp show ?thesis by (auto simp: py_space_def)
qed (simp add: lower_char_id)

lemma py_strip_lower: "py_strip s = s \<Longrightarrow> py_strip (py_lower s) = py_lower s"
proof (rule py_strip_id)
  assume s: "py_strip s = s"
  show "\<not> py_space (hd (py_lower s))" if "py_lower s \<noteq> []"
    using that py_strip_hd [of s] s by (auto simp: py_lower_def hd_map dest: py_space_lower)
  show "\<not> py_space (last (py_lower s))" if "py_lower s \<noteq> []"
    using that py_strip_last [of s] s by (auto simp: py_lower_def last_map dest: py_space_lower)
qed

lemma py_remove_id: "c \<notin> set s \<Longrightarrow> py_remove c s = s"
  by (auto simp: py_remove_def filter_id_conv)

lemma notin_lower: "(of_char c :: nat) < 97 \<Longrightarrow> c \<notin> set s \<Longrightarrow> c \<notin> set (py_lower s)"
  using lower_char_special by (fastforce simp: py_lower_def)

lemma py_split_ne [simp]: "py_split c s \<noteq> []"
  by (induction s) (auto split: list.splits)

lemma ascii_space_code: "ascii_space c \<Longrightarrow> (of_char c :: nat) \<le> 32"
  by (auto simp: ascii_space_def)

lemma of_nibble: "n < 16 \<Longrightarrow> (of_char (nibble n) :: nat) = (if n < 10 then 48 + n else 87 + n)"
proof -
  assume "n < 16"
  then have "(48 + n) mod 256 = 48 + n" "(87 + n) mod 256 = 87 + n" by (intro mod_less, linarith)+
  then show ?thesis by (cases "n < 10") (simp_all only: nibble_def if_True if_False of_char_of)
qed

lemma hex_nibble: "n < 16 \<Longrightarrow> hex_digit (nibble n) = Some n \<and> \<not> ascii_space (nibble n)"
  using ascii_space_code [of "nibble n"] by (auto simp: hex_digit_def Let_def of_nibble split: if_splits)

lemma py_fromhex_hex: "\<forall>b \<in> set bs. b < 256 \<Longrightarrow> py_fromhex (py_hex bs) = Some bs"
proof (induction bs)
  case (Cons b bs)
  have "b div 16 < 16" "b mod 16 < 16" using Cons.prems by auto
  with Cons show ?case using hex_nibble [of "b div 16"] hex_nibble [of "b mod 16"]
    by (simp add: py_hex_def)
qed (simp add: py_hex_def)

lemma length_py_hex [simp]: "length (py_hex bs) = 2 * length bs"
  by (induction bs) (simp_all add: py_hex_def)

section \<open>Dictionaries\<close>

text \<open>
  A dict is an association list: \<open>d.get(k)\<close> is \<^term>\<open>map_of d k\<close>, \<open>d[k] = v\<close> is
  \<^term>\<open>AList.update k v d\<close>, \<open>d.pop(k, None)\<close> is \<^term>\<open>AList.delete k d\<close> and
  \<open>d.values()\<close> is \<^term>\<open>map snd d\<close>.
\<close>

type_synonym ('k, 'v) pydict = "('k \<times> 'v) list"

text \<open>\<open>for k in list(d): if bad(k, d[k]): del d[k]\<close>.\<close>

definition dict_purge :: "('k \<Rightarrow> 'v \<Rightarrow> bool) \<Rightarrow> ('k, 'v) pydict \<Rightarrow> ('k, 'v) pydict" where
  "dict_purge bad d = filter (\<lambda>(k, v). \<not> bad k v) d"

text \<open>An in-place change of every row: \<open>for row in d.values(): row.update(...)\<close>.\<close>

definition dict_map :: "('v \<Rightarrow> 'v) \<Rightarrow> ('k, 'v) pydict \<Rightarrow> ('k, 'v) pydict" where
  "dict_map f d = map (\<lambda>(k, v). (k, f v)) d"

lemma map_of_update [simp]:
  "map_of (AList.update k v d) j = (if j = k then Some v else map_of d j)"
  by (simp add: update_conv')

lemma map_of_delete [simp]:
  "map_of (AList.delete k d) j = (if j = k then None else map_of d j)"
  by (simp add: delete_conv')

lemma set_delete [simp]: "set (AList.delete k d) = {p \<in> set d. fst p \<noteq> k}"
  by (auto simp: AList.delete_eq)

lemma keys_purge: "distinct (map fst d) \<Longrightarrow> distinct (map fst (dict_purge bad d))"
  by (simp add: dict_purge_def distinct_map_filter)

lemma set_purge [simp]: "set (dict_purge bad d) = {p \<in> set d. \<not> bad (fst p) (snd p)}"
  by (auto simp: dict_purge_def)

lemma map_of_dict_purge:
  assumes "distinct (map fst d)"
  shows "map_of (dict_purge b d) k = (case map_of d k of None \<Rightarrow> None | Some v \<Rightarrow> if b k v then None else Some v)"
  using assms
proof (induction d)
  case (Cons p d)
  have "k \<notin> fst ` set d \<Longrightarrow> map_of d k = None" by (simp add: map_of_eq_None_iff)
  with Cons show ?case by (cases p) (auto simp: dict_purge_def split: option.splits)
qed (simp add: dict_purge_def)

lemma keys_dict_map [simp]: "map fst (dict_map f d) = map fst d"
  by (induction d) (auto simp: dict_map_def)

lemma set_dict_map [simp]: "set (dict_map f d) = (\<lambda>(k, v). (k, f v)) ` set d"
  by (simp add: dict_map_def)

lemma set_update_subset: "set (AList.update k v d) \<subseteq> insert (k, v) (set d)"
  by (induction d) auto

lemma keys_delete: "distinct (map fst d) \<Longrightarrow> distinct (map fst (AList.delete k d))"
  by (rule distinct_delete)

lemma keys_update: "distinct (map fst d) \<Longrightarrow> distinct (map fst (AList.update k v d))"
  by (rule distinct_update)

section \<open>Interfaces\<close>

text \<open>A keyed store: what a lookup returns after a write and after a removal.\<close>

locale keyed_store =
  fixes get :: "'s \<Rightarrow> 'k \<Rightarrow> 'v option"
    and put :: "'k \<Rightarrow> 'v \<Rightarrow> 's \<Rightarrow> 's"
    and drop_key :: "'k \<Rightarrow> 's \<Rightarrow> 's"
  assumes get_put: "get (put k v s) j = (if j = k then Some v else get s j)"
    and get_drop: "get (drop_key k s) j = (if j = k then None else get s j)"
begin

lemma get_put_same: "get (put k v s) k = Some v"
  by (simp add: get_put)

lemma get_drops: "get (fold drop_key ks s) j = (if j \<in> set ks then None else get s j)"
  by (induction ks arbitrary: s) (auto simp: get_drop)

lemma get_put_drops: "k \<notin> set ks \<Longrightarrow> get (fold drop_key ks (put k v s)) k = Some v"
  by (simp add: get_drops get_put)

lemma drops_frame: "j \<notin> set ks \<Longrightarrow> get (fold drop_key ks s) j = get s j"
  by (simp add: get_drops)

end

interpretation pydict: keyed_store map_of AList.update AList.delete
  by unfold_locales auto

text \<open>A choice between two records: the result is one of the two.\<close>

locale selector =
  fixes pick :: "'a \<Rightarrow> 'a \<Rightarrow> 'a"
  assumes pick_one: "pick a b = a \<or> pick a b = b"
begin

lemma fold_pick_in: "fold (\<lambda>b a. pick a b) bs a \<in> insert a (set bs)"
proof (induction bs arbitrary: a)
  case (Cons b bs)
  show ?case using Cons.IH [of "pick a b"] pick_one [of a b] by auto
qed simp

end

text \<open>A choice that keeps a good record when it is offered one.\<close>

locale good_selector = selector pick for pick :: "'a \<Rightarrow> 'a \<Rightarrow> 'a" +
  fixes good :: "'a \<Rightarrow> bool"
  assumes pick_good: "good a \<or> good b \<Longrightarrow> good (pick a b)"
begin

lemma fold_pick_good: "\<exists>x \<in> insert a (set bs). good x \<Longrightarrow> good (fold (\<lambda>b a. pick a b) bs a)"
proof (induction bs arbitrary: a)
  case (Cons b bs)
  have "\<exists>x \<in> insert (pick a b) (set bs). good x"
    using Cons.prems pick_good [of a b] by auto
  then show ?case using Cons.IH [of "pick a b"] by simp
qed simp

end

text \<open>A normal form: normalising twice changes nothing.\<close>

locale normaliser =
  fixes norm :: "'a \<Rightarrow> 'a"
  assumes norm_idem: "norm (norm x) = norm x"
begin

lemma norm_fixpoint: "x \<in> range norm \<longleftrightarrow> norm x = x"
  by (metis norm_idem rangeE rangeI)

lemma map_norm_idem: "map norm (map norm xs) = map norm xs"
  by (simp add: norm_idem)

end

text \<open>A machine whose every step keeps an invariant (for the inputs it admits)
  keeps it over every run.\<close>

locale step_system =
  fixes step :: "'e \<Rightarrow> 's \<Rightarrow> 's"
    and ok :: "'e \<Rightarrow> bool"
    and inv :: "'s \<Rightarrow> bool"
  assumes step_inv: "ok e \<Longrightarrow> inv s \<Longrightarrow> inv (step e s)"
begin

lemma run_inv: "\<forall>e \<in> set es. ok e \<Longrightarrow> inv s \<Longrightarrow> inv (fold step es s)"
  by (induction es arbitrary: s) (auto intro: step_inv)

end

text \<open>A machine that implements a specification step by step, through an abstraction.\<close>

locale simulation = step_system step ok inv
  for step :: "'e \<Rightarrow> 's \<Rightarrow> 's" and ok :: "'e \<Rightarrow> bool" and inv :: "'s \<Rightarrow> bool" +
  fixes spec_step :: "'e \<Rightarrow> 'a \<Rightarrow> 'a"
    and abstr :: "'s \<Rightarrow> 'a"
  assumes simulates: "ok e \<Longrightarrow> inv s \<Longrightarrow> abstr (step e s) = spec_step e (abstr s)"
begin

lemma run_simulates: "\<forall>e \<in> set es. ok e \<Longrightarrow> inv s \<Longrightarrow> abstr (fold step es s) = fold spec_step es (abstr s)"
  by (induction es arbitrary: s) (auto simp flip: simulates intro: step_inv)

end

interpretation lower: normaliser py_lower
  by unfold_locales simp

interpretation strip: normaliser py_strip
  by unfold_locales simp

end
