(* ===== verification/LanScope.thy ===== *)
theory LanScope
  imports PyPrelude
begin

text \<open>
  \<open>chatxz/utils/lan_scope.py\<close>: when two IPv4 addresses are on the same discovery
  scope.  Addresses are strings, as in the code; a part \<open>int()\<close> rejects is the
  \<open>ValueError\<close> branch.
\<close>

definition same_lan_scope :: "string \<Rightarrow> string \<Rightarrow> bool" where
  "same_lan_scope ip_a ip_b = (
     if ip_a = '''' \<or> ip_b = '''' then False
     else let parts_a = py_split (CHR ''.'') ip_a; parts_b = py_split (CHR ''.'') ip_b in
     if length parts_a \<noteq> 4 \<or> length parts_b \<noteq> 4 then False
     else if take 3 parts_a = take 3 parts_b then True
     else (case (py_int (parts_a ! 0), py_int (parts_a ! 1),
                 py_int (parts_b ! 0), py_int (parts_b ! 1)) of
        (Some a0, Some a1, Some b0, Some b1) \<Rightarrow>
          (a0 = b0 \<and> b0 = 172 \<and> 16 \<le> a1 \<and> a1 \<le> 31 \<and> 16 \<le> b1 \<and> b1 \<le> 31)
          \<or> (a0 = b0 \<and> b0 = 192 \<and> a1 = b1 \<and> b1 = 168)
      | _ \<Rightarrow> False))"

definition peer_in_scope :: "string option \<Rightarrow> string option \<Rightarrow> bool" where
  "peer_in_scope peer_ip scope_ip = (
     let peer = py_strip (orE peer_ip); scope = py_strip (orE scope_ip) in
     if peer = '''' \<or> scope = '''' then False else same_lan_scope peer scope)"

lemma same_lan_scope_sym: "same_lan_scope a b = same_lan_scope b a"
  unfolding same_lan_scope_def Let_def by (auto split: option.splits)

lemma same_lan_scope_refl:
  "a \<noteq> '''' \<Longrightarrow> length (py_split (CHR ''.'') a) = 4 \<Longrightarrow> same_lan_scope a a"
  by (simp add: same_lan_scope_def)

lemma same_lan_scope_trans:
  assumes "same_lan_scope a b" "same_lan_scope b c"
  shows "same_lan_scope a c"
proof -
  define p where "p x = py_split (CHR ''.'') x" for x
  have nth: "p x ! 0 = p y ! 0 \<and> p x ! 1 = p y ! 1"
    if "take 3 (p x) = take 3 (p y)" "length (p x) = 4" "length (p y) = 4" for x y
    using nth_take [of 0 3 "p x"] nth_take [of 0 3 "p y"] nth_take [of 1 3 "p x"] nth_take [of 1 3 "p y"] that(1)
    by simp
  have len: "length (p a) = 4" "length (p b) = 4" "length (p c) = 4"
    using assms by (auto simp: same_lan_scope_def p_def Let_def split: if_splits)
  show ?thesis
    using assms nth [of a b] nth [of b c] len
    unfolding same_lan_scope_def Let_def p_def [symmetric]
    by (auto split: if_splits option.splits)
qed

text \<open>C39: being on the same discovery scope is a partial equivalence on address strings:
  symmetric, transitive, and reflexive on every string with four dotted parts, so the
  peers of one pinned address are also in scope of each other.\<close>

theorem scope_equivalence:
  "same_lan_scope a b = same_lan_scope b a
   \<and> (same_lan_scope a b \<and> same_lan_scope b c \<longrightarrow> same_lan_scope a c)
   \<and> (same_lan_scope a a \<longleftrightarrow> length (py_split (CHR ''.'') a) = 4)
   \<and> (peer_in_scope x s \<and> peer_in_scope y s \<longrightarrow> peer_in_scope x y)"
proof (intro conjI impI)
  show "same_lan_scope a b = same_lan_scope b a" by (rule same_lan_scope_sym)
  show "same_lan_scope a c" if "same_lan_scope a b \<and> same_lan_scope b c"
    using that same_lan_scope_trans by blast
  show "same_lan_scope a a \<longleftrightarrow> length (py_split (CHR ''.'') a) = 4"
    by (auto simp: same_lan_scope_def)
  show "peer_in_scope x y" if "peer_in_scope x s \<and> peer_in_scope y s"
    using that same_lan_scope_trans [of _ "py_strip (orE s)"] same_lan_scope_sym
    by (auto simp: peer_in_scope_def Let_def split: if_splits)
qed

lemma scope_equivalence_witness:
  "same_lan_scope ''172.16.0.1'' ''172.31.9.9'' \<and> peer_in_scope (Some ''192.168.1.5'') (Some '' 192.168.77.1'')
   \<and> \<not> same_lan_scope ''10.0.30.1'' ''10.10.100.1''"
proof -
  have "same_lan_scope ''172.16.0.1'' ''172.20.0.1'' \<and> same_lan_scope ''172.20.0.1'' ''172.31.9.9''"
    "peer_in_scope (Some ''192.168.1.5'') (Some ''192.168.9.9'') \<and> peer_in_scope (Some '' 192.168.77.1'') (Some ''192.168.9.9'')"
    "\<not> same_lan_scope ''10.0.30.1'' ''10.10.100.1''"
    by code_simp+
  then show ?thesis using scope_equivalence by blast
qed

end
