(* ===== verification/PeerRow.thy ===== *)
theory PeerRow
  imports LanScope
begin

text \<open>
  The row of \<open>PeerDiscovery.peers\<close> (\<open>chatxz/core/discovery.py\<close>): a dict with optional
  keys, here a record of options; a key that is absent and a key that holds \<open>None\<close> read
  the same through \<open>get\<close>.  Times are \<open>time.time()\<close> values as reals.  The port is kept
  as the JSON value it arrived as.
\<close>

record peer =
  p_hash :: "string option"
  p_name :: "string option"
  p_app :: "string option"
  p_ip :: "string option"
  p_port :: "pyval option"
  p_via :: "string option"
  p_identity_hash :: "string option"
  p_pubkey :: "string option"
  p_last_seen :: "real option"
  p_serial_rns :: "bool option"
  p_probe_failures :: "int option"
  p_last_probe_ok :: "real option"
  p_last_probe_at :: "real option"
  p_last_rtt_probe_at :: "real option"
  p_rtt_ms :: "int option"
  p_rtt_avg_ms :: "int option"
  p_rtt_samples :: "int list option"

definition empty_peer :: peer where
  "empty_peer = \<lparr>p_hash = None, p_name = None, p_app = None, p_ip = None, p_port = None,
     p_via = None, p_identity_hash = None, p_pubkey = None, p_last_seen = None,
     p_serial_rns = None, p_probe_failures = None, p_last_probe_ok = None,
     p_last_probe_at = None, p_last_rtt_probe_at = None, p_rtt_ms = None,
     p_rtt_avg_ms = None, p_rtt_samples = None\<rparr>"

definition normalize_hash :: "string option \<Rightarrow> string" where
  "normalize_hash h = py_lower (py_strip (nocolon (py_remove (CHR ''>'') (py_remove (CHR ''<'') (orE h)))))"

text \<open>\<open>(row.get(key) or "").strip()\<close>, the reading the code uses for every text field.\<close>

abbreviation stripE :: "string option \<Rightarrow> string" where
  "stripE x \<equiv> py_strip (orE x)"

lemma normalize_hash_None [simp]: "normalize_hash None = ''''"
  by (simp add: normalize_hash_def)

lemma normalize_hash_Nil [simp]: "normalize_hash (Some []) = ''''"
  by (simp add: normalize_hash_def)

lemma normalize_hash_idem [simp]: "normalize_hash (Some (normalize_hash h)) = normalize_hash h"
proof -
  let ?r = "nocolon (py_remove (CHR ''>'') (py_remove (CHR ''<'') (orE h)))"
  let ?t = "py_strip ?r"
  have sub: "set ?t \<subseteq> set ?r" by (rule set_py_strip)
  have n: "CHR '':'' \<notin> set (py_lower ?t)" "CHR ''<'' \<notin> set (py_lower ?t)" "CHR ''>'' \<notin> set (py_lower ?t)"
    using sub by (intro notin_lower; force)+
  have "py_strip (py_lower ?t) = py_lower ?t" by (rule py_strip_lower) simp
  then show ?thesis unfolding normalize_hash_def using n by (simp add: py_remove_id)
qed

interpretation nh: normaliser "\<lambda>h. Some (normalize_hash h)"
  by unfold_locales simp

lemma normalize_hash_no_colon: "CHR '':'' \<notin> set (normalize_hash h)"
proof -
  have "CHR '':'' \<notin> set (py_strip (nocolon s))" for s
    using set_py_strip [of "nocolon s"] by auto
  then show ?thesis unfolding normalize_hash_def by (intro notin_lower) simp_all
qed

lemma normalize_hash_strip [simp]: "py_strip (normalize_hash h) = normalize_hash h"
  unfolding normalize_hash_def by (rule py_strip_lower) simp

lemma normalize_hash_hd: "normalize_hash h \<noteq> [] \<Longrightarrow> \<not> py_space (hd (normalize_hash h))"
  by (metis normalize_hash_strip py_strip_hd)

end
