(* ===== verification/ContactModel.thy ===== *)
theory ContactModel
  imports PeerRow
begin

text \<open>
  The contact record of \<open>chatxz/core/contacts.py\<close> and the pure functions on it:
  the dual-hash normal form, the hash set, the name rules, the merge of two files of one
  peer, and the match against a discovery row.  A contact is a JSON object; its known
  keys are the fields of the record, \<open>None\<close> for an absent key.  Python mutates the dict
  in place in \<open>normalize_contact\<close>; callers in \<open>ContactStore\<close> and \<open>ContactOps\<close> rebind
  the normalised value at every call where the mutation is visible.
\<close>

section \<open>Record and normal form\<close>

record contact =
  c_hash :: "string option"
  c_lan_hash :: "string option"
  c_serial_hash :: "string option"
  c_identity_hash :: "string option"
  c_lan_identity_hash :: "string option"
  c_serial_identity_hash :: "string option"
  c_name :: "string option"
  c_ip :: "string option"
  c_port :: "int option"
  c_custom_name :: "bool option"

definition empty_contact :: contact where
  "empty_contact = \<lparr>c_hash = None, c_lan_hash = None, c_serial_hash = None,
     c_identity_hash = None, c_lan_identity_hash = None, c_serial_identity_hash = None,
     c_name = None, c_ip = None, c_port = None, c_custom_name = None\<rparr>"

text \<open>\<open>(entry.get(key) or "").replace(":", "")\<close>.\<close>

abbreviation hx :: "string option \<Rightarrow> string" where
  "hx x \<equiv> nocolon (orE x)"

text \<open>
  \<open>normalize_contact\<close>, one definition per statement of its body.  Its local variables
  \<open>h\<close>, \<open>lan\<close> and \<open>serial\<close> follow the fields they were read from, so each step reads
  the fields again.
\<close>

definition norm_conflict :: "contact \<Rightarrow> contact" where
  "norm_conflict c = (
     if hx (c_serial_hash c) \<noteq> '''' \<and> hx (c_lan_hash c) \<noteq> ''''
        \<and> hx (c_lan_hash c) = hx (c_serial_hash c)
     then if stripE (c_ip c) \<noteq> '''' then c\<lparr>c_serial_hash := None\<rparr>
          else if hx (c_hash c) = hx (c_serial_hash c)
               then c\<lparr>c_lan_hash := None, c_hash := None\<rparr>
               else c\<lparr>c_lan_hash := None\<rparr>
     else c)"

definition norm_serial_only :: "contact \<Rightarrow> contact" where
  "norm_serial_only c = (
     if hx (c_serial_hash c) \<noteq> '''' \<and> hx (c_hash c) = hx (c_serial_hash c)
        \<and> hx (c_lan_hash c) = ''''
     then c\<lparr>c_hash := None\<rparr> else c)"

definition norm_adopt_hash :: "contact \<Rightarrow> contact" where
  "norm_adopt_hash c = (
     if hx (c_hash c) \<noteq> '''' \<and> hx (c_lan_hash c) = '''' \<and> hx (c_serial_hash c) = ''''
     then c\<lparr>c_lan_hash := Some (hx (c_hash c))\<rparr> else c)"

definition norm_fill_hash :: "contact \<Rightarrow> contact" where
  "norm_fill_hash c = (
     if hx (c_lan_hash c) \<noteq> '''' \<and> \<not> truthy (c_hash c)
     then c\<lparr>c_hash := Some (hx (c_lan_hash c))\<rparr> else c)"

definition norm_fill_ident :: "contact \<Rightarrow> contact" where
  "norm_fill_ident c = (
     if hx (c_lan_hash c) \<noteq> '''' \<and> \<not> truthy (c_identity_hash c) \<and> truthy (c_lan_identity_hash c)
     then c\<lparr>c_identity_hash := c_lan_identity_hash c\<rparr> else c)"

definition norm_custom :: "contact \<Rightarrow> contact" where
  "norm_custom c = (if c_custom_name c = None then c\<lparr>c_custom_name := Some False\<rparr> else c)"

lemmas norm_step_defs =
  norm_conflict_def norm_serial_only_def norm_adopt_hash_def norm_fill_hash_def
  norm_fill_ident_def norm_custom_def

definition normalize_contact :: "contact \<Rightarrow> contact" where
  "normalize_contact c = (
     if c = empty_contact then c
     else norm_custom (norm_fill_ident (norm_fill_hash (norm_adopt_hash
            (norm_serial_only (norm_conflict c))))))"

section \<open>Hashes and names\<close>

text \<open>\<open>_contact_hashes\<close>: the Python set, as a list without repetition.\<close>

definition contact_hashes :: "contact \<Rightarrow> string list" where
  "contact_hashes contact = (let c = normalize_contact contact in
     remdups (filter (\<lambda>h. h \<noteq> '''')
       [hx (c_hash c), hx (c_lan_hash c), hx (c_serial_hash c), hx (c_identity_hash c),
        hx (c_lan_identity_hash c), hx (c_serial_identity_hash c)]))"

definition contact_primary_hash :: "contact \<Rightarrow> string" where
  "contact_primary_hash contact = (let c = normalize_contact contact in
     py_or (hx (c_lan_hash c)) (py_or (hx (c_serial_hash c)) (hx (c_hash c))))"

definition name_is_hash_like :: "string option \<Rightarrow> string list \<Rightarrow> bool" where
  "name_is_hash_like name hashes = (let raw = py_lower (stripE name) in
     raw = '''' \<or> (\<exists>h \<in> set hashes. h \<noteq> '''' \<and>
        (raw = h \<or> raw = take 8 h \<or> raw = take 12 h \<or> prefix (take 8 h) raw)))"

definition resolve_contact_name :: "contact \<Rightarrow> string option \<Rightarrow> bool \<Rightarrow> string" where
  "resolve_contact_name existing name custom_name = (
     let entry = normalize_contact existing; hashes = contact_hashes entry;
         incoming = stripE name; saved = stripE (c_name entry) in
     if custom_name \<and> incoming \<noteq> '''' then incoming
     else if c_custom_name entry = Some True then py_or saved incoming
     else if incoming \<noteq> '''' \<and> \<not> name_is_hash_like (Some incoming) hashes then incoming
     else if saved \<noteq> '''' \<and> \<not> name_is_hash_like (Some saved) hashes then saved
     else py_or incoming saved)"

definition names_related :: "string option \<Rightarrow> string option \<Rightarrow> bool" where
  "names_related a b = (let left = py_lower (stripE a); right = py_lower (stripE b) in
     if left = '''' \<or> right = '''' then False
     else if left = right then True
     else prefix right left \<or> prefix left right)"

definition peer_transport_family :: "string option \<Rightarrow> string" where
  "peer_transport_family via = (if py_lower (stripE via) = ''serial'' then ''serial'' else ''lan'')"

section \<open>Merging split files\<close>

definition contact_dedup_keys :: "contact \<Rightarrow> string list" where
  "contact_dedup_keys contact = (
     let c = normalize_contact contact;
         ident = hx (c_identity_hash c);
         lan = nocolon (py_or (orE (c_lan_hash c)) (orE (c_hash c)));
         serial = hx (c_serial_hash c);
         name = py_lower (stripE (c_name c));
         keys = (if ident \<noteq> '''' then [''ident:'' @ ident] else [])
              @ (if lan \<noteq> '''' \<or> serial \<noteq> '''' then [''h:'' @ lan @ '':'' @ serial] else [])
              @ (if name \<noteq> '''' \<and> \<not> name_is_hash_like (c_name c) (contact_hashes c)
                 then [''name:'' @ name] else [])
     in if keys = [] then [''orphan:'' @ py_or lan (py_or serial ''unknown'')] else keys)"

text \<open>
  \<open>_should_merge_contacts\<close>: its LAN hash falls back to the plain hash when the contact
  has no transport hash, and two files are complementary when one holds only the LAN
  side and the other only the serial side.
\<close>

definition merge_lan :: "contact \<Rightarrow> string" where
  "merge_lan c = (
     if hx (c_lan_hash c) = '''' \<and> hx (c_serial_hash c) = '''' \<and> truthy (c_hash c)
     then hx (c_hash c) else hx (c_lan_hash c))"

definition complementary :: "contact \<Rightarrow> contact \<Rightarrow> bool" where
  "complementary a b \<longleftrightarrow>
     (merge_lan a \<noteq> '''' \<and> hx (c_serial_hash b) \<noteq> '''' \<and> hx (c_serial_hash a) = '''' \<and> merge_lan b = '''')
   \<or> (hx (c_serial_hash a) \<noteq> '''' \<and> merge_lan b \<noteq> '''' \<and> merge_lan a = '''' \<and> hx (c_serial_hash b) = '''')"

definition should_merge_contacts :: "contact \<Rightarrow> contact \<Rightarrow> bool" where
  "should_merge_contacts primary secondary = (
     let a = normalize_contact primary; b = normalize_contact secondary;
         a_ident = hx (c_identity_hash a); b_ident = hx (c_identity_hash b);
         a_name = py_lower (stripE (c_name a)); b_name = py_lower (stripE (c_name b))
     in if \<exists>h \<in> set (contact_hashes a). h \<in> set (contact_hashes b) then True
        else if a_ident \<noteq> '''' \<and> b_ident \<noteq> '''' \<and> a_ident = b_ident then True
        else if complementary a b \<and> names_related (c_name a) (c_name b) then True
        else if complementary a b \<and> a_name \<noteq> '''' \<and> b_name \<noteq> '''' \<and> a_name = b_name
             \<and> \<not> name_is_hash_like (c_name a) (contact_hashes a) then True
        else False)"

definition contact_field_empty :: "string option \<Rightarrow> bool" where
  "contact_field_empty val = (case val of None \<Rightarrow> True | Some s \<Rightarrow> py_strip s = '''')"

text \<open>One round of the loop over the string keys: \<open>out[key]\<close> is filled from \<open>other[key]\<close>.\<close>

definition merge_field :: "string option \<Rightarrow> string option \<Rightarrow> string option" where
  "merge_field x y = (if contact_field_empty x \<and> \<not> contact_field_empty y then y else x)"

definition merge_fields :: "contact \<Rightarrow> contact \<Rightarrow> contact" where
  "merge_fields other out =
     out\<lparr>c_hash := merge_field (c_hash out) (c_hash other),
         c_lan_hash := merge_field (c_lan_hash out) (c_lan_hash other),
         c_serial_hash := merge_field (c_serial_hash out) (c_serial_hash other),
         c_identity_hash := merge_field (c_identity_hash out) (c_identity_hash other),
         c_lan_identity_hash := merge_field (c_lan_identity_hash out) (c_lan_identity_hash other),
         c_serial_identity_hash := merge_field (c_serial_identity_hash out) (c_serial_identity_hash other),
         c_ip := merge_field (c_ip out) (c_ip other),
         c_name := merge_field (c_name out) (c_name other)\<rparr>"

definition merge_port :: "contact \<Rightarrow> contact \<Rightarrow> contact" where
  "merge_port other out =
     (if c_port out = None \<and> c_port other \<noteq> None then out\<lparr>c_port := c_port other\<rparr> else out)"

definition merge_custom :: "contact \<Rightarrow> contact \<Rightarrow> contact" where
  "merge_custom other out =
     (if c_custom_name other = Some True
      then let out = out\<lparr>c_custom_name := Some True\<rparr> in
           if stripE (c_name other) \<noteq> '''' then out\<lparr>c_name := c_name other\<rparr> else out
      else out)"

definition merge_lan_fill :: "contact \<Rightarrow> contact" where
  "merge_lan_fill out =
     (if \<not> truthy (c_lan_hash out) \<and> truthy (c_hash out) then out\<lparr>c_lan_hash := c_hash out\<rparr> else out)"

lemmas merge_step_defs = merge_fields_def merge_port_def merge_custom_def merge_lan_fill_def

definition merge_contact_entries :: "contact \<Rightarrow> contact \<Rightarrow> contact" where
  "merge_contact_entries primary secondary = (
     let out = normalize_contact primary; other = normalize_contact secondary
     in normalize_contact (merge_lan_fill (merge_custom other (merge_port other (merge_fields other out)))))"

section \<open>Matching a discovery row\<close>

text \<open>
  \<open>_contact_matches_discovery_peer\<close>; the optional callback \<open>peers_equivalent\<close> is the
  parameter \<open>peers_equiv\<close>.
\<close>

definition contact_matches_discovery_peer ::
  "contact \<Rightarrow> peer \<Rightarrow> (string \<Rightarrow> string \<Rightarrow> bool) option \<Rightarrow> bool" where
  "contact_matches_discovery_peer contact peer peers_equiv = (
     let c = normalize_contact contact;
         new_hash = hx (p_hash peer);
         peer_ident = hx (p_identity_hash peer);
         lan = nocolon (py_or (orE (c_lan_hash c)) (orE (c_hash c)));
         serial = hx (c_serial_hash c);
         c_ident = hx (c_identity_hash c);
         peer_ip = stripE (p_ip peer); c_ip' = stripE (c_ip c);
         peer_name = stripE (p_name peer); c_name' = stripE (c_name c)
     in if new_hash = '''' then False
        else if new_hash \<in> set (contact_hashes c) then True
        else if peer_ident \<noteq> '''' \<and> peer_ident \<in> set (contact_hashes c) then True
        else if (case peers_equiv of None \<Rightarrow> False | Some same \<Rightarrow>
                   same lan new_hash \<or> same serial new_hash
                   \<or> (peer_ident \<noteq> '''' \<and> c_ident \<noteq> '''' \<and> same c_ident peer_ident)) then True
        else if peer_ip \<noteq> '''' \<and> c_ip' \<noteq> '''' \<and> peer_ip = c_ip' then True
        else if peer_ip \<noteq> '''' \<and> names_related (Some c_name') (Some peer_name) then True
        else if peer_name \<noteq> '''' \<and> names_related (Some c_name') (Some peer_name)
                \<and> lan = serial \<and> lan \<noteq> '''' then True
        else False)"

text \<open>\<open>should_update_contact_ip\<close>: prefer addresses of the pinned LAN scope.\<close>

definition should_update_contact_ip :: "string option \<Rightarrow> string option \<Rightarrow> string option \<Rightarrow> bool" where
  "should_update_contact_ip contact_ip new_ip local_scope_ip = (
     let new_ip = stripE new_ip; contact_ip = stripE contact_ip; scope = stripE local_scope_ip in
     if new_ip = '''' then False
     else if contact_ip = '''' then True
     else if contact_ip = new_ip then False
     else if scope = '''' then True
     else let new_local = same_lan_scope new_ip scope;
              contact_local = same_lan_scope contact_ip scope in
     if new_local \<and> \<not> contact_local then True
     else if new_local \<and> contact_local then True
     else if \<not> new_local \<and> contact_local then False
     else True)"

section \<open>The normal form\<close>

text \<open>
  What \<open>normalize_contact\<close> establishes: one transport never carries both roles, a
  file with only a plain hash is a LAN contact, a LAN contact has a plain hash, and the
  optional identity and name flags are filled in.
\<close>

definition normal_contact :: "contact \<Rightarrow> bool" where
  "normal_contact c \<longleftrightarrow>
     \<not> (hx (c_serial_hash c) \<noteq> '''' \<and> hx (c_lan_hash c) = hx (c_serial_hash c))
   \<and> \<not> (hx (c_serial_hash c) \<noteq> '''' \<and> hx (c_lan_hash c) = '''' \<and> hx (c_hash c) = hx (c_serial_hash c))
   \<and> (hx (c_hash c) \<noteq> '''' \<longrightarrow> hx (c_lan_hash c) \<noteq> '''' \<or> hx (c_serial_hash c) \<noteq> '''')
   \<and> (hx (c_lan_hash c) \<noteq> '''' \<longrightarrow> truthy (c_hash c))
   \<and> (hx (c_lan_hash c) \<noteq> '''' \<and> truthy (c_lan_identity_hash c) \<longrightarrow> truthy (c_identity_hash c))
   \<and> c_custom_name c \<noteq> None"

text \<open>Each step keeps the fields it does not write and establishes its own clause.\<close>

lemma norm_step_frames [simp]:
  "c_name (norm_conflict c) = c_name c" "c_custom_name (norm_conflict c) = c_custom_name c"
  "c_name (norm_serial_only c) = c_name c" "c_custom_name (norm_serial_only c) = c_custom_name c"
  "c_name (norm_adopt_hash c) = c_name c" "c_custom_name (norm_adopt_hash c) = c_custom_name c"
  "c_name (norm_fill_hash c) = c_name c" "c_custom_name (norm_fill_hash c) = c_custom_name c"
  "c_name (norm_fill_ident c) = c_name c" "c_custom_name (norm_fill_ident c) = c_custom_name c"
  "c_name (norm_custom c) = c_name c"
  by (simp_all add: norm_step_defs)

lemma norm_custom_value [simp]:
  "c_custom_name (norm_custom c) = Some (c_custom_name c = Some True)"
  by (cases "c_custom_name c") (auto simp: norm_custom_def)

definition split_roles :: "contact \<Rightarrow> bool" where
  "split_roles c \<longleftrightarrow> \<not> (hx (c_serial_hash c) \<noteq> '''' \<and> hx (c_lan_hash c) = hx (c_serial_hash c))"

definition serial_alone :: "contact \<Rightarrow> bool" where
  "serial_alone c \<longleftrightarrow> \<not> (hx (c_serial_hash c) \<noteq> '''' \<and> hx (c_lan_hash c) = ''''
      \<and> hx (c_hash c) = hx (c_serial_hash c))"

definition hash_placed :: "contact \<Rightarrow> bool" where
  "hash_placed c \<longleftrightarrow> (hx (c_hash c) \<noteq> '''' \<longrightarrow> hx (c_lan_hash c) \<noteq> '''' \<or> hx (c_serial_hash c) \<noteq> '''')"

lemma conflict_split: "split_roles (norm_conflict c)"
  by (auto simp: norm_conflict_def split_roles_def)

lemma serial_only_alone: "split_roles c \<Longrightarrow> split_roles (norm_serial_only c) \<and> serial_alone (norm_serial_only c)"
  by (auto simp: norm_serial_only_def split_roles_def serial_alone_def)

lemma adopt_placed: "split_roles c \<and> serial_alone c \<Longrightarrow>
    split_roles (norm_adopt_hash c) \<and> serial_alone (norm_adopt_hash c) \<and> hash_placed (norm_adopt_hash c)"
  by (auto simp: norm_adopt_hash_def split_roles_def serial_alone_def hash_placed_def)

lemma fill_hash_filled: "split_roles c \<and> serial_alone c \<and> hash_placed c \<Longrightarrow>
    split_roles (norm_fill_hash c) \<and> serial_alone (norm_fill_hash c) \<and> hash_placed (norm_fill_hash c)
      \<and> (hx (c_lan_hash (norm_fill_hash c)) \<noteq> '''' \<longrightarrow> truthy (c_hash (norm_fill_hash c)))"
  by (simp add: norm_fill_hash_def split_roles_def serial_alone_def hash_placed_def truthy_def)

lemma fill_ident_filled:
  "c_hash (norm_fill_ident c) = c_hash c" "c_lan_hash (norm_fill_ident c) = c_lan_hash c"
  "c_serial_hash (norm_fill_ident c) = c_serial_hash c"
  "hx (c_lan_hash c) \<noteq> '''' \<Longrightarrow> truthy (c_lan_identity_hash (norm_fill_ident c)) \<Longrightarrow>
     truthy (c_identity_hash (norm_fill_ident c))"
  by (auto simp: norm_fill_ident_def)

lemma norm_custom_frame:
  "c_hash (norm_custom c) = c_hash c" "c_lan_hash (norm_custom c) = c_lan_hash c"
  "c_serial_hash (norm_custom c) = c_serial_hash c"
  "c_identity_hash (norm_custom c) = c_identity_hash c"
  "c_lan_identity_hash (norm_custom c) = c_lan_identity_hash c"
  by (simp_all add: norm_custom_def)

lemma norm_steps_normal:
  "normal_contact (norm_custom (norm_fill_ident (norm_fill_hash (norm_adopt_hash
     (norm_serial_only (norm_conflict c))))))"
proof -
  let ?c = "norm_adopt_hash (norm_serial_only (norm_conflict c))"
  let ?d = "norm_fill_hash ?c"
  have "split_roles ?c \<and> serial_alone ?c \<and> hash_placed ?c"
    by (intro adopt_placed serial_only_alone conflict_split)
  then have "split_roles ?d \<and> serial_alone ?d \<and> hash_placed ?d
      \<and> (hx (c_lan_hash ?d) \<noteq> '''' \<longrightarrow> truthy (c_hash ?d))"
    by (rule fill_hash_filled)
  then show ?thesis
    unfolding normal_contact_def split_roles_def serial_alone_def hash_placed_def
    by (simp add: norm_custom_frame fill_ident_filled)
qed

lemma normalize_normal: "c \<noteq> empty_contact \<Longrightarrow> normal_contact (normalize_contact c)"
  by (simp add: normalize_contact_def norm_steps_normal)

lemma normal_not_empty: "normal_contact c \<Longrightarrow> c \<noteq> empty_contact"
  by (auto simp: normal_contact_def empty_contact_def)

lemma normal_fixpoint: "normal_contact c \<Longrightarrow> normalize_contact c = c"
proof -
  assume n: "normal_contact c"
  then have "norm_conflict c = c" "norm_serial_only c = c" "norm_adopt_hash c = c"
      "norm_fill_hash c = c" "norm_fill_ident c = c" "norm_custom c = c"
    by (auto simp: normal_contact_def norm_step_defs)
  then show ?thesis by (simp add: normalize_contact_def)
qed

lemma normalize_empty [simp]: "normalize_contact empty_contact = empty_contact"
  by (simp add: normalize_contact_def)

lemma normalize_idem [simp]: "normalize_contact (normalize_contact c) = normalize_contact c"
  by (cases "c = empty_contact") (auto intro: normal_fixpoint normalize_normal)

interpretation nc: normaliser normalize_contact
  by unfold_locales simp

lemma contact_hashes_normalize [simp]: "contact_hashes (normalize_contact c) = contact_hashes c"
  by (simp add: contact_hashes_def)

lemma primary_normalize [simp]: "contact_primary_hash (normalize_contact c) = contact_primary_hash c"
  by (simp add: contact_primary_hash_def)

lemma set_contact_hashes:
  "set (contact_hashes c) = (let c = normalize_contact c in
     {hx (c_hash c), hx (c_lan_hash c), hx (c_serial_hash c), hx (c_identity_hash c),
      hx (c_lan_identity_hash c), hx (c_serial_identity_hash c)} - {''''})"
  by (auto simp: contact_hashes_def Let_def)

lemma contact_hashes_nonempty [simp]: "'''' \<notin> set (contact_hashes c)"
  by (simp add: contact_hashes_def Let_def)

lemma distinct_contact_hashes [simp]: "distinct (contact_hashes c)"
  by (simp add: contact_hashes_def Let_def)

lemma contact_hashes_no_colon: "h \<in> set (contact_hashes c) \<Longrightarrow> nocolon h = h"
  by (auto simp: set_contact_hashes Let_def)

lemma primary_in_hashes: "contact_primary_hash c \<noteq> '''' \<Longrightarrow> contact_primary_hash c \<in> set (contact_hashes c)"
  by (auto simp: set_contact_hashes contact_primary_hash_def Let_def py_or_def split: if_splits)

section \<open>Names and merging\<close>

lemma names_related_sym: "names_related a b = names_related b a"
  by (auto simp: names_related_def Let_def)

lemma names_related_refl: "stripE a \<noteq> '''' \<Longrightarrow> names_related a a"
  by (simp add: names_related_def)

lemma equal_names_related:
  "py_lower (stripE a) = py_lower (stripE b) \<Longrightarrow> stripE a \<noteq> '''' \<Longrightarrow> names_related a b"
  by (auto simp: names_related_def)

lemma complementary_sym: "complementary a b = complementary b a"
  by (auto simp: complementary_def)

text \<open>The exact-name branch adds nothing: equal names are related names.\<close>

lemma should_merge_alt: "should_merge_contacts a b \<longleftrightarrow>
    (let a = normalize_contact a; b = normalize_contact b in
      (\<exists>h. h \<in> set (contact_hashes a) \<and> h \<in> set (contact_hashes b))
    \<or> (hx (c_identity_hash a) \<noteq> '''' \<and> hx (c_identity_hash a) = hx (c_identity_hash b))
    \<or> (complementary a b \<and> names_related (c_name a) (c_name b)))"
  using equal_names_related [of "c_name (normalize_contact a)" "c_name (normalize_contact b)"]
  unfolding should_merge_contacts_def Let_def
  by (smt (verit) py_lower_Nil)

lemma should_merge_sym: "should_merge_contacts a b = should_merge_contacts b a"
  unfolding should_merge_alt Let_def
  by (metis complementary_sym names_related_sym)

lemma should_merge_shared_hash:
  "h \<in> set (contact_hashes a) \<Longrightarrow> h \<in> set (contact_hashes b) \<Longrightarrow> should_merge_contacts a b"
  by (auto simp: should_merge_contacts_def Let_def)

lemma name_normalize [simp]: "c_name (normalize_contact c) = c_name c"
  by (simp add: normalize_contact_def)

lemma custom_normalize [simp]:
  "c_custom_name (normalize_contact c) = Some True \<longleftrightarrow> c_custom_name c = Some True"
  by (simp add: normalize_contact_def)

lemma resolve_custom: "c_custom_name c = Some True \<Longrightarrow> stripE (c_name c) \<noteq> '''' \<Longrightarrow>
    resolve_contact_name c name False = stripE (c_name c)"
  by (simp add: resolve_contact_name_def)

end
