(* ===== verification/ContactStore.thy ===== *)
theory ContactStore
  imports ContactModel
begin

text \<open>
  The contacts directory of \<open>chatxz/core/contacts.py\<close> and the operations that read and
  rewrite it: loading one file, the deleted-contact index, unlinking, and
  \<open>list_contacts\<close>, which merges split files and writes the result back.  A file is
  one of the four shapes \<open>load_contact\<close> tells apart; the index file \<open>.deleted.json\<close>
  is a field of its own, since the listing skips names that start with a dot.  Writes
  succeed (the code ignores \<open>OSError\<close> on the one write that can fail silently).
\<close>

section \<open>State\<close>

datatype fcontent =
    FBlank            \<comment> \<open>nothing but white space\<close>
  | FText string      \<comment> \<open>stripped text that does not start with a brace\<close>
  | FJson contact     \<comment> \<open>a JSON object\<close>
  | FBroken           \<comment> \<open>reading or parsing raises\<close>

record del_index =
  d_hashes :: "string list"
  d_identities :: "string list"
  d_names :: "string list"

record cstore =
  files :: "(string, fcontent) pydict"
  deleted :: "del_index option"     \<comment> \<open>\<open>None\<close>: absent or unreadable\<close>

definition empty_index :: del_index where
  "empty_index = \<lparr>d_hashes = [], d_identities = [], d_names = []\<rparr>"

definition empty_store :: cstore where
  "empty_store = \<lparr>files = [], deleted = None\<rparr>"

definition contact_path :: "string \<Rightarrow> string" where
  "contact_path peer_hash = nocolon (py_strip peer_hash)"

definition write_contact :: "string \<Rightarrow> contact \<Rightarrow> cstore \<Rightarrow> cstore" where
  "write_contact key c st = st\<lparr>files := AList.update (contact_path key) (FJson c) (files st)\<rparr>"

definition unlink_contact_file :: "cstore \<Rightarrow> string \<Rightarrow> bool \<times> cstore" where
  "unlink_contact_file st h = (map_of (files st) (contact_path h) \<noteq> None,
     st\<lparr>files := AList.delete (contact_path h) (files st)\<rparr>)"

section \<open>The deleted-contact index\<close>

definition load_deleted_index :: "cstore \<Rightarrow> del_index" where
  "load_deleted_index st = (case deleted st of None \<Rightarrow> empty_index | Some idx \<Rightarrow> idx)"

definition save_deleted_index :: "del_index \<Rightarrow> cstore \<Rightarrow> cstore" where
  "save_deleted_index idx st = st\<lparr>deleted := Some \<lparr>d_hashes = sort (remdups (d_hashes idx)),
     d_identities = sort (remdups (d_identities idx)), d_names = sort (remdups (d_names idx))\<rparr>\<rparr>"

text \<open>\<open>if x not in xs: xs.append(x)\<close>.\<close>

definition add_new :: "string \<Rightarrow> string list \<Rightarrow> string list" where
  "add_new x xs = (if x \<in> set xs then xs else xs @ [x])"

definition record_contact_deleted :: "contact \<Rightarrow> cstore \<Rightarrow> cstore" where
  "record_contact_deleted contact st = (
     let idx = load_deleted_index st; c = normalize_contact contact;
         idx = idx\<lparr>d_hashes := fold add_new (contact_hashes c) (d_hashes idx)\<rparr>;
         ident = hx (c_identity_hash c);
         idx = (if ident \<noteq> '''' then idx\<lparr>d_identities := add_new ident (d_identities idx)\<rparr> else idx);
         name = py_lower (stripE (c_name c));
         idx = (if name \<noteq> '''' \<and> \<not> name_is_hash_like (c_name c) (contact_hashes c)
                then idx\<lparr>d_names := add_new name (d_names idx)\<rparr> else idx)
     in save_deleted_index idx st)"

definition index_empty :: "del_index \<Rightarrow> bool" where
  "index_empty idx \<longleftrightarrow> d_hashes idx = [] \<and> d_identities idx = [] \<and> d_names idx = []"

definition clear_contact_deleted :: "contact option \<Rightarrow> string option \<Rightarrow> cstore \<Rightarrow> cstore" where
  "clear_contact_deleted contact peer_hash st = (
     let idx = load_deleted_index st in
     if index_empty idx then st
     else let targets = (case contact of None \<Rightarrow> []
                         | Some c \<Rightarrow> if c = empty_contact then [] else
                             (let c = normalize_contact c; ident = hx (c_identity_hash c) in
                              contact_hashes c @ (if ident \<noteq> '''' then [ident] else [])));
              clean = nocolon (stripE peer_hash);
              targets = targets @ (if clean \<noteq> '''' then [clean] else [])
     in if targets = [] then st
        else save_deleted_index
               (idx\<lparr>d_hashes := filter (\<lambda>h. h \<notin> set targets) (d_hashes idx),
                    d_identities := filter (\<lambda>h. h \<notin> set targets) (d_identities idx)\<rparr>) st)"

definition peer_is_deleted :: "cstore \<Rightarrow> peer \<Rightarrow> bool" where
  "peer_is_deleted st peer = (
     let idx = load_deleted_index st;
         new_hash = hx (p_hash peer); ident = hx (p_identity_hash peer);
         peer_name = py_lower (stripE (p_name peer))
     in if index_empty idx then False
        else if new_hash \<noteq> '''' \<and> new_hash \<in> set (d_hashes idx) then True
        else if ident \<noteq> '''' \<and> ident \<in> set (d_identities idx) then True
        else if peer_name \<noteq> '''' \<and> peer_name \<in> set (d_names idx) then True
        else (\<exists>blocked \<in> set (d_names idx). blocked \<noteq> '''' \<and> names_related (Some blocked) (Some peer_name)))"

section \<open>Reading files\<close>

definition setdefault :: "'a option \<Rightarrow> 'a \<Rightarrow> 'a option" where
  "setdefault x d = (case x of None \<Rightarrow> Some d | Some v \<Rightarrow> Some v)"

definition load_contact :: "cstore \<Rightarrow> string \<Rightarrow> contact option" where
  "load_contact st filename = (case map_of (files st) filename of
      None \<Rightarrow> None
    | Some FBlank \<Rightarrow> Some (normalize_contact (empty_contact\<lparr>c_hash := Some filename, c_name := Some filename\<rparr>))
    | Some (FJson data) \<Rightarrow> Some (normalize_contact
        (data\<lparr>c_hash := setdefault (c_hash data) filename, c_name := setdefault (c_name data) filename\<rparr>))
    | Some (FText raw) \<Rightarrow> Some (normalize_contact (empty_contact\<lparr>c_hash := Some filename, c_name := Some raw\<rparr>))
    | Some FBroken \<Rightarrow> Some (normalize_contact (empty_contact\<lparr>c_hash := Some filename, c_name := Some filename\<rparr>)))"

text \<open>\<open>sorted(os.listdir(base))\<close> without the names that start with a dot.\<close>

definition visible_names :: "cstore \<Rightarrow> string list" where
  "visible_names st = filter (\<lambda>f. \<not> prefix ''.'' f) (sort (remdups (map fst (files st))))"

definition iter_contact_files :: "cstore \<Rightarrow> (string \<times> contact) list" where
  "iter_contact_files st = List.map_filter
     (\<lambda>fname. map_option (\<lambda>entry. (fname, entry)) (load_contact st fname)) (visible_names st)"

definition related_contact_files :: "cstore \<Rightarrow> contact \<Rightarrow> (string \<times> contact) list" where
  "related_contact_files st seed0 = (let seed = normalize_contact seed0 in
     if seed = empty_contact then []
     else filter (\<lambda>(fname, entry). should_merge_contacts seed entry
            \<or> (\<exists>h \<in> set (contact_hashes seed). h \<in> set (contact_hashes entry)))
          (iter_contact_files st))"

definition purge_stale_contact_files :: "contact \<Rightarrow> string \<Rightarrow> cstore \<Rightarrow> cstore" where
  "purge_stale_contact_files entry keep_key st = (let keep = nocolon keep_key in
     fold (\<lambda>h st. if h \<noteq> keep then snd (unlink_contact_file st h) else st) (contact_hashes entry) st)"

section \<open>Listing\<close>

fun first_known :: "(string, string) pydict \<Rightarrow> string list \<Rightarrow> string option" where
  "first_known k2p [] = None"
| "first_known k2p (k # ks) = (case map_of k2p k of Some p \<Rightarrow> Some p | None \<Rightarrow> first_known k2p ks)"

definition orphan_hashes :: "string \<Rightarrow> contact \<Rightarrow> string list" where
  "orphan_hashes keep entry = filter (\<lambda>h. h \<noteq> keep) (contact_hashes entry)"

text \<open>
  The first loop of \<open>list_contacts\<close>: rows that share a dedup key are merged under the
  primary key of the first.  \<open>key_to_primary\<close> only holds keys of \<open>deduped\<close>
  (\<open>dedup_primary_present\<close> below), so the subscript never raises.
\<close>

definition dedup_step ::
  "contact \<Rightarrow> (string, contact) pydict \<times> (string, string) pydict \<times> string list
   \<Rightarrow> (string, contact) pydict \<times> (string, string) pydict \<times> string list" where
  "dedup_step entry0 s = (case s of (deduped, k2p, orphans) \<Rightarrow>
     let entry = normalize_contact entry0; keys = contact_dedup_keys entry in
     case first_known k2p keys of
       None \<Rightarrow> (AList.update (hd keys) entry deduped,
                fold (\<lambda>k m. AList.update k (hd keys) m) keys k2p, orphans)
     | Some primary \<Rightarrow>
         let merged = merge_contact_entries (the (map_of deduped primary)) entry;
             keep = contact_primary_hash merged
         in (AList.update primary merged deduped,
             fold (\<lambda>k m. AList.update k primary m) keys k2p,
             orphans @ orphan_hashes keep entry @ orphan_hashes keep merged))"

text \<open>
  The second, nested loop: \<open>absorb\<close> is the inner loop for one row, returning the grown
  row, the rows left unused and the orphaned hashes; \<open>merge_pass\<close> is the outer loop,
  which skips the used rows by recursing on the unused ones.
\<close>

fun absorb :: "contact \<Rightarrow> contact list \<Rightarrow> contact \<times> contact list \<times> string list" where
  "absorb current [] = (current, [], [])"
| "absorb current (e # es) =
     (if should_merge_contacts current e
      then let current' = merge_contact_entries current e;
               (c, rest, orphans) = absorb current' es
           in (c, rest, orphan_hashes (contact_primary_hash current') e @ orphans)
      else let (c, rest, orphans) = absorb current es in (c, e # rest, orphans))"

lemma absorb_length: "absorb c es = (c', rest, orphans) \<Longrightarrow> length rest \<le> length es"
  by (induction c es arbitrary: c' rest orphans rule: absorb.induct)
     (fastforce split: if_splits prod.splits simp: Let_def)+

function merge_pass :: "contact list \<Rightarrow> contact list \<times> string list" where
  "merge_pass [] = ([], [])"
| "merge_pass (e # es) =
     (case absorb (normalize_contact e) es of (current, rest, orphans) \<Rightarrow>
        case merge_pass rest of (out, orphans') \<Rightarrow> (current # out, orphans @ orphans'))"
  by pat_completeness auto
termination
  by (relation "measure length") (auto, metis absorb_length le_imp_less_Suc)

definition persist_entry :: "bool \<Rightarrow> contact \<Rightarrow> cstore \<Rightarrow> cstore" where
  "persist_entry needs_persist entry st = (
     let keep = contact_primary_hash entry;
         st = (if needs_persist \<and> keep \<noteq> '''' then write_contact keep (normalize_contact entry) st else st)
     in purge_stale_contact_files entry keep st)"

definition list_contacts :: "cstore \<Rightarrow> contact list \<times> cstore" where
  "list_contacts st = (
     let raw = map snd (iter_contact_files st);
         (deduped, k2p, orphans1) = fold dedup_step raw ([], [], []);
         (out, orphans2) = merge_pass (map snd deduped);
         orphans = orphans1 @ orphans2
           @ concat (map (\<lambda>entry. orphan_hashes (contact_primary_hash entry) entry) out);
         needs_persist = (length raw > length out \<or> orphans \<noteq> []);
         st = fold (persist_entry needs_persist) out st;
         keepers = map contact_primary_hash out;
         st = fold (\<lambda>orphan st. if orphan \<in> set keepers then st
                                else snd (unlink_contact_file st orphan)) (remdups orphans) st
     in (out, st))"

definition find_contact_by_hash :: "cstore \<Rightarrow> string option \<Rightarrow> contact option \<times> cstore" where
  "find_contact_by_hash st peer_hash = (let clean = nocolon (stripE peer_hash) in
     if clean = '''' then (None, st)
     else case list_contacts st of (contacts, st') \<Rightarrow>
       (map_option normalize_contact (find (\<lambda>c. clean \<in> set (contact_hashes c)) contacts), st'))"

definition contact_has_hash :: "cstore \<Rightarrow> string option \<Rightarrow> bool \<times> cstore" where
  "contact_has_hash st peer_hash = (case find_contact_by_hash st peer_hash of
     (c, st') \<Rightarrow> (c \<noteq> None, st'))"

end
