(* ===== verification/ContactOps.thy ===== *)
theory ContactOps
  imports ContactStore
begin

text \<open>
  The operations of \<open>chatxz/core/contacts.py\<close> that callers use: saving, deleting and
  refreshing contacts.  Keyword arguments of \<open>save_contact\<close> are the record
  \<open>save_req\<close>; \<open>peers_equivalent\<close> callbacks are function parameters.
\<close>

section \<open>Saving\<close>

record save_req =
  sr_name :: "string option"
  sr_ip :: "string option"
  sr_port :: "pyval option"
  sr_identity_hash :: "string option"
  sr_via :: "string option"
  sr_lan_hash :: "string option"
  sr_serial_hash :: "string option"
  sr_lan_identity_hash :: "string option"
  sr_serial_identity_hash :: "string option"
  sr_custom_name :: bool

definition default_req :: save_req where
  "default_req = \<lparr>sr_name = None, sr_ip = None, sr_port = None, sr_identity_hash = None,
     sr_via = None, sr_lan_hash = None, sr_serial_hash = None, sr_lan_identity_hash = None,
     sr_serial_identity_hash = None, sr_custom_name = False\<rparr>"

text \<open>\<open>x.strip().replace(":", "")\<close>, and \<open>a or b\<close> on optional strings.\<close>

abbreviation clean_of :: "string option \<Rightarrow> string" where
  "clean_of x \<equiv> nocolon (stripE x)"

definition opt_or :: "string option \<Rightarrow> string option \<Rightarrow> string option" where
  "opt_or a b = (if truthy a then a else b)"

definition set_ip :: "string option \<Rightarrow> contact \<Rightarrow> contact" where
  "set_ip ip c = (if stripE ip \<noteq> '''' then c\<lparr>c_ip := Some (stripE ip)\<rparr> else c)"

definition set_port :: "pyval option \<Rightarrow> contact \<Rightarrow> contact" where
  "set_port port c = (case port of None \<Rightarrow> c
     | Some v \<Rightarrow> (case py_int_val v of None \<Rightarrow> c | Some n \<Rightarrow> c\<lparr>c_port := Some n\<rparr>))"

definition set_lan_ident :: "string option \<Rightarrow> contact \<Rightarrow> contact" where
  "set_lan_ident ident c = (if truthy ident
     then c\<lparr>c_lan_identity_hash := Some (clean_of ident), c_identity_hash := Some (clean_of ident)\<rparr> else c)"

definition set_serial_ident :: "string option \<Rightarrow> contact \<Rightarrow> contact" where
  "set_serial_ident ident c = (if truthy ident
     then c\<lparr>c_serial_identity_hash := Some (clean_of ident)\<rparr> else c)"

definition explicit_lan_vias :: "string list" where
  "explicit_lan_vias = [''lan'', ''rns'', ''beacon'', ''udp'', ''tcp'']"

text \<open>Which transport a save is for: \<open>(dual_save, is_serial)\<close>.\<close>

definition save_mode :: "string option \<Rightarrow> string \<Rightarrow> string \<Rightarrow> bool \<times> bool" where
  "save_mode via lan_hex ser_hex = (
     let transport = py_lower (stripE via);
         explicit_serial = (transport = ''serial'');
         explicit_lan = (transport \<in> set explicit_lan_vias);
         dual_save = (lan_hex \<noteq> '''' \<and> ser_hex \<noteq> '''' \<and> lan_hex \<noteq> ser_hex);
         (explicit_serial, explicit_lan) =
           (if dual_save then (False, True)
            else if ser_hex \<noteq> '''' \<and> lan_hex = '''' \<and> \<not> explicit_lan then (True, explicit_lan)
            else if lan_hex \<noteq> '''' \<and> ser_hex = '''' \<and> \<not> explicit_serial then (explicit_serial, True)
            else (explicit_serial, explicit_lan))
     in (dual_save, explicit_serial \<and> \<not> explicit_lan))"

text \<open>Which saved contact the save refreshes: by hash, else by identity, else by name.\<close>

definition save_lookup :: "cstore \<Rightarrow> string \<Rightarrow> string option \<Rightarrow> string option \<Rightarrow> contact option \<times> cstore" where
  "save_lookup st clean identity_hash display = (
     let (merged, st) = find_contact_by_hash st (Some clean);
         (merged, st) = (case merged of Some m \<Rightarrow> (Some m, st)
            | None \<Rightarrow> if truthy identity_hash
                then (let (cs, st) = list_contacts st in
                      (map_option normalize_contact
                         (find (\<lambda>c. clean_of identity_hash \<in> set (contact_hashes c)) cs), st))
                else (None, st))
     in case merged of Some m \<Rightarrow> (Some m, st)
        | None \<Rightarrow> (case display of None \<Rightarrow> (None, st)
            | Some d \<Rightarrow> let (cs, st) = list_contacts st in
                (map_option normalize_contact (find (\<lambda>c.
                    py_lower (stripE (c_name c)) = py_lower d
                    \<or> names_related (Some (stripE (c_name c))) (Some d)) cs), st)))"

definition apply_dual :: "save_req \<Rightarrow> string \<Rightarrow> string \<Rightarrow> contact \<Rightarrow> contact" where
  "apply_dual r lan_hex ser_hex existing = (
     let existing = existing\<lparr>c_lan_hash := Some lan_hex, c_hash := Some lan_hex, c_serial_hash := Some ser_hex\<rparr>;
         existing = set_lan_ident (opt_or (sr_lan_identity_hash r) (sr_identity_hash r)) existing;
         existing = set_serial_ident (sr_serial_identity_hash r) existing
     in set_port (sr_port r) (set_ip (sr_ip r) existing))"

definition apply_serial :: "save_req \<Rightarrow> string \<Rightarrow> string \<Rightarrow> string \<Rightarrow> contact \<Rightarrow> contact" where
  "apply_serial r clean lan_hex ser_hex existing = (
     let ser_target = py_or ser_hex (if clean \<noteq> lan_hex then clean else '''');
         existing = (if ser_target \<noteq> '''' then existing\<lparr>c_serial_hash := Some ser_target\<rparr> else existing);
         existing = set_serial_ident (opt_or (sr_serial_identity_hash r) (sr_identity_hash r)) existing;
         lan = hx (c_lan_hash existing)
     in if lan \<noteq> '''' \<and> lan \<noteq> ser_target then existing\<lparr>c_hash := Some lan\<rparr>
        else let existing = existing\<lparr>c_hash := None\<rparr> in
             if hx (c_lan_hash existing) = ser_target then existing\<lparr>c_lan_hash := None\<rparr> else existing)"

definition apply_lan :: "save_req \<Rightarrow> string \<Rightarrow> string \<Rightarrow> string \<Rightarrow> contact \<Rightarrow> contact" where
  "apply_lan r clean lan_hex ser_hex existing = (
     let existing = existing\<lparr>c_lan_hash := Some (py_or lan_hex clean), c_hash := Some (py_or lan_hex clean)\<rparr>;
         existing = set_lan_ident (opt_or (sr_lan_identity_hash r) (sr_identity_hash r)) existing;
         existing = set_port (sr_port r) (set_ip (sr_ip r) existing)
     in if ser_hex \<noteq> ''''
        then set_serial_ident (sr_serial_identity_hash r) (existing\<lparr>c_serial_hash := Some ser_hex\<rparr>)
        else existing)"

text \<open>The record a save builds from the one it found: names, transport, normal form.\<close>

definition save_named :: "save_req \<Rightarrow> contact \<Rightarrow> contact" where
  "save_named r existing = (
     let existing = normalize_contact existing;
         existing = (if sr_custom_name r then existing\<lparr>c_custom_name := Some True\<rparr> else existing);
         resolved = resolve_contact_name existing (or_none (stripE (sr_name r))) (sr_custom_name r);
         existing = normalize_contact existing
     in if resolved \<noteq> '''' then existing\<lparr>c_name := Some resolved\<rparr> else existing)"

definition save_routed :: "save_req \<Rightarrow> string \<Rightarrow> contact \<Rightarrow> contact" where
  "save_routed r clean existing = (
     let lan_hex = clean_of (sr_lan_hash r); ser_hex = clean_of (sr_serial_hash r);
         (dual_save, is_serial) = save_mode (sr_via r) lan_hex ser_hex
     in if dual_save then apply_dual r lan_hex ser_hex existing
        else if is_serial then apply_serial r clean lan_hex ser_hex existing
        else apply_lan r clean lan_hex ser_hex existing)"

definition save_settle :: "contact \<Rightarrow> contact" where
  "save_settle existing = normalize_contact (
     let lan_final = hx (c_lan_hash existing); ser_final = hx (c_serial_hash existing) in
     if lan_final \<noteq> '''' \<and> ser_final \<noteq> '''' \<and> lan_final = ser_final
     then existing\<lparr>c_serial_hash := None\<rparr> else existing)"

definition save_entry :: "save_req \<Rightarrow> string \<Rightarrow> contact \<Rightarrow> contact" where
  "save_entry r clean existing =
     save_settle (normalize_contact (save_routed r clean (save_named r existing)))"

text \<open>The record a save starts from, also when the lookup found nothing: the file, or a bare record.\<close>

definition save_base :: "cstore \<Rightarrow> string \<Rightarrow> contact option \<Rightarrow> contact" where
  "save_base st clean merged = (case merged of Some m \<Rightarrow> m
     | None \<Rightarrow> (case load_contact st clean of Some c \<Rightarrow> c
         | None \<Rightarrow> empty_contact\<lparr>c_hash := Some clean, c_name := Some clean\<rparr>))"

definition save_contact :: "cstore \<Rightarrow> string option \<Rightarrow> save_req \<Rightarrow> py_error + (contact \<times> cstore)" where
  "save_contact st peer_hash r = (let clean = clean_of peer_hash in
     if clean = '''' then Inl ValueError
     else let (merged, st) = save_lookup st clean (sr_identity_hash r) (or_none (stripE (sr_name r)));
              existing = save_entry r clean (save_base st clean merged);
              file_key = py_or (contact_primary_hash existing) clean;
              st = write_contact file_key existing st;
              st = purge_stale_contact_files existing file_key st;
              st = (if clean \<noteq> file_key then snd (unlink_contact_file st clean) else st);
              st = clear_contact_deleted (Some existing) (Some clean) st
     in Inr (existing, st))"

section \<open>Deleting\<close>

definition delete_target ::
  "string \<times> contact \<Rightarrow> string list \<times> bool \<times> cstore \<Rightarrow> string list \<times> bool \<times> cstore" where
  "delete_target target s = (case target of (fname, entry) \<Rightarrow> case s of (seen, removed, st) \<Rightarrow>
     if fname \<in> set seen then (seen, removed, st)
     else let (ok, st) = unlink_contact_file st fname;
              removed = (if ok then True else removed)
     in (fname # seen, removed, record_contact_deleted entry st))"

definition delete_contact :: "cstore \<Rightarrow> string option \<Rightarrow> bool \<times> cstore" where
  "delete_contact st peer_hash = (let clean = clean_of peer_hash in
     if clean = '''' then (False, st)
     else let (contact, st) = find_contact_by_hash st (Some clean);
              targets = (case contact of
                  Some c \<Rightarrow> related_contact_files st c
                | None \<Rightarrow> (case load_contact st clean of Some entry \<Rightarrow> [(clean, entry)] | None \<Rightarrow> []))
     in if targets = [] then unlink_contact_file st clean
        else case fold delete_target targets ([], False, st) of (seen, removed, st) \<Rightarrow> (removed, st))"

section \<open>Refreshing from discovery\<close>

text \<open>
  The body of the loop of \<open>sync_contact_from_discovery\<close> for the contact that matched:
  the new entry and the flag \<open>changed\<close>, split into the serial branch, the LAN branch
  and the name rule.
\<close>

definition sync_serial :: "peer \<Rightarrow> contact \<Rightarrow> contact \<times> bool" where
  "sync_serial peer entry = (
     let new_hash = hx (p_hash peer); peer_ident = hx (p_identity_hash peer);
         serial = hx (c_serial_hash entry);
         (entry, changed) = (if serial \<noteq> new_hash then (entry\<lparr>c_serial_hash := Some new_hash\<rparr>, True)
                             else (entry, False))
     in if peer_ident \<noteq> '''' then (entry\<lparr>c_serial_identity_hash := Some peer_ident\<rparr>, True)
        else (entry, changed))"

definition sync_lan :: "peer \<Rightarrow> string option \<Rightarrow> contact \<Rightarrow> contact \<times> bool" where
  "sync_lan peer scope entry = (
     let new_hash = hx (p_hash peer); peer_ident = hx (p_identity_hash peer);
         peer_ip = stripE (p_ip peer);
         lan = nocolon (py_or (orE (c_lan_hash entry)) (orE (c_hash entry)));
         serial = hx (c_serial_hash entry);
         (entry, changed) = (if lan \<noteq> new_hash
            then (entry\<lparr>c_lan_hash := Some new_hash, c_hash := Some new_hash\<rparr>, True) else (entry, False));
         (entry, changed) = (if lan = serial \<and> serial \<noteq> '''' \<and> new_hash \<noteq> serial
            then (entry\<lparr>c_lan_hash := Some new_hash, c_hash := Some new_hash\<rparr>, True) else (entry, changed));
         (entry, changed) = (if peer_ip \<noteq> '''' \<and> should_update_contact_ip (Some (stripE (c_ip entry))) (Some peer_ip) scope
            then (entry\<lparr>c_ip := Some peer_ip\<rparr>, True)
            else if peer_ip \<noteq> '''' \<and> stripE (c_ip entry) = '''' then (entry\<lparr>c_ip := Some peer_ip\<rparr>, True)
            else (entry, changed));
         (entry, changed) = (case p_port peer of None \<Rightarrow> (entry, changed)
            | Some v \<Rightarrow> (case py_int_val v of None \<Rightarrow> (entry, changed)
                | Some n \<Rightarrow> if c_port entry \<noteq> Some n then (entry\<lparr>c_port := Some n\<rparr>, True) else (entry, changed)))
     in if peer_ident \<noteq> ''''
        then (entry\<lparr>c_lan_identity_hash := Some peer_ident, c_identity_hash := Some peer_ident\<rparr>, True)
        else (entry, changed))"

definition sync_name :: "peer \<Rightarrow> contact \<times> bool \<Rightarrow> contact \<times> bool" where
  "sync_name peer s = (case s of (entry, changed) \<Rightarrow>
     if truthy (p_name peer) \<and> c_custom_name entry \<noteq> Some True
     then let resolved = resolve_contact_name entry (p_name peer) False;
              entry = normalize_contact entry;
              saved = stripE (c_name entry)
          in if resolved \<noteq> '''' \<and> saved = '''' then (entry\<lparr>c_name := Some resolved\<rparr>, True)
             else if resolved \<noteq> '''' \<and> saved \<noteq> ''''
                     \<and> name_is_hash_like (Some saved) (contact_hashes entry)
                     \<and> \<not> name_is_hash_like (Some resolved) (contact_hashes entry)
                  then (entry\<lparr>c_name := Some resolved\<rparr>, True)
             else (entry, changed)
     else (entry, changed))"

definition sync_entry :: "peer \<Rightarrow> string option \<Rightarrow> contact \<Rightarrow> contact \<times> bool" where
  "sync_entry peer scope contact = (let entry = normalize_contact contact in
     sync_name peer (if peer_transport_family (p_via peer) = ''serial''
                     then sync_serial peer entry else sync_lan peer scope entry))"

text \<open>\<open>stale = dict(contact); stale.update(entry)\<close>: the keys of \<open>entry\<close> win.\<close>

definition upd :: "'a option \<Rightarrow> 'a option \<Rightarrow> 'a option" where
  "upd old new = (case new of None \<Rightarrow> old | Some v \<Rightarrow> Some v)"

definition update_dict :: "contact \<Rightarrow> contact \<Rightarrow> contact" where
  "update_dict contact entry = \<lparr>c_hash = upd (c_hash contact) (c_hash entry),
     c_lan_hash = upd (c_lan_hash contact) (c_lan_hash entry),
     c_serial_hash = upd (c_serial_hash contact) (c_serial_hash entry),
     c_identity_hash = upd (c_identity_hash contact) (c_identity_hash entry),
     c_lan_identity_hash = upd (c_lan_identity_hash contact) (c_lan_identity_hash entry),
     c_serial_identity_hash = upd (c_serial_identity_hash contact) (c_serial_identity_hash entry),
     c_name = upd (c_name contact) (c_name entry), c_ip = upd (c_ip contact) (c_ip entry),
     c_port = upd (c_port contact) (c_port entry),
     c_custom_name = upd (c_custom_name contact) (c_custom_name entry)\<rparr>"

definition sync_contact_from_discovery ::
  "cstore \<Rightarrow> peer \<Rightarrow> (string \<Rightarrow> string \<Rightarrow> bool) option \<Rightarrow> string option \<Rightarrow> contact option \<times> cstore" where
  "sync_contact_from_discovery st peer peers_equiv scope = (let new_hash = hx (p_hash peer) in
     if new_hash = '''' then (None, st)
     else if peer_is_deleted st peer then (None, st)
     else let (contacts, st) = list_contacts st in
       case find (\<lambda>c. contact_matches_discovery_peer c peer peers_equiv) contacts of
         None \<Rightarrow> (None, st)
       | Some contact \<Rightarrow>
           let (entry, changed) = sync_entry peer scope contact in
           if \<not> changed then (Some entry, st)
           else let entry = normalize_contact entry;
                    file_key = py_or (contact_primary_hash entry) new_hash;
                    st = write_contact file_key entry st;
                    stale = update_dict contact entry
                in (Some entry, purge_stale_contact_files stale file_key st))"

section \<open>Changing a hash\<close>

text \<open>
  What \<open>update_contact_transport_hash\<close> and \<open>migrate_contact_hash\<close> write into the
  entry once they have decided on the transport.
\<close>

definition rehash_entry ::
  "bool \<Rightarrow> string \<Rightarrow> string option \<Rightarrow> string option \<Rightarrow> pyval option \<Rightarrow> contact \<Rightarrow> contact" where
  "rehash_entry is_serial new_clean identity_hash ip port entry = (
     if is_serial then set_serial_ident identity_hash (entry\<lparr>c_serial_hash := Some new_clean\<rparr>)
     else set_port port (set_ip ip (set_lan_ident identity_hash
            (entry\<lparr>c_lan_hash := Some new_clean, c_hash := Some new_clean\<rparr>))))"

definition rename_entry :: "string option \<Rightarrow> contact \<Rightarrow> contact" where
  "rename_entry name entry = (if stripE name \<noteq> ''''
     then (let resolved = resolve_contact_name entry name False in
           (normalize_contact entry)\<lparr>c_name := Some resolved\<rparr>) else entry)"

definition update_contact_transport_hash ::
  "cstore \<Rightarrow> string option \<Rightarrow> string option \<Rightarrow> string option \<Rightarrow> string option \<Rightarrow> string option
   \<Rightarrow> pyval option \<Rightarrow> string option \<Rightarrow> contact option \<times> cstore" where
  "update_contact_transport_hash st old_hash new_hash via name ip port identity_hash = (
     let old_clean = clean_of old_hash; new_clean = clean_of new_hash in
     if old_clean = '''' \<or> new_clean = '''' \<or> old_clean = new_clean then (None, st)
     else let (contact, st) = find_contact_by_hash st (Some old_clean) in
       case contact of None \<Rightarrow> (None, st)
       | Some entry \<Rightarrow>
           let transport = py_lower (stripE via);
               is_serial = (transport = ''serial''
                  \<or> (transport = '''' \<and> old_clean = hx (c_serial_hash entry)));
               entry = rename_entry name (rehash_entry is_serial new_clean identity_hash ip port entry);
               entry = normalize_contact entry;
               file_key = py_or (contact_primary_hash entry) new_clean;
               st = write_contact file_key entry st;
               st = (if old_clean \<noteq> file_key then snd (unlink_contact_file st old_clean) else st)
           in (Some entry, st))"

definition migrate_contact_hash ::
  "cstore \<Rightarrow> string option \<Rightarrow> string option \<Rightarrow> string option \<Rightarrow> string option
   \<Rightarrow> pyval option \<Rightarrow> string option \<Rightarrow> string option \<Rightarrow> bool \<times> cstore" where
  "migrate_contact_hash st old_hash new_hash name ip port identity_hash via = (
     let old_clean = clean_of old_hash; new_clean = clean_of new_hash in
     if old_clean = '''' \<or> new_clean = '''' \<or> old_clean = new_clean then (False, st)
     else let (contact, st) = find_contact_by_hash st (Some old_clean);
              contact = (case contact of Some c \<Rightarrow> Some c | None \<Rightarrow> load_contact st old_clean) in
       case contact of None \<Rightarrow> (False, st)
       | Some c \<Rightarrow>
           let entry = normalize_contact c;
               transport = py_lower (stripE via);
               is_serial = (transport = ''serial''
                  \<or> (transport = '''' \<and> old_clean = hx (c_serial_hash entry)
                     \<and> old_clean \<noteq> nocolon (py_or (orE (c_lan_hash entry)) (orE (c_hash entry)))));
               entry = rename_entry name (rehash_entry is_serial new_clean identity_hash ip port entry);
               entry = normalize_contact entry;
               file_key = py_or (contact_primary_hash entry) new_clean;
               st = write_contact file_key entry st;
               st = (if old_clean \<noteq> file_key then snd (unlink_contact_file st old_clean) else st)
           in (True, st))"

section \<open>Migrating by address and refreshing the endpoint\<close>

definition is_custom :: "contact \<Rightarrow> bool" where
  "is_custom c \<longleftrightarrow> c_custom_name c = Some True"

fun migrate_ip_loop ::
  "string \<Rightarrow> string \<Rightarrow> string option \<Rightarrow> pyval option \<Rightarrow> string option
   \<Rightarrow> contact list \<Rightarrow> string list \<Rightarrow> cstore \<Rightarrow> py_error + (string list \<times> cstore)" where
  "migrate_ip_loop ip new_clean name port identity_hash [] removed st = Inr (removed, st)"
| "migrate_ip_loop ip new_clean name port identity_hash (contact # cs) removed st = (
     if stripE (c_ip contact) \<noteq> ip
     then migrate_ip_loop ip new_clean name port identity_hash cs removed st
     else let old_key = contact_primary_hash contact; prior = normalize_contact contact in
       case save_contact st (Some new_clean)
         \<lparr>sr_name = Some (resolve_contact_name prior name False), sr_ip = Some ip, sr_port = port,
          sr_identity_hash = identity_hash, sr_via = Some ''lan'', sr_lan_hash = Some new_clean,
          sr_serial_hash = c_serial_hash prior, sr_lan_identity_hash = None,
          sr_serial_identity_hash = c_serial_identity_hash prior, sr_custom_name = is_custom prior\<rparr>
       of Inl e \<Rightarrow> Inl e
        | Inr (updated, st) \<Rightarrow>
            let new_key = py_or (contact_primary_hash updated) new_clean in
            if old_key \<noteq> '''' \<and> old_key \<noteq> new_key
            then migrate_ip_loop ip new_clean name port identity_hash cs (removed @ [old_key])
                   (snd (unlink_contact_file st old_key))
            else migrate_ip_loop ip new_clean name port identity_hash cs removed st)"

definition migrate_contact_by_ip ::
  "cstore \<Rightarrow> string option \<Rightarrow> string option \<Rightarrow> string option \<Rightarrow> pyval option \<Rightarrow> string option
   \<Rightarrow> py_error + (string list \<times> cstore)" where
  "migrate_contact_by_ip st ip new_hash name port identity_hash = (
     let ip = stripE ip; new_clean = clean_of new_hash in
     if ip = '''' \<or> new_clean = '''' then Inr ([], st)
     else if peer_is_deleted st (empty_peer\<lparr>p_hash := Some new_clean, p_identity_hash := identity_hash,
               p_name := name, p_ip := Some ip\<rparr>) then Inr ([], st)
     else let (contacts, st) = list_contacts st
          in migrate_ip_loop ip new_clean name port identity_hash contacts [] st)"

text \<open>The test \<open>same\<close> of \<open>update_contact_endpoint\<close>.\<close>

definition endpoint_same ::
  "string \<Rightarrow> string option \<Rightarrow> string \<Rightarrow> (string \<Rightarrow> string \<Rightarrow> bool) option \<Rightarrow> contact \<Rightarrow> bool" where
  "endpoint_same clean identity_hash peer_name peers_equiv contact = (
     let ch = hx (c_hash contact); ih = hx (c_identity_hash contact);
         same = (ch = clean);
         same = (same \<or> (case peers_equiv of None \<Rightarrow> False
                   | Some eqv \<Rightarrow> eqv ch clean \<or> (ih \<noteq> '''' \<and> eqv ih clean)));
         same = (same \<or> (truthy identity_hash \<and> (ih = clean_of identity_hash \<or> ch = clean_of identity_hash)));
         cn = py_lower (stripE (c_name contact))
     in same \<or> (peer_name \<noteq> '''' \<and> cn \<noteq> '''' \<and> (names_related (Some cn) (Some peer_name) \<or> cn = peer_name)))"

definition update_contact_endpoint ::
  "cstore \<Rightarrow> string option \<Rightarrow> string option \<Rightarrow> pyval option \<Rightarrow> string option
   \<Rightarrow> (string \<Rightarrow> string \<Rightarrow> bool) option \<Rightarrow> string option \<Rightarrow> string option
   \<Rightarrow> py_error + (contact option \<times> cstore)" where
  "update_contact_endpoint st peer_hash ip port identity_hash peers_equiv name scope = (
     let clean = clean_of peer_hash in
     if clean = '''' then Inr (None, st)
     else let target_ip = stripE ip; peer_name = py_lower (stripE name);
              (contacts, st) = list_contacts st in
       case find (endpoint_same clean identity_hash peer_name peers_equiv) contacts of
         None \<Rightarrow> Inr (None, st)
       | Some contact \<Rightarrow>
           let ch = hx (c_hash contact); ih = hx (c_identity_hash contact);
               contact_ip = stripE (c_ip contact);
               lan = nocolon (py_or (orE (c_lan_hash contact)) ch);
               needs_hash = (lan \<noteq> clean \<and> ch = lan);
               req = \<lparr>sr_name = Some (resolve_contact_name contact name False),
                 sr_ip = or_none (if needs_hash then py_or target_ip contact_ip else target_ip),
                 sr_port = (case port of None \<Rightarrow> map_option VInt (c_port contact) | Some v \<Rightarrow> Some v),
                 sr_identity_hash = (if truthy identity_hash then identity_hash else or_none ih),
                 sr_via = Some ''lan'',
                 sr_lan_hash = Some (if needs_hash then clean else py_or lan clean),
                 sr_serial_hash = c_serial_hash contact, sr_lan_identity_hash = None,
                 sr_serial_identity_hash = c_serial_identity_hash contact,
                 sr_custom_name = is_custom contact\<rparr>
           in if needs_hash
              then map_sum id (\<lambda>(c, st). (Some c, st)) (save_contact st (Some clean) req)
              else if target_ip \<noteq> '''' \<and> should_update_contact_ip (Some contact_ip) (Some target_ip) scope
              then map_sum id (\<lambda>(c, st). (Some c, st)) (save_contact st (Some (py_or ch clean)) req)
              else Inr (None, st))"

definition contact_connect_meta ::
  "cstore \<Rightarrow> string option \<Rightarrow> (string \<Rightarrow> string \<Rightarrow> bool) \<Rightarrow> (string \<times> int) option \<times> cstore" where
  "contact_connect_meta st peer_hash peers_equiv = (
     let clean = clean_of peer_hash; (contacts, st) = list_contacts st in
     (map_option (\<lambda>c. (stripE (c_ip c), case c_port c of None \<Rightarrow> 8742 | Some p \<Rightarrow> if p = 0 then 8742 else p))
        (find (\<lambda>c. (peers_equiv (hx (c_hash c)) clean
                    \<or> (hx (c_identity_hash c) \<noteq> '''' \<and> peers_equiv (hx (c_identity_hash c)) clean))
                   \<and> stripE (c_ip c) \<noteq> '''') contacts), st))"

end
