(* ===== verification/ContactLaws.thy ===== *)
theory ContactLaws
  imports ContactOps
begin

text \<open>
  The contact store as its callers may rely on it: a clean directory (every file under
  the primary hash of the contact it holds, no two files of one peer) is a fixed point
  of \<open>list_contacts\<close>, and lookups and deletions on it act on exactly one contact.
\<close>

section \<open>The directory as a keyed store\<close>

definition put_file :: "string \<Rightarrow> fcontent \<Rightarrow> cstore \<Rightarrow> cstore" where
  "put_file k f st = st\<lparr>files := AList.update k f (files st)\<rparr>"

definition drop_file :: "string \<Rightarrow> cstore \<Rightarrow> cstore" where
  "drop_file k st = st\<lparr>files := AList.delete k (files st)\<rparr>"

interpretation cdir: keyed_store "\<lambda>st k. map_of (files st) k" put_file drop_file
  by unfold_locales (simp_all add: put_file_def drop_file_def)

lemma write_contact_put: "write_contact key c st = put_file (contact_path key) (FJson c) st"
  by (simp add: write_contact_def put_file_def)

lemma unlink_drop [simp]: "snd (unlink_contact_file st h) = drop_file (contact_path h) st"
  by (simp add: unlink_contact_file_def drop_file_def)

lemma deleted_put_drop [simp]:
  "deleted (put_file k f st) = deleted st" "deleted (drop_file k st) = deleted st"
  by (simp_all add: put_file_def drop_file_def)

lemma purge_stale_drops: "purge_stale_contact_files entry key st =
    fold drop_file (map contact_path (filter (\<lambda>h. h \<noteq> nocolon key) (contact_hashes entry))) st"
proof -
  have "fold (\<lambda>h st. if h \<noteq> nocolon key then snd (unlink_contact_file st h) else st) hs st
      = fold drop_file (map contact_path (filter (\<lambda>h. h \<noteq> nocolon key) hs)) st" for hs st
    by (induction hs arbitrary: st) auto
  then show ?thesis by (simp add: purge_stale_contact_files_def)
qed

lemma deleted_drops [simp]: "deleted (fold drop_file ks st) = deleted st"
  by (induction ks arbitrary: st) simp_all

lemma deleted_purge [simp]: "deleted (purge_stale_contact_files c key st) = deleted st"
  by (simp add: purge_stale_drops)

lemma deleted_persist [simp]: "deleted (persist_entry b c st) = deleted st"
  by (simp add: persist_entry_def Let_def write_contact_put)

lemma deleted_fold: "(\<And>x st. deleted (f x st) = deleted st) \<Longrightarrow> deleted (fold f xs st) = deleted st"
  by (induction xs arbitrary: st) simp_all

lemma deleted_list_contacts [simp]: "deleted (snd (list_contacts st)) = deleted st"
  unfolding list_contacts_def Let_def
  by (simp split: prod.split add: deleted_fold)

lemma deleted_find [simp]: "deleted (snd (find_contact_by_hash st h)) = deleted st"
  by (simp add: find_contact_by_hash_def Let_def case_prod_beta)

section \<open>Clean directories\<close>

definition wf_file :: "string \<Rightarrow> fcontent \<Rightarrow> bool" where
  "wf_file k f = (case f of
      FJson c \<Rightarrow> normal_contact c \<and> c_name c \<noteq> None \<and> k = contact_primary_hash c \<and> k \<noteq> ''''
        \<and> \<not> prefix ''.'' k \<and> (\<forall>h \<in> set (contact_hashes c). contact_path h = h)
    | _ \<Rightarrow> False)"

definition apart :: "contact \<Rightarrow> contact \<Rightarrow> bool" where
  "apart c d \<longleftrightarrow> \<not> should_merge_contacts c d
     \<and> (\<forall>k \<in> set (contact_dedup_keys c). k \<notin> set (contact_dedup_keys d))"

fun apart_files :: "string \<times> fcontent \<Rightarrow> string \<times> fcontent \<Rightarrow> bool" where
  "apart_files (k, FJson c) (k', FJson d) = (k \<noteq> k' \<longrightarrow> apart c d)"
| "apart_files p q = True"

definition wf_store :: "cstore \<Rightarrow> bool" where
  "wf_store st \<longleftrightarrow> distinct (map fst (files st))
     \<and> (\<forall>p \<in> set (files st). wf_file (fst p) (snd p))
     \<and> (\<forall>p \<in> set (files st). \<forall>q \<in> set (files st). apart_files p q)"

lemma wf_fileE:
  assumes "wf_file k f"
  obtains c where "f = FJson c" "normal_contact c" "c_name c \<noteq> None" "k = contact_primary_hash c"
    "k \<noteq> ''''" "\<not> prefix ''.'' k" "\<And>h. h \<in> set (contact_hashes c) \<Longrightarrow> contact_path h = h"
  using assms by (cases f) (auto simp: wf_file_def)

lemma wf_distinct: "wf_store st \<Longrightarrow> distinct (map fst (files st))"
  by (simp add: wf_store_def)

lemma wf_get: "wf_store st \<Longrightarrow> map_of (files st) k = Some f \<Longrightarrow> wf_file k f"
  by (fastforce simp: wf_store_def dest: map_of_SomeD)

lemma wf_apart:
  "wf_store st \<Longrightarrow> map_of (files st) k = Some (FJson c) \<Longrightarrow> map_of (files st) k' = Some (FJson d)
   \<Longrightarrow> k \<noteq> k' \<Longrightarrow> apart c d"
  unfolding wf_store_def by (fastforce dest!: map_of_SomeD)

text \<open>A file loads as the contact it holds.\<close>

lemma load_serial_only:
  assumes "normal_contact c" "c_hash c = None" "k = contact_primary_hash c" "k \<noteq> ''''"
  shows "normalize_contact (c\<lparr>c_hash := Some k\<rparr>) = c"
proof -
  have n: "normalize_contact c = c" using assms(1) by (rule normal_fixpoint)
  have lan: "hx (c_lan_hash c) = ''''" using assms(1,2) by (auto simp: normal_contact_def)
  with assms n have k: "k = hx (c_serial_hash c)" by (simp add: contact_primary_hash_def)
  have cu: "c_custom_name c \<noteq> None" using assms(1) by (simp add: normal_contact_def)
  have "norm_conflict (c\<lparr>c_hash := Some k\<rparr>) = c\<lparr>c_hash := Some k\<rparr>"
    using lan by (simp add: norm_conflict_def)
  moreover have "norm_serial_only (c\<lparr>c_hash := Some k\<rparr>) = c"
    using lan k assms(2,4) by (simp add: norm_serial_only_def)
  moreover have "norm_adopt_hash c = c" "norm_fill_hash c = c" "norm_fill_ident c = c" "norm_custom c = c"
    using lan assms(2) cu by (simp_all add: norm_step_defs)
  moreover have "c\<lparr>c_hash := Some k\<rparr> \<noteq> empty_contact" 
    by (auto simp: empty_contact_def dest: arg_cong [of _ _ c_hash])
  ultimately show ?thesis by (simp add: normalize_contact_def)
qed

lemma load_wf:
  assumes "map_of (files st) k = Some (FJson c)" "normal_contact c" "c_name c \<noteq> None"
    "k = contact_primary_hash c" "k \<noteq> ''''"
  shows "load_contact st k = Some c"
proof -
  obtain nm where nm: "c_name c = Some nm" using assms(3) by blast
  have e: "c\<lparr>c_hash := x, c_name := Some nm\<rparr> = c\<lparr>c_hash := x\<rparr>" for x using nm by simp
  show ?thesis
  proof (cases "c_hash c")
    case None
    show ?thesis using assms(1) load_serial_only [OF assms(2) None assms(4,5)] None nm
      by (simp add: load_contact_def setdefault_def e)
  next
    case (Some h)
    have "c\<lparr>c_hash := Some h, c_name := Some nm\<rparr> = c" using Some nm by (cases c) simp
    moreover have "load_contact st k = Some (normalize_contact (c\<lparr>c_hash := Some h, c_name := Some nm\<rparr>))"
      using assms(1) Some nm by (simp add: load_contact_def setdefault_def)
    ultimately show ?thesis using assms(2) by (simp only: normal_fixpoint)
  qed
qed

section \<open>Listing a clean directory\<close>

lemma keys_nonempty: "contact_dedup_keys c \<noteq> []"
  by (simp add: contact_dedup_keys_def Let_def)

lemma fold_update_keys:
  "dom (map_of (fold (\<lambda>k m. AList.update k v m) ks m)) = set ks \<union> dom (map_of m)"
  by (induction ks arbitrary: m) (auto simp: dom_def)

lemma first_known_None: "set ks \<inter> dom (map_of m) = {} \<Longrightarrow> first_known m ks = None"
  by (induction ks) (auto simp: domIff)

lemma update_append: "k \<notin> fst ` set d \<Longrightarrow> AList.update k v d = d @ [(k, v)]"
  by (induction d) auto

text \<open>Rows without a common key go through the first loop unmerged.\<close>

lemma dedup_apart:
  assumes "\<forall>c \<in> set cs. normal_contact c"
    and "sorted_wrt (\<lambda>c d. set (contact_dedup_keys c) \<inter> set (contact_dedup_keys d) = {}) cs"
    and "\<forall>c \<in> set cs. set (contact_dedup_keys c) \<inter> dom (map_of m) = {}"
    and "fst ` set ded \<subseteq> dom (map_of m)"
  shows "\<exists>m'. fold dedup_step cs (ded, m, []) = (ded @ map (\<lambda>c. (hd (contact_dedup_keys c), c)) cs, m', [])"
  using assms
proof (induction cs arbitrary: ded m)
  case (Cons c cs)
  let ?ks = "contact_dedup_keys c"
  let ?m = "fold (\<lambda>k m. AList.update k (hd ?ks) m) ?ks m"
  have n: "normalize_contact c = c" using Cons.prems(1) by (simp add: normal_fixpoint)
  have hd: "hd ?ks \<in> set ?ks" by (simp add: keys_nonempty)
  then have new: "hd ?ks \<notin> fst ` set ded" using Cons.prems(3,4) by auto
  have "first_known m ?ks = None" using Cons.prems(3) by (intro first_known_None) auto
  then have step: "dedup_step c (ded, m, []) = (ded @ [(hd ?ks, c)], ?m, [])"
    using new by (simp add: dedup_step_def n Let_def update_append)
  have d: "dom (map_of ?m) = set ?ks \<union> dom (map_of m)" by (rule fold_update_keys)
  have apart: "\<forall>e \<in> set cs. set (contact_dedup_keys e) \<inter> dom (map_of ?m) = {}"
    unfolding d using Cons.prems(2,3) by (simp add: Int_Un_distrib) blast
  have sub: "fst ` set (ded @ [(hd ?ks, c)]) \<subseteq> dom (map_of ?m)"
    unfolding d using Cons.prems(4) hd by auto
  have "\<exists>m'. fold dedup_step cs (ded @ [(hd ?ks, c)], ?m, [])
      = ((ded @ [(hd ?ks, c)]) @ map (\<lambda>c. (hd (contact_dedup_keys c), c)) cs, m', [])"
    using Cons.prems(1,2) by (intro Cons.IH apart sub) simp_all
  then show ?case using step by simp
qed simp

lemma absorb_apart: "\<forall>e \<in> set es. \<not> should_merge_contacts c e \<Longrightarrow> absorb c es = (c, es, [])"
  by (induction es) auto

lemma merge_pass_apart:
  "\<forall>c \<in> set cs. normal_contact c \<Longrightarrow> sorted_wrt (\<lambda>c d. \<not> should_merge_contacts c d) cs
   \<Longrightarrow> merge_pass cs = (cs, [])"
  by (induction cs) (auto simp: normal_fixpoint absorb_apart)

text \<open>The files of a clean directory and the contacts they hold.\<close>

lemma wf_visible: "wf_store st \<Longrightarrow> visible_names st = sort (map fst (files st))"
proof -
  assume wf: "wf_store st"
  have "\<not> prefix ''.'' k" if "k \<in> fst ` set (files st)" for k
    using that wf by (auto simp: wf_store_def elim: wf_fileE)
  then have "filter (\<lambda>f. \<not> prefix ''.'' f) (sort (map fst (files st))) = sort (map fst (files st))"
    by (auto simp: filter_id_conv)
  with wf show ?thesis by (simp add: visible_names_def wf_distinct distinct_remdups_id)
qed

lemma wf_iter:
  assumes wf: "wf_store st"
  shows "map fst (iter_contact_files st) = sort (map fst (files st))"
    and "(k, c) \<in> set (iter_contact_files st) \<longleftrightarrow> map_of (files st) k = Some (FJson c)"
proof -
  have load: "\<exists>c. map_of (files st) k = Some (FJson c) \<and> load_contact st k = Some c"
    if "k \<in> fst ` set (files st)" for k
  proof -
    from that obtain f where f: "map_of (files st) k = Some f"
      by (metis domIff dom_map_of_conv_image_fst option.exhaust)
    then show ?thesis using wf_get [OF wf f] by (auto elim!: wf_fileE intro: load_wf)
  qed
  have "map fst (List.map_filter (\<lambda>k. map_option (Pair k) (load_contact st k)) ks) = ks"
    if "set ks \<subseteq> fst ` set (files st)" for ks
    using that by (induction ks) (use load in \<open>fastforce simp: map_filter_simps\<close>)+
  then show "map fst (iter_contact_files st) = sort (map fst (files st))"
    unfolding iter_contact_files_def wf_visible [OF wf] by simp
  have key: "map_of (files st) k \<noteq> None \<longleftrightarrow> k \<in> fst ` set (files st)" for k
    by (metis domIff dom_map_of_conv_image_fst)
  show "(k, c) \<in> set (iter_contact_files st) \<longleftrightarrow> map_of (files st) k = Some (FJson c)"
  proof
    assume "(k, c) \<in> set (iter_contact_files st)"
    then have "k \<in> fst ` set (files st)" "load_contact st k = Some c"
      by (force simp: iter_contact_files_def wf_visible [OF wf] map_filter_def)+
    with load [of k] show "map_of (files st) k = Some (FJson c)" by auto
  next
    assume m: "map_of (files st) k = Some (FJson c)"
    then have "k \<in> fst ` set (files st)" using key [of k] by simp
    with load [of k] m show "(k, c) \<in> set (iter_contact_files st)"
      by (force simp: iter_contact_files_def wf_visible [OF wf] map_filter_def)
  qed
qed

text \<open>No hash of a stored contact, its own key apart, is the name of a file.\<close>

lemma wf_no_foreign:
  assumes wf: "wf_store st" and m: "map_of (files st) k = Some (FJson c)"
    and h: "h \<in> set (contact_hashes c)" "h \<noteq> k"
  shows "h \<notin> fst ` set (files st)"
proof
  assume "h \<in> fst ` set (files st)"
  then obtain f where f: "map_of (files st) h = Some f"
    by (metis domIff dom_map_of_conv_image_fst option.exhaust)
  from wf_get [OF wf f] obtain d where d: "f = FJson d" "h = contact_primary_hash d" "h \<noteq> ''''"
    by (auto elim: wf_fileE)
  then have "h \<in> set (contact_hashes d)" using primary_in_hashes by simp
  with h(1) have "should_merge_contacts c d" by (rule should_merge_shared_hash)
  moreover have "apart c d" using wf_apart [OF wf m] f d(1) h(2) by metis
  ultimately show False by (simp add: apart_def)
qed

lemma wf_drop_own_hashes:
  assumes wf: "wf_store st" and m: "map_of (files st) k = Some (FJson c)"
    and hs: "set hs \<subseteq> set (contact_hashes c) - {k}"
  shows "fold drop_file (map contact_path hs) st = st"
proof -
  have "contact_path h = h \<and> h \<notin> fst ` set (files st)" if "h \<in> set hs" for h
    using that hs wf_no_foreign [OF wf m] wf_get [OF wf m] by (auto elim!: wf_fileE)
  then show ?thesis
    by (induction hs) (auto simp: drop_file_def delete_idem)
qed

lemma wf_persist:
  assumes wf: "wf_store st" and m: "map_of (files st) k = Some (FJson c)"
  shows "persist_entry b c st = st"
proof -
  from wf_get [OF wf m] have c: "normal_contact c" "k = contact_primary_hash c" "k \<noteq> ''''"
    "\<And>h. h \<in> set (contact_hashes c) \<Longrightarrow> contact_path h = h" by (auto elim: wf_fileE)
  then have k: "k \<in> set (contact_hashes c)" using primary_in_hashes by simp
  have w: "write_contact k c st = st"
    using m c(4) [OF k] by (simp add: write_contact_def update_triv)
  have "purge_stale_contact_files c k st = st"
    unfolding purge_stale_drops using contact_hashes_no_colon [OF k]
    by (intro wf_drop_own_hashes [OF wf m]) auto
  with w c(1-3) show ?thesis by (simp add: persist_entry_def Let_def normal_fixpoint)
qed

lemma sorted_wrt_distinct_keys:
  "distinct (map fst xs) \<Longrightarrow> \<forall>p \<in> set xs. \<forall>q \<in> set xs. fst p \<noteq> fst q \<longrightarrow> P (snd p) (snd q)
   \<Longrightarrow> sorted_wrt P (map snd xs)"
proof (induction xs)
  case (Cons p xs)
  have "fst p \<noteq> fst q" if "q \<in> set xs" for q
    using Cons.prems(1) that by (auto simp: image_iff)
  with Cons show ?case by auto
qed simp

lemma wf_sorted_apart:
  assumes wf: "wf_store st"
  shows "sorted_wrt apart (map snd (iter_contact_files st))"
proof -
  let ?xs = "iter_contact_files st"
  have d: "distinct (map fst ?xs)" using wf by (simp add: wf_iter(1) wf_distinct)
  have "\<forall>p \<in> set ?xs. \<forall>q \<in> set ?xs. fst p \<noteq> fst q \<longrightarrow> apart (snd p) (snd q)"
    using wf_apart [OF wf] by (auto simp: wf_iter(2) [OF wf])
  with d show ?thesis by (rule sorted_wrt_distinct_keys)
qed

lemma wf_contacts_at:
  "wf_store st \<Longrightarrow> c \<in> set (map snd (iter_contact_files st)) \<longleftrightarrow> (\<exists>k. map_of (files st) k = Some (FJson c))"
  using wf_iter(2) by force

text \<open>A clean directory is listed as it is, and listing it changes nothing.\<close>

lemma list_contacts_wf:
  assumes wf: "wf_store st"
  shows "list_contacts st = (map snd (iter_contact_files st), st)"
proof -
  let ?cs = "map snd (iter_contact_files st)"
  have at: "\<And>c. c \<in> set ?cs \<Longrightarrow> \<exists>k. map_of (files st) k = Some (FJson c)"
    using wf_contacts_at [OF wf] by blast
  have n: "\<forall>c \<in> set ?cs. normal_contact c"
    using at wf_get [OF wf] by (metis fcontent.inject(2) wf_fileE)
  have sw: "sorted_wrt apart ?cs" by (rule wf_sorted_apart [OF wf])
  have "sorted_wrt (\<lambda>c d. set (contact_dedup_keys c) \<inter> set (contact_dedup_keys d) = {}) ?cs"
    by (rule sorted_wrt_mono_rel [OF _ sw]) (auto simp: apart_def)
  then obtain m where d: "fold dedup_step ?cs ([], [], [])
      = (map (\<lambda>c. (hd (contact_dedup_keys c), c)) ?cs, m, [])"
    using dedup_apart [OF n, of "[]" "[]"] by auto
  have "sorted_wrt (\<lambda>c d. \<not> should_merge_contacts c d) ?cs"
    by (rule sorted_wrt_mono_rel [OF _ sw]) (auto simp: apart_def)
  then have mp: "merge_pass ?cs = (?cs, [])" by (intro merge_pass_apart n)
  have persist: "fold (persist_entry b) cs st = st" if "set cs \<subseteq> set ?cs" for b cs
    using that at wf_persist [OF wf] by (induction cs) force+
  have drop: "drop_file (contact_path h) st = st"
    if "c \<in> set ?cs" "h \<in> set (orphan_hashes (contact_primary_hash c) c)" for c h
  proof -
    from at [OF that(1)] obtain k where k: "map_of (files st) k = Some (FJson c)" by blast
    with wf_get [OF wf] have "k = contact_primary_hash c" by (auto elim: wf_fileE)
    with that(2) show ?thesis
      using wf_drop_own_hashes [OF wf k, of "[h]"] by (auto simp: orphan_hashes_def)
  qed
  have clean: "fold (\<lambda>orphan st. if orphan \<in> set ks then st else snd (unlink_contact_file st orphan)) hs st = st"
    if "set hs \<subseteq> (\<Union>c \<in> set ?cs. set (orphan_hashes (contact_primary_hash c) c))" for ks hs
    using that drop by (induction hs) force+
  have comp: "map snd (map (\<lambda>c. (hd (contact_dedup_keys c), c)) ?cs) = ?cs" by (simp add: comp_def)
  show ?thesis
    unfolding list_contacts_def Let_def d case_prod_conv comp mp persist [OF subset_refl]
    by (subst clean) auto
qed

section \<open>Lookup and deletion on a clean directory\<close>

lemma find_contact_wf:
  assumes wf: "wf_store st" and m: "map_of (files st) k = Some (FJson c)"
    and h: "h \<in> set (contact_hashes c)"
  shows "find_contact_by_hash st (Some h) = (Some c, st)"
proof -
  let ?cs = "map snd (iter_contact_files st)"
  have c: "c \<in> set ?cs" using wf_contacts_at [OF wf] m by blast
  from wf_get [OF wf m] have n: "normal_contact c" and p: "contact_path h = h"
    using h by (auto elim!: wf_fileE)
  have clean: "clean_of (Some h) = h" "h \<noteq> ''''"
    using p h contact_hashes_nonempty by (auto simp: contact_path_def)
  have uniq: "d = c" if "d \<in> set ?cs" "h \<in> set (contact_hashes d)" for d
  proof -
    from that(1) wf_contacts_at [OF wf] obtain k' where k': "map_of (files st) k' = Some (FJson d)" by blast
    show ?thesis
    proof (cases "k' = k")
      case True
      with k' m show ?thesis by simp
    next
      case False
      then have "apart d c" by (rule wf_apart [OF wf k' m])
      then show ?thesis using should_merge_shared_hash [OF that(2) h] by (simp add: apart_def)
    qed
  qed
  have "find (\<lambda>d. h \<in> set (contact_hashes d)) ?cs = Some c"
  proof (cases "find (\<lambda>d. h \<in> set (contact_hashes d)) ?cs")
    case None
    with c h show ?thesis by (auto simp: find_None_iff)
  next
    case (Some d)
    then have "d \<in> set ?cs" "h \<in> set (contact_hashes d)" by (auto simp: find_Some_iff)
    with uniq Some show ?thesis by simp
  qed
  with clean n show ?thesis
    by (simp add: find_contact_by_hash_def list_contacts_wf [OF wf] normal_fixpoint)
qed

lemma related_wf:
  assumes wf: "wf_store st" and m: "map_of (files st) k = Some (FJson c)"
  shows "set (related_contact_files st c) = {(k, c)}"
proof -
  from wf_get [OF wf m] have n: "normal_contact c" and k: "k = contact_primary_hash c" "k \<noteq> ''''"
    by (auto elim!: wf_fileE)
  then have kc: "k \<in> set (contact_hashes c)" using primary_in_hashes by simp
  have one: "p = (k, c)" if "p \<in> set (iter_contact_files st)" "should_merge_contacts c (snd p)" for p
  proof -
    obtain k' d where p: "p = (k', d)" by (cases p)
    with that(1) have k': "map_of (files st) k' = Some (FJson d)" by (simp add: wf_iter(2) [OF wf])
    have "k' = k"
    proof (rule ccontr)
      assume "k' \<noteq> k"
      then have "apart c d" using wf_apart [OF wf m k'] by blast
      with that(2) p show False by (simp add: apart_def)
    qed
    with k' m p show ?thesis by simp
  qed
  have kin: "(k, c) \<in> set (iter_contact_files st)" using m by (simp add: wf_iter(2) [OF wf])
  have self: "should_merge_contacts c c" using kc kc by (rule should_merge_shared_hash)
  have "p \<in> set (related_contact_files st c) \<longleftrightarrow>
      p \<in> set (iter_contact_files st) \<and> should_merge_contacts c (snd p)" for p
    unfolding related_contact_files_def Let_def normal_fixpoint [OF n]
    using normal_not_empty [OF n] should_merge_shared_hash [of _ c "snd p"] by (cases p) auto
  with one kin self show ?thesis by (intro set_eqI) (metis singleton_iff snd_conv)
qed

lemma add_new_set [simp]: "set (add_new x xs) = insert x (set xs)"
  by (auto simp: add_new_def)

lemma fold_add_new_set [simp]: "set (fold add_new xs ys) = set xs \<union> set ys"
  by (induction xs arbitrary: ys) auto

text \<open>What recording a deletion adds to the index.\<close>

lemma record_deleted_hashes:
  "set (d_hashes (load_deleted_index (record_contact_deleted c st)))
     = set (contact_hashes c) \<union> set (d_hashes (load_deleted_index st))"
  by (simp add: record_contact_deleted_def save_deleted_index_def load_deleted_index_def Let_def)

lemma record_deleted_files [simp]: "files (record_contact_deleted c st) = files st"
  by (simp add: record_contact_deleted_def save_deleted_index_def Let_def)

lemma blocked_hash:
  "hx (p_hash peer) \<noteq> '''' \<Longrightarrow> hx (p_hash peer) \<in> set (d_hashes (load_deleted_index st))
   \<Longrightarrow> peer_is_deleted st peer"
  by (auto simp: peer_is_deleted_def index_empty_def Let_def)

lemma sync_blocked: "peer_is_deleted st peer \<Longrightarrow>
    sync_contact_from_discovery st peer peers_equiv scope = (None, st)"
  by (simp add: sync_contact_from_discovery_def Let_def)

section \<open>Everything listed is in normal form\<close>

lemma normalize_custom_normal: "c_custom_name c \<noteq> None \<Longrightarrow> normal_contact (normalize_contact c)"
  by (rule normalize_normal) (auto simp: empty_contact_def)

lemma load_normal: "load_contact st k = Some c \<Longrightarrow> normal_contact c"
proof -
  assume l: "load_contact st k = Some c"
  have ne: "d \<noteq> empty_contact" if "c_hash d \<noteq> None" for d using that by (auto simp: empty_contact_def)
  have "\<exists>d. c = normalize_contact d \<and> c_hash d \<noteq> None"
    using l by (fastforce simp: load_contact_def setdefault_def split: option.splits fcontent.splits)
  then show ?thesis using ne normalize_normal by blast
qed

lemma merge_custom_frame [simp]:
  "c_custom_name (merge_fields b c) = c_custom_name c"
  "c_custom_name (merge_port b c) = c_custom_name c"
  "c_custom_name (merge_lan_fill c) = c_custom_name c"
  by (simp_all add: merge_step_defs Let_def)

lemma merge_custom_keeps [simp]:
  "c_custom_name c = Some b \<Longrightarrow> \<exists>b'. c_custom_name (merge_custom d c) = Some b'"
  by (auto simp: merge_custom_def Let_def)

lemma merge_normal: "normal_contact a \<Longrightarrow> normal_contact (merge_contact_entries a b)"
  unfolding merge_contact_entries_def Let_def
  by (rule normalize_custom_normal) (auto simp: normal_fixpoint normal_contact_def)

text \<open>
  The state of the first loop: every row is normal, and \<open>key_to_primary\<close> only points at
  rows that exist, so \<open>deduped[primary]\<close> never raises \<open>KeyError\<close>.
\<close>

fun dedup_inv :: "(string, contact) pydict \<times> (string, string) pydict \<times> string list \<Rightarrow> bool" where
  "dedup_inv (ded, m, orphans) \<longleftrightarrow> (\<forall>p \<in> set ded. normal_contact (snd p))
     \<and> (\<forall>k p. map_of m k = Some p \<longrightarrow> map_of ded p \<noteq> None)"

lemma first_known_Some: "first_known m ks = Some p \<Longrightarrow> \<exists>k. map_of m k = Some p"
  by (induction ks) (auto split: option.splits)

lemma fold_update_get: "map_of (fold (\<lambda>k m. AList.update k v m) ks m) j = Some p \<Longrightarrow>
    p = v \<or> map_of m j = Some p"
  by (induction ks arbitrary: m) (fastforce split: if_splits)+

lemma snd_update: "(a, c) \<in> set (AList.update k v d) \<Longrightarrow> c = v \<or> (a, c) \<in> set d"
  using set_update_subset by fastforce

lemma dedup_primary_present:
  "dedup_inv (ded, m, orphans) \<Longrightarrow> first_known m ks = Some p \<Longrightarrow> \<exists>c. map_of ded p = Some c \<and> normal_contact c"
proof -
  assume inv: "dedup_inv (ded, m, orphans)" and f: "first_known m ks = Some p"
  from first_known_Some [OF f] inv obtain c where c: "map_of ded p = Some c" by fastforce
  then have "(p, c) \<in> set ded" by (rule map_of_SomeD)
  with c inv show ?thesis by auto
qed

lemma dedup_inv_write:
  assumes "dedup_inv (ded, m, orphans)" "normal_contact c"
  shows "dedup_inv (AList.update p c ded, fold (\<lambda>k m. AList.update k p m) ks m, orphans')"
  using assms by (auto dest!: snd_update fold_update_get)

interpretation dedup: step_system dedup_step normal_contact dedup_inv
proof
  fix e :: contact and s
  assume n: "normal_contact e" and inv: "dedup_inv s"
  obtain ded m orphans where s: "s = (ded, m, orphans)" by (cases s) auto
  show "dedup_inv (dedup_step e s)"
  proof (cases "first_known m (contact_dedup_keys e)")
    case None
    with n inv show ?thesis unfolding s dedup_step_def Let_def case_prod_conv normal_fixpoint [OF n]
      by (simp only: option.case dedup_inv_write)
  next
    case (Some p)
    with inv s obtain c where c: "map_of ded p = Some c" "normal_contact c"
      using dedup_primary_present by blast
    then have "normal_contact (merge_contact_entries (the (map_of ded p)) e)" by (simp add: merge_normal)
    with Some inv show ?thesis unfolding s dedup_step_def Let_def case_prod_conv normal_fixpoint [OF n]
      by (simp only: option.case dedup_inv_write)
  qed
qed

lemma absorb_normal:
  "absorb c es = (c', rest, orphans) \<Longrightarrow> normal_contact c \<Longrightarrow> \<forall>e \<in> set es. normal_contact e
   \<Longrightarrow> normal_contact c' \<and> set rest \<subseteq> set es"
proof (induction c es arbitrary: c' rest orphans rule: absorb.induct)
  case (2 current e es)
  show ?case
  proof (cases "should_merge_contacts current e")
    case True
    with 2 show ?thesis by (auto simp: Let_def merge_normal split: prod.splits)
  next
    case False
    with 2 show ?thesis by (fastforce simp: Let_def split: prod.splits)
  qed
qed simp

lemma merge_pass_normal:
  "\<forall>e \<in> set es. normal_contact e \<Longrightarrow> \<forall>c \<in> set (fst (merge_pass es)). normal_contact c"
proof (induction es rule: merge_pass.induct)
  case (2 e es)
  obtain c rest orphans where a: "absorb (normalize_contact e) es = (c, rest, orphans)"
    by (cases "absorb (normalize_contact e) es") auto
  have "normal_contact c \<and> set rest \<subseteq> set es"
    using 2 by (intro absorb_normal [OF a]) (auto simp: normal_fixpoint)
  moreover from this have "\<forall>c \<in> set (fst (merge_pass rest)). normal_contact c"
    using 2 a by auto
  ultimately show ?case by (simp add: a split: prod.splits)
qed simp

lemma iter_load: "(f, c) \<in> set (iter_contact_files st) \<Longrightarrow> load_contact st f = Some c"
  by (auto simp: iter_contact_files_def map_filter_def)

lemma list_contacts_normal: "c \<in> set (fst (list_contacts st)) \<Longrightarrow> normal_contact c"
proof -
  assume c: "c \<in> set (fst (list_contacts st))"
  let ?raw = "map snd (iter_contact_files st)"
  obtain ded m orphans where d: "fold dedup_step ?raw ([], [], []) = (ded, m, orphans)"
    by (cases "fold dedup_step ?raw ([], [], [])") auto
  have "\<forall>e \<in> set ?raw. normal_contact e"
    by (auto dest!: iter_load load_normal)
  then have "dedup_inv (ded, m, orphans)"
    unfolding d [symmetric] by (rule dedup.run_inv) simp
  then have "\<forall>e \<in> set (map snd ded). normal_contact e" by auto
  then have "\<forall>e \<in> set (fst (merge_pass (map snd ded))). normal_contact e" by (rule merge_pass_normal)
  moreover have "fst (list_contacts st) = fst (merge_pass (map snd ded))"
    unfolding list_contacts_def Let_def d by (simp split: prod.split)
  ultimately show ?thesis using c by simp
qed

lemma find_contact_normal: "find_contact_by_hash st h = (Some c, st') \<Longrightarrow> normal_contact c"
proof -
  assume f: "find_contact_by_hash st h = (Some c, st')"
  then obtain d where "find (\<lambda>c. clean_of h \<in> set (contact_hashes c)) (fst (list_contacts st)) = Some d"
      "c = normalize_contact d"
    by (auto simp: find_contact_by_hash_def Let_def split: prod.splits if_splits)
  then have "d \<in> set (fst (list_contacts st))" "c = normalize_contact d"
    by (auto simp: find_Some_iff)
  then show ?thesis by (auto dest!: list_contacts_normal simp: normal_fixpoint)
qed

end
