(* ===== verification/ContactProps.thy ===== *)
theory ContactProps
  imports ContactLaws
begin

text \<open>
  The contract of the contact store, over \<open>ContactLaws\<close>: what listing, looking up,
  deleting, saving and refreshing a contact guarantee, with a small directory on which
  each is applied.
\<close>

section \<open>A sample directory\<close>

definition alice :: contact where
  "alice = normalize_contact (empty_contact\<lparr>c_lan_hash := Some ''aa01'', c_name := Some ''Alice'',
     c_ip := Some ''10.0.0.5'', c_serial_hash := Some ''5501'', c_custom_name := Some True\<rparr>)"

definition bob :: contact where
  "bob = normalize_contact (empty_contact\<lparr>c_hash := Some ''bb02'', c_name := Some ''Bob'',
     c_ip := Some ''10.0.0.9'', c_identity_hash := Some ''1d02''\<rparr>)"

definition demo :: cstore where
  "demo = empty_store\<lparr>files := [(''bb02'', FJson bob), (''aa01'', FJson alice)]\<rparr>"

lemma demo_wf: "wf_store demo"
  by code_simp

lemma demo_bob: "map_of (files demo) ''bb02'' = Some (FJson bob)"
  by (simp add: demo_def empty_store_def)

section \<open>Listing and lookup\<close>

text \<open>On a clean directory \<open>list_contacts\<close> returns the contact of every file in
  the order of the file names and writes, merges and unlinks nothing.\<close>

theorem list_contacts_stable:
  assumes "wf_store st"
  shows "list_contacts st = (map (\<lambda>k. the (load_contact st k)) (sort (map fst (files st))), st)"
proof -
  have "map snd xs = map (\<lambda>k. the (load_contact st k)) (map fst xs)"
    if "\<forall>p \<in> set xs. load_contact st (fst p) = Some (snd p)" for xs :: "(string \<times> contact) list"
    using that by (induction xs) auto
  then have "map snd (iter_contact_files st) = map (\<lambda>k. the (load_contact st k)) (map fst (iter_contact_files st))"
    by (auto dest: iter_load)
  then show ?thesis using assms by (simp add: list_contacts_wf wf_iter(1))
qed

lemma list_contacts_stable_witness:
  "wf_store demo \<and> list_contacts demo = (map (\<lambda>k. the (load_contact demo k)) (sort (map fst (files demo))), demo)"
  using list_contacts_stable [OF demo_wf] demo_wf by simp

lemma find_contact_iff:
  assumes wf: "wf_store st"
  shows "fst (find_contact_by_hash st h) = Some c \<longleftrightarrow>
    (\<exists>k. map_of (files st) k = Some (FJson c)) \<and> clean_of h \<in> set (contact_hashes c)"
proof
  assume f: "fst (find_contact_by_hash st h) = Some c"
  then obtain d where d: "find (\<lambda>c. clean_of h \<in> set (contact_hashes c)) (map snd (iter_contact_files st)) = Some d"
      "c = normalize_contact d"
    by (auto simp: find_contact_by_hash_def Let_def list_contacts_wf [OF wf] split: if_splits)
  then have mem: "d \<in> set (map snd (iter_contact_files st))" "clean_of h \<in> set (contact_hashes d)"
    by (auto simp: find_Some_iff)
  then obtain k where k: "map_of (files st) k = Some (FJson d)" using wf_contacts_at [OF wf] by blast
  then have "c = d" using d(2) wf_get [OF wf k] by (auto elim!: wf_fileE simp: normal_fixpoint)
  with k mem(2) show "(\<exists>k. map_of (files st) k = Some (FJson c)) \<and> clean_of h \<in> set (contact_hashes c)" by blast
next
  assume r: "(\<exists>k. map_of (files st) k = Some (FJson c)) \<and> clean_of h \<in> set (contact_hashes c)"
  then obtain k where k: "map_of (files st) k = Some (FJson c)" by blast
  have "find_contact_by_hash st (Some (clean_of h)) = (Some c, st)"
    using r by (intro find_contact_wf [OF wf k]) simp
  moreover have "clean_of (Some (clean_of h)) = clean_of h"
    using r wf_get [OF wf k] by (auto elim!: wf_fileE simp: contact_path_def)
  ultimately show "fst (find_contact_by_hash st h) = Some c"
    by (simp add: find_contact_by_hash_def Let_def split: if_splits)
qed

text \<open>On a clean directory a lookup finds a contact exactly when the contact is in
  some file and carries the hash as a LAN, serial or identity hash.\<close>

theorem find_contact_exact:
  assumes "wf_store st"
  shows "fst (find_contact_by_hash st h) = Some c \<longleftrightarrow>
    (\<exists>k. map_of (files st) k = Some (FJson c)) \<and> nocolon (py_strip (orE h)) \<in> set (contact_hashes c)"
  by (rule find_contact_iff [OF assms])

lemma find_contact_exact_witness:
  "wf_store demo \<and> fst (find_contact_by_hash demo (Some ''1d:02'')) = Some bob"
proof -
  have "nocolon (py_strip (orE (Some ''1d:02''))) \<in> set (contact_hashes bob)" by code_simp
  then have "fst (find_contact_by_hash demo (Some ''1d:02'')) = Some bob"
    using find_contact_exact [OF demo_wf] demo_bob by blast
  with demo_wf show ?thesis ..
qed

section \<open>Deleting\<close>

lemma delete_targets_one:
  assumes "set ts = {(k, c)}"
  shows "fold delete_target ts ([], False, st)
    = ([k], map_of (files st) (contact_path k) \<noteq> None, record_contact_deleted c (drop_file (contact_path k) st))"
proof -
  have idle: "fold delete_target us ([k], b, s) = ([k], b, s)" if "set us \<subseteq> {(k, c)}" for us b s
    using that by (induction us) (auto simp: delete_target_def)
  obtain us where ts: "ts = (k, c) # us" using assms by (cases ts) auto
  have "set us \<subseteq> {(k, c)}" using assms ts by auto
  then show ?thesis
    by (simp add: ts idle delete_target_def unlink_contact_file_def drop_file_def)
qed

lemma delete_contact_run:
  assumes wf: "wf_store st" and m: "map_of (files st) k = Some (FJson c)"
    and h: "h \<in> set (contact_hashes c)"
  shows "delete_contact st (Some h) = (True, record_contact_deleted c (drop_file k st))"
proof -
  from wf_get [OF wf m] have path: "\<And>h. h \<in> set (contact_hashes c) \<Longrightarrow> contact_path h = h"
    and k: "k = contact_primary_hash c" "k \<noteq> ''''" by (auto elim!: wf_fileE)
  then have pk: "contact_path k = k" using primary_in_hashes by simp
  have ch: "clean_of (Some h) = h" "h \<noteq> ''''"
    using path [OF h] h contact_hashes_nonempty by (auto simp: contact_path_def)
  have rel: "set (related_contact_files st c) = {(k, c)}" by (rule related_wf [OF wf m])
  then have ne: "related_contact_files st c \<noteq> []" by auto
  show ?thesis
    using delete_targets_one [OF rel] ne ch m pk
    by (simp add: delete_contact_def Let_def find_contact_wf [OF wf m h])
qed

lemma wf_store_drop: "wf_store st \<Longrightarrow> files st' = AList.delete k (files st) \<Longrightarrow> wf_store st'"
  by (auto simp: wf_store_def keys_delete)

text \<open>C3: deleting by any hash of a stored contact removes exactly that contact's file,
  keeps the directory clean, and from then on discovery rows that announce one of its
  hashes are refused by \<open>sync_contact_from_discovery\<close>.\<close>

theorem delete_contact_removes:
  assumes "wf_store st" and "map_of (files st) k = Some (FJson c)"
    and "h \<in> set (contact_hashes c)" and "delete_contact st (Some h) = (ok, st')"
  shows "ok \<and> files st' = AList.delete k (files st) \<and> wf_store st'
    \<and> fst (find_contact_by_hash st' (Some h)) = None
    \<and> (\<forall>peer eqv scope. nocolon (orE (p_hash peer)) \<in> set (contact_hashes c)
         \<longrightarrow> sync_contact_from_discovery st' peer eqv scope = (None, st'))"
proof -
  have st': "ok" "st' = record_contact_deleted c (drop_file k st)"
    using delete_contact_run [OF assms(1-3)] assms(4) by auto
  then have f: "files st' = AList.delete k (files st)" by (simp add: drop_file_def)
  then have wf: "wf_store st'" by (rule wf_store_drop [OF assms(1)])
  have blocked: "sync_contact_from_discovery st' peer eqv scope = (None, st')"
    if "hx (p_hash peer) \<in> set (contact_hashes c)" for peer eqv scope
    using that st'(2) record_deleted_hashes [of c "drop_file k st"]
    by (intro sync_blocked blocked_hash) auto
  have "fst (find_contact_by_hash st' (Some h)) \<noteq> Some d" for d
  proof
    assume "fst (find_contact_by_hash st' (Some h)) = Some d"
    then obtain j where j: "map_of (files st') j = Some (FJson d)" "clean_of (Some h) \<in> set (contact_hashes d)"
      using find_contact_iff [OF wf] by blast
    from assms(3) wf_get [OF assms(1,2)] have "clean_of (Some h) = h"
      by (auto elim!: wf_fileE simp: contact_path_def)
    with j(2) assms(3) have "should_merge_contacts c d" by (auto intro: should_merge_shared_hash)
    moreover have "apart c d"
      using j(1) f by (intro wf_apart [OF assms(1,2), of j]) (auto split: if_splits)
    ultimately show False by (simp add: apart_def)
  qed
  with st'(1) f wf blocked show ?thesis by auto
qed

lemma delete_contact_removes_witness:
  "case delete_contact demo (Some ''1d02'') of (ok, st') \<Rightarrow>
     ok \<and> map fst (files st') = [''aa01''] \<and> wf_store st'
     \<and> sync_contact_from_discovery st' (empty_peer\<lparr>p_hash := Some ''bb02''\<rparr>) None None = (None, st')"
proof -
  obtain ok st' where d: "delete_contact demo (Some ''1d02'') = (ok, st')" by fastforce
  have h: "''1d02'' \<in> set (contact_hashes bob)" "''bb02'' \<in> set (contact_hashes bob)" by code_simp+
  have "files st' = AList.delete ''bb02'' (files demo)" "ok" "wf_store st'"
      "sync_contact_from_discovery st' (empty_peer\<lparr>p_hash := Some ''bb02''\<rparr>) None None = (None, st')"
    using delete_contact_removes [OF demo_wf demo_bob h(1) d] h(2)
    by (auto simp: empty_peer_def py_remove_def)
  moreover from this(1) have "map fst (files st') = [''aa01'']" by (simp add: demo_def empty_store_def)
  ultimately show ?thesis using d by simp
qed

text \<open>C38: deleting a hash no contact carries and no file is named after changes nothing
  and reports that nothing was removed.\<close>

theorem delete_contact_unknown:
  assumes "wf_store st" and "clean = nocolon (py_strip (orE h))" and "contact_path clean = clean"
    and "map_of (files st) clean = None"
    and "\<And>k c. map_of (files st) k = Some (FJson c) \<Longrightarrow> clean \<notin> set (contact_hashes c)"
  shows "delete_contact st h = (False, st)"
proof -
  have c: "clean_of (Some clean) = clean" using assms(3) by (simp add: contact_path_def)
  have "fst (find_contact_by_hash st (Some clean)) \<noteq> Some d" for d
    unfolding find_contact_iff [OF assms(1)] c using assms(5) by blast
  moreover have "snd (find_contact_by_hash st (Some clean)) = st"
    by (simp add: find_contact_by_hash_def Let_def list_contacts_wf [OF assms(1)])
  ultimately have "find_contact_by_hash st (Some clean) = (None, st)" by (metis option.exhaust prod.collapse)
  moreover have "load_contact st clean = None" using assms(4) by (simp add: load_contact_def)
  ultimately show ?thesis
    using assms(2-4) by (simp add: delete_contact_def Let_def unlink_contact_file_def delete_idem
        dom_map_of_conv_image_fst [symmetric] domIff)
qed

lemma delete_contact_unknown_witness:
  "wf_store demo \<and> delete_contact demo (Some '' cc:03 '') = (False, demo)"
proof -
  have "''cc03'' \<notin> set (contact_hashes c)" if "map_of (files demo) k = Some (FJson c)" for k c
  proof -
    have "c = alice \<or> c = bob" using that by (auto simp: demo_def empty_store_def split: if_splits)
    moreover have "''cc03'' \<notin> set (contact_hashes alice)" "''cc03'' \<notin> set (contact_hashes bob)" by code_simp+
    ultimately show ?thesis by blast
  qed
  moreover have "nocolon (py_strip (orE (Some '' cc:03 ''))) = ''cc03''" "contact_path ''cc03'' = ''cc03''"
    by code_simp+
  moreover have "map_of (files demo) ''cc03'' = None" by (simp add: demo_def empty_store_def)
  ultimately show ?thesis
    using delete_contact_unknown [OF demo_wf, of "''cc03''" "Some '' cc:03 ''"] demo_wf by simp
qed

section \<open>Saving\<close>

lemma set_step_custom [simp]:
  "c_custom_name (set_ip ip c) = c_custom_name c" "c_custom_name (set_port p c) = c_custom_name c"
  "c_custom_name (set_lan_ident i c) = c_custom_name c" "c_custom_name (set_serial_ident i c) = c_custom_name c"
  "c_name (set_ip ip c) = c_name c" "c_name (set_port p c) = c_name c"
  "c_name (set_lan_ident i c) = c_name c" "c_name (set_serial_ident i c) = c_name c"
  by (simp_all add: set_ip_def set_port_def set_lan_ident_def set_serial_ident_def split: option.splits)

lemma set_step_hashes [simp]:
  "c_lan_hash (set_ip ip c) = c_lan_hash c" "c_lan_hash (set_port p c) = c_lan_hash c"
  "c_lan_hash (set_lan_ident i c) = c_lan_hash c" "c_lan_hash (set_serial_ident i c) = c_lan_hash c"
  "c_serial_hash (set_ip ip c) = c_serial_hash c" "c_serial_hash (set_port p c) = c_serial_hash c"
  "c_serial_hash (set_lan_ident i c) = c_serial_hash c" "c_serial_hash (set_serial_ident i c) = c_serial_hash c"
  by (simp_all add: set_ip_def set_port_def set_lan_ident_def set_serial_ident_def split: option.splits)

lemma apply_custom [simp]:
  "c_custom_name (apply_dual r l s c) = c_custom_name c" "c_name (apply_dual r l s c) = c_name c"
  "c_custom_name (apply_serial r k l s c) = c_custom_name c" "c_name (apply_serial r k l s c) = c_name c"
  "c_custom_name (apply_lan r k l s c) = c_custom_name c" "c_name (apply_lan r k l s c) = c_name c"
  by (simp_all add: apply_dual_def apply_serial_def apply_lan_def Let_def)

lemma custom_normalize_None [simp]:
  "c \<noteq> empty_contact \<Longrightarrow> c_custom_name (normalize_contact c) = Some (c_custom_name c = Some True)"
  by (simp add: normalize_contact_def)

lemma save_routed_frame [simp]:
  "c_custom_name (save_routed r k c) = c_custom_name c" "c_name (save_routed r k c) = c_name c"
  by (simp_all add: save_routed_def Let_def split: prod.split)

lemma custom_ne_empty: "c_custom_name c = Some b \<Longrightarrow> c \<noteq> empty_contact"
  by (auto simp: empty_contact_def)

lemma save_named_custom:
  "e \<noteq> empty_contact \<Longrightarrow> \<exists>b. c_custom_name (save_named r e) = Some b"
  by (auto simp: save_named_def Let_def normalize_contact_def custom_ne_empty)

text \<open>After the routing and one normalisation the final conflict test is never true.\<close>

lemma save_settle_normal: "normal_contact c \<Longrightarrow> save_settle c = c"
proof -
  assume n: "normal_contact c"
  then have "\<not> (hx (c_lan_hash c) \<noteq> '''' \<and> hx (c_serial_hash c) \<noteq> '''' \<and> hx (c_lan_hash c) = hx (c_serial_hash c))"
    by (auto simp: normal_contact_def)
  then show ?thesis unfolding save_settle_def Let_def by (simp only: if_False normal_fixpoint [OF n])
qed

lemma save_entry_eq:
  assumes "e \<noteq> empty_contact"
  shows "save_entry r clean e = normalize_contact (save_routed r clean (save_named r e))"
proof -
  have "save_routed r clean (save_named r e) \<noteq> empty_contact"
    using save_named_custom [OF assms, of r] custom_ne_empty by (metis save_routed_frame(1))
  then show ?thesis unfolding save_entry_def by (intro save_settle_normal normalize_normal)
qed

lemma save_entry_normal: "e \<noteq> empty_contact \<Longrightarrow> normal_contact (save_entry r clean e)"
  unfolding save_entry_eq
  by (rule normalize_custom_normal) (use save_named_custom [of e r] in auto)

text \<open>A transport hash survives normalisation, as one of the two transport hashes.\<close>

lemma norm_tail_hashes:
  "c_lan_hash (norm_custom (norm_fill_ident (norm_fill_hash d))) = c_lan_hash d"
  "c_serial_hash (norm_custom (norm_fill_ident (norm_fill_hash d))) = c_serial_hash d"
  "c_lan_hash (norm_serial_only d) = c_lan_hash d" "c_serial_hash (norm_serial_only d) = c_serial_hash d"
  "c_serial_hash (norm_adopt_hash d) = c_serial_hash d"
  "hx (c_lan_hash d) \<noteq> '''' \<Longrightarrow> c_lan_hash (norm_adopt_hash d) = c_lan_hash d"
  by (simp_all add: norm_custom_def norm_fill_ident_def norm_fill_hash_def norm_serial_only_def norm_adopt_hash_def)

lemma normalize_keeps_hash:
  assumes "x \<noteq> ''''" "hx (c_lan_hash c) = x \<or> hx (c_serial_hash c) = x"
  shows "hx (c_lan_hash (normalize_contact c)) = x \<or> hx (c_serial_hash (normalize_contact c)) = x"
proof (cases "c = empty_contact")
  case False
  let ?d = "norm_serial_only (norm_conflict c)"
  have d: "hx (c_lan_hash ?d) = x \<or> hx (c_serial_hash ?d) = x"
    unfolding norm_tail_hashes(3,4) using assms by (auto simp: norm_conflict_def)
  have n: "normalize_contact c = norm_custom (norm_fill_ident (norm_fill_hash (norm_adopt_hash ?d)))"
    using False by (simp only: normalize_contact_def if_False)
  show ?thesis unfolding n norm_tail_hashes(1,2,5)
    using d norm_tail_hashes(6) [of ?d] assms(1) by metis
qed (use assms in \<open>simp add: empty_contact_def\<close>)

lemma transport_hash_in:
  "x \<noteq> '''' \<Longrightarrow> hx (c_lan_hash c) = x \<or> hx (c_serial_hash c) = x \<Longrightarrow> x \<in> set (contact_hashes c)"
  using normalize_keeps_hash [of x c] by (auto simp: set_contact_hashes Let_def)

lemma save_routed_keeps_hash:
  assumes "clean_of (sr_lan_hash r) = ''''" "clean_of (sr_serial_hash r) = ''''" "nocolon clean = clean" "clean \<noteq> ''''"
  shows "hx (c_lan_hash (save_routed r clean e)) = clean \<or> hx (c_serial_hash (save_routed r clean e)) = clean"
  using assms
  by (simp add: save_routed_def save_mode_def Let_def apply_serial_def apply_lan_def)

lemma find_listed: "find P (fst (list_contacts st)) = Some c \<Longrightarrow> normal_contact c"
  by (rule list_contacts_normal [of c st]) (auto simp: find_Some_iff)

lemma find_normal: "fst (find_contact_by_hash st h) = Some c \<Longrightarrow> normal_contact c"
  by (metis find_contact_normal prod.collapse)

lemma save_lookup_normal: "save_lookup st k i d = (Some m, st') \<Longrightarrow> normal_contact m"
  unfolding save_lookup_def Let_def
  by (auto simp: case_prod_beta normal_fixpoint split: option.splits if_splits prod.splits
      dest!: find_listed find_normal)

lemma save_base_ne: "(case m of None \<Rightarrow> True | Some c \<Rightarrow> normal_contact c) \<Longrightarrow> save_base st k m \<noteq> empty_contact"
  by (auto simp: save_base_def dest: load_normal normal_not_empty split: option.splits)
     (auto simp: empty_contact_def)

lemma clear_deleted_files [simp]: "files (clear_contact_deleted c h st) = files st"
  by (simp add: clear_contact_deleted_def save_deleted_index_def Let_def)

lemma clear_deleted_hashes:
  "c \<noteq> empty_contact \<Longrightarrow>
   set (contact_hashes c) \<inter> set (d_hashes (load_deleted_index (clear_contact_deleted (Some c) h st))) = {}"
  by (auto simp: clear_contact_deleted_def index_empty_def save_deleted_index_def load_deleted_index_def
      Let_def contact_hashes_normalize)

text \<open>What a successful save leaves behind.\<close>

lemma save_contact_run:
  assumes "save_contact st h r = Inr (c, st')"
  obtains st1 merged where
    "clean_of h \<noteq> ''''"
    "save_lookup st (clean_of h) (sr_identity_hash r) (or_none (stripE (sr_name r))) = (merged, st1)"
    "c = save_entry r (clean_of h) (save_base st1 (clean_of h) merged)"
    "save_base st1 (clean_of h) merged \<noteq> empty_contact" "normal_contact c"
    "st' = clear_contact_deleted (Some c) (Some (clean_of h))
       (let k = py_or (contact_primary_hash c) (clean_of h);
            s = purge_stale_contact_files c k (write_contact k c st1)
        in if clean_of h \<noteq> k then drop_file (contact_path (clean_of h)) s else s)"
proof -
  let ?h = "clean_of h"
  obtain merged st1 where l: "save_lookup st ?h (sr_identity_hash r) (or_none (stripE (sr_name r))) = (merged, st1)"
    by fastforce
  have ne: "save_base st1 ?h merged \<noteq> empty_contact"
    using l save_lookup_normal by (intro save_base_ne) (auto split: option.split)
  have b: "?h \<noteq> ''''" using assms by (auto simp: save_contact_def)
  with assms l have c: "c = save_entry r ?h (save_base st1 ?h merged)" by (auto simp: save_contact_def Let_def)
  from assms l b c have st': "st' = clear_contact_deleted (Some c) (Some ?h)
       (let k = py_or (contact_primary_hash c) ?h;
            s = purge_stale_contact_files c k (write_contact k c st1)
        in if ?h \<noteq> k then drop_file (contact_path ?h) s else s)"
    by (auto simp: save_contact_def Let_def simp flip: unlink_drop)
  have "normal_contact c" unfolding c by (rule save_entry_normal [OF ne])
  from that [OF b l c ne this st'] show thesis .
qed

text \<open>C20: \<open>save_contact\<close> raises \<open>ValueError\<close> exactly for a blank hash; otherwise the
  returned record is in normal form and is what a load of its file (the primary hash, or
  the given hash if it has none) returns, no other hash of the record and no old spelling
  names a file any more, and none of its hashes is on the deleted list.  The hypothesis
  excludes hashes with white space at an end, which \<open>_contact_path\<close> would strip.\<close>

theorem save_contact_persists:
  assumes "\<And>c st'. save_contact st h r = Inr (c, st') \<Longrightarrow>
      (\<forall>x \<in> insert (nocolon (py_strip (orE h))) (set (contact_hashes c)). contact_path x = x)"
  shows "case save_contact st h r of
      Inl e \<Rightarrow> e = ValueError \<and> nocolon (py_strip (orE h)) = ''''
    | Inr (c, st') \<Rightarrow> (let clean = nocolon (py_strip (orE h)); k = py_or (contact_primary_hash c) clean in
        clean \<noteq> '''' \<and> normal_contact c \<and> map_of (files st') k = Some (FJson c)
        \<and> (c_name c \<noteq> None \<and> contact_primary_hash c \<noteq> '''' \<longrightarrow> load_contact st' k = Some c)
        \<and> (\<forall>x \<in> insert clean (set (contact_hashes c)). x \<noteq> k \<longrightarrow> map_of (files st') x = None)
        \<and> set (contact_hashes c) \<inter> set (d_hashes (load_deleted_index st')) = {})"
proof (cases "save_contact st h r")
  case (Inl e)
  then show ?thesis by (auto simp: save_contact_def Let_def split: if_splits prod.splits)
next
  case (Inr p)
  obtain c st' where p: "p = (c, st')" by fastforce
  define clean where "clean = clean_of h"
  define k where "k = py_or (contact_primary_hash c) clean"
  from save_contact_run [OF Inr [unfolded p]] obtain st1 where
    b: "clean \<noteq> ''''" and n: "normal_contact c" and
    st': "st' = clear_contact_deleted (Some c) (Some clean)
       (let s = purge_stale_contact_files c k (write_contact k c st1)
        in if clean \<noteq> k then drop_file (contact_path clean) s else s)"
    unfolding k_def clean_def by (auto simp: Let_def)
  have path: "contact_path x = x" if "x \<in> insert clean (set (contact_hashes c))" for x
    using assms [OF Inr [unfolded p]] that by (auto simp: clean_def)
  have kin: "k \<in> insert clean (set (contact_hashes c))"
    using primary_in_hashes [of c] by (auto simp: k_def py_or_def)
  have nck: "nocolon k = k" using contact_hashes_no_colon [of k c] kin by (auto simp: clean_def)
  define hs where "hs = filter (\<lambda>h. h \<noteq> k) (contact_hashes c)"
  have "map contact_path hs = hs" using path by (auto simp: hs_def intro: map_idI)
  then have f: "files st' = files (if clean \<noteq> k then drop_file clean (fold drop_file hs (put_file k (FJson c) st1))
        else fold drop_file hs (put_file k (FJson c) st1))"
    using path kin by (simp add: st' purge_stale_drops write_contact_put nck hs_def)
  have get: "map_of (files st') x = (if x \<noteq> k \<and> x \<in> insert clean (set hs) then None
       else if x = k then Some (FJson c) else map_of (files st1) x)" for x
    unfolding f using cdir.get_drops [of hs "put_file k (FJson c) st1" x]
    by (auto simp: cdir.get_put cdir.get_drop hs_def)
  have "set (contact_hashes c) \<inter> set (d_hashes (load_deleted_index st')) = {}"
    unfolding st' using n by (intro clear_deleted_hashes normal_not_empty)
  moreover have "load_contact st' k = Some c" if "c_name c \<noteq> None" "contact_primary_hash c \<noteq> ''''"
    using that n by (intro load_wf) (simp_all add: get k_def)
  moreover have "map_of (files st') k = Some (FJson c)" by (simp add: get)
  moreover have "\<forall>x \<in> insert clean (set (contact_hashes c)). x \<noteq> k \<longrightarrow> map_of (files st') x = None"
    by (simp add: get hs_def)
  ultimately show ?thesis
    unfolding Inr p sum.case prod.case Let_def clean_def [symmetric] k_def [symmetric] using b n by blast
qed

definition save_bob :: save_req where
  "save_bob = default_req\<lparr>sr_name := Some ''Bob'', sr_ip := Some '' 10.0.0.9 '', sr_port := Some (VStr ''8742'')\<rparr>"

lemma save_contact_ok:
  "clean_of h = clean \<Longrightarrow> clean \<noteq> '''' \<Longrightarrow>
   save_lookup st clean (sr_identity_hash r) (or_none (stripE (sr_name r))) = (merged, st1) \<Longrightarrow>
   \<exists>st'. save_contact st h r = Inr (save_entry r clean (save_base st1 clean merged), st')"
  by (simp add: save_contact_def Let_def)

definition saved_bob :: contact where
  "saved_bob = save_entry save_bob ''bb2'' (save_base empty_store ''bb2'' None)"

lemma save_bob_run: "\<exists>st'. save_contact empty_store (Some ''b:b2'') save_bob = Inr (saved_bob, st')"
  unfolding saved_bob_def by (rule save_contact_ok; code_simp)

lemma saved_bob_hashes: "contact_hashes saved_bob = [''bb2'']" "contact_primary_hash saved_bob = ''bb2''"
  by code_simp+

lemma save_contact_persists_witness:
  "\<exists>st'. save_contact empty_store (Some ''b:b2'') save_bob = Inr (saved_bob, st')
     \<and> map_of (files st') ''bb2'' = Some (FJson saved_bob)"
proof -
  obtain st' where s: "save_contact empty_store (Some ''b:b2'') save_bob = Inr (saved_bob, st')"
    using save_bob_run by blast
  have "contact_path ''bb2'' = ''bb2''" "nocolon (py_strip (orE (Some ''b:b2''))) = ''bb2''" by code_simp+
  then have "\<forall>x \<in> insert (nocolon (py_strip (orE (Some ''b:b2'')))) (set (contact_hashes c)). contact_path x = x"
    if "save_contact empty_store (Some ''b:b2'') save_bob = Inr (c, st')" for c st'
    using s that saved_bob_hashes by auto
  from save_contact_persists [of empty_store "Some ''b:b2''" save_bob, OF this] s
  show ?thesis by (simp add: Let_def saved_bob_hashes)
qed

lemma save_keeps_hash:
  assumes "e \<noteq> empty_contact" "clean_of (sr_lan_hash r) = ''''" "clean_of (sr_serial_hash r) = ''''"
    "nocolon clean = clean" "clean \<noteq> ''''"
  shows "clean \<in> set (contact_hashes (save_entry r clean e))"
  unfolding save_entry_eq [OF assms(1)] contact_hashes_normalize
  by (rule transport_hash_in [OF assms(5) save_routed_keeps_hash [OF assms(2-5)]])

text \<open>A save that names no transport hash of its own (\<open>lan_hash\<close> and \<open>serial_hash\<close>
  blank) stores the given hash: the record answers to it, whatever record the lookup by
  hash, identity or name found to start from.\<close>

theorem save_contact_answers:
  assumes "save_contact st h r = Inr (c, st')"
    and "nocolon (py_strip (orE (sr_lan_hash r))) = ''''" and "nocolon (py_strip (orE (sr_serial_hash r))) = ''''"
  shows "nocolon (py_strip (orE h)) \<in> set (contact_hashes c)"
  by (rule save_contact_run [OF assms(1)]) (use assms(2,3) in \<open>simp add: save_keeps_hash\<close>)

lemma save_contact_answers_witness: "''bb2'' \<in> set (contact_hashes saved_bob)"
proof -
  obtain st' where s: "save_contact empty_store (Some ''b:b2'') save_bob = Inr (saved_bob, st')"
    using save_bob_run by blast
  have "nocolon (py_strip (orE (Some ''b:b2''))) = ''bb2''" by code_simp
  moreover have "nocolon (py_strip (orE (sr_lan_hash save_bob))) = ''''"
      "nocolon (py_strip (orE (sr_serial_hash save_bob))) = ''''" by code_simp+
  ultimately show ?thesis using save_contact_answers [OF s] by simp
qed

section \<open>Refreshing from discovery\<close>

text \<open>A run of \<open>sync_contact_from_discovery\<close> that returns a record: it is the refreshed
  form of a listed contact that matches the row.\<close>

lemma sync_run:
  assumes "sync_contact_from_discovery st peer eqv scope = (Some e, st')"
  obtains c where "c \<in> set (fst (list_contacts st))" "contact_matches_discovery_peer c peer eqv"
    "e = fst (sync_entry peer scope c) \<or> e = normalize_contact (fst (sync_entry peer scope c))"
proof -
  from assms obtain c where c: "find (\<lambda>c. contact_matches_discovery_peer c peer eqv) (fst (list_contacts st)) = Some c"
    and e: "e = fst (sync_entry peer scope c) \<or> e = normalize_contact (fst (sync_entry peer scope c))"
    by (auto simp: sync_contact_from_discovery_def Let_def case_prod_beta split: if_splits option.splits)
  from c have "c \<in> set (fst (list_contacts st))" "contact_matches_discovery_peer c peer eqv"
    by (auto simp: find_Some_iff)
  with e that show thesis by blast
qed

lemma sync_step_frames:
  "c_name (fst (sync_serial peer c)) = c_name c" "c_custom_name (fst (sync_serial peer c)) = c_custom_name c"
  "c_ip (fst (sync_serial peer c)) = c_ip c" "c_port (fst (sync_serial peer c)) = c_port c"
  "c_hash (fst (sync_serial peer c)) = c_hash c" "c_lan_hash (fst (sync_serial peer c)) = c_lan_hash c"
  by (simp_all add: sync_serial_def Let_def)

lemma sync_lan_frames:
  "c_name (fst (sync_lan peer scope c)) = c_name c" "c_custom_name (fst (sync_lan peer scope c)) = c_custom_name c"
  "c_serial_hash (fst (sync_lan peer scope c)) = c_serial_hash c"
  by (simp_all add: sync_lan_def Let_def case_prod_beta split: option.split)

lemma sync_lan_ip: "c_ip (fst (sync_lan peer scope c)) = c_ip c
   \<or> (c_ip (fst (sync_lan peer scope c)) = Some (stripE (p_ip peer))
      \<and> (stripE (c_ip c) = '''' \<or> should_update_contact_ip (Some (stripE (c_ip c))) (Some (stripE (p_ip peer))) scope))"
  by (simp add: sync_lan_def Let_def case_prod_beta split: option.split)

lemma sync_name_custom: "c_custom_name c = Some True \<Longrightarrow> sync_name peer (c, b) = (c, b)"
  by (simp add: sync_name_def)

lemma sync_name_ip: "c_ip (fst (sync_name peer (c, b))) = c_ip c \<or>
    c_ip (fst (sync_name peer (c, b))) = c_ip (normalize_contact c)"
  by (auto simp: sync_name_def Let_def)

lemma ip_normalize [simp]: "c_ip (normalize_contact c) = c_ip c"
proof -
  have "c_ip (norm_conflict c) = c_ip c" "c_ip (norm_serial_only c) = c_ip c" "c_ip (norm_adopt_hash c) = c_ip c"
     "c_ip (norm_fill_hash c) = c_ip c" "c_ip (norm_fill_ident c) = c_ip c" "c_ip (norm_custom c) = c_ip c" for c
    by (simp_all add: norm_step_defs)
  then show ?thesis by (simp add: normalize_contact_def)
qed

lemma sync_entry_custom:
  assumes "is_custom c"
  shows "c_name (fst (sync_entry peer scope c)) = c_name c \<and> is_custom (fst (sync_entry peer scope c))"
proof -
  let ?s = "if peer_transport_family (p_via peer) = ''serial''
    then sync_serial peer (normalize_contact c) else sync_lan peer scope (normalize_contact c)"
  have "c_name (fst ?s) = c_name c" "c_custom_name (fst ?s) = Some True"
    using assms by (simp_all add: sync_step_frames sync_lan_frames is_custom_def)
  then show ?thesis using sync_name_custom [of "fst ?s" peer "snd ?s"]
    by (simp add: sync_entry_def Let_def is_custom_def)
qed

text \<open>Discovery never renames a contact the user named: the refreshed record of a
  contact with \<open>custom_name\<close> keeps the saved name and the flag.\<close>

theorem sync_keeps_custom_name:
  assumes "sync_contact_from_discovery st peer eqv scope = (Some e, st')"
  shows "\<exists>c \<in> set (fst (list_contacts st)). contact_matches_discovery_peer c peer eqv
     \<and> (c_custom_name c = Some True \<longrightarrow> c_name e = c_name c \<and> c_custom_name e = Some True)"
proof (rule sync_run [OF assms])
  fix c assume c: "c \<in> set (fst (list_contacts st))" "contact_matches_discovery_peer c peer eqv"
    and e: "e = fst (sync_entry peer scope c) \<or> e = normalize_contact (fst (sync_entry peer scope c))"
  have "c_name e = c_name c \<and> c_custom_name e = Some True" if "c_custom_name c = Some True"
    using sync_entry_custom [of c peer scope] that e by (auto simp: is_custom_def)
  with c show ?thesis by blast
qed

lemma update_ip_scope:
  "peer_in_scope a scope \<Longrightarrow> should_update_contact_ip (Some (stripE a)) (Some b) scope
   \<Longrightarrow> peer_in_scope (Some b) scope"
  by (auto simp: should_update_contact_ip_def peer_in_scope_def Let_def split: if_splits)

lemma sync_entry_scope:
  "peer_in_scope (c_ip c) scope \<Longrightarrow> peer_in_scope (c_ip (fst (sync_entry peer scope c))) scope"
proof -
  assume p: "peer_in_scope (c_ip c) scope"
  let ?s = "if peer_transport_family (p_via peer) = ''serial''
    then sync_serial peer (normalize_contact c) else sync_lan peer scope (normalize_contact c)"
  have ne: "stripE (c_ip c) \<noteq> ''''" using p by (auto simp: peer_in_scope_def)
  have "peer_in_scope (c_ip (fst ?s)) scope"
    using sync_lan_ip [of peer scope "normalize_contact c"] p ne update_ip_scope [OF p, of "stripE (p_ip peer)"]
    by (auto simp: sync_step_frames)
  then show ?thesis using sync_name_ip [of peer "fst ?s" "snd ?s"]
    by (simp add: sync_entry_def Let_def)
qed

lemma sync_match:
  "hx (p_hash peer) \<noteq> '''' \<Longrightarrow> \<not> peer_is_deleted st peer \<Longrightarrow>
   find (\<lambda>c. contact_matches_discovery_peer c peer eqv) (fst (list_contacts st)) = Some c \<Longrightarrow>
   \<exists>e st'. sync_contact_from_discovery st peer eqv scope = (Some e, st')"
  by (cases "snd (sync_entry peer scope c)")
     (simp_all add: sync_contact_from_discovery_def Let_def case_prod_beta)

text \<open>Alice's address announces a new hash and another name.\<close>

definition moved_alice :: peer where
  "moved_alice = empty_peer\<lparr>p_hash := Some ''aa77'', p_name := Some ''Mallory'',
     p_ip := Some ''10.0.0.5'', p_via := Some ''beacon''\<rparr>"

lemma demo_list: "list_contacts demo = ([alice, bob], demo)"
proof -
  have "map snd (iter_contact_files demo) = [alice, bob]" by code_simp
  then show ?thesis by (simp add: list_contacts_wf [OF demo_wf])
qed

lemma demo_sync: "\<exists>e st'. sync_contact_from_discovery demo moved_alice None (Some ''10.0.0.1'') = (Some e, st')"
proof (rule sync_match)
  show "hx (p_hash moved_alice) \<noteq> ''''" "\<not> peer_is_deleted demo moved_alice" by code_simp+
  have "contact_matches_discovery_peer alice moved_alice None" by code_simp
  then show "find (\<lambda>c. contact_matches_discovery_peer c moved_alice None) (fst (list_contacts demo)) = Some alice"
    by (simp add: demo_list)
qed

lemma bob_unmatched: "\<not> contact_matches_discovery_peer bob moved_alice None"
  by code_simp

lemma sync_keeps_custom_name_witness:
  "\<exists>e st'. sync_contact_from_discovery demo moved_alice None (Some ''10.0.0.1'') = (Some e, st')
     \<and> c_name e = Some ''Alice''"
proof -
  obtain e st' where s: "sync_contact_from_discovery demo moved_alice None (Some ''10.0.0.1'') = (Some e, st')"
    using demo_sync by blast
  have "c_custom_name alice = Some True" "c_name alice = Some ''Alice''" by code_simp+
  with sync_keeps_custom_name [OF s] bob_unmatched s show ?thesis by (auto simp: demo_list)
qed

text \<open>Discovery never moves a contact off the pinned LAN: a matched contact whose
  saved address is on the scope of the local address keeps an address on it.\<close>

theorem sync_keeps_scope:
  assumes "sync_contact_from_discovery st peer eqv scope = (Some e, st')"
  shows "\<exists>c \<in> set (fst (list_contacts st)). contact_matches_discovery_peer c peer eqv
     \<and> (peer_in_scope (c_ip c) scope \<longrightarrow> peer_in_scope (c_ip e) scope)"
proof (rule sync_run [OF assms])
  fix c assume c: "c \<in> set (fst (list_contacts st))" "contact_matches_discovery_peer c peer eqv"
    and e: "e = fst (sync_entry peer scope c) \<or> e = normalize_contact (fst (sync_entry peer scope c))"
  have "peer_in_scope (c_ip e) scope" if "peer_in_scope (c_ip c) scope"
    using sync_entry_scope [OF that, of peer] e by auto
  with c show ?thesis by blast
qed


lemma sync_keeps_scope_witness:
  "\<exists>e st'. sync_contact_from_discovery demo moved_alice None (Some ''10.0.0.1'') = (Some e, st')
     \<and> peer_in_scope (c_ip e) (Some ''10.0.0.1'')"
proof -
  obtain e st' where s: "sync_contact_from_discovery demo moved_alice None (Some ''10.0.0.1'') = (Some e, st')"
    using demo_sync by blast
  have "peer_in_scope (c_ip alice) (Some ''10.0.0.1'')" by code_simp
  with sync_keeps_scope [OF s] bob_unmatched s show ?thesis by (auto simp: demo_list)
qed

section \<open>Normal form and merging\<close>

text \<open>Everything \<open>list_contacts\<close> and \<open>find_contact_by_hash\<close> return, whatever the
  files contain (plain text, broken JSON, split or conflicting records), is in the
  dual-hash normal form.\<close>

theorem listed_contacts_normal:
  "(\<forall>c \<in> set (fst (list_contacts st)). normal_contact c)
   \<and> (case fst (find_contact_by_hash st h) of None \<Rightarrow> True | Some c \<Rightarrow> normal_contact c)"
  using list_contacts_normal find_normal by (auto split: option.split)

lemma listed_contacts_normal_witness:
  "normal_contact alice \<and> normal_contact bob"
  using listed_contacts_normal [of demo None] by (simp add: demo_list)

text \<open>\<open>normalize_contact\<close> is idempotent, gives every non-empty record the normal form,
  and changes neither the name nor the address.\<close>

theorem normalize_contact_normalises:
  "normalize_contact (normalize_contact c) = normalize_contact c
   \<and> (c = empty_contact \<or> normal_contact (normalize_contact c))
   \<and> c_name (normalize_contact c) = c_name c \<and> c_ip (normalize_contact c) = c_ip c"
  using normalize_normal by auto

text \<open>Whether two records are files of one peer does not depend on their order, a
  record always belongs with itself when it has a hash, and records that share a hash
  belong together.\<close>

theorem should_merge_symmetric:
  "should_merge_contacts a b = should_merge_contacts b a
   \<and> (contact_hashes a = [] \<or> should_merge_contacts a a)
   \<and> (set (contact_hashes a) \<inter> set (contact_hashes b) = {} \<or> should_merge_contacts a b)"
proof (intro conjI)
  show "should_merge_contacts a b = should_merge_contacts b a" by (rule should_merge_sym)
  show "contact_hashes a = [] \<or> should_merge_contacts a a"
    using should_merge_shared_hash [of _ a a] by (cases "contact_hashes a") auto
  show "set (contact_hashes a) \<inter> set (contact_hashes b) = {} \<or> should_merge_contacts a b"
    using should_merge_shared_hash [of _ a b] by auto
qed

section \<open>What the model shows about the deleted list and the name match\<close>

text \<open>
  \<open>clear_contact_deleted\<close> is documented to remove a peer from the blocklist, but it
  never touches the blocked names: a peer whose name was blocked stays blocked.
\<close>

lemma clear_keeps_names:
  "set (d_names (load_deleted_index (clear_contact_deleted c h st))) = set (d_names (load_deleted_index st))"
  by (simp add: clear_contact_deleted_def save_deleted_index_def load_deleted_index_def Let_def)

lemma name_stays_blocked:
  assumes "py_lower (stripE (p_name peer)) \<in> set (d_names (load_deleted_index st))"
    and "stripE (p_name peer) \<noteq> ''''"
  shows "sync_contact_from_discovery (clear_contact_deleted c h st) peer eqv scope
    = (None, clear_contact_deleted c h st)"
proof (rule sync_blocked)
  show "peer_is_deleted (clear_contact_deleted c h st) peer"
    using assms clear_keeps_names [of c h st]
    by (auto simp: peer_is_deleted_def index_empty_def Let_def)
qed

text \<open>
  After \<open>sync_contact_from_discovery\<close> moved a LAN contact to a new hash, the file of the
  old hash is still there: \<open>stale.update(entry)\<close> replaced the old hash in the record
  whose hashes are purged.  The next listing merges both files under the lower name.
\<close>

definition only_bob :: cstore where
  "only_bob = empty_store\<lparr>files := [(''bb02'', FJson bob)]\<rparr>"

definition moved_bob :: peer where
  "moved_bob = empty_peer\<lparr>p_hash := Some ''cc03'', p_name := Some ''Bob'', p_ip := Some ''10.0.0.9'', p_via := Some ''rns''\<rparr>"

lemma sync_leaves_old_file:
  "case sync_contact_from_discovery only_bob moved_bob None None of (e, st') \<Rightarrow>
     map_option contact_primary_hash e = Some ''cc03''
     \<and> map contact_primary_hash (fst (list_contacts st')) = [''bb02'']"
  by code_simp

text \<open>
  Saving a contact whose name is the beginning of another contact's name starts from that
  other contact's record and drops its file.
\<close>

definition save_bo :: save_req where
  "save_bo = default_req\<lparr>sr_name := Some ''Bo''\<rparr>"

lemma save_takes_over_prefix_name:
  "case save_contact only_bob (Some ''cc03'') save_bo of
     Inl _ \<Rightarrow> False
   | Inr (c, st') \<Rightarrow> c_ip c = c_ip bob \<and> c_identity_hash c = c_identity_hash bob"
proof -
  have l: "save_lookup only_bob ''cc03'' (sr_identity_hash save_bo) (or_none (stripE (sr_name save_bo))) = (Some bob, only_bob)"
    by code_simp
  have h: "clean_of (Some ''cc03'') = ''cc03''" by code_simp
  have "c_ip (save_entry save_bo ''cc03'' bob) = c_ip bob"
    "c_identity_hash (save_entry save_bo ''cc03'' bob) = c_identity_hash bob" by code_simp+
  then show ?thesis using save_contact_ok [OF h _ l] by (auto simp: save_base_def)
qed

end
