(* ===== verification/UdpTargets.thy ===== *)
theory UdpTargets
  imports LanScope
begin

text \<open>
  The LAN target lists: the known peer addresses of \<open>chatxz/core/lan_rns.py\<close>
  (\<open>_known_peer_ips\<close>) and the broadcast and unicast lists of
  \<open>chatxz/core/lan_targets.py\<close>.  The Python set is a list without repetition.  Network
  interface entries come from the platform and are records of the keys the code reads.
\<close>

section \<open>Known peer addresses\<close>

definition register_udp_peer_ip :: "string option \<Rightarrow> string list \<Rightarrow> string list" where
  "register_udp_peer_ip ip known = (let host = py_strip (orE ip) in
     if host = '''' \<or> prefix ''127.'' host \<or> prefix ''169.254.'' host then known
     else List.insert host known)"

definition unregister_udp_peer_ip :: "string option \<Rightarrow> string list \<Rightarrow> string list" where
  "unregister_udp_peer_ip ip known = (let host = py_strip (orE ip) in
     if host \<noteq> '''' then removeAll host known else known)"

definition prune_known_udp_peer_ips :: "string option \<Rightarrow> string list \<Rightarrow> int \<times> string list" where
  "prune_known_udp_peer_ips scope_ip known = (let scope = py_strip (orE scope_ip) in
     if scope = '''' then (0, known)
     else let kept = filter (\<lambda>host. peer_in_scope (Some host) (Some scope)) known
          in (int (length known) - int (length kept), kept))"

definition known_udp_peer_ips :: "string list \<Rightarrow> string list" where
  "known_udp_peer_ips known = sort known"

definition known_ok :: "string list \<Rightarrow> bool" where
  "known_ok known \<longleftrightarrow> distinct known \<and> (\<forall>h \<in> set known. h \<noteq> '''' \<and> py_strip h = h
     \<and> \<not> prefix ''127.'' h \<and> \<not> prefix ''169.254.'' h)"

datatype udp_event = Register "string option" | Unregister "string option" | Prune "string option"

fun udp_step :: "udp_event \<Rightarrow> string list \<Rightarrow> string list" where
  "udp_step (Register ip) known = register_udp_peer_ip ip known"
| "udp_step (Unregister ip) known = unregister_udp_peer_ip ip known"
| "udp_step (Prune scope) known = snd (prune_known_udp_peer_ips scope known)"

interpretation udp: step_system udp_step "\<lambda>_. True" known_ok
proof
  fix e known assume ok: "known_ok known"
  show "known_ok (udp_step e known)"
    using ok by (cases e)
      (auto simp: known_ok_def register_udp_peer_ip_def unregister_udp_peer_ip_def prune_known_udp_peer_ips_def
         Let_def distinct_removeAll)
qed

text \<open>After any sequence of registrations, removals and scope changes the cached UDP
  targets are distinct, stripped, and never loopback or link-local addresses; a scope
  change leaves exactly the cached addresses on the scope.\<close>

theorem udp_targets_clean:
  "known_ok (fold udp_step es [])
   \<and> (py_strip scope = '''' \<or> set (udp_step (Prune (Some scope)) (fold udp_step es []))
       = {h \<in> set (fold udp_step es []). peer_in_scope (Some h) (Some (py_strip scope))})"
  using udp.run_inv [of es "[]"]
  by (auto simp: known_ok_def prune_known_udp_peer_ips_def Let_def)

section \<open>Broadcast and unicast lists\<close>

record iface =
  if_up :: bool
  if_broadcast :: "string option"
  if_subnet_broadcast :: "string option"
  if_kind :: "string option"
  if_gateway :: bool

definition up_broadcast_ifaces :: "iface list \<Rightarrow> iface list" where
  "up_broadcast_ifaces = filter (\<lambda>i. if_up i \<and> truthy (if_broadcast i) \<and> if_kind i \<noteq> Some ''vpn'')"

text \<open>\<open>entries\<close> are the host's interfaces, \<open>scoped\<close> those the user's preference leaves.\<close>

definition broadcast_interface_entries :: "bool \<Rightarrow> bool \<Rightarrow> iface list \<Rightarrow> iface list \<Rightarrow> iface list" where
  "broadcast_interface_entries android preference entries scoped = (
     if android then entries
     else let gateway = up_broadcast_ifaces (filter if_gateway scoped);
              physical = up_broadcast_ifaces (filter (\<lambda>i. if_kind i \<in> {Some ''wifi'', Some ''ethernet''}) scoped);
              active = up_broadcast_ifaces scoped in
       if \<not> preference \<and> gateway \<noteq> [] then gateway
       else if \<not> preference \<and> physical \<noteq> [] then take 2 physical
       else if active \<noteq> [] then active
       else up_broadcast_ifaces (filter if_gateway entries))"

text \<open>\<open>if x not in xs: xs.append(x)\<close>.\<close>

definition append_new :: "'a \<Rightarrow> 'a list \<Rightarrow> 'a list" where
  "append_new x xs = (if x \<in> set xs then xs else xs @ [x])"

definition iface_targets :: "iface list \<Rightarrow> string list" where
  "iface_targets entries = fold (\<lambda>c ts. if truthy c then append_new (orE c) ts else ts)
     (concat (map (\<lambda>i. [if_broadcast i, if_subnet_broadcast i]) entries)) []"

definition directed_broadcasts :: "iface list \<Rightarrow> string option \<Rightarrow> string option \<Rightarrow> string list" where
  "directed_broadcasts entries ip0 lan_ip = (
     let targets = iface_targets entries; ip = (if truthy ip0 then orE ip0 else orE lan_ip);
         parts = py_split (CHR ''.'') ip;
         directed = parts ! 0 @ ''.'' @ parts ! 1 @ ''.'' @ parts ! 2 @ ''.255'';
         targets = (if ip \<noteq> '''' \<and> length parts = 4 \<and> directed \<notin> set targets then directed # targets else targets)
     in append_new ''255.255.255.255'' targets)"

text \<open>Decimal digits of a host number below 1000.\<close>

definition digit :: "nat \<Rightarrow> char" where
  "digit n = char_of (48 + n mod 10)"

definition dec3 :: "nat \<Rightarrow> string" where
  "dec3 n = (if n < 10 then [digit n] else if n < 100 then [digit (n div 10), digit n]
     else [digit (n div 100), digit (n div 10), digit n])"

definition sample_hosts :: "nat list" where
  "sample_hosts = [1, 2, 3, 4, 5, 10, 20, 50, 100, 101, 102, 103, 104, 105, 110, 120, 150, 200, 254]"

definition sample_subnet_hosts :: "bool \<Rightarrow> string \<Rightarrow> string \<Rightarrow> string list" where
  "sample_subnet_hosts android base my_host = fold (\<lambda>i hosts.
       if dec3 i = my_host then hosts else append_new (base @ ''.'' @ dec3 i) hosts)
     (sample_hosts @ (if android then [2..<32] @ [100..<116] else [])) []"

definition known_hosts :: "string option list \<Rightarrow> string list" where
  "known_hosts hs = fold (\<lambda>h ts. let host = py_strip (orE h) in if host \<noteq> '''' then append_new host ts else ts) hs []"

definition efficient_unicast_hosts ::
  "bool \<Rightarrow> string option \<Rightarrow> string option list \<Rightarrow> string option \<Rightarrow> string option \<Rightarrow> string list" where
  "efficient_unicast_hosts android ip0 known_ips peer_ip lan_ip = (
     let targets = known_hosts known_ips;
         host = py_strip (orE peer_ip);
         targets = (if truthy peer_ip \<and> host \<noteq> '''' \<and> host \<notin> set targets then host # targets else targets);
         ip = (if truthy ip0 then orE ip0 else orE lan_ip); parts = py_split (CHR ''.'') ip
     in if ip = '''' \<or> length parts \<noteq> 4 then targets
        else fold append_new (sample_subnet_hosts android
               (parts ! 0 @ ''.'' @ parts ! 1 @ ''.'' @ parts ! 2) (parts ! 3)) targets)"

lemma append_new_distinct: "distinct xs \<Longrightarrow> distinct (append_new x xs)"
  by (simp add: append_new_def)

lemma append_new_set [simp]: "set (append_new x xs) = insert x (set xs)"
  by (auto simp: append_new_def)

lemma fold_distinct: "(\<And>x ys. distinct ys \<Longrightarrow> distinct (f x ys)) \<Longrightarrow> distinct ys \<Longrightarrow> distinct (fold f xs ys)"
  by (induction xs arbitrary: ys) auto

lemma fold_append_new_set: "set (fold append_new xs ys) = set xs \<union> set ys"
  by (induction xs arbitrary: ys) auto

lemma fold_append_new_prefix: "\<exists>zs. fold append_new xs ys = ys @ zs"
proof (induction xs arbitrary: ys)
  case (Cons x xs)
  from Cons [of "append_new x ys"] show ?case by (auto simp: append_new_def)
qed simp

definition stripped_hosts :: "string option list \<Rightarrow> string set" where
  "stripped_hosts hs = (\<lambda>h. py_strip (orE h)) ` set hs - {''''}"

lemma stripped_hosts_Cons:
  "stripped_hosts (h # hs) = (if py_strip (orE h) = '''' then stripped_hosts hs
     else insert (py_strip (orE h)) (stripped_hosts hs))"
  by (auto simp: stripped_hosts_def)

lemma py_strip_ne: "py_strip s \<noteq> '''' \<Longrightarrow> s \<noteq> ''''"
  by auto

lemma sample_fold:
  "h \<in> set (fold (\<lambda>i hosts. if dec3 i = my then hosts else append_new (base @ ''.'' @ dec3 i) hosts) is hs)
   \<Longrightarrow> h \<in> set hs \<or> (\<exists>i. h = base @ ''.'' @ dec3 i \<and> dec3 i \<noteq> my)"
  by (induction "is" arbitrary: hs) (fastforce split: if_splits)+

lemma fold_known_set:
  "set (fold (\<lambda>h ts. let host = py_strip (orE h) in if host \<noteq> '''' then append_new host ts else ts) hs ts) = stripped_hosts hs \<union> set ts"
  by (induction hs arbitrary: ts) (auto simp: stripped_hosts_def Let_def)

lemma known_hosts_set [simp]: "set (known_hosts hs) = stripped_hosts hs"
  by (simp add: known_hosts_def fold_known_set)

lemma known_hosts_distinct [simp]: "distinct (known_hosts hs)"
  unfolding known_hosts_def by (rule fold_distinct) (simp_all add: append_new_distinct Let_def)

text \<open>The unicast list has no duplicates, contains every non-blank known address and the
  address of the peer at hand, and adds only addresses of the local /24 sample, never the
  host's own address.\<close>

theorem unicast_hosts:
  "distinct (efficient_unicast_hosts android ip known peer_ip lan_ip)
   \<and> stripped_hosts (peer_ip # known) \<subseteq> set (efficient_unicast_hosts android ip known peer_ip lan_ip)
   \<and> set (efficient_unicast_hosts android ip known peer_ip lan_ip) \<subseteq> stripped_hosts (peer_ip # known)
       \<union> {h. \<exists>a b c i my. py_split (CHR ''.'') (if truthy ip then orE ip else orE lan_ip) = [a, b, c, my]
            \<and> h = a @ ''.'' @ b @ ''.'' @ c @ ''.'' @ dec3 i \<and> dec3 i \<noteq> my}"
proof -
  define parts where "parts = py_split (CHR ''.'') (if truthy ip then orE ip else orE lan_ip)"
  define T where "T = (if truthy peer_ip \<and> py_strip (orE peer_ip) \<noteq> '''' \<and> py_strip (orE peer_ip) \<notin> set (known_hosts known)
      then py_strip (orE peer_ip) # known_hosts known else known_hosts known)"
  define S where "S = sample_subnet_hosts android (parts ! 0 @ ''.'' @ parts ! 1 @ ''.'' @ parts ! 2) (parts ! 3)"
  have run: "efficient_unicast_hosts android ip known peer_ip lan_ip = T
      \<or> (length parts = 4 \<and> efficient_unicast_hosts android ip known peer_ip lan_ip = fold append_new S T)"
    by (cases "length parts = 4"; cases "(if truthy ip then orE ip else orE lan_ip) = ''''")
       (simp_all only: efficient_unicast_hosts_def Let_def S_def T_def parts_def simp_thms if_True if_False)
  have t: "set T = stripped_hosts (peer_ip # known)" "distinct T"
    unfolding T_def by (auto simp: stripped_hosts_Cons truthy_def dest: py_strip_ne)
  have d: "distinct (fold append_new S T)"
    using t(2) by (intro fold_distinct append_new_distinct)
  have sub: "\<exists>a b c i my. parts = [a, b, c, my] \<and> h = a @ ''.'' @ b @ ''.'' @ c @ ''.'' @ dec3 i \<and> dec3 i \<noteq> my"
    if h: "h \<in> set S" and l: "length parts = 4" for h
  proof -
    from l obtain a b c my where p: "parts = [a, b, c, my]"
      by (auto simp: numeral_eq_Suc length_Suc_conv)
    then have n: "parts ! 0 = a" "parts ! 1 = b" "parts ! 2 = c" "parts ! 3 = my" by simp_all
    from h have "h \<in> set (fold (\<lambda>i hosts. if dec3 i = my then hosts else append_new ((a @ ''.'' @ b @ ''.'' @ c) @ ''.'' @ dec3 i) hosts)
        (sample_hosts @ (if android then [2..<32] @ [100..<116] else [])) [])"
      unfolding S_def sample_subnet_hosts_def n .
    then have "\<exists>i. h = (a @ ''.'' @ b @ ''.'' @ c) @ ''.'' @ dec3 i \<and> dec3 i \<noteq> my"
      by (rule sample_fold [THEN disjE]) simp_all
    with p show ?thesis by auto
  qed
  from run show ?thesis
  proof
    assume "efficient_unicast_hosts android ip known peer_ip lan_ip = T"
    then show ?thesis using t by simp
  next
    assume r: "length parts = 4 \<and> efficient_unicast_hosts android ip known peer_ip lan_ip = fold append_new S T"
    then have "set (efficient_unicast_hosts android ip known peer_ip lan_ip) = set S \<union> stripped_hosts (peer_ip # known)"
      using t(1) by (simp add: fold_append_new_set)
    moreover have "set S \<subseteq> {h. \<exists>a b c i my. parts = [a, b, c, my]
        \<and> h = a @ ''.'' @ b @ ''.'' @ c @ ''.'' @ dec3 i \<and> dec3 i \<noteq> my}"
      using sub r by (intro subsetI CollectI) simp
    moreover have "distinct (efficient_unicast_hosts android ip known peer_ip lan_ip)" using r d by simp
    ultimately show ?thesis unfolding parts_def [symmetric] by blast
  qed
qed

lemma unicast_hosts_witness:
  "efficient_unicast_hosts False (Some ''10.0.0.5'') [Some '' 10.0.0.9 ''] None None
     = [''10.0.0.9''] @ map (\<lambda>i. ''10.0.0.'' @ dec3 i) (removeAll 5 sample_hosts)
   \<and> stripped_hosts [None, Some '' 10.0.0.9 '']
     \<subseteq> set (efficient_unicast_hosts False (Some ''10.0.0.5'') [Some '' 10.0.0.9 ''] None None)"
proof
  show "efficient_unicast_hosts False (Some ''10.0.0.5'') [Some '' 10.0.0.9 ''] None None
     = [''10.0.0.9''] @ map (\<lambda>i. ''10.0.0.'' @ dec3 i) (removeAll 5 sample_hosts)" by code_simp
  show "stripped_hosts [None, Some '' 10.0.0.9 '']
     \<subseteq> set (efficient_unicast_hosts False (Some ''10.0.0.5'') [Some '' 10.0.0.9 ''] None None)"
    using unicast_hosts by blast
qed

end
