(* ===== verification/RnsPaths.thy ===== *)
theory RnsPaths
  imports UdpTargets
begin

text \<open>
  The path-table helpers of \<open>chatxz/core/lan_rns.py\<close>: which family an RNS interface is
  of, whether it is healthy, and the operations that pin a peer to USB and prune cached
  paths.  \<open>RNS.Transport\<close> is a state record of the attributes the code reads: the path
  table, the announce table and the interfaces; \<open>request_path\<close> is RNS code and is only
  recorded.  An interface is the record of the attributes read through \<open>getattr\<close>.
\<close>

section \<open>Interfaces\<close>

record owner =
  o_detached :: bool
  o_online :: "bool option"
  o_spawned :: "string list option"     \<comment> \<open>keys of \<open>spawned_interfaces\<close>\<close>
  o_timed_out :: "string list option"   \<comment> \<open>names whose value is \<open>True\<close>\<close>

record rns_iface =
  i_id :: nat                           \<comment> \<open>object identity\<close>
  i_class :: string                     \<comment> \<open>\<open>type(iface).__name__\<close>\<close>
  i_text :: string                      \<comment> \<open>\<open>str(iface)\<close>\<close>
  i_detached :: bool
  i_online :: "bool option"
  i_port :: "string option"
  i_addr :: "string option"
  i_ifname :: "string option"
  i_owner :: "owner option"

record host =
  h_android :: bool
  h_physical_lan :: bool

definition interface_family :: "rns_iface option \<Rightarrow> string" where
  "interface_family iface = (case iface of None \<Rightarrow> '''' | Some i \<Rightarrow>
     let name = py_lower (i_class i); text = py_lower (i_text i) in
     if substr ''serial'' name \<or> substr ''tty'' text then ''serial''
     else if substr ''tcpclient'' name \<or> substr ''tcpserver'' name \<or> substr ''tcpinterface'' name then ''tcp''
     else if substr ''autointerfacepeer'' name \<or> substr ''auto'' name then ''lan''
     else if substr ''udp'' name then ''udp''
     else ''other'')"

definition lan_families :: "string list" where
  "lan_families = [''udp'', ''lan'', ''tcp'']"

definition is_lan_family :: "string \<Rightarrow> bool" where
  "is_lan_family family \<longleftrightarrow> family \<in> set lan_families"

definition owner_healthy :: "rns_iface \<Rightarrow> owner \<Rightarrow> bool" where
  "owner_healthy i owner = (
     if o_detached owner then False
     else if o_online owner = Some False then False
     else if (case (o_spawned owner, i_addr i) of (Some spawned, Some addr) \<Rightarrow> addr \<notin> set spawned | _ \<Rightarrow> False)
     then False
     else if truthy (i_ifname i)
             \<and> (case o_timed_out owner of None \<Rightarrow> False | Some names \<Rightarrow> orE (i_ifname i) \<in> set names) then False
     else True)"

definition interface_is_healthy :: "host \<Rightarrow> rns_iface option \<Rightarrow> bool" where
  "interface_is_healthy h iface = (case iface of None \<Rightarrow> False | Some i \<Rightarrow>
     if i_detached i then False
     else if i_online i = Some False then False
     else if interface_family iface \<in> {''udp'', ''lan''} \<and> \<not> h_android h \<and> \<not> h_physical_lan h then False
     else (case i_owner i of None \<Rightarrow> True | Some owner \<Rightarrow> owner_healthy i owner))"

section \<open>State\<close>

text \<open>A path entry: RNS lists of more than five elements, of which the code reads the hop
  count and the interface; anything shorter is ignored.\<close>

datatype path_entry = Short | Path (hops: "int option") (path_iface: "rns_iface option")

record rns =
  path_table :: "(nat list, path_entry) pydict"
  announce_table :: "(nat list, rns_iface option) pydict"
  interfaces :: "(rns_iface \<times> rns_iface list) list"   \<comment> \<open>with their spawned children\<close>
  serial_pins :: "string list"
  requests :: "(nat list \<times> rns_iface option) list"

definition iter_transport_interfaces :: "rns \<Rightarrow> rns_iface list" where
  "iter_transport_interfaces t = concat (map (\<lambda>(i, kids). i # kids) (interfaces t))"

definition online_interfaces :: "host \<Rightarrow> string option \<Rightarrow> rns \<Rightarrow> rns_iface list" where
  "online_interfaces h family t = filter (\<lambda>i. interface_is_healthy h (Some i)
     \<and> (\<not> truthy family \<or> interface_family (Some i) = orE family)) (iter_transport_interfaces t)"

definition first_online :: "host \<Rightarrow> string \<Rightarrow> string option \<Rightarrow> rns \<Rightarrow> rns_iface option" where
  "first_online h cls port t = find (\<lambda>i. i_class i = cls \<and> (\<not> truthy port \<or> i_port i = port)
     \<and> interface_is_healthy h (Some i)) (iter_transport_interfaces t)"

definition serial_interface_online :: "host \<Rightarrow> string option \<Rightarrow> rns \<Rightarrow> rns_iface option" where
  "serial_interface_online h port t = first_online h ''SerialInterface'' port t"

definition udp_interface_online :: "host \<Rightarrow> rns \<Rightarrow> rns_iface option" where
  "udp_interface_online h t = first_online h ''UDPInterface'' None t"

definition lan_mesh_has_peer :: "host \<Rightarrow> rns \<Rightarrow> bool" where
  "lan_mesh_has_peer h t \<longleftrightarrow> first_online h ''AutoInterfacePeer'' None t \<noteq> None"

definition dual_transport_isolation_enabled :: "host \<Rightarrow> rns \<Rightarrow> bool" where
  "dual_transport_isolation_enabled h t \<longleftrightarrow> serial_interface_online h None t \<noteq> None
     \<and> (\<exists>fam \<in> set lan_families. online_interfaces h (Some fam) t \<noteq> [])"

section \<open>Hashes and lookups\<close>

definition normalize_dest_hex :: "string option \<Rightarrow> string" where
  "normalize_dest_hex hash_hex = py_lower (py_strip (nocolon (orE hash_hex)))"

definition dest_bytes_for_hash :: "string option \<Rightarrow> nat list option" where
  "dest_bytes_for_hash hash_hex = (let clean = normalize_dest_hex hash_hex in
     if length clean \<noteq> 32 then None else py_fromhex clean)"

definition peer_path_iface :: "rns \<Rightarrow> string option \<Rightarrow> rns_iface option" where
  "peer_path_iface t hash_hex = (case dest_bytes_for_hash hash_hex of None \<Rightarrow> None
     | Some dest \<Rightarrow> (case map_of (path_table t) dest of Some (Path _ iface) \<Rightarrow> iface | _ \<Rightarrow> None))"

definition peer_path_hops :: "rns \<Rightarrow> string option \<Rightarrow> int option" where
  "peer_path_hops t hash_hex = (case dest_bytes_for_hash hash_hex of None \<Rightarrow> None
     | Some dest \<Rightarrow> (case map_of (path_table t) dest of Some (Path n _) \<Rightarrow> n | _ \<Rightarrow> None))"

definition announce_packet_receiving_interface :: "rns \<Rightarrow> nat list \<Rightarrow> rns_iface option" where
  "announce_packet_receiving_interface t dest = (case map_of (announce_table t) dest of
      None \<Rightarrow> None | Some iface \<Rightarrow> iface)"

definition announce_receiving_interface :: "rns \<Rightarrow> nat list \<Rightarrow> rns_iface option" where
  "announce_receiving_interface t dest = (let packet_iface = announce_packet_receiving_interface t dest in
     if packet_iface \<noteq> None \<and> interface_family packet_iface = ''serial'' then packet_iface
     else case map_of (path_table t) dest of Some (Path _ (Some i)) \<Rightarrow> Some i | _ \<Rightarrow> packet_iface)"

section \<open>One peer\<close>

definition clear_peer_path :: "string option \<Rightarrow> rns \<Rightarrow> bool \<times> rns" where
  "clear_peer_path hash_hex t = (case dest_bytes_for_hash hash_hex of None \<Rightarrow> (False, t)
     | Some dest \<Rightarrow> if map_of (path_table t) dest = None then (False, t)
         else (True, t\<lparr>path_table := AList.delete dest (path_table t)\<rparr>))"

definition scrub_peer_path :: "host \<Rightarrow> string option \<Rightarrow> rns \<Rightarrow> bool \<times> rns" where
  "scrub_peer_path h hash_hex t = (let iface = peer_path_iface t hash_hex in
     if iface \<noteq> None \<and> \<not> interface_is_healthy h iface then clear_peer_path hash_hex t else (False, t))"

definition peer_path_on_family :: "host \<Rightarrow> string option \<Rightarrow> string option \<Rightarrow> rns \<Rightarrow> rns_iface option \<times> rns" where
  "peer_path_on_family h hash_hex family t = (
     let t = snd (scrub_peer_path h hash_hex t); iface = peer_path_iface t hash_hex in
     (if iface \<noteq> None \<and> interface_is_healthy h iface
         \<and> (case family of None \<Rightarrow> True | Some f \<Rightarrow> interface_family iface = f) then iface else None, t))"

definition clear_peer_path_unless_family :: "host \<Rightarrow> string option \<Rightarrow> string \<Rightarrow> rns \<Rightarrow> bool \<times> rns" where
  "clear_peer_path_unless_family h hash_hex family t = (
     let t = snd (scrub_peer_path h hash_hex t); iface = peer_path_iface t hash_hex in
     if iface \<noteq> None \<and> interface_family iface \<noteq> family then clear_peer_path hash_hex t else (False, t))"

definition prune_lan_path_for_peer :: "string option \<Rightarrow> rns \<Rightarrow> bool \<times> rns" where
  "prune_lan_path_for_peer hash_hex t = (case dest_bytes_for_hash hash_hex of None \<Rightarrow> (False, t)
     | Some dest \<Rightarrow> (case map_of (path_table t) dest of
           Some (Path _ iface) \<Rightarrow> if is_lan_family (interface_family iface)
             then (True, t\<lparr>path_table := AList.delete dest (path_table t)\<rparr>) else (False, t)
         | _ \<Rightarrow> (False, t)))"

definition pin_serial_path :: "string option \<Rightarrow> rns \<Rightarrow> rns" where
  "pin_serial_path hash_hex t = (let clean = normalize_dest_hex hash_hex in
     if length clean = 32 then t\<lparr>serial_pins := List.insert clean (serial_pins t)\<rparr> else t)"

definition unpin_serial_path :: "string option \<Rightarrow> rns \<Rightarrow> rns" where
  "unpin_serial_path hash_hex t = t\<lparr>serial_pins := removeAll (normalize_dest_hex hash_hex) (serial_pins t)\<rparr>"

definition serial_path_is_pinned :: "string option \<Rightarrow> rns \<Rightarrow> bool" where
  "serial_path_is_pinned hash_hex t \<longleftrightarrow> normalize_dest_hex hash_hex \<in> set (serial_pins t)"

definition request_paths_for_hash :: "host \<Rightarrow> string option \<Rightarrow> string option \<Rightarrow> rns \<Rightarrow> bool \<times> rns" where
  "request_paths_for_hash h hash_hex family t = (case dest_bytes_for_hash hash_hex of None \<Rightarrow> (False, t)
     | Some dest \<Rightarrow> let targets = online_interfaces h family t in
         (True, t\<lparr>requests := requests t @ (if targets = [] then [(dest, None)]
            else map (\<lambda>i. (dest, Some i)) targets)\<rparr>))"

definition ensure_serial_path_pinned :: "host \<Rightarrow> string option \<Rightarrow> bool \<Rightarrow> rns \<Rightarrow> bool \<times> rns" where
  "ensure_serial_path_pinned h hash_hex request t = (let clean = normalize_dest_hex hash_hex in
     if length clean \<noteq> 32 then (False, t)
     else let t = pin_serial_path (Some clean) t;
              t = snd (prune_lan_path_for_peer (Some clean) t);
              iface = peer_path_iface t (Some clean);
              t = (if iface \<noteq> None \<and> interface_family iface \<noteq> ''serial'' then snd (clear_peer_path (Some clean) t) else t);
              t = (if request then (case peer_path_on_family h (Some clean) (Some ''serial'') t of (found, t) \<Rightarrow>
                     if found = None then snd (request_paths_for_hash h (Some clean) (Some ''serial'') t) else t) else t);
              (found, t) = peer_path_on_family h (Some clean) (Some ''serial'') t
          in (found \<noteq> None, t))"

definition restore_serial_path_from_announce :: "host \<Rightarrow> string option \<Rightarrow> rns \<Rightarrow> rns_iface option \<times> rns" where
  "restore_serial_path_from_announce h hash_hex t = (let clean = normalize_dest_hex hash_hex in
     case dest_bytes_for_hash (Some clean) of None \<Rightarrow> (None, t)
     | Some dest \<Rightarrow>
         let serial_recv = announce_packet_receiving_interface t dest in
         if serial_recv = None \<or> interface_family serial_recv \<noteq> ''serial''
         then peer_path_on_family h (Some clean) (Some ''serial'') t
         else if \<not> interface_is_healthy h serial_recv
         then peer_path_on_family h (Some clean) (Some ''serial'') t
         else let (existing, t) = peer_path_on_family h (Some clean) (Some ''serial'') t in
           if existing \<noteq> None then (existing, pin_serial_path (Some clean) t)
           else let t = snd (prune_lan_path_for_peer (Some clean) t);
                    t = snd (clear_peer_path (Some clean) t);
                    t = t\<lparr>path_table := AList.update dest (Path (Some 1) serial_recv) (path_table t)\<rparr>
                in (serial_recv, pin_serial_path (Some clean) t))"

definition reinforce_serial_peer_path :: "host \<Rightarrow> string option \<Rightarrow> rns \<Rightarrow> rns_iface option \<times> rns" where
  "reinforce_serial_peer_path h hash_hex t = (let clean = normalize_dest_hex hash_hex in
     if length clean \<noteq> 32 then (None, t)
     else let (restored, t) = restore_serial_path_from_announce h (Some clean) t in
       if restored \<noteq> None then (restored, t)
       else let t = pin_serial_path (Some clean) t;
                t = snd (prune_lan_path_for_peer (Some clean) t);
                (iface, t) = peer_path_on_family h (Some clean) (Some ''serial'') t
            in if iface \<noteq> None then (iface, t)
               else peer_path_on_family h (Some clean) (Some ''serial'')
                      (snd (request_paths_for_hash h (Some clean) (Some ''serial'') t)))"

section \<open>The whole table\<close>

definition prune_paths :: "(nat list \<Rightarrow> int option \<Rightarrow> rns_iface option \<Rightarrow> bool) \<Rightarrow> rns \<Rightarrow> int \<times> rns" where
  "prune_paths bad t = (
     let kept = dict_purge (\<lambda>dest e. case e of Short \<Rightarrow> False | Path n iface \<Rightarrow> bad dest n iface) (path_table t)
     in (int (length (path_table t)) - int (length kept), t\<lparr>path_table := kept\<rparr>))"

definition prune_bridged_lan_paths :: "host \<Rightarrow> rns \<Rightarrow> int \<times> rns" where
  "prune_bridged_lan_paths h t = (if \<not> dual_transport_isolation_enabled h t then (0, t)
     else prune_paths (\<lambda>_ n iface. is_lan_family (interface_family iface)
            \<and> 1 < (case n of None \<Rightarrow> 0 | Some k \<Rightarrow> k)) t)"

definition serial_peer_set :: "string option list \<Rightarrow> string list" where
  "serial_peer_set hs = remdups (map normalize_dest_hex (filter (\<lambda>h. py_strip (orE h) \<noteq> '''') hs))"

definition prune_cross_zone_paths :: "string option list \<Rightarrow> rns \<Rightarrow> int \<times> rns" where
  "prune_cross_zone_paths serial_peer_hashes t = (let serial_peers = serial_peer_set serial_peer_hashes in
     prune_paths (\<lambda>dest _ iface.
       if py_hex dest \<in> set serial_peers then is_lan_family (interface_family iface)
       else interface_family iface = ''serial'' \<and> serial_peers \<noteq> []) t)"

definition prune_stale_lan_paths :: "host \<Rightarrow> rns \<Rightarrow> int \<times> rns" where
  "prune_stale_lan_paths h t = prune_paths (\<lambda>_ _ iface. interface_family iface \<in> {''udp'', ''lan''}
     \<and> (\<not> interface_is_healthy h iface \<or> (\<not> h_android h \<and> \<not> h_physical_lan h))) t"

definition clear_paths_on_family :: "string \<Rightarrow> rns \<Rightarrow> int \<times> rns" where
  "clear_paths_on_family family t = prune_paths (\<lambda>_ _ iface. interface_family iface = family) t"

definition clear_all_lan_paths :: "rns \<Rightarrow> int \<times> rns" where
  "clear_all_lan_paths t = (let (n, t) = clear_paths_on_family ''udp'' t; (m, t) = clear_paths_on_family ''lan'' t
     in (n + m, t))"

definition clear_paths_except_families :: "string option list \<Rightarrow> rns \<Rightarrow> int \<times> rns" where
  "clear_paths_except_families keep_families t = (let keep = map orE (filter truthy keep_families) in
     if keep = [] then (0, t) else prune_paths (\<lambda>_ _ iface. interface_family iface \<notin> set keep) t)"

section \<open>Laws\<close>

lemma path_iface_same:
  "path_table t' = path_table t \<Longrightarrow> peer_path_iface t' h = peer_path_iface t h"
  by (simp add: peer_path_iface_def split: option.split)

lemma clear_path_gone: "peer_path_iface (snd (clear_peer_path h t)) h = None"
  by (auto simp: clear_peer_path_def peer_path_iface_def split: option.split path_entry.split)

lemma scrub_iface:
  "peer_path_iface (snd (scrub_peer_path h x t)) x
     = (if interface_is_healthy h (peer_path_iface t x) then peer_path_iface t x else None)"
  using clear_path_gone by (auto simp: scrub_peer_path_def Let_def interface_is_healthy_def)

lemma on_family_spec:
  assumes "peer_path_on_family h x (Some f) t = (found, t')"
  shows "found = (let i = peer_path_iface t x in
      if i \<noteq> None \<and> interface_is_healthy h i \<and> interface_family i = f then i else None)"
    and "peer_path_iface t' x = (if interface_is_healthy h (peer_path_iface t x) then peer_path_iface t x else None)"
  using assms by (auto simp: peer_path_on_family_def Let_def scrub_iface split: if_splits)

lemma pin_frame [simp]: "path_table (pin_serial_path x t) = path_table t"
  by (simp add: pin_serial_path_def Let_def)

lemma request_frame [simp]: "path_table (snd (request_paths_for_hash h x f t)) = path_table t"
  by (simp add: request_paths_for_hash_def Let_def split: option.split)

lemma normalize_dest_hex_idem [simp]: "normalize_dest_hex (Some (normalize_dest_hex x)) = normalize_dest_hex x"
proof -
  let ?t = "py_strip (nocolon (orE x))"
  have "CHR '':'' \<notin> set ?t" using set_py_strip [of "nocolon (orE x)"] by auto
  then have "CHR '':'' \<notin> set (py_lower ?t)" by (intro notin_lower) simp_all
  then have "nocolon (py_lower ?t) = py_lower ?t" by (rule py_remove_id)
  moreover have "py_strip (py_lower ?t) = py_lower ?t" by (rule py_strip_lower) simp
  ultimately show ?thesis unfolding normalize_dest_hex_def by simp
qed

lemma dest_bytes_clean: "dest_bytes_for_hash (Some (normalize_dest_hex x)) = dest_bytes_for_hash x"
  by (simp add: dest_bytes_for_hash_def)

lemma path_iface_clean: "peer_path_iface t (Some (normalize_dest_hex x)) = peer_path_iface t x"
  by (simp add: peer_path_iface_def dest_bytes_clean)

lemma prune_lan_iface:
  "peer_path_iface (snd (prune_lan_path_for_peer x t)) x
     = (if is_lan_family (interface_family (peer_path_iface t x)) then None else peer_path_iface t x)"
  by (auto simp: prune_lan_path_for_peer_def peer_path_iface_def interface_family_def is_lan_family_def
      lan_families_def split: option.split path_entry.split)

lemma pins_frame:
  "serial_pins (snd (clear_peer_path x t)) = serial_pins t"
  "serial_pins (snd (prune_lan_path_for_peer x t)) = serial_pins t"
  "serial_pins (snd (request_paths_for_hash h x fam t)) = serial_pins t"
  "serial_pins (snd (scrub_peer_path h x t)) = serial_pins t"
  "serial_pins (snd (peer_path_on_family h x f t)) = serial_pins t"
  by (simp_all add: clear_peer_path_def prune_lan_path_for_peer_def request_paths_for_hash_def
      scrub_peer_path_def peer_path_on_family_def Let_def split: option.split path_entry.split)

text \<open>\<open>ensure_serial_path_pinned\<close> leaves no path of another family for the peer: the
  cached path is a healthy serial interface or absent, and it answers \<open>True\<close> exactly when
  it is there; the peer is pinned.\<close>

theorem serial_pin_exclusive:
  assumes "length (normalize_dest_hex x) = 32" and "ensure_serial_path_pinned h x request t = (ok, t')"
  shows "(ok \<longleftrightarrow> peer_path_iface t' x \<noteq> None)
    \<and> (peer_path_iface t' x = None \<or> (interface_family (peer_path_iface t' x) = ''serial''
         \<and> interface_is_healthy h (peer_path_iface t' x)))
    \<and> serial_path_is_pinned x t'"
proof -
  let ?x = "Some (normalize_dest_hex x)"
  define t1 where "t1 = snd (prune_lan_path_for_peer ?x (pin_serial_path ?x t))"
  define t2 where "t2 = (if peer_path_iface t1 ?x \<noteq> None \<and> interface_family (peer_path_iface t1 ?x) \<noteq> ''serial''
     then snd (clear_peer_path ?x t1) else t1)"
  define t3 where "t3 = (if request then (case peer_path_on_family h ?x (Some ''serial'') t2 of (found, t) \<Rightarrow>
     if found = None then snd (request_paths_for_hash h ?x (Some ''serial'') t) else t) else t2)"
  obtain found u where l: "peer_path_on_family h ?x (Some ''serial'') t3 = (found, u)" by fastforce
  have r: "ok \<longleftrightarrow> found \<noteq> None" "t' = u"
    using assms l unfolding ensure_serial_path_pinned_def Let_def t1_def [symmetric] t2_def [symmetric] t3_def [symmetric]
    by auto
  have p2: "peer_path_iface t2 ?x = None \<or> interface_family (peer_path_iface t2 ?x) = ''serial''"
    using clear_path_gone [of ?x t1] by (auto simp: t2_def)
  obtain f2 u2 where l2: "peer_path_on_family h ?x (Some ''serial'') t2 = (f2, u2)" by fastforce
  have "peer_path_iface t3 ?x = peer_path_iface t2 ?x \<or> peer_path_iface t3 ?x = peer_path_iface u2 ?x"
    by (auto simp: t3_def l2 intro: path_iface_same)
  then have p3: "peer_path_iface t3 ?x = None \<or> interface_family (peer_path_iface t3 ?x) = ''serial''"
    using p2 on_family_spec(2) [OF l2] by (auto split: if_splits)
  have "normalize_dest_hex x \<in> set (serial_pins t1)"
    using assms(1) by (simp add: t1_def pins_frame pin_serial_path_def Let_def)
  then have "normalize_dest_hex x \<in> set (serial_pins t2)" by (simp add: t2_def pins_frame)
  then have "normalize_dest_hex x \<in> set (serial_pins t3)"
    using pins_frame(5) [of h ?x "Some ''serial''" t2] by (simp add: t3_def l2 pins_frame)
  then have pin: "serial_path_is_pinned x t'"
    using pins_frame(5) [of h ?x "Some ''serial''" t3] by (simp add: serial_path_is_pinned_def l r(2))
  show ?thesis
    using on_family_spec [OF l] p3 r pin by (auto simp: Let_def path_iface_clean split: if_splits)
qed

definition usb_if :: rns_iface where
  "usb_if = \<lparr>i_id = 1, i_class = ''SerialInterface'', i_text = ''SerialInterface[USB]'', i_detached = False,
     i_online = Some True, i_port = Some ''ttyUSB0'', i_addr = None, i_ifname = None, i_owner = None\<rparr>"

definition udp_if :: rns_iface where
  "udp_if = usb_if\<lparr>i_id := 2, i_class := ''UDPInterface'', i_text := ''UDPInterface[LAN]'', i_port := None\<rparr>"

definition up_host :: host where "up_host = \<lparr>h_android = False, h_physical_lan = True\<rparr>"

definition peer_a :: string where "peer_a = replicate 32 (CHR ''a'')"

definition stolen :: rns where
  "stolen = \<lparr>path_table = [(replicate 16 170, Path (Some 2) (Some udp_if))],
     announce_table = [(replicate 16 170, Some usb_if)], interfaces = [(usb_if, []), (udp_if, [])],
     serial_pins = [], requests = []\<rparr>"

lemma serial_pin_exclusive_witness:
  "case ensure_serial_path_pinned up_host (Some peer_a) True stolen of (ok, t') \<Rightarrow>
     \<not> ok \<and> peer_path_iface t' (Some peer_a) = None"
proof -
  obtain ok t' where r: "ensure_serial_path_pinned up_host (Some peer_a) True stolen = (ok, t')" by fastforce
  have "length (normalize_dest_hex (Some peer_a)) = 32" by code_simp
  from serial_pin_exclusive [OF this r] have "ok \<longleftrightarrow> peer_path_iface t' (Some peer_a) \<noteq> None" by blast
  moreover have "\<not> fst (ensure_serial_path_pinned up_host (Some peer_a) True stolen)" by code_simp
  ultimately show ?thesis by (simp add: r)
qed

lemma restore_on_family:
  assumes "peer_path_on_family h x (Some ''serial'') t = (Some i, t')"
  shows "peer_path_iface t' x = Some i \<and> interface_is_healthy h (Some i) \<and> interface_family (Some i) = ''serial''"
  using on_family_spec [OF assms] by (auto simp: Let_def split: if_splits)

text \<open>When \<open>restore_serial_path_from_announce\<close> returns an interface, the path table now
  routes the peer over exactly that interface, which is a healthy serial one; a LAN
  rebroadcast that had taken the route is gone.\<close>

theorem serial_path_restored:
  assumes "restore_serial_path_from_announce h x t = (Some i, t')"
  shows "peer_path_iface t' x = Some i \<and> interface_family (Some i) = ''serial'' \<and> interface_is_healthy h (Some i)"
proof -
  let ?x = "Some (normalize_dest_hex x)"
  from assms obtain dest where d: "dest_bytes_for_hash ?x = Some dest"
    by (auto simp: restore_serial_path_from_announce_def Let_def split: option.splits)
  let ?r = "announce_packet_receiving_interface t dest"
  obtain found u where f: "peer_path_on_family h ?x (Some ''serial'') t = (found, u)" by fastforce
  have "peer_path_iface t' ?x = Some i \<and> interface_is_healthy h (Some i) \<and> interface_family (Some i) = ''serial''"
  proof (cases "?r = None \<or> interface_family ?r \<noteq> ''serial'' \<or> \<not> interface_is_healthy h ?r")
    case True
    then have "peer_path_on_family h ?x (Some ''serial'') t = (Some i, t')"
      using assms d by (auto simp: restore_serial_path_from_announce_def Let_def split: if_splits)
    then show ?thesis by (rule restore_on_family)
  next
    case False
    note cond = this
    show ?thesis
    proof (cases found)
      case (Some j)
      with cond assms d f have "i = j" "t' = pin_serial_path ?x u"
        by (auto simp: restore_serial_path_from_announce_def Let_def)
      then show ?thesis using restore_on_family [OF f [unfolded Some]] path_iface_same [of t' u ?x] by simp
    next
      case None
      define v where "v = snd (clear_peer_path ?x (snd (prune_lan_path_for_peer ?x u)))"
      from None cond assms d f have "Some i = ?r"
        "t' = pin_serial_path ?x (v\<lparr>path_table := AList.update dest (Path (Some 1) ?r) (path_table v)\<rparr>)"
        by (auto simp: restore_serial_path_from_announce_def Let_def v_def)
      then show ?thesis using cond d by (auto simp: peer_path_iface_def)
    qed
  qed
  then show ?thesis by (simp add: path_iface_clean)
qed

lemma serial_path_restored_witness:
  "case restore_serial_path_from_announce up_host (Some peer_a) stolen of (i, t') \<Rightarrow>
     i = Some usb_if \<and> peer_path_iface t' (Some peer_a) = Some usb_if"
proof -
  obtain i t' where r: "restore_serial_path_from_announce up_host (Some peer_a) stolen = (i, t')" by fastforce
  have n: "normalize_dest_hex (Some peer_a) = peer_a" by code_simp
  have d: "dest_bytes_for_hash (Some peer_a) = Some (replicate 16 170)" by code_simp
  have a: "announce_packet_receiving_interface stolen (replicate 16 170) = Some usb_if" by code_simp
  have i: "interface_family (Some usb_if) = ''serial''" "interface_is_healthy up_host (Some usb_if)" by code_simp+
  have "fst (peer_path_on_family up_host (Some peer_a) (Some ''serial'') stolen) = None" by code_simp
  then have "fst (restore_serial_path_from_announce up_host (Some peer_a) stolen) = Some usb_if"
    by (auto simp: restore_serial_path_from_announce_def Let_def n d a i split: prod.split)
  then have "i = Some usb_if" by (simp add: r)
  with serial_path_restored [OF r [unfolded this]] r show ?thesis by simp
qed

lemma prune_paths_get:
  assumes "distinct (map fst (path_table t))"
  shows "map_of (path_table (snd (prune_paths bad t))) dest = (case map_of (path_table t) dest of
     Some (Path n iface) \<Rightarrow> if bad dest n iface then None else Some (Path n iface) | e \<Rightarrow> e)"
  using assms by (simp add: prune_paths_def Let_def map_of_dict_purge split: option.split path_entry.split)

text \<open>After \<open>prune_cross_zone_paths\<close> no USB peer has a LAN path and, when there are USB
  peers, nobody else has a USB path; every other path is kept, and running it again with
  the same peers removes nothing.\<close>

theorem cross_zone_pruned:
  assumes "distinct (map fst (path_table t))"
  shows "case prune_cross_zone_paths hs t of (n, t') \<Rightarrow>
     (\<forall>dest. map_of (path_table t') dest = (case map_of (path_table t) dest of
        Some (Path k iface) \<Rightarrow>
          if (py_hex dest \<in> set (serial_peer_set hs) \<and> is_lan_family (interface_family iface))
           \<or> (py_hex dest \<notin> set (serial_peer_set hs) \<and> serial_peer_set hs \<noteq> [] \<and> interface_family iface = ''serial'')
          then None else Some (Path k iface)
      | e \<Rightarrow> e))
     \<and> prune_cross_zone_paths hs t' = (0, t')"
proof -
  define bad where "bad dest (k :: int option) iface \<longleftrightarrow> (if py_hex dest \<in> set (serial_peer_set hs)
      then is_lan_family (interface_family iface)
      else interface_family iface = ''serial'' \<and> serial_peer_set hs \<noteq> [])" for dest k iface
  have run: "prune_cross_zone_paths hs u = prune_paths bad u" for u
    by (simp add: prune_cross_zone_paths_def Let_def bad_def [abs_def])
  obtain n t' where r: "prune_paths bad t = (n, t')" by fastforce
  have t': "path_table t' = dict_purge (\<lambda>dest e. case e of Short \<Rightarrow> False | Path n iface \<Rightarrow> bad dest n iface) (path_table t)"
    using r by (auto simp: prune_paths_def Let_def)
  have "dict_purge b (dict_purge b d) = dict_purge b d" for b and d :: "(nat list, path_entry) pydict"
    by (induction d) (auto simp: dict_purge_def)
  then have "prune_paths bad t' = (0, t')" by (simp add: prune_paths_def t' [symmetric] Let_def) (simp add: t')
  moreover have "map_of (path_table t') dest = (case map_of (path_table t) dest of
     Some (Path n iface) \<Rightarrow> if bad dest n iface then None else Some (Path n iface) | e \<Rightarrow> e)" for dest
    using prune_paths_get [OF assms, of bad dest] r by simp
  ultimately show ?thesis
    unfolding run r by (auto simp: bad_def split: option.split path_entry.split)
qed

lemma cross_zone_pruned_witness:
  "map_of (path_table stolen) (replicate 16 170) \<noteq> None
   \<and> map_of (path_table (snd (prune_cross_zone_paths [Some peer_a] stolen))) (replicate 16 170) = None"
proof -
  have d: "distinct (map fst (path_table stolen))" by code_simp
  have h: "py_hex (replicate 16 170) \<in> set (serial_peer_set [Some peer_a])" "is_lan_family (interface_family (Some udp_if))"
    by code_simp+
  have m: "map_of (path_table stolen) (replicate 16 170) = Some (Path (Some 2) (Some udp_if))" by (simp add: stolen_def)
  obtain n t' where r: "prune_cross_zone_paths [Some peer_a] stolen = (n, t')" by fastforce
  have "map_of (path_table t') (replicate 16 170) = None"
    using cross_zone_pruned [OF d, of "[Some peer_a]", unfolded r prod.case, THEN conjunct1, THEN spec, of "replicate 16 170"]
    unfolding m using h by simp
  with r m show ?thesis by simp
qed

end
