(* ===== verification/Isolation.thy ===== *)
theory Isolation
  imports RnsPaths
begin

text \<open>
  \<open>chatxz/core/transport_isolation.py\<close>: on a node with USB serial and LAN both online,
  path requests and rebroadcast announces stay in the zone they came from.  The patched
  RNS functions are parameters: \<open>orig\<close> is any function on the transport state that
  returns a result (an exception included) and a new state.
\<close>

definition families_compatible :: "string \<Rightarrow> string \<Rightarrow> bool" where
  "families_compatible source_family target_family = (
     if source_family = '''' \<or> target_family = '''' then True
     else if source_family = ''serial'' \<and> is_lan_family target_family then False
     else if target_family = ''serial'' \<and> is_lan_family source_family then False
     else True)"

definition filter_interfaces ::
  "host \<Rightarrow> rns \<Rightarrow> rns_iface option \<Rightarrow> (rns_iface \<times> rns_iface list) list \<Rightarrow> (rns_iface \<times> rns_iface list) list" where
  "filter_interfaces h t attached ifaces = (
     if \<not> dual_transport_isolation_enabled h t \<or> attached = None then ifaces
     else let source = interface_family attached in
       if source \<noteq> ''serial'' \<and> \<not> is_lan_family source then ifaces
       else filter (\<lambda>(i, _). map_option i_id attached \<noteq> Some (i_id i)
              \<and> families_compatible source (interface_family (Some i))) ifaces)"

text \<open>The cross-zone path of the destination is dropped before the request is handled.\<close>

definition drop_cross_zone :: "string \<Rightarrow> nat list \<Rightarrow> rns \<Rightarrow> rns" where
  "drop_cross_zone source dest t = (
     if source = ''serial'' \<or> is_lan_family source
     then (case map_of (path_table t) dest of
         Some (Path _ via_iface) \<Rightarrow>
           if \<not> families_compatible source (interface_family via_iface)
           then t\<lparr>path_table := AList.delete dest (path_table t)\<rparr> else t
       | _ \<Rightarrow> t)
     else t)"

definition isolated_path_request ::
  "host \<Rightarrow> (nat list \<Rightarrow> bool \<Rightarrow> rns_iface option \<Rightarrow> rns \<Rightarrow> 'r \<times> rns)
   \<Rightarrow> nat list \<Rightarrow> bool \<Rightarrow> rns_iface option \<Rightarrow> rns \<Rightarrow> 'r \<times> rns" where
  "isolated_path_request h orig dest is_local attached t = (
     if \<not> dual_transport_isolation_enabled h t \<or> attached = None then orig dest is_local attached t
     else let t = drop_cross_zone (interface_family attached) dest t;
              original_interfaces = interfaces t;
              (res, u) = orig dest is_local attached
                 (t\<lparr>interfaces := filter_interfaces h t attached original_interfaces\<rparr>)
          in (res, u\<lparr>interfaces := original_interfaces\<rparr>))"

record packet =
  pk_announce :: bool
  pk_hops :: int
  pk_dest :: "nat list"
  pk_attached :: "rns_iface option"
  pk_receiving :: "rns_iface option"

definition pin_announce_interface :: "host \<Rightarrow> rns \<Rightarrow> packet \<Rightarrow> packet" where
  "pin_announce_interface h t pk = (
     if \<not> dual_transport_isolation_enabled h t then pk
     else if \<not> pk_announce pk \<or> pk_hops pk \<le> 0 then pk
     else if pk_attached pk \<noteq> None then pk
     else let src = pk_receiving pk;
              src = (case src of Some i \<Rightarrow> Some i | None \<Rightarrow>
                 (case map_of (path_table t) (pk_dest pk) of Some (Path _ i) \<Rightarrow> i | _ \<Rightarrow> None));
              src = (case src of Some i \<Rightarrow> Some i | None \<Rightarrow>
                 (case map_of (announce_table t) (pk_dest pk) of Some i \<Rightarrow> i | None \<Rightarrow> None))
          in case src of None \<Rightarrow> pk | Some i \<Rightarrow> pk\<lparr>pk_attached := Some i\<rparr>)"

section \<open>Laws\<close>

lemma compatible_sym: "families_compatible a b = families_compatible b a"
  by (auto simp: families_compatible_def)

lemma compatible_serial: "families_compatible ''serial'' f \<longleftrightarrow> \<not> is_lan_family f"
  by (auto simp: families_compatible_def is_lan_family_def lan_families_def)

lemma compatible_lan: "is_lan_family s \<Longrightarrow> families_compatible s f \<longleftrightarrow> f \<noteq> ''serial''"
  by (auto simp: families_compatible_def is_lan_family_def lan_families_def)

lemma drop_cross_zone_iface:
  assumes "source = ''serial'' \<or> is_lan_family source"
    and "map_of (path_table (drop_cross_zone source dest t)) dest = Some (Path n i)"
  shows "families_compatible source (interface_family i)"
  using assms by (auto simp: drop_cross_zone_def split: option.splits path_entry.splits if_splits)

lemma drop_cross_zone_frame [simp]: "interfaces (drop_cross_zone source dest t) = interfaces t"
  by (simp add: drop_cross_zone_def split: option.split path_entry.split)

lemma isolation_dual: "dual_transport_isolation_enabled h (drop_cross_zone source dest t)
    = dual_transport_isolation_enabled h t"
  by (simp add: dual_transport_isolation_enabled_def serial_interface_online_def first_online_def
      online_interfaces_def iter_transport_interfaces_def)

text \<open>While isolation is on, the patched \<open>path_request\<close> lets the RNS function see only
  its own zone: a request that came in on USB sees no LAN interface and no LAN path for the
  destination, one from the LAN no serial ones, and neither sees the interface it came
  from; whatever the RNS function does or raises, the interface list is put back.\<close>

theorem path_request_isolated:
  assumes "dual_transport_isolation_enabled h t"
    and "interface_family (Some a) = ''serial'' \<or> is_lan_family (interface_family (Some a))"
  shows "\<exists>seen. fst (isolated_path_request h orig dest l (Some a) t) = fst (orig dest l (Some a) seen)
    \<and> interfaces (snd (isolated_path_request h orig dest l (Some a) t)) = interfaces t
    \<and> (\<forall>(i, kids) \<in> set (interfaces seen). i_id i \<noteq> i_id a \<and> (i, kids) \<in> set (interfaces t)
         \<and> (interface_family (Some a) = ''serial'' \<longrightarrow> \<not> is_lan_family (interface_family (Some i)))
         \<and> (is_lan_family (interface_family (Some a)) \<longrightarrow> interface_family (Some i) \<noteq> ''serial''))
    \<and> (\<forall>n i. map_of (path_table seen) dest = Some (Path n i) \<longrightarrow>
         (interface_family (Some a) = ''serial'' \<longrightarrow> \<not> is_lan_family (interface_family i))
         \<and> (is_lan_family (interface_family (Some a)) \<longrightarrow> interface_family i \<noteq> ''serial''))"
proof -
  let ?s = "interface_family (Some a)"
  define u where "u = drop_cross_zone ?s dest t"
  define seen where "seen = u\<lparr>interfaces := filter_interfaces h u (Some a) (interfaces u)\<rparr>"
  have i: "interfaces u = interfaces t" by (simp add: u_def)
  have f: "interfaces seen = filter (\<lambda>(i, _). i_id a \<noteq> i_id i \<and> families_compatible ?s (interface_family (Some i))) (interfaces t)"
    using assms isolation_dual [of h ?s dest t] by (auto simp: seen_def filter_interfaces_def Let_def i u_def [symmetric])
  have run: "isolated_path_request h orig dest l (Some a) t
      = (fst (orig dest l (Some a) seen), (snd (orig dest l (Some a) seen))\<lparr>interfaces := interfaces t\<rparr>)"
    using assms(1) by (simp add: isolated_path_request_def Let_def case_prod_beta seen_def i flip: u_def)
  have p: "families_compatible ?s (interface_family j)" if "map_of (path_table seen) dest = Some (Path n j)" for n j
    using that drop_cross_zone_iface [OF assms(2)] by (simp add: seen_def u_def)
  have c: "(?s = ''serial'' \<longrightarrow> \<not> is_lan_family g) \<and> (is_lan_family ?s \<longrightarrow> g \<noteq> ''serial'')"
    if "families_compatible ?s g" for g using that compatible_serial compatible_lan by metis
  show ?thesis
    by (rule exI [of _ seen]) (use run f p c in auto)
qed

lemma path_request_isolated_witness:
  "interfaces (snd (isolated_path_request up_host (\<lambda>_ _ _ t. (t, t\<lparr>interfaces := []\<rparr>)) (replicate 16 170) False (Some usb_if) stolen))
     = interfaces stolen"
proof -
  have "dual_transport_isolation_enabled up_host stolen" "interface_family (Some usb_if) = ''serial''" by code_simp+
  then show ?thesis using path_request_isolated [of up_host stolen usb_if] by blast
qed

text \<open>The compatibility test behind the isolation is symmetric and separates exactly USB
  from the LAN families; unknown families are never separated.\<close>

theorem families_compatible_exact:
  "families_compatible a b = families_compatible b a
   \<and> (\<not> families_compatible a b \<longleftrightarrow> (a = ''serial'' \<and> is_lan_family b) \<or> (b = ''serial'' \<and> is_lan_family a))"
  using compatible_sym by (auto simp: families_compatible_def is_lan_family_def lan_families_def)

text \<open>A rebroadcast announce with a known source interface leaves on that interface only.\<close>

lemma pin_announce_receiving:
  "dual_transport_isolation_enabled h t \<Longrightarrow> pk_announce pk \<Longrightarrow> 0 < pk_hops pk \<Longrightarrow> pk_attached pk = None \<Longrightarrow>
   pk_receiving pk = Some i \<Longrightarrow> pk_attached (pin_announce_interface h t pk) = Some i"
  by (simp add: pin_announce_interface_def)

lemma pin_announce_keeps:
  "pk_attached pk \<noteq> None \<Longrightarrow> pin_announce_interface h t pk = pk"
  by (simp add: pin_announce_interface_def)

end
