(* ===== verification/Transfers.thy ===== *)
theory Transfers
  imports PeerRow
begin

text \<open>
  Bulk transfers: the one-shot HTTP offers of \<open>chatxz/core/lan_transfer.py\<close> and the
  serial link tuning of \<open>chatxz/core/serial_transfer.py\<close>.  The token of an offer comes
  from \<open>secrets\<close> and is an input.  Times are reals; attributes of RNS objects are the
  record fields the code reads and writes.
\<close>

section \<open>LAN offers\<close>

record offer =
  of_path :: string
  of_token :: string
  of_peer :: string
  of_host :: string
  of_port :: int
  of_expires :: real
  of_bytes_sent :: int

type_synonym offers = "(string, offer) pydict"

text \<open>\<open>int(port or 8742)\<close> is computed by the caller's value: \<open>None\<close> and 0 become 8742.\<close>

definition register_offer ::
  "real \<Rightarrow> string \<Rightarrow> string \<Rightarrow> string \<Rightarrow> string option \<Rightarrow> string \<Rightarrow> int option \<Rightarrow> real \<Rightarrow> offers \<Rightarrow> offers" where
  "register_offer now token tid file_path peer_hash hst port ttl os = AList.update tid
     \<lparr>of_path = file_path, of_token = token, of_peer = normalize_hash peer_hash, of_host = hst,
      of_port = (case port of None \<Rightarrow> 8742 | Some p \<Rightarrow> if p = 0 then 8742 else p),
      of_expires = now + ttl, of_bytes_sent = 0\<rparr> os"

definition set_offer_progress :: "string \<Rightarrow> int \<Rightarrow> offers \<Rightarrow> offers" where
  "set_offer_progress tid n os = (case map_of os tid of None \<Rightarrow> os
     | Some off \<Rightarrow> AList.update tid (off\<lparr>of_bytes_sent := max n (of_bytes_sent off)\<rparr>) os)"

definition get_offer_state :: "real \<Rightarrow> string \<Rightarrow> offers \<Rightarrow> offer option \<times> offers" where
  "get_offer_state now tid os = (case map_of os tid of None \<Rightarrow> (None, os)
     | Some off \<Rightarrow> if of_expires off < now then (None, AList.delete tid os) else (Some off, os))"

definition peek_offer :: "real \<Rightarrow> string \<Rightarrow> string \<Rightarrow> offers \<Rightarrow> offer option \<times> offers" where
  "peek_offer now tid token os = (case map_of os tid of None \<Rightarrow> (None, os)
     | Some off \<Rightarrow> if of_token off \<noteq> token then (None, os)
         else if of_expires off < now then (None, AList.delete tid os) else (Some off, os))"

definition pop_offer :: "real \<Rightarrow> string \<Rightarrow> string \<Rightarrow> offers \<Rightarrow> offer option \<times> offers" where
  "pop_offer now tid token os = (case map_of os tid of None \<Rightarrow> (None, os)
     | Some off \<Rightarrow> if of_token off \<noteq> token then (None, os)
         else if of_expires off < now then (None, AList.delete tid os)
         else (Some off, AList.delete tid os))"

definition remove_offer :: "string \<Rightarrow> offers \<Rightarrow> offers" where
  "remove_offer tid os = AList.delete tid os"

definition cleanup_expired :: "real \<Rightarrow> offers \<Rightarrow> offers" where
  "cleanup_expired now os = dict_purge (\<lambda>_ off. of_expires off < now) os"

text \<open>The calls other threads may make in between; each holds the lock.\<close>

datatype offer_op =
    Offer real string string string "string option" string "int option" real
  | Progress string int | State real string | Peek real string string | Pop real string string
  | Remove string | Cleanup real

fun offer_step :: "offer_op \<Rightarrow> offers \<Rightarrow> offers" where
  "offer_step (Offer now tok tid f p h port ttl) os = register_offer now tok tid f p h port ttl os"
| "offer_step (Progress tid n) os = set_offer_progress tid n os"
| "offer_step (State now tid) os = snd (get_offer_state now tid os)"
| "offer_step (Peek now tid tok) os = snd (peek_offer now tid tok os)"
| "offer_step (Pop now tid tok) os = snd (pop_offer now tid tok os)"
| "offer_step (Remove tid) os = remove_offer tid os"
| "offer_step (Cleanup now) os = cleanup_expired now os"

fun not_offering :: "string \<Rightarrow> offer_op \<Rightarrow> bool" where
  "not_offering tid (Offer now tok t f p h port ttl) \<longleftrightarrow> t \<noteq> tid"
| "not_offering tid _ \<longleftrightarrow> True"

definition no_offer :: "string \<Rightarrow> offers \<Rightarrow> bool" where
  "no_offer tid os \<longleftrightarrow> map_of os tid = None"

lemma map_of_purge_None: "map_of d k = None \<Longrightarrow> map_of (dict_purge b d) k = None"
  by (auto simp: map_of_eq_None_iff dict_purge_def)

interpretation offers: step_system offer_step "not_offering tid" "no_offer tid" for tid
proof
  fix e os assume "not_offering tid e" "no_offer tid os"
  then show "no_offer tid (offer_step e os)"
    by (cases e) (auto simp: no_offer_def register_offer_def set_offer_progress_def get_offer_state_def
        peek_offer_def pop_offer_def remove_offer_def cleanup_expired_def map_of_purge_None
        split: option.splits)
qed

text \<open>An offer is served once: after a successful \<open>pop_offer\<close>, which needs the right
  token before the expiry, no sequence of calls makes the transfer available again under
  any token until it is registered anew.\<close>

theorem offer_served_once:
  assumes "pop_offer now tid token os = (Some off, os')" and "\<forall>e \<in> set es. not_offering tid e"
  shows "of_token off = token \<and> now \<le> of_expires off
    \<and> fst (pop_offer now' tid token' (fold offer_step es os')) = None
    \<and> fst (peek_offer now' tid token' (fold offer_step es os')) = None
    \<and> fst (get_offer_state now' tid (fold offer_step es os')) = None"
proof -
  have "no_offer tid os'" "of_token off = token \<and> now \<le> of_expires off"
    using assms(1) by (auto simp: pop_offer_def no_offer_def split: option.splits if_splits)
  moreover from offers.run_inv [OF assms(2) this(1)]
  have "map_of (fold offer_step es os') tid = None" by (simp add: no_offer_def)
  ultimately show ?thesis by (simp add: pop_offer_def peek_offer_def get_offer_state_def)
qed

definition one_offer :: offers where
  "one_offer = register_offer 100 ''tok'' ''t1'' ''/f'' (Some ''aa'') ''10.0.0.2'' None 7200 []"

lemma offer_served_once_witness:
  "fst (pop_offer 101 ''t1'' ''tok'' (fold offer_step [Cleanup 99, Peek 100 ''t1'' ''tok'']
     (snd (pop_offer 100 ''t1'' ''tok'' one_offer)))) = None"
proof -
  obtain off where "pop_offer 100 ''t1'' ''tok'' one_offer = (Some off, snd (pop_offer 100 ''t1'' ''tok'' one_offer))"
    by (simp add: pop_offer_def one_offer_def register_offer_def)
  from offer_served_once [OF this, of "[Cleanup 99, Peek 100 ''t1'' ''tok'']"] show ?thesis by simp
qed

text \<open>Progress of a registered transfer never goes backwards, whatever order the reports
  arrive in: it is the maximum reported so far.\<close>

theorem offer_progress_monotone:
  assumes "map_of os tid = Some off"
  shows "\<exists>off'. map_of (fold (set_offer_progress tid) ns os) tid = Some off'
    \<and> of_bytes_sent off' = fold max ns (of_bytes_sent off) \<and> of_token off' = of_token off"
  using assms
proof (induction ns arbitrary: os off)
  case (Cons n ns)
  have "map_of (set_offer_progress tid n os) tid = Some (off\<lparr>of_bytes_sent := max n (of_bytes_sent off)\<rparr>)"
    using Cons.prems by (simp add: set_offer_progress_def)
  from Cons.IH [OF this] show ?case by simp
qed simp

lemma offer_progress_monotone_witness:
  "\<exists>off'. map_of (fold (set_offer_progress ''t1'') [10, 70, 30] one_offer) ''t1'' = Some off' \<and> of_bytes_sent off' = 70"
proof -
  obtain off where o: "map_of one_offer ''t1'' = Some off" "of_bytes_sent off = 0"
    by (simp add: one_offer_def register_offer_def)
  from offer_progress_monotone [OF o(1), of "[10, 70, 30]"] o(2) show ?thesis by auto
qed

section \<open>Serial links\<close>

definition serial_link_mtu :: int where "serial_link_mtu = 500"

record serial_attrs =
  sa_speed :: "pyval option"
  sa_bitrate :: "pyval option"
  sa_baud :: "pyval option"
  sa_baudrate :: "pyval option"

fun val_true :: "pyval option \<Rightarrow> bool" where
  "val_true None = False"
| "val_true (Some (VInt n)) = (n \<noteq> 0)"
| "val_true (Some (VReal x)) = (x \<noteq> 0)"
| "val_true (Some (VStr s)) = (s \<noteq> '''')"
| "val_true (Some VOther) = True"

fun first_baud :: "pyval option list \<Rightarrow> int" where
  "first_baud [] = 57600"
| "first_baud (v # vs) = (if val_true v
     then (case py_int_val (the v) of Some n \<Rightarrow> max 1200 n | None \<Rightarrow> first_baud vs) else first_baud vs)"

definition serial_baud_from_interface :: "serial_attrs option \<Rightarrow> int" where
  "serial_baud_from_interface iface = (case iface of None \<Rightarrow> 57600
     | Some a \<Rightarrow> first_baud [sa_speed a, sa_bitrate a, sa_baud a, sa_baudrate a])"

definition int_or :: "int option \<Rightarrow> int \<Rightarrow> int" where
  "int_or x d = (case x of None \<Rightarrow> d | Some n \<Rightarrow> if n = 0 then d else n)"

definition serial_transfer_timeout_s :: "int option \<Rightarrow> int option \<Rightarrow> real" where
  "serial_transfer_timeout_s file_size baud = (
     let sz = max (int_or file_size 0) 4096; baud = max (int_or baud 57600) 1200;
         est = real_of_int sz * (12 / 10000) * (57600 / real_of_int baud)
     in max 180 (est * (5 / 2)))"

record link =
  lk_timeout_factor :: int
  lk_window :: int
  lk_mtu :: "int option"

definition tune_serial_link :: "bool \<Rightarrow> link \<Rightarrow> link" where
  "tune_serial_link serial link = (if \<not> serial then link
     else let link = link\<lparr>lk_timeout_factor := 48, lk_window := 2\<rparr>;
              mtu = min (int_or (lk_mtu link) 500) serial_link_mtu
          in if mtu < (case lk_mtu link of None \<Rightarrow> 500 | Some m \<Rightarrow> m) then link\<lparr>lk_mtu := Some mtu\<rparr> else link)"

record resource =
  rs_window :: int
  rs_window_max :: int
  rs_window_min :: int
  rs_flexibility :: int
  rs_part_timeout_factor :: real
  rs_timeout_factor :: int
  rs_total_size :: "int option"
  rs_size :: "int option"
  rs_timeout :: real
  rs_max_retries :: "int option"

definition tune_resource :: "int \<Rightarrow> int option \<Rightarrow> resource \<Rightarrow> resource" where
  "tune_resource baud sz r = r\<lparr>rs_window := 2, rs_window_max := 3, rs_window_min := 1, rs_flexibility := 1,
     rs_part_timeout_factor := 10, rs_timeout_factor := 48,
     rs_timeout := serial_transfer_timeout_s sz (Some baud),
     rs_max_retries := Some (max (int_or (rs_max_retries r) 5) 8)\<rparr>"

definition tune_outgoing_resource :: "bool \<Rightarrow> serial_attrs option \<Rightarrow> resource \<Rightarrow> resource" where
  "tune_outgoing_resource serial iface r = (if \<not> serial then r
     else tune_resource (serial_baud_from_interface iface)
            (Some (int_or (rs_total_size r) (int_or (rs_size r) 0))) r)"

definition tune_incoming_resource :: "bool \<Rightarrow> serial_attrs option \<Rightarrow> resource \<Rightarrow> link option \<Rightarrow> resource \<times> link option" where
  "tune_incoming_resource serial iface r lk = (if \<not> serial then (r, lk)
     else (tune_resource (serial_baud_from_interface iface)
             (Some (int_or (rs_size r) (int_or (rs_total_size r) 0))) r,
           map_option (\<lambda>l. l\<lparr>lk_window := 2\<rparr>) lk))"

text \<open>The two RNS constants \<open>boost_serial_establishment_timeout\<close> raises around a block; the
  block is any function on them, with any result, an exception included.\<close>

record rns_timeouts =
  rt_default_per_hop :: int
  rt_establishment_per_hop :: int

definition boost_serial_establishment_timeout ::
  "int option \<Rightarrow> (rns_timeouts \<Rightarrow> 'r \<times> rns_timeouts) \<Rightarrow> rns_timeouts \<Rightarrow> 'r \<times> rns_timeouts" where
  "boost_serial_establishment_timeout timeout_s block t = (
     let limit = int_or timeout_s 22; (res, u) = block \<lparr>rt_default_per_hop = limit, rt_establishment_per_hop = limit\<rparr>
     in (res, u\<lparr>rt_default_per_hop := rt_default_per_hop t,
                rt_establishment_per_hop := rt_establishment_per_hop t\<rparr>))"

lemma first_baud_min: "1200 \<le> first_baud vs"
  by (induction vs) (auto split: option.split)

lemma timeout_mono:
  assumes "a \<le> b" "0 \<le> a" "0 < d" "d \<le> c"
  shows "serial_transfer_timeout_s (Some a) (Some c) \<le> serial_transfer_timeout_s (Some b) (Some d)"
proof -
  define sa sb ba bb where "sa = max (int_or (Some a) 0) 4096" and "sb = max (int_or (Some b) 0) 4096"
    and "ba = max (int_or (Some c) 57600) 1200" and "bb = max (int_or (Some d) 57600) 1200"
  have o: "0 \<le> sa" "sa \<le> sb" "0 < bb" "bb \<le> ba"
    using assms by (auto simp: int_or_def sa_def sb_def ba_def bb_def)
  then have "57600 / real_of_int ba \<le> 57600 / real_of_int bb" by (intro frac_le) simp_all
  then have "real_of_int sa * (12 / 10000) * (57600 / real_of_int ba) \<le> real_of_int sb * (12 / 10000) * (57600 / real_of_int bb)"
    using o by (intro mult_mono) simp_all
  then have "max 180 (real_of_int sa * (12 / 10000) * (57600 / real_of_int ba) * (5 / 2))
      \<le> max 180 (real_of_int sb * (12 / 10000) * (57600 / real_of_int bb) * (5 / 2))"
    by (intro max.mono order_refl mult_right_mono) simp_all
  then show ?thesis unfolding serial_transfer_timeout_s_def Let_def sa_def sb_def ba_def bb_def .
qed

text \<open>C40: a serial transfer always gets at least three minutes, a larger file or a slower port
  never gets less time, a tuned resource retries at least eight times with a window of
  two, the detected baud rate is at least 1200, and a link that is not serial is left
  alone.\<close>

theorem serial_tuning:
  assumes "0 \<le> a" "a \<le> b" "0 < d" "d \<le> c"
  shows "180 \<le> serial_transfer_timeout_s (Some a) (Some c)
    \<and> serial_transfer_timeout_s (Some a) (Some c) \<le> serial_transfer_timeout_s (Some b) (Some d)
    \<and> 1200 \<le> serial_baud_from_interface iface
    \<and> 180 \<le> rs_timeout (tune_outgoing_resource True iface r)
    \<and> 8 \<le> the (rs_max_retries (tune_outgoing_resource True iface r))
    \<and> rs_window (fst (tune_incoming_resource True iface r lk)) = 2
    \<and> tune_outgoing_resource False iface r = r \<and> tune_serial_link False l = l"
proof (intro conjI)
  have t: "180 \<le> serial_transfer_timeout_s x y" for x y by (simp add: serial_transfer_timeout_s_def Let_def)
  show "180 \<le> serial_transfer_timeout_s (Some a) (Some c)" by (rule t)
  show "serial_transfer_timeout_s (Some a) (Some c) \<le> serial_transfer_timeout_s (Some b) (Some d)"
    using assms by (intro timeout_mono)
  show "1200 \<le> serial_baud_from_interface iface"
    using first_baud_min by (simp add: serial_baud_from_interface_def split: option.split)
  show "180 \<le> rs_timeout (tune_outgoing_resource True iface r)"
    by (simp add: tune_outgoing_resource_def tune_resource_def t)
  show "8 \<le> the (rs_max_retries (tune_outgoing_resource True iface r))"
    by (simp add: tune_outgoing_resource_def tune_resource_def)
  show "rs_window (fst (tune_incoming_resource True iface r lk)) = 2"
    by (simp add: tune_incoming_resource_def tune_resource_def)
qed (simp_all add: tune_outgoing_resource_def tune_serial_link_def)

lemma serial_tuning_witness:
  "180 \<le> serial_transfer_timeout_s (Some 1000) (Some 115200)
   \<and> serial_transfer_timeout_s (Some 1000) (Some 115200) \<le> serial_transfer_timeout_s (Some 5000) (Some 9600)"
  using serial_tuning [of 1000 5000 9600 115200] by simp

text \<open>The raised establishment timeouts never outlive the block they were raised for,
  however it ends, and the block runs with at least the given limit on both.\<close>

theorem boost_restores:
  "\<exists>limit. boost_serial_establishment_timeout timeout_s block t
      = (fst (block \<lparr>rt_default_per_hop = limit, rt_establishment_per_hop = limit\<rparr>), t)
    \<and> limit = (if timeout_s = None \<or> timeout_s = Some 0 then 22 else the timeout_s)"
proof -
  have "u\<lparr>rt_default_per_hop := rt_default_per_hop t, rt_establishment_per_hop := rt_establishment_per_hop t\<rparr> = t" for u :: rns_timeouts
    by (cases t; cases u) simp
  then show ?thesis
    by (auto simp: boost_serial_establishment_timeout_def Let_def case_prod_beta int_or_def split: option.split)
qed

end
