(* ===== verification/SafePaths.thy ===== *)
theory SafePaths
  imports PyPrelude
begin

text \<open>
  The path functions of \<open>chatxz/utils/helpers.py\<close> that uploads and downloads rest on,
  over POSIX \<open>os.path\<close>: \<open>normpath\<close>, \<open>join\<close> and \<open>basename\<close> follow \<open>posixpath\<close>.
  \<open>safe_path_under\<close> must not leave its base directory, whatever the peer sends.
\<close>

section \<open>posixpath\<close>

abbreviation slash :: char where "slash \<equiv> CHR ''/''"

definition starts_slash :: "string \<Rightarrow> bool" where
  "starts_slash p \<longleftrightarrow> prefix ''/'' p"

definition ends_slash :: "string \<Rightarrow> bool" where
  "ends_slash p \<longleftrightarrow> suffix ''/'' p"

fun path_join1 :: "string \<Rightarrow> string \<Rightarrow> string" where
  "path_join1 path b = (if starts_slash b then b else if path = '''' \<or> ends_slash path then path @ b
     else path @ ''/'' @ b)"

definition path_join :: "string \<Rightarrow> string list \<Rightarrow> string" where
  "path_join a ps = fold (\<lambda>b path. path_join1 path b) ps a"

text \<open>\<open>"/".join(comps)\<close>.\<close>

fun slash_join :: "string list \<Rightarrow> string" where
  "slash_join [] = ''''"
| "slash_join [c] = c"
| "slash_join (c # cs) = c @ ''/'' @ slash_join cs"

definition initial_slashes :: "string \<Rightarrow> nat" where
  "initial_slashes p = (if \<not> starts_slash p then 0
     else if prefix ''//'' p \<and> \<not> prefix ''///'' p then 2 else 1)"

text \<open>One component: the list of the components so far is kept in order.\<close>

definition norm_comp :: "bool \<Rightarrow> string \<Rightarrow> string list \<Rightarrow> string list" where
  "norm_comp absolute piece new = (
     if piece = '''' \<or> piece = ''.'' then new
     else if piece \<noteq> ''..'' \<or> (\<not> absolute \<and> new = []) \<or> (new \<noteq> [] \<and> last new = ''..'') then new @ [piece]
     else butlast new)"

definition norm_comps :: "string \<Rightarrow> string list" where
  "norm_comps p = fold (norm_comp (starts_slash p)) (py_split slash p) []"

definition normpath :: "string \<Rightarrow> string" where
  "normpath p = (if p = '''' then ''.''
     else let s = replicate (initial_slashes p) slash @ slash_join (norm_comps p)
          in if s = '''' then ''.'' else s)"

definition basename :: "string \<Rightarrow> string" where
  "basename p = last (py_split slash p)"

section \<open>The helpers\<close>

text \<open>\<open>s.replace("\\", "/")\<close>.\<close>

definition fwd_slashes :: "string \<Rightarrow> string" where
  "fwd_slashes s = map (\<lambda>c. if c = CHR 0x5C then slash else c) s"

definition safe_basename :: "string option \<Rightarrow> string \<Rightarrow> string" where
  "safe_basename filename dflt = (
     let raw = fwd_slashes (orE filename); base = basename raw in
     if base = '''' \<or> base = ''.'' \<or> base = ''..'' then dflt else base)"

definition safe_path_under :: "string \<Rightarrow> string list \<Rightarrow> string option" where
  "safe_path_under base_dir parts = (
     let base = normpath base_dir; joined = normpath (path_join base parts) in
     if joined \<noteq> base \<and> \<not> prefix (base @ ''/'') joined then None else Some joined)"

definition rel_parts :: "string option \<Rightarrow> string \<Rightarrow> string list" where
  "rel_parts rel_path default_name = (
     let raw = dropWhile (\<lambda>c. c = slash) (fwd_slashes (if truthy rel_path then orE rel_path else default_name));
         parts = filter (\<lambda>p. p \<noteq> '''' \<and> p \<noteq> ''.'' \<and> p \<noteq> ''..'') (py_split slash raw)
     in if parts = [] then [default_name] else parts)"

definition safe_rel_path_under :: "string \<Rightarrow> string option \<Rightarrow> string \<Rightarrow> string option" where
  "safe_rel_path_under base_dir rel_path default_name = safe_path_under base_dir (rel_parts rel_path default_name)"

definition truncate_hash :: "string \<Rightarrow> nat \<Rightarrow> string" where
  "truncate_hash hash_str len = (if length hash_str > len then take len hash_str @ ''...'' else hash_str)"

section \<open>Splitting and joining\<close>

lemma split_no_sep: "p \<in> set (py_split c s) \<Longrightarrow> c \<notin> set p"
  by (induction s arbitrary: p) (auto split: if_splits list.splits)

lemma split_atom: "c \<notin> set s \<Longrightarrow> py_split c s = [s]"
  by (induction s) auto

lemma split_append: "py_split c (a @ c # b) = py_split c a @ py_split c b"
  by (induction a) (auto split: list.splits)

definition good_part :: "string \<Rightarrow> bool" where
  "good_part p \<longleftrightarrow> p \<noteq> '''' \<and> p \<noteq> ''.'' \<and> p \<noteq> ''..'' \<and> slash \<notin> set p"

lemma split_slash_join: "\<forall>p \<in> set ps. slash \<notin> set p \<Longrightarrow> ps \<noteq> [] \<Longrightarrow> py_split slash (slash_join ps) = ps"
  by (induction ps rule: slash_join.induct) (auto simp: split_atom split_append)

lemma split_replicate: "py_split c (replicate n c @ s) = replicate n [] @ py_split c s"
  by (induction n) auto

lemma norm_good: "\<forall>p \<in> set ps. good_part p \<Longrightarrow> fold (norm_comp a) ps new = new @ ps"
  by (induction ps arbitrary: new) (auto simp: norm_comp_def good_part_def)

lemma norm_blank: "fold (norm_comp a) (replicate n []) new = new"
  by (induction n) (auto simp: norm_comp_def)

text \<open>Normalising an absolute path leaves only good components.\<close>

lemma norm_comp_good:
  assumes "\<forall>p \<in> set new. good_part p" "slash \<notin> set piece"
  shows "\<forall>p \<in> set (norm_comp True piece new). good_part p"
proof -
  have "norm_comp True piece new \<in> {new, butlast new} \<or> (good_part piece \<and> norm_comp True piece new = new @ [piece])
     \<or> (new \<noteq> [] \<and> last new = ''..'')"
    using assms(2) by (simp add: norm_comp_def good_part_def)
  moreover have "new \<noteq> [] \<Longrightarrow> last new \<noteq> ''..''" using assms(1) by (metis good_part_def last_in_set)
  moreover have "set (butlast new) \<subseteq> set new" by (auto dest: in_set_butlastD)
  ultimately show ?thesis using assms(1) by auto
qed

lemma norm_fold_good:
  "\<forall>c \<in> set cs. slash \<notin> set c \<Longrightarrow> \<forall>p \<in> set new. good_part p \<Longrightarrow> \<forall>p \<in> set (fold (norm_comp True) cs new). good_part p"
proof (induction cs arbitrary: new)
  case (Cons c cs)
  have "\<forall>p \<in> set (norm_comp True c new). good_part p" using Cons.prems by (intro norm_comp_good) simp_all
  with Cons show ?case by simp
qed simp

lemma norm_comps_good: "starts_slash p \<Longrightarrow> \<forall>c \<in> set (norm_comps p). good_part c"
  unfolding norm_comps_def by (simp, rule norm_fold_good) (auto dest: split_no_sep)

text \<open>An absolute path with the components \<open>cs\<close>.\<close>

definition abs_path :: "nat \<Rightarrow> string list \<Rightarrow> string" where
  "abs_path n cs = replicate n slash @ slash_join cs"

lemma slash_join_append: "cs \<noteq> [] \<Longrightarrow> ds \<noteq> [] \<Longrightarrow> slash_join (cs @ ds) = slash_join cs @ ''/'' @ slash_join ds"
  by (induction cs rule: slash_join.induct) (auto simp: neq_Nil_conv)

lemma slash_join_hd: "\<forall>p \<in> set cs. good_part p \<Longrightarrow> cs \<noteq> [] \<Longrightarrow> slash_join cs \<noteq> [] \<and> hd (slash_join cs) \<noteq> slash"
proof -
  assume g: "\<forall>p \<in> set cs. good_part p" and ne: "cs \<noteq> []"
  then obtain c ds where cs: "cs = c # ds" by (cases cs) auto
  have c: "c \<noteq> []" "slash \<notin> set c" using g cs by (simp_all add: good_part_def)
  have "slash_join cs = c @ (if ds = [] then [] else ''/'' @ slash_join ds)" by (cases ds) (simp_all add: cs)
  with c show ?thesis using hd_in_set [of c] by (metis append_is_Nil_conv hd_append2)
qed

lemma slash_join_last: "\<forall>p \<in> set cs. good_part p \<Longrightarrow> cs \<noteq> [] \<Longrightarrow> last (slash_join cs) \<noteq> slash"
proof (induction cs)
  case (Cons c cs)
  show ?case
  proof (cases "cs = []")
    case True
    with Cons.prems have "last c \<in> set c" "slash \<notin> set c" by (auto simp: good_part_def)
    with True show ?thesis by auto
  next
    case False
    have "slash_join (c # cs) = c @ ''/'' @ slash_join cs" using False by (cases cs) simp_all
    moreover have "slash_join cs \<noteq> []" using slash_join_hd [of cs] Cons.prems(1) False by simp
    moreover have "last (slash_join cs) \<noteq> slash" using Cons False by simp
    ultimately show ?thesis by simp
  qed
qed simp

lemma initial_abs:
  assumes "n = 1 \<or> n = 2" "\<forall>p \<in> set cs. good_part p" "cs \<noteq> []"
  shows "initial_slashes (abs_path n cs) = n" "starts_slash (abs_path n cs)"
proof -
  obtain x xs where "slash_join cs = x # xs" "x \<noteq> slash"
    using slash_join_hd [OF assms(2,3)] by (cases "slash_join cs") auto
  then show "initial_slashes (abs_path n cs) = n" "starts_slash (abs_path n cs)"
    using assms(1) by (auto simp: abs_path_def initial_slashes_def starts_slash_def numeral_2_eq_2)
qed

lemma normpath_abs:
  assumes "n = 1 \<or> n = 2" "\<forall>p \<in> set cs. good_part p" "cs \<noteq> []"
  shows "normpath (abs_path n cs) = abs_path n cs"
proof -
  have "py_split slash (abs_path n cs) = replicate n [] @ cs"
    using assms(2,3) by (simp add: abs_path_def split_replicate split_slash_join good_part_def)
  then have "norm_comps (abs_path n cs) = fold (norm_comp True) cs (fold (norm_comp True) (replicate n []) [])"
    unfolding norm_comps_def using initial_abs(2) [OF assms] by (simp only: fold_append comp_apply)
  then have "norm_comps (abs_path n cs) = cs" using norm_good [OF assms(2)] by (simp only: norm_blank) simp
  moreover have "abs_path n cs \<noteq> ''''" using assms(1) by (auto simp: abs_path_def)
  ultimately show ?thesis using initial_abs [OF assms] by (simp add: normpath_def abs_path_def Let_def)
qed

lemma normpath_is_abs:
  assumes "starts_slash p"
  shows "normpath p = abs_path (initial_slashes p) (norm_comps p) \<and> (initial_slashes p = 1 \<or> initial_slashes p = 2)"
proof -
  have "p \<noteq> ''''" using assms by (auto simp: starts_slash_def)
  then show ?thesis using assms by (auto simp: normpath_def abs_path_def initial_slashes_def Let_def)
qed

lemma join_abs:
  assumes "\<forall>p \<in> set cs. good_part p" "cs \<noteq> []" "\<forall>p \<in> set ps. good_part p"
  shows "path_join (abs_path n cs) ps = abs_path n (cs @ ps)"
  using assms
proof (induction ps arbitrary: cs)
  case (Cons p ps)
  have ne: "abs_path n cs \<noteq> ''''" and l: "last (abs_path n cs) \<noteq> slash"
    using slash_join_hd [OF Cons.prems(1,2)] slash_join_last [OF Cons.prems(1,2)] by (simp_all add: abs_path_def)
  have e: "\<not> ends_slash (abs_path n cs)" using l by (auto simp: ends_slash_def suffix_def)
  have g: "good_part p" using Cons.prems(3) by simp
  then have "\<not> starts_slash p" by (auto simp: good_part_def starts_slash_def prefix_def)
  with ne e have "path_join1 (abs_path n cs) p = abs_path n cs @ ''/'' @ p" by simp
  also have "\<dots> = abs_path n (cs @ [p])" using Cons.prems(2) by (simp add: abs_path_def slash_join_append)
  finally have "path_join1 (abs_path n cs) p = abs_path n (cs @ [p])" .
  then show ?case using Cons.IH [of "cs @ [p]"] Cons.prems by (simp add: path_join_def)
qed (simp add: path_join_def)

section \<open>Containment\<close>

text \<open>A file name sent by a peer becomes a single path component: \<open>safe_basename\<close> with
  its default returns a name without slashes or backslashes that is not empty, \<open>.\<close> or
  \<open>..\<close>.\<close>

theorem safe_basename_component:
  "good_part (safe_basename filename ''file'') \<and> CHR 0x5C \<notin> set (safe_basename filename ''file'')"
proof -
  let ?raw = "fwd_slashes (orE filename)"
  have m: "basename ?raw \<in> set (py_split slash ?raw)" by (simp add: basename_def)
  have bs: "CHR 0x5C \<notin> set p" if "p \<in> set (py_split slash s)" "CHR 0x5C \<notin> set s" for p s
    using that by (induction s arbitrary: p) (auto split: if_splits list.splits)
  have "CHR 0x5C \<notin> set ?raw" by (auto simp: fwd_slashes_def)
  with bs m have "CHR 0x5C \<notin> set (basename ?raw)" by blast
  then show ?thesis using split_no_sep [OF m] by (auto simp: safe_basename_def good_part_def Let_def)
qed

lemma rel_parts_good: "good_part dflt \<Longrightarrow> \<forall>p \<in> set (rel_parts rel dflt). good_part p"
  using split_no_sep by (auto simp: rel_parts_def good_part_def Let_def)

lemma rel_parts_nonempty: "rel_parts rel dflt \<noteq> []"
  by (simp add: rel_parts_def Let_def)

text \<open>An upload's relative path never escapes: under an absolute base directory other
  than the root, \<open>safe_rel_path_under\<close> always yields a path, namely the base followed by
  the components of the sent path that are not empty, \<open>.\<close> or \<open>..\<close>, so its components
  extend those of the base.\<close>

theorem safe_rel_path_contained:
  assumes "starts_slash base" and "norm_comps base \<noteq> []" and "good_part dflt"
  shows "safe_rel_path_under base rel dflt
      = Some (abs_path (initial_slashes base) (norm_comps base @ rel_parts rel dflt))
    \<and> (\<forall>p \<in> set (rel_parts rel dflt). good_part p)"
proof -
  let ?n = "initial_slashes base" and ?cs = "norm_comps base" and ?ps = "rel_parts rel dflt"
  have b: "normpath base = abs_path ?n ?cs" and n: "?n = 1 \<or> ?n = 2"
    using normpath_is_abs [OF assms(1)] by auto
  have cs: "\<forall>p \<in> set ?cs. good_part p" by (rule norm_comps_good [OF assms(1)])
  have ps: "\<forall>p \<in> set ?ps. good_part p" by (rule rel_parts_good [OF assms(3)])
  have j: "normpath (path_join (normpath base) ?ps) = abs_path ?n (?cs @ ?ps)"
    unfolding b join_abs [OF cs assms(2) ps] using cs ps assms(2) by (intro normpath_abs [OF n]) auto
  have "prefix (abs_path ?n ?cs @ ''/'') (abs_path ?n (?cs @ ?ps))"
    using rel_parts_nonempty assms(2) by (simp add: abs_path_def slash_join_append)
  then show ?thesis using j b ps by (simp add: safe_rel_path_under_def safe_path_under_def Let_def)
qed

lemma safe_rel_path_contained_witness:
  "safe_rel_path_under ''/srv/up/'' (Some ''../../etc/passwd'') ''file'' = Some ''/srv/up/etc/passwd''"
proof -
  have "starts_slash ''/srv/up/''" "norm_comps ''/srv/up/'' \<noteq> []" "good_part ''file''" by code_simp+
  from safe_rel_path_contained [OF this, of "Some ''../../etc/passwd''"]
  have "safe_rel_path_under ''/srv/up/'' (Some ''../../etc/passwd'') ''file''
    = Some (abs_path (initial_slashes ''/srv/up/'') (norm_comps ''/srv/up/'' @ rel_parts (Some ''../../etc/passwd'') ''file''))" ..
  also have "\<dots> = Some ''/srv/up/etc/passwd''" by code_simp
  finally show ?thesis .
qed

end
