(* ===== verification/PeerRank.thy ===== *)
theory PeerRank
  imports PeerRow
begin

text \<open>
  The functions of \<open>chatxz/core/discovery.py\<close> that read one or two rows: the storage
  key, the key rows are deduplicated by, viability, and the two choices between rows.
  What the code asks the host for (the pinned address, whether the USB bridge is up, the
  clock, the interface an announce packet came in on) is the record \<open>denv\<close>; one
  operation runs at one reading of it.
\<close>

record denv =
  e_scope :: "string option"                     \<comment> \<open>\<open>discovery_scope_ip()\<close>\<close>
  e_serial :: bool                               \<comment> \<open>\<open>serial_discovery_active()\<close>\<close>
  e_now :: real                                  \<comment> \<open>\<open>time.time()\<close>\<close>
  e_pkt_family :: "nat list \<Rightarrow> string option"    \<comment> \<open>family of the packet's interface\<close>

definition scope_of :: "denv \<Rightarrow> string option" where
  "scope_of env = or_none (stripE (e_scope env))"

abbreviation is_serial :: "peer \<Rightarrow> bool" where
  "is_serial peer \<equiv> stripE (p_via peer) = ''serial''"

section \<open>Keys\<close>

definition storage_via :: "string option \<Rightarrow> string" where
  "storage_via via = (let raw_via = py_lower (py_strip (py_or (orE via) ''lan'')) in
     if raw_via = ''serial'' then ''serial''
     else if raw_via \<notin> set [''rns'', ''beacon'', ''lan'', ''''] then raw_via else ''lan'')"

definition peer_storage_key :: "peer \<Rightarrow> string" where
  "peer_storage_key peer = (let h = normalize_hash (p_hash peer) in
     if h = '''' then '''' else h @ '':'' @ storage_via (p_via peer))"

definition peer_dedup_key :: "peer \<Rightarrow> string" where
  "peer_dedup_key peer = (
     let h = normalize_hash (p_hash peer);
         via = py_lower (py_strip (py_or (orE (p_via peer)) ''lan''));
         via = (if via \<in> set [''rns'', ''beacon'', ''''] then ''lan'' else via);
         via_label = (if via = ''serial'' then ''usb'' else via);
         ident = normalize_hash (p_identity_hash peer);
         pubkey = stripE (p_pubkey peer)
     in if h \<noteq> '''' then ''dest:'' @ h @ '':via:'' @ via_label
        else if ident \<noteq> '''' then ''ident:'' @ ident @ '':via:'' @ via_label
        else if pubkey \<noteq> '''' then ''pk:'' @ take 48 pubkey @ '':via:'' @ via_label
        else ''hash:unknown:via:'' @ via_label)"

section \<open>Viability and choice\<close>

definition peer_viable :: "denv \<Rightarrow> string option \<Rightarrow> peer \<Rightarrow> bool" where
  "peer_viable env scope_ip peer = (
     if is_serial peer then e_serial env
     else let ip = stripE (p_ip peer) in
       if ip = '''' then False
       else case scope_ip of None \<Rightarrow> True
         | Some s \<Rightarrow> (case or_none (py_strip s) of None \<Rightarrow> True
             | Some scope \<Rightarrow> peer_in_scope (Some ip) (Some scope)))"

definition peer_rank :: "peer \<Rightarrow> int" where
  "peer_rank peer = (
     let hash_prefix = take 8 (normalize_hash (p_hash peer)); name = orE (p_name peer) in
     (if p_via peer = Some ''serial'' then 22
      else if p_via peer \<in> {Some ''rns'', Some ''beacon''} then 20 else 0)
     + (if truthy (p_pubkey peer) then 8 else 0)
     + (if 32 \<le> length (normalize_hash (p_hash peer)) then 5 else 0)
     + (if truthy (p_ip peer) then 2 else 0)
     + (if name \<noteq> '''' \<and> name \<noteq> hash_prefix \<and> \<not> prefix hash_prefix name then 3 else 0))"

definition seen0 :: "peer \<Rightarrow> real" where
  "seen0 peer = (case p_last_seen peer of None \<Rightarrow> 0 | Some t \<Rightarrow> t)"

text \<open>\<open>_prefer_peer\<close> as the test whether the first row wins; the callers that compare
  the winner with \<open>is\<close> use the test.\<close>

definition prefer_first :: "denv \<Rightarrow> string option \<Rightarrow> peer \<Rightarrow> peer \<Rightarrow> bool" where
  "prefer_first env scope_ip a b = (
     let a_ok = peer_viable env scope_ip a; b_ok = peer_viable env scope_ip b in
     if a_ok \<noteq> b_ok then a_ok
     else case (p_rtt_avg_ms a, p_rtt_avg_ms b) of
         (Some x, Some y) \<Rightarrow> if x \<noteq> y then x < y
            else if peer_rank a \<noteq> peer_rank b then peer_rank b < peer_rank a else seen0 b \<le> seen0 a
       | (Some _, None) \<Rightarrow> True
       | (None, Some _) \<Rightarrow> False
       | (None, None) \<Rightarrow>
            if peer_rank a \<noteq> peer_rank b then peer_rank b < peer_rank a else seen0 b \<le> seen0 a)"

definition prefer_peer :: "denv \<Rightarrow> string option \<Rightarrow> peer \<Rightarrow> peer \<Rightarrow> peer" where
  "prefer_peer env scope_ip a b = (if prefer_first env scope_ip a b then a else b)"

definition same_peer_identity :: "peer \<Rightarrow> peer \<Rightarrow> bool" where
  "same_peer_identity a b = (
     let a_ident = normalize_hash (p_identity_hash a); b_ident = normalize_hash (p_identity_hash b) in
     if a_ident \<noteq> '''' \<and> b_ident \<noteq> '''' \<and> a_ident = b_ident then True
     else truthy (p_pubkey a) \<and> truthy (p_pubkey b) \<and> p_pubkey a = p_pubkey b)"

definition same_ip_preferred :: "denv \<Rightarrow> string option \<Rightarrow> peer \<Rightarrow> peer \<Rightarrow> peer" where
  "same_ip_preferred env scope_ip a b = (
     let a_verified = truthy (p_pubkey a); b_verified = truthy (p_pubkey b);
         a_via = stripE (p_via a); b_via = stripE (p_via b) in
     if a_verified \<noteq> b_verified then (if a_verified then a else b)
     else if seen0 a \<noteq> seen0 b then (if seen0 b \<le> seen0 a then a else b)
     else if a_via = ''rns'' \<and> b_via = ''beacon'' then a
     else if b_via = ''rns'' \<and> a_via = ''beacon'' then b
     else prefer_peer env scope_ip a b)"

section \<open>Laws\<close>

interpretation best: good_selector "prefer_peer env scope" "peer_viable env scope" for env scope
  by unfold_locales (auto simp: prefer_peer_def prefer_first_def Let_def)

interpretation same_ip: selector "same_ip_preferred env scope" for env scope
  by unfold_locales (auto simp: same_ip_preferred_def prefer_peer_def Let_def)

text \<open>
  The order behind \<open>_prefer_peer\<close>: a row is at least as good as another when the pair
  (viable, round trip, rank, last seen) is; the choice is a maximum of it.
\<close>

definition row_ge :: "denv \<Rightarrow> string option \<Rightarrow> peer \<Rightarrow> peer \<Rightarrow> bool" where
  "row_ge env scope a b = (
     let va = peer_viable env scope a; vb = peer_viable env scope b in
     (va \<and> \<not> vb) \<or> (va = vb \<and>
       (case (p_rtt_avg_ms a, p_rtt_avg_ms b) of
          (Some x, None) \<Rightarrow> True
        | (None, Some y) \<Rightarrow> False
        | (Some x, Some y) \<Rightarrow> x < y \<or> (x = y \<and> (peer_rank b < peer_rank a
              \<or> (peer_rank a = peer_rank b \<and> seen0 b \<le> seen0 a)))
        | (None, None) \<Rightarrow> peer_rank b < peer_rank a \<or> (peer_rank a = peer_rank b \<and> seen0 b \<le> seen0 a))))"

lemma prefer_first_ge: "prefer_first env scope a b = row_ge env scope a b"
  by (auto simp: prefer_first_def row_ge_def Let_def split: option.splits)

lemma row_ge_total: "row_ge env scope a b \<or> row_ge env scope b a"
  by (auto simp: row_ge_def Let_def split: option.splits)

lemma row_ge_trans: "row_ge env scope a b \<Longrightarrow> row_ge env scope b c \<Longrightarrow> row_ge env scope a c"
  unfolding row_ge_def Let_def
  by (cases "p_rtt_avg_ms a"; cases "p_rtt_avg_ms b"; cases "p_rtt_avg_ms c") auto

lemma row_ge_refl [simp]: "row_ge env scope a a"
  using row_ge_total by blast

lemma fold_prefer_best: "x \<in> insert a (set bs) \<Longrightarrow> row_ge env scope (fold (\<lambda>b a. prefer_peer env scope a b) bs a) x"
proof (induction bs arbitrary: a x)
  case (Cons b bs)
  let ?p = "prefer_peer env scope a b"
  have p: "row_ge env scope ?p a" "row_ge env scope ?p b"
    using row_ge_total [of env scope a b] by (auto simp: prefer_peer_def prefer_first_ge)
  have f: "row_ge env scope (fold (\<lambda>b a. prefer_peer env scope a b) bs ?p) ?p"
    by (rule Cons.IH) simp
  show ?case
  proof (cases "x \<in> set bs")
    case True
    then show ?thesis using Cons.IH [of x ?p] by simp
  next
    case False
    then have "x = a \<or> x = b" using Cons.prems by auto
    with p have "row_ge env scope ?p x" by auto
    then show ?thesis using f row_ge_trans by fastforce
  qed
qed simp

text \<open>Folding \<open>_prefer_peer\<close> over the rows of one peer gives one of those rows, at
  least as good as each of them: viable if any of them is, then the lowest average round
  trip (a measured row beats an unmeasured one), then the rank, then the latest.  In
  particular the choice does not depend on which viable row came first.\<close>

theorem prefer_peer_best:
  "fold (\<lambda>b a. prefer_peer env scope a b) bs a \<in> insert a (set bs)
   \<and> (\<forall>x \<in> insert a (set bs). row_ge env scope (fold (\<lambda>b a. prefer_peer env scope a b) bs a) x)
   \<and> ((\<exists>x \<in> insert a (set bs). peer_viable env scope x)
      \<longrightarrow> peer_viable env scope (fold (\<lambda>b a. prefer_peer env scope a b) bs a))"
  using best.fold_pick_in best.fold_pick_good fold_prefer_best by blast

definition fast_row :: peer where
  "fast_row = empty_peer\<lparr>p_hash := Some ''aa'', p_ip := Some ''10.0.0.5'', p_rtt_avg_ms := Some 4\<rparr>"

definition usb_row :: peer where
  "usb_row = empty_peer\<lparr>p_hash := Some ''aa'', p_via := Some ''serial'', p_rtt_avg_ms := Some 2\<rparr>"

definition quiet_env :: denv where
  "quiet_env = \<lparr>e_scope = None, e_serial = False, e_now = 1000, e_pkt_family = (\<lambda>_. None)\<rparr>"

lemma prefer_peer_best_witness:
  "peer_viable quiet_env None (fold (\<lambda>b a. prefer_peer quiet_env None a b) [fast_row] usb_row)"
proof -
  have "peer_viable quiet_env None fast_row" by code_simp
  then show ?thesis using prefer_peer_best [of quiet_env None "[fast_row]" usb_row] by simp
qed

text \<open>The storage key: its hash part and its transport part.\<close>

lemma storage_key_empty [simp]: "peer_storage_key peer = '''' \<longleftrightarrow> normalize_hash (p_hash peer) = ''''"
  by (simp add: peer_storage_key_def Let_def)

lemma takeWhile_hash: "takeWhile (\<lambda>c. c \<noteq> CHR '':'') (normalize_hash h @ '':'' @ v) = normalize_hash h"
proof -
  have "\<forall>c \<in> set (normalize_hash h). c \<noteq> CHR '':''" using normalize_hash_no_colon [of h] by metis
  then show ?thesis by (subst takeWhile_append2) auto
qed

lemma storage_key_inject:
  assumes "normalize_hash (p_hash a) \<noteq> ''''"
  shows "peer_storage_key a = peer_storage_key b \<longleftrightarrow>
    normalize_hash (p_hash a) = normalize_hash (p_hash b) \<and> storage_via (p_via a) = storage_via (p_via b)"
proof
  assume k: "peer_storage_key a = peer_storage_key b"
  then have b: "normalize_hash (p_hash b) \<noteq> ''''" using assms storage_key_empty by metis
  from k have e: "normalize_hash (p_hash a) @ '':'' @ storage_via (p_via a)
      = normalize_hash (p_hash b) @ '':'' @ storage_via (p_via b)"
    using assms b by (simp add: peer_storage_key_def Let_def)
  then have "normalize_hash (p_hash a) = normalize_hash (p_hash b)" using takeWhile_hash by metis
  with e show "normalize_hash (p_hash a) = normalize_hash (p_hash b) \<and> storage_via (p_via a) = storage_via (p_via b)"
    by simp
qed (simp add: peer_storage_key_def Let_def)

lemma storage_via_values:
  "storage_via (Some ''serial'') = ''serial''" "storage_via (Some ''rns'') = ''lan''"
  "storage_via (Some ''beacon'') = ''lan''" "storage_via (Some ''lan'') = ''lan''"
  "storage_via (Some '''') = ''lan''" "storage_via None = ''lan''"
  by code_simp+

text \<open>Two rows share a storage key exactly when they have the same normalised hash and
  the same transport class, so an RNS announce and a beacon of one peer share a row and
  its USB row is a different one.\<close>

theorem storage_key_exact:
  assumes "normalize_hash (p_hash a) \<noteq> ''''"
  shows "(peer_storage_key a = peer_storage_key b \<longleftrightarrow>
      normalize_hash (p_hash a) = normalize_hash (p_hash b) \<and> storage_via (p_via a) = storage_via (p_via b))
    \<and> peer_storage_key (a\<lparr>p_via := Some ''rns''\<rparr>) = peer_storage_key (a\<lparr>p_via := Some ''beacon''\<rparr>)
    \<and> peer_storage_key (a\<lparr>p_via := Some ''rns''\<rparr>) \<noteq> peer_storage_key (a\<lparr>p_via := Some ''serial''\<rparr>)"
proof -
  have "peer_storage_key (a\<lparr>p_via := Some ''rns''\<rparr>) = peer_storage_key (a\<lparr>p_via := Some ''beacon''\<rparr>)"
      "peer_storage_key (a\<lparr>p_via := Some ''rns''\<rparr>) \<noteq> peer_storage_key (a\<lparr>p_via := Some ''serial''\<rparr>)"
    using assms by (simp_all add: storage_key_inject storage_via_values)
  with storage_key_inject [OF assms] show ?thesis by blast
qed

lemma storage_key_exact_witness:
  "normalize_hash (p_hash fast_row) \<noteq> '''' \<and> peer_storage_key fast_row \<noteq> peer_storage_key usb_row"
proof -
  have h: "normalize_hash (p_hash fast_row) \<noteq> ''''" by code_simp
  have "storage_via (p_via fast_row) \<noteq> storage_via (p_via usb_row)" by code_simp
  with storage_key_exact [OF h, of usb_row] h show ?thesis by blast
qed

end
