(* ===== verification/PeerProbe.thy ===== *)
theory PeerProbe
  imports PyPrelude
begin

text \<open>
  \<open>chatxz/core/peer_probe.py\<close>: the interval clamps, the rolling average of round trip
  times, and the table of pending UDP probes, which the prober thread and the beacon
  receive thread share under a lock.  Each locked section is one step; every
  interleaving of the threads is a list of steps.
\<close>

definition probe_interval_s :: int where "probe_interval_s = 30"
definition probe_interval_min_s :: int where "probe_interval_min_s = 0"
definition probe_interval_serial_min_s :: int where "probe_interval_serial_min_s = 3"
definition probe_interval_max_s :: int where "probe_interval_max_s = 18000"
definition announce_interval_max_s :: int where "announce_interval_max_s = 18000"
definition probe_avg_window :: nat where "probe_avg_window = 6"

lemmas probe_consts = probe_interval_s_def probe_interval_min_s_def probe_interval_serial_min_s_def
  probe_interval_max_s_def announce_interval_max_s_def probe_avg_window_def

section \<open>Clamps\<close>

definition clamp_probe_interval :: "pyval \<Rightarrow> int" where
  "clamp_probe_interval seconds = (
     let v = (case py_int_val seconds of Some n \<Rightarrow> n | None \<Rightarrow> probe_interval_s)
     in max probe_interval_min_s (min probe_interval_max_s v))"

definition clamp_serial_probe_interval :: "pyval \<Rightarrow> int" where
  "clamp_serial_probe_interval seconds = (
     let v = (case py_int_val seconds of Some n \<Rightarrow> n | None \<Rightarrow> probe_interval_s)
     in if v \<le> 0 then 0 else max probe_interval_serial_min_s (min probe_interval_max_s v))"

definition clamp_announce_interval :: "pyval \<Rightarrow> int" where
  "clamp_announce_interval seconds = (case py_int_val seconds of
      None \<Rightarrow> 0 | Some v \<Rightarrow> max 0 (min announce_interval_max_s v))"

text \<open>Whatever the user or a config file supplies (an integer, a string, anything
  \<open>int()\<close> rejects), the probe intervals are 0 (off) or at most five hours, the serial one
  never between 1 and 2 seconds, and clamping again changes nothing.\<close>

theorem clamped_intervals:
  "clamp_probe_interval v \<in> {0..18000}
   \<and> clamp_serial_probe_interval v \<in> {0} \<union> {3..18000}
   \<and> clamp_announce_interval v \<in> {0..18000}
   \<and> clamp_probe_interval (VInt (clamp_probe_interval v)) = clamp_probe_interval v
   \<and> clamp_serial_probe_interval (VInt (clamp_serial_probe_interval v)) = clamp_serial_probe_interval v
   \<and> clamp_announce_interval (VInt (clamp_announce_interval v)) = clamp_announce_interval v"
  by (cases "py_int_val v")
     (auto simp: clamp_probe_interval_def clamp_serial_probe_interval_def clamp_announce_interval_def
        probe_consts Let_def)

section \<open>Rolling average\<close>

text \<open>\<open>int(a / b)\<close> for a positive \<open>b\<close> (the quotient rounded toward
  zero; the float division of the code is exact below \<open>2 ^ 53\<close>).\<close>

definition trunc_div :: "int \<Rightarrow> int \<Rightarrow> int" where
  "trunc_div a b = (if 0 \<le> a then a div b else - ((- a) div b))"

definition rolling_avg_ms :: "int list option \<Rightarrow> int option \<Rightarrow> int list option" where
  "rolling_avg_ms samples value = (case value of None \<Rightarrow> samples
     | Some v \<Rightarrow> Some (last_n probe_avg_window ((case samples of None \<Rightarrow> [] | Some s \<Rightarrow> s) @ [v])))"

definition avg_ms :: "int list option \<Rightarrow> int option" where
  "avg_ms samples = (let vals = (case samples of None \<Rightarrow> [] | Some s \<Rightarrow> s) in
     if vals = [] then None else Some (trunc_div (sum_list vals) (int (length vals))))"

lemma sum_list_bounds:
  fixes vals :: "int list"
  assumes "\<forall>v \<in> set vals. lo \<le> v \<and> v \<le> hi"
  shows "lo * int (length vals) \<le> sum_list vals \<and> sum_list vals \<le> hi * int (length vals)"
  using assms by (induction vals) (auto simp: algebra_simps)

lemma trunc_div_bounds:
  assumes "lo * b \<le> a" "a \<le> hi * b" "0 < b"
  shows "lo \<le> trunc_div a b \<and> trunc_div a b \<le> hi"
proof (cases "0 \<le> a")
  case True
  have "lo \<le> a div b" using assms zdiv_mono1 [OF assms(1,3)] by simp
  moreover have "a div b \<le> hi" using assms zdiv_mono1 [OF assms(2,3)] by simp
  ultimately show ?thesis using True by (simp add: trunc_div_def)
next
  case False
  have "(- a) div b \<le> (- lo) * b div b" using assms by (intro zdiv_mono1) simp_all
  moreover have "(- hi) * b div b \<le> (- a) div b" using assms by (intro zdiv_mono1) simp_all
  ultimately have "(- a) div b \<le> - lo" "- hi \<le> (- a) div b"
    using assms(3) nonzero_mult_div_cancel_right [of b "- lo"] nonzero_mult_div_cancel_right [of b "- hi"] by simp_all
  then show ?thesis using False by (simp add: trunc_div_def)
qed

text \<open>Recording a round trip time keeps at most six samples, the newest of them last,
  all of them samples that were recorded, and their average exists and lies between the
  least and the greatest sample.\<close>

theorem rolling_window:
  assumes "\<forall>x \<in> set (case samples of None \<Rightarrow> [] | Some s \<Rightarrow> s). lo \<le> x \<and> x \<le> hi" and "lo \<le> v" "v \<le> hi"
  shows "\<exists>s a. rolling_avg_ms samples (Some v) = Some s \<and> length s \<le> 6 \<and> s \<noteq> [] \<and> last s = v
    \<and> set s \<subseteq> insert v (set (case samples of None \<Rightarrow> [] | Some s \<Rightarrow> s))
    \<and> avg_ms (Some s) = Some a \<and> lo \<le> a \<and> a \<le> hi"
proof -
  let ?old = "case samples of None \<Rightarrow> [] | Some s \<Rightarrow> s"
  let ?s = "last_n probe_avg_window (?old @ [v])"
  have r: "rolling_avg_ms samples (Some v) = Some ?s" by (simp add: rolling_avg_ms_def)
  have ne: "?s \<noteq> []" "last ?s = v" using last_n_snoc [of probe_avg_window ?old v] by (simp_all add: probe_consts)
  have sub: "set ?s \<subseteq> insert v (set ?old)" using set_last_n [of probe_avg_window "?old @ [v]"] by auto
  then have b: "\<forall>x \<in> set ?s. lo \<le> x \<and> x \<le> hi" using assms by blast
  have "lo \<le> trunc_div (sum_list ?s) (int (length ?s)) \<and> trunc_div (sum_list ?s) (int (length ?s)) \<le> hi"
    by (rule trunc_div_bounds [OF conjunct1 [OF sum_list_bounds [OF b]] conjunct2 [OF sum_list_bounds [OF b]]])
       (metis length_greater_0_conv of_nat_0_less_iff ne(1))
  moreover have "avg_ms (Some ?s) = Some (trunc_div (sum_list ?s) (int (length ?s)))"
    using ne by (simp add: avg_ms_def)
  moreover have "length ?s \<le> 6" by (simp add: probe_consts)
  ultimately show ?thesis using r ne sub by blast
qed

lemma rolling_window_witness:
  "\<exists>s a. rolling_avg_ms (Some [3, 9, 4, 7, 8, 5, 6]) (Some 2) = Some s \<and> length s \<le> 6
     \<and> avg_ms (Some s) = Some a \<and> 2 \<le> a \<and> a \<le> 9"
proof -
  have "\<forall>x \<in> set (case Some [3, 9, 4, 7, 8, 5, 6 :: int] of None \<Rightarrow> [] | Some s \<Rightarrow> s). 2 \<le> x \<and> x \<le> 9" by simp
  from rolling_window [OF this, of 2] show ?thesis by auto
qed

section \<open>Pending probes\<close>

text \<open>
  The module's table \<open>_pending_probes\<close> maps a probe id to the \<open>rtt_ms\<close> of its entry;
  \<open>fired\<close> lists the ids whose event is set, \<open>detached\<close> the entries that were popped
  and written afterwards, with the value written; \<open>results\<close> are the values
  \<open>probe_udp_peer\<close> returned.
\<close>

record probe_state =
  pending :: "(string, int option) pydict"
  fired :: "string list"
  detached :: "(string \<times> int) list"
  results :: "(string \<times> int option) list"

definition no_probes :: probe_state where
  "no_probes = \<lparr>pending = [], fired = [], detached = [], results = []\<rparr>"

text \<open>\<open>register_probe_ack\<close>: the entry is popped first, then written and its event set.\<close>

definition register_probe_ack :: "string \<Rightarrow> int \<Rightarrow> probe_state \<Rightarrow> bool \<times> probe_state" where
  "register_probe_ack probe_id rtt_ms s = (case map_of (pending s) probe_id of
      None \<Rightarrow> (False, s)
    | Some entry \<Rightarrow> (True, s\<lparr>pending := AList.delete probe_id (pending s),
        detached := (probe_id, rtt_ms) # detached s, fired := probe_id # fired s\<rparr>))"

text \<open>The locked sections of \<open>probe_udp_peer\<close>: registering, the end of a wait that timed
  out, the end of a wait whose event was set, and the socket error that skips both.\<close>

definition probe_begin :: "string \<Rightarrow> probe_state \<Rightarrow> probe_state" where
  "probe_begin probe_id s = s\<lparr>pending := AList.update probe_id None (pending s)\<rparr>"

definition probe_timeout :: "string \<Rightarrow> probe_state \<Rightarrow> probe_state" where
  "probe_timeout probe_id s = (if probe_id \<in> set (fired s) then s
     else s\<lparr>pending := AList.delete probe_id (pending s), results := (probe_id, None) # results s\<rparr>)"

definition probe_finish :: "string \<Rightarrow> probe_state \<Rightarrow> probe_state" where
  "probe_finish probe_id s = (if probe_id \<notin> set (fired s) then s
     else let entry = map_of (pending s) probe_id;
              res = (case entry of Some (Some rtt) \<Rightarrow> Some rtt | _ \<Rightarrow> None)
     in s\<lparr>pending := AList.delete probe_id (pending s), results := (probe_id, res) # results s\<rparr>)"

definition probe_socket_error :: "string \<Rightarrow> probe_state \<Rightarrow> probe_state" where
  "probe_socket_error probe_id s = s\<lparr>results := (probe_id, None) # results s\<rparr>"

datatype probe_event = Begin string | Ack string int | Timeout string | Finish string | SocketError string

fun probe_step :: "probe_event \<Rightarrow> probe_state \<Rightarrow> probe_state" where
  "probe_step (Begin i) s = probe_begin i s"
| "probe_step (Ack i rtt) s = snd (register_probe_ack i rtt s)"
| "probe_step (Timeout i) s = probe_timeout i s"
| "probe_step (Finish i) s = probe_finish i s"
| "probe_step (SocketError i) s = probe_socket_error i s"

definition probe_inv :: "probe_state \<Rightarrow> bool" where
  "probe_inv s \<longleftrightarrow> (\<forall>p \<in> set (pending s). snd p = None) \<and> (\<forall>p \<in> set (results s). snd p = None)"

lemma probe_inv_update: "(\<forall>p \<in> set d. snd p = None) \<Longrightarrow> \<forall>p \<in> set (AList.update i None d). snd p = None"
  using set_update_subset [of i None d] by fastforce

interpretation probes: step_system probe_step "\<lambda>_. True" probe_inv
proof
  fix e s assume inv: "probe_inv s"
  show "probe_inv (probe_step e s)"
  proof (cases e)
    case (Begin i)
    have "\<forall>p \<in> set (AList.update i None (pending s)). snd p = None"
      using inv by (intro probe_inv_update) (simp add: probe_inv_def)
    with Begin inv show ?thesis by (simp add: probe_begin_def probe_inv_def)
  next
    case (Finish i)
    have "map_of (pending s) i = None \<or> map_of (pending s) i = Some None"
      using inv by (cases "map_of (pending s) i") (auto simp: probe_inv_def dest!: map_of_SomeD)
    with Finish inv show ?thesis by (auto simp: probe_finish_def probe_inv_def Let_def)
  qed (use inv in \<open>auto simp: register_probe_ack_def probe_timeout_def probe_socket_error_def probe_inv_def
        split: option.splits\<close>)
qed

text \<open>In every interleaving of probes and acknowledgements \<open>probe_udp_peer\<close> returns
  \<open>None\<close>, also for a probe that was acknowledged in time: \<open>register_probe_ack\<close> pops the
  entry before it writes the round trip time, so the prober's own \<open>pop\<close> finds nothing.\<close>

theorem udp_probe_never_measures:
  "results (fold probe_step es no_probes) = map (\<lambda>p. (fst p, None)) (results (fold probe_step es no_probes))"
proof -
  have "probe_inv (fold probe_step es no_probes)"
    by (rule probes.run_inv) (simp_all add: probe_inv_def no_probes_def)
  then show ?thesis by (simp add: probe_inv_def map_idI prod_eq_iff)
qed

end
