(* ===== verification/Discovery.thy ===== *)
theory Discovery
  imports PeerRank PeerProbe UdpTargets
begin

text \<open>
  \<open>PeerDiscovery\<close> of \<open>chatxz/core/discovery.py\<close>: the table of rows and every operation
  on it.  The table is a dict in insertion order.  Rows are shared references in the
  code; an in-place change of a stored row is a change of the table here.  Calls that
  leave the class (the two callbacks, the identity registration, the path refresh) are
  appended to \<open>effects\<close>; the process-wide set of UDP peer addresses is \<open>udp_ips\<close>.
\<close>

datatype effect =
    PeerSeen peer
  | PeerEvicted "string list" "peer option"
  | RegisterIdentity peer
  | ReinforceSerial string

record dstate =
  peers :: "(string, peer) pydict"
  running :: bool
  accept_peers :: bool
  last_log :: "(string, real) pydict"
  local_hashes :: "string list"
  udp_ips :: "string list"
  effects :: "effect list"

definition new_discovery :: dstate where
  "new_discovery = \<lparr>peers = [], running = False, accept_peers = False, last_log = [],
     local_hashes = [], udp_ips = [], effects = []\<rparr>"

definition emit :: "effect \<Rightarrow> dstate \<Rightarrow> dstate" where
  "emit e s = s\<lparr>effects := effects s @ [e]\<rparr>"

definition notify_peer_evicted :: "string list \<Rightarrow> peer option \<Rightarrow> dstate \<Rightarrow> dstate" where
  "notify_peer_evicted removed new_peer s = (if removed = [] then s else emit (PeerEvicted removed new_peer) s)"

definition del_peer :: "string \<Rightarrow> dstate \<Rightarrow> dstate" where
  "del_peer key s = s\<lparr>peers := AList.delete key (peers s)\<rparr>"

definition pop_log :: "string \<Rightarrow> dstate \<Rightarrow> dstate" where
  "pop_log key s = s\<lparr>last_log := AList.delete key (last_log s)\<rparr>"

definition pop_logs :: "string \<Rightarrow> dstate \<Rightarrow> dstate" where
  "pop_logs h s = pop_log (''beacon-id:'' @ h) (pop_log (''beacon:'' @ h) (pop_log h s))"

definition unregister_ip :: "string option \<Rightarrow> dstate \<Rightarrow> dstate" where
  "unregister_ip ip s = s\<lparr>udp_ips := unregister_udp_peer_ip ip (udp_ips s)\<rparr>"

definition register_ip :: "string option \<Rightarrow> dstate \<Rightarrow> dstate" where
  "register_ip ip s = s\<lparr>udp_ips := register_udp_peer_ip ip (udp_ips s)\<rparr>"

text \<open>\<open>self.peers.get(key) or {}\<close>, and the keys a loop over \<open>list(self.peers)\<close> visits.\<close>

definition row :: "dstate \<Rightarrow> string \<Rightarrow> peer" where
  "row s key = (case map_of (peers s) key of None \<Rightarrow> empty_peer | Some p \<Rightarrow> p)"

definition keys :: "dstate \<Rightarrow> string list" where
  "keys s = map fst (peers s)"

definition is_local_hash :: "dstate \<Rightarrow> string \<Rightarrow> bool" where
  "is_local_hash s hash_hex = (let clean = normalize_hash (Some hash_hex) in
     clean \<noteq> '''' \<and> clean \<in> set (local_hashes s))"

section \<open>Removing rows\<close>

definition remove_entry_at :: "string \<Rightarrow> dstate \<Rightarrow> dstate" where
  "remove_entry_at key s = (
     let entry = row s key; s = del_peer key s;
         s = (if truthy (p_ip entry) then unregister_ip (p_ip entry) s else s);
         hash_hex = normalize_hash (if truthy (p_hash entry) then p_hash entry else Some key)
     in notify_peer_evicted [hash_hex] None (pop_logs hash_hex s))"

definition remove_peer_entry :: "string \<Rightarrow> dstate \<Rightarrow> dstate" where
  "remove_peer_entry storage_key s = (let key = py_strip storage_key in
     if key = '''' then s
     else if map_of (peers s) key \<noteq> None then remove_entry_at key s
     else let clean = normalize_hash (Some key) in
       if clean = '''' \<or> map_of (peers s) clean = None then s
       else remove_entry_at clean s)"

definition set_local_hashes :: "string option list \<Rightarrow> dstate \<Rightarrow> dstate" where
  "set_local_hashes hashes s = (
     let clean = remdups (filter (\<lambda>h. h \<noteq> '''') (map normalize_hash hashes));
         s = s\<lparr>local_hashes := clean\<rparr>
     in if clean = [] then s
        else fold (\<lambda>key s. let r = row s key in
            if normalize_hash (p_hash r) \<in> set clean \<or> normalize_hash (p_identity_hash r) \<in> set clean
            then remove_peer_entry key s else s) (keys s) s)"

definition clear_peers :: "dstate \<Rightarrow> dstate" where
  "clear_peers s = s\<lparr>peers := [], last_log := []\<rparr>"

definition start :: "dstate \<Rightarrow> dstate" where
  "start s = s\<lparr>running := True, accept_peers := False\<rparr>"

definition stop :: "dstate \<Rightarrow> dstate" where
  "stop s = s\<lparr>running := False\<rparr>"

definition enable_discovery :: "bool \<Rightarrow> dstate \<Rightarrow> dstate" where
  "enable_discovery clear s = (let s = s\<lparr>accept_peers := True\<rparr> in if clear then clear_peers s else s)"

definition disable_discovery :: "dstate \<Rightarrow> dstate" where
  "disable_discovery s = clear_peers (s\<lparr>accept_peers := False\<rparr>)"

section \<open>Purges\<close>

text \<open>A loop that tests each row of a snapshot of the keys and counts what it removes.\<close>

definition purge_loop :: "(peer \<Rightarrow> string \<Rightarrow> bool) \<Rightarrow> (string \<Rightarrow> dstate \<Rightarrow> dstate) \<Rightarrow> dstate \<Rightarrow> int \<times> dstate" where
  "purge_loop bad rm s0 = fold (\<lambda>key (n, s). if bad (row s key) key then (n + 1, rm key s) else (n, s))
     (keys s0) (0, s0)"

definition purge_out_of_scope :: "string option \<Rightarrow> dstate \<Rightarrow> int \<times> dstate" where
  "purge_out_of_scope scope_ip s = (let scope = stripE scope_ip in
     if scope = '''' then (0, s)
     else purge_loop (\<lambda>peer _. \<not> is_serial peer \<and> stripE (p_ip peer) \<noteq> ''''
              \<and> \<not> same_lan_scope (stripE (p_ip peer)) scope)
            (\<lambda>key s. del_peer key (unregister_ip (Some (stripE (p_ip (row s key)))) s)) s)"

definition purge_ipless_non_serial :: "dstate \<Rightarrow> int \<times> dstate" where
  "purge_ipless_non_serial s =
     purge_loop (\<lambda>peer _. \<not> is_serial peer \<and> stripE (p_ip peer) = '''') del_peer s"

definition row_hash :: "peer \<Rightarrow> string \<Rightarrow> string" where
  "row_hash peer key = normalize_hash (if truthy (p_hash peer) then p_hash peer else Some key)"

definition pkt_family :: "denv \<Rightarrow> string \<Rightarrow> string option" where
  "pkt_family env hash_hex = (case py_fromhex hash_hex of None \<Rightarrow> None
     | Some dest \<Rightarrow> if dest = [] then None else e_pkt_family env dest)"

definition drop_serial_row :: "string \<Rightarrow> dstate \<Rightarrow> dstate" where
  "drop_serial_row key s = pop_log (row_hash (row s key) key) (del_peer key s)"

definition purge_misclassified_serial :: "denv \<Rightarrow> dstate \<Rightarrow> int \<times> dstate" where
  "purge_misclassified_serial env s = purge_loop (\<lambda>peer key. is_serial peer
       \<and> (case pkt_family env (row_hash peer key) of None \<Rightarrow> False | Some fam \<Rightarrow> fam \<noteq> ''serial''))
     drop_serial_row s"

definition purge_offline_serial_peers :: "denv \<Rightarrow> dstate \<Rightarrow> int \<times> dstate" where
  "purge_offline_serial_peers env s = (if e_serial env then (0, s)
     else purge_loop (\<lambda>peer _. is_serial peer) drop_serial_row s)"

definition purge_hashes :: "string option list \<Rightarrow> dstate \<Rightarrow> int \<times> dstate" where
  "purge_hashes hashes s = (
     let targets = remdups (filter (\<lambda>h. h \<noteq> '''') (map normalize_hash hashes)) in
     if targets = [] then (0, s)
     else let (removed, s) = purge_loop (\<lambda>peer key. normalize_hash (Some key) \<in> set targets
              \<or> normalize_hash (p_hash peer) \<in> set targets
              \<or> normalize_hash (p_identity_hash peer) \<in> set targets) del_peer s
     in (removed, fold pop_logs targets s))"

section \<open>Choosing among duplicates\<close>

definition scope_arg :: "denv \<Rightarrow> string option \<Rightarrow> string option" where
  "scope_arg env scope_ip = or_none (py_strip (py_or (orE scope_ip) (orE (scope_of env))))"

definition group_rows :: "(string, peer) pydict \<Rightarrow> (string, (string \<times> peer) list) pydict" where
  "group_rows d = fold (\<lambda>(key, peer) g. let k = peer_dedup_key peer in
     AList.update k ((case map_of g k of None \<Rightarrow> [] | Some es \<Rightarrow> es) @ [(key, peer)]) g) d []"

fun dedupe_entries :: "denv \<Rightarrow> string option \<Rightarrow> string \<times> peer \<Rightarrow> (string \<times> peer) list
   \<Rightarrow> int \<times> dstate \<Rightarrow> (string \<times> peer) \<times> int \<times> dstate" where
  "dedupe_entries env scope winner [] (n, s) = (winner, n, s)"
| "dedupe_entries env scope winner ((key, peer) # es) (n, s) =
     (if prefer_first env scope (snd winner) peer
      then dedupe_entries env scope winner es (n + 1, remove_peer_entry key s)
      else dedupe_entries env scope (key, peer) es (n + 1, remove_peer_entry (fst winner) s))"

definition dedupe_group :: "denv \<Rightarrow> string option \<Rightarrow> (string \<times> peer) list \<Rightarrow> int \<times> dstate \<Rightarrow> int \<times> dstate" where
  "dedupe_group env scope entries acc = (case entries of [] \<Rightarrow> acc | [_] \<Rightarrow> acc
     | e # es \<Rightarrow> (case dedupe_entries env scope e es acc of (winner, n, s) \<Rightarrow>
         if \<not> peer_viable env scope (snd winner) then (n + 1, remove_peer_entry (fst winner) s) else (n, s)))"

definition dedupe_identities :: "denv \<Rightarrow> string option \<Rightarrow> dstate \<Rightarrow> int \<times> dstate" where
  "dedupe_identities env scope_ip s = (let scope = scope_arg env scope_ip in
     fold (\<lambda>(_, entries) acc. dedupe_group env scope entries acc) (group_rows (peers s)) (0, s))"

definition refresh_paths_for_scope :: "denv \<Rightarrow> string option \<Rightarrow> dstate \<Rightarrow> int \<times> dstate" where
  "refresh_paths_for_scope env scope_ip s = (
     let scope = scope_arg env scope_ip;
         (n1, s) = (case scope of None \<Rightarrow> (0, s) | Some _ \<Rightarrow> purge_out_of_scope scope s);
         (n2, s) = purge_misclassified_serial env s;
         (n3, s) = dedupe_identities env scope s
     in (n1 + n2 + n3, s))"

section \<open>Probe state\<close>

definition map_rows :: "string \<Rightarrow> (peer \<Rightarrow> peer) \<Rightarrow> dstate \<Rightarrow> dstate" where
  "map_rows clean f s = s\<lparr>peers := dict_map (\<lambda>p. if normalize_hash (p_hash p) = clean then f p else p) (peers s)\<rparr>"

text \<open>\<open>float(x or 0)\<close> of an optional time.\<close>

definition time0 :: "real option \<Rightarrow> real" where
  "time0 t = (case t of None \<Rightarrow> 0 | Some x \<Rightarrow> x)"

definition alive_row :: "denv \<Rightarrow> peer \<Rightarrow> peer" where
  "alive_row env p = p\<lparr>p_probe_failures := Some 0,
     p_last_probe_ok := Some (if time0 (p_last_seen p) = 0 then e_now env else time0 (p_last_seen p))\<rparr>"

definition reset_peer_probe_state :: "denv \<Rightarrow> string option \<Rightarrow> dstate \<Rightarrow> dstate" where
  "reset_peer_probe_state env hash_hex s = (let clean = normalize_hash hash_hex in
     if clean = '''' then s else map_rows clean (alive_row env) s)"

definition reset_probe_timers :: "dstate \<Rightarrow> dstate" where
  "reset_probe_timers s = s\<lparr>peers := dict_map (\<lambda>p. p\<lparr>p_last_rtt_probe_at := None\<rparr>) (peers s)\<rparr>"

definition clear_rtt :: "peer \<Rightarrow> peer" where
  "clear_rtt p = p\<lparr>p_rtt_ms := None, p_rtt_avg_ms := None, p_rtt_samples := None\<rparr>"

definition clear_peer_rtt :: "string option \<Rightarrow> dstate \<Rightarrow> bool \<times> dstate" where
  "clear_peer_rtt hash_hex s = (let clean = normalize_hash hash_hex in
     if clean = '''' then (False, s)
     else ((\<exists>p \<in> set (map snd (peers s)). normalize_hash (p_hash p) = clean
              \<and> (p_rtt_ms p \<noteq> None \<or> p_rtt_avg_ms p \<noteq> None \<or> p_rtt_samples p \<noteq> None)),
           map_rows clean clear_rtt s))"

definition fresh_announce :: "denv \<Rightarrow> peer \<Rightarrow> bool" where
  "fresh_announce env p \<longleftrightarrow> time0 (p_last_seen p) \<noteq> 0 \<and> e_now env - time0 (p_last_seen p) < 12"

definition probed_row :: "denv \<Rightarrow> int option \<Rightarrow> bool \<Rightarrow> peer \<Rightarrow> peer" where
  "probed_row env rtt_ms ok p = (
     let p = (if fresh_announce env p
              then p\<lparr>p_probe_failures := Some 0, p_last_probe_ok := Some (time0 (p_last_seen p))\<rparr> else p) in
     case (ok, rtt_ms) of
       (True, Some rtt) \<Rightarrow> let samples = rolling_avg_ms (p_rtt_samples p) (Some rtt) in
           p\<lparr>p_rtt_samples := samples, p_rtt_ms := Some rtt, p_rtt_avg_ms := avg_ms samples,
             p_last_probe_ok := Some (e_now env), p_probe_failures := Some 0\<rparr>
     | (True, None) \<Rightarrow> p
     | (False, _) \<Rightarrow> if fresh_announce env p then p
           else clear_rtt (p\<lparr>p_probe_failures := Some ((case p_probe_failures p of None \<Rightarrow> 0 | Some n \<Rightarrow> n) + 1),
                             p_last_probe_at := Some (e_now env)\<rparr>))"

definition update_peer_probe :: "denv \<Rightarrow> string option \<Rightarrow> int option \<Rightarrow> bool \<Rightarrow> dstate \<Rightarrow> dstate" where
  "update_peer_probe env hash_hex rtt_ms ok s = (let clean = normalize_hash hash_hex in
     if clean = '''' then s else map_rows clean (probed_row env rtt_ms ok) s)"

definition stale_probe :: "denv \<Rightarrow> int \<Rightarrow> real \<Rightarrow> int \<Rightarrow> peer \<Rightarrow> bool" where
  "stale_probe env max_rtt_ms stale_s max_failures p = (
     let announce_age = e_now env - time0 (p_last_seen p);
         last_probe_ok = time0 (p_last_probe_ok p);
         probe_age = (if last_probe_ok \<noteq> 0 then e_now env - last_probe_ok else announce_age);
         samples = (case p_rtt_samples p of None \<Rightarrow> [] | Some s \<Rightarrow> s);
         failures = (case p_probe_failures p of None \<Rightarrow> 0 | Some n \<Rightarrow> n)
     in if is_serial p then False
        else if announce_age \<le> stale_s then False
        else if (case p_rtt_avg_ms p of None \<Rightarrow> False
                 | Some avg \<Rightarrow> 3 \<le> length samples \<and> max_rtt_ms < avg \<and> stale_s < probe_age) then True
        else stale_s < announce_age \<and> stale_s < probe_age \<and> max_failures \<le> failures)"

definition purge_stale_probes :: "denv \<Rightarrow> int \<Rightarrow> real \<Rightarrow> int \<Rightarrow> dstate \<Rightarrow> int \<times> dstate" where
  "purge_stale_probes env max_rtt_ms stale_s max_failures s = (
     let removed = filter (\<lambda>key. stale_probe env max_rtt_ms stale_s max_failures (row s key)) (keys s)
     in (int (length removed), fold remove_peer_entry removed s))"

definition refresh_stale_entries :: "denv \<Rightarrow> real \<Rightarrow> real \<Rightarrow> int \<Rightarrow> dstate \<Rightarrow> int \<times> dstate" where
  "refresh_stale_entries env max_age_s probe_stale_s max_failures s = (
     let (n1, s) = purge_stale_probes env 10000 probe_stale_s max_failures s;
         (n2, s) = purge_loop (\<lambda>p _. time0 (p_last_seen p) \<noteq> 0 \<and> max_age_s < e_now env - time0 (p_last_seen p))
                     remove_peer_entry s
     in (n1 + n2, s))"

section \<open>Storing a row\<close>

text \<open>\<open>d.get("port", 8742)\<close>.\<close>

definition port_or :: "pyval option \<Rightarrow> pyval option \<Rightarrow> pyval option" where
  "port_or p q = (case p of None \<Rightarrow> q | Some v \<Rightarrow> Some v)"

definition default_port :: "pyval option" where
  "default_port = Some (VInt 8742)"

definition attach_match :: "string option \<Rightarrow> peer \<Rightarrow> peer \<Rightarrow> bool" where
  "attach_match scope peer existing = (
     let existing_ip = stripE (p_ip existing); name = stripE (p_name peer);
         ident = normalize_hash (p_identity_hash peer) in
     existing_ip \<noteq> ''''
     \<and> (case scope of None \<Rightarrow> True | Some sc \<Rightarrow> peer_in_scope (Some existing_ip) (Some sc))
     \<and> ((name \<noteq> '''' \<and> p_name existing = Some name)
        \<or> (ident \<noteq> '''' \<and> normalize_hash (p_identity_hash existing) = ident)))"

definition attach_peer_ip :: "denv \<Rightarrow> bool \<Rightarrow> dstate \<Rightarrow> peer \<Rightarrow> peer" where
  "attach_peer_ip env scope_only s peer = (
     if is_serial peer then peer\<lparr>p_ip := None\<rparr>
     else if stripE (p_ip peer) \<noteq> '''' then peer
     else case find (attach_match (if scope_only then scope_of env else None) peer) (map snd (peers s)) of
         None \<Rightarrow> peer
       | Some existing \<Rightarrow> if is_serial existing then peer
           else peer\<lparr>p_ip := Some (stripE (p_ip existing)), p_port := port_or (p_port existing) default_port\<rparr>)"

definition sanitize_peer_scope :: "denv \<Rightarrow> dstate \<Rightarrow> peer \<Rightarrow> peer option" where
  "sanitize_peer_scope env s peer = (
     if is_serial peer then (if \<not> e_serial env then None else Some (peer\<lparr>p_ip := None\<rparr>))
     else case scope_of env of None \<Rightarrow> Some peer
       | Some scope \<Rightarrow>
           let candidate = (if stripE (p_ip peer) = '''' then attach_peer_ip env True s peer else peer);
               ip = stripE (p_ip candidate)
           in if ip = '''' then None
              else if peer_in_scope (Some ip) (Some scope) then Some candidate else None)"

definition peer_allowed :: "denv \<Rightarrow> dstate \<Rightarrow> peer \<Rightarrow> bool" where
  "peer_allowed env s peer \<longleftrightarrow> sanitize_peer_scope env s peer \<noteq> None"

definition family_of :: "string \<Rightarrow> string" where
  "family_of via = (if via = ''serial'' then ''serial'' else ''lan'')"

text \<open>Whether a stored row is superseded by the new one (the tests in the loop of
  \<open>_evict_superseded_peers\<close>, in order).\<close>

definition superseded :: "denv \<Rightarrow> peer \<Rightarrow> peer \<Rightarrow> bool" where
  "superseded env peer existing = (
     let new_via = stripE (p_via peer); existing_via = stripE (p_via existing);
         ip = stripE (p_ip peer); new_hash = normalize_hash (p_hash peer);
         new_ident = normalize_hash (p_identity_hash peer);
         name = stripE (p_name peer); existing_name = stripE (p_name existing);
         same_host = (ip \<noteq> '''' \<and> p_ip existing = Some ip);
         same_ident = (new_ident \<noteq> '''' \<and> normalize_hash (p_identity_hash existing) = new_ident);
         same_pubkey = (truthy (p_pubkey peer) \<and> p_pubkey existing = p_pubkey peer);
         same_hash = (normalize_hash (p_hash existing) = new_hash);
         same_name = (name \<noteq> '''' \<and> existing_name \<noteq> '''' \<and> name = existing_name
            \<and> name \<noteq> take 8 new_hash \<and> existing_name \<noteq> take 8 (normalize_hash (p_hash existing)))
     in if same_hash then False
        else if family_of existing_via \<noteq> family_of new_via then False
        else if same_ident \<or> same_pubkey then True
        else if e_serial env \<and> same_name \<and> \<not> same_host then False
        else if same_name \<and> (''serial'' \<in> {new_via, existing_via} \<or> ''rns'' \<in> {new_via, existing_via})
                \<and> (same_ident \<or> same_pubkey) then False
        else same_host \<or> same_name)"

definition evict_superseded_peers :: "denv \<Rightarrow> peer \<Rightarrow> dstate \<Rightarrow> string list \<times> peer \<times> dstate" where
  "evict_superseded_peers env peer0 s = (
     let peer = (if is_serial peer0 then peer0 else attach_peer_ip env (scope_of env \<noteq> None) s peer0);
         gone = filter (\<lambda>(key, existing). superseded env peer existing) (peers s)
     in (map (\<lambda>(key, existing). let h = normalize_hash (p_hash existing) in if h = '''' then key else h) gone,
         peer, fold (\<lambda>(key, _). del_peer key) gone s))"

definition hash_like :: "string \<Rightarrow> string \<Rightarrow> bool" where
  "hash_like name hash_prefix \<longleftrightarrow> name = '''' \<or> name = hash_prefix \<or> py_lower name = py_lower hash_prefix"

text \<open>The in-place changes of an existing row; \<open>None\<close> when the new address is off scope.\<close>

definition refresh_addr :: "denv \<Rightarrow> peer \<Rightarrow> peer \<Rightarrow> peer option" where
  "refresh_addr env peer existing = (
     let new_ip = stripE (p_ip peer); scope = scope_of env;
         ok = (\<lambda>ip. case scope of None \<Rightarrow> True | Some sc \<Rightarrow> peer_in_scope (Some ip) (Some sc)) in
     if new_ip \<noteq> '''' \<and> new_ip \<noteq> stripE (p_ip existing)
     then (if ok new_ip then Some (existing\<lparr>p_ip := Some new_ip,
               p_port := port_or (p_port peer) (port_or (p_port existing) default_port)\<rparr>)
           else None)
     else if truthy (p_ip peer) \<and> \<not> truthy (p_ip existing)
     then (if ok (orE (p_ip peer)) then Some (existing\<lparr>p_ip := p_ip peer, p_port := port_or (p_port peer) default_port\<rparr>)
           else Some existing)
     else Some existing)"

definition refresh_ids :: "peer \<Rightarrow> peer \<Rightarrow> peer" where
  "refresh_ids peer existing = existing\<lparr>
     p_identity_hash := (if truthy (p_identity_hash peer) \<and> \<not> truthy (p_identity_hash existing)
        then p_identity_hash peer else p_identity_hash existing),
     p_pubkey := (if truthy (p_pubkey peer) \<and> \<not> truthy (p_pubkey existing)
        then p_pubkey peer else p_pubkey existing)\<rparr>"

definition refresh_name :: "string \<Rightarrow> peer \<Rightarrow> peer \<Rightarrow> peer" where
  "refresh_name hash_prefix peer existing = (let incoming = stripE (p_name peer) in
     if incoming \<noteq> '''' \<and> \<not> hash_like incoming hash_prefix then existing\<lparr>p_name := Some incoming\<rparr> else existing)"

definition refresh_row :: "denv \<Rightarrow> string \<Rightarrow> peer \<Rightarrow> peer \<Rightarrow> peer option" where
  "refresh_row env hash_hex peer existing = map_option (\<lambda>existing.
     (refresh_name (take 8 hash_hex) peer (refresh_ids peer existing))
       \<lparr>p_last_seen := Some (case p_last_seen peer of None \<Rightarrow> e_now env | Some t \<Rightarrow> t)\<rparr>)
     (refresh_addr env peer existing)"

definition put_peer :: "string \<Rightarrow> peer \<Rightarrow> dstate \<Rightarrow> dstate" where
  "put_peer key peer s = s\<lparr>peers := AList.update key peer (peers s)\<rparr>"

text \<open>A rejected row also drops what is stored under its hash.\<close>

definition reject_peer :: "string \<Rightarrow> peer \<Rightarrow> dstate \<Rightarrow> dstate" where
  "reject_peer hash_hex peer s = (
     let s = remove_peer_entry (peer_storage_key peer) s
     in fold (\<lambda>key s. if normalize_hash (p_hash (row s key)) = hash_hex then remove_peer_entry key s else s) (keys s) s)"

definition finish_store :: "denv \<Rightarrow> string \<Rightarrow> string \<Rightarrow> dstate \<Rightarrow> bool \<times> dstate" where
  "finish_store env hash_hex storage_key s = (
     let s = (if truthy (p_ip (row s storage_key)) then register_ip (p_ip (row s storage_key)) s else s);
         s = reset_peer_probe_state env (Some hash_hex) s
     in (True, emit (PeerSeen (row s storage_key)) s))"

definition store_sanitized :: "denv \<Rightarrow> string \<Rightarrow> peer \<Rightarrow> dstate \<Rightarrow> bool \<times> dstate" where
  "store_sanitized env hash_hex peer s = (
     let peer = (if is_serial peer then peer\<lparr>p_ip := None\<rparr> else peer);
         (removed, peer, s) = evict_superseded_peers env peer s;
         s = notify_peer_evicted removed (Some peer) s;
         storage_key = peer_storage_key peer
     in if storage_key = '''' then (False, s)
        else case map_of (peers s) storage_key of
            None \<Rightarrow> finish_store env hash_hex storage_key (put_peer storage_key peer s)
          | Some existing \<Rightarrow> (case refresh_row env hash_hex peer existing of
                None \<Rightarrow> (False, remove_peer_entry storage_key s)
              | Some r \<Rightarrow> finish_store env hash_hex storage_key (put_peer storage_key r s)))"

text \<open>The copy \<open>_store_peer\<close> works on: the normalised hash and the USB mark.\<close>

definition claimed_peer :: "string \<Rightarrow> peer \<Rightarrow> peer" where
  "claimed_peer hash_hex peer = (let peer = peer\<lparr>p_hash := Some hash_hex\<rparr> in
     if is_serial peer
     then peer\<lparr>p_serial_rns := (case p_serial_rns peer of None \<Rightarrow> Some True | Some b \<Rightarrow> Some b)\<rparr>
     else peer)"

definition store_peer :: "denv \<Rightarrow> peer \<Rightarrow> dstate \<Rightarrow> bool \<times> dstate" where
  "store_peer env peer s = (
     let hash_hex = normalize_hash (p_hash peer); ident_hex = normalize_hash (p_identity_hash peer) in
     if hash_hex = '''' then (False, s)
     else if is_local_hash s hash_hex then (False, s)
     else if ident_hex \<noteq> '''' \<and> is_local_hash s ident_hex then (False, s)
     else let peer = claimed_peer hash_hex peer
          in case sanitize_peer_scope env s peer of
               None \<Rightarrow> (False, reject_peer hash_hex peer s)
             | Some sane \<Rightarrow> store_sanitized env hash_hex sane s)"

end
