(* ===== verification/DiscoveryEvents.thy ===== *)
theory DiscoveryEvents
  imports Discovery
begin

text \<open>
  The inputs of \<open>PeerDiscovery\<close> (\<open>chatxz/core/discovery.py\<close>): RNS announces, LAN
  beacons, link peers, and the listing \<open>get_peers\<close>; with \<open>peer_record_from_beacon\<close> of
  \<open>chatxz/core/peer_identity.py\<close>.  What RNS computes (the hex form of a hash, the
  interface of a packet, the connect hash a beacon key registers under) is part of the
  input.  Text fields of announces and beacons are strings or absent.
\<close>

definition app_name :: string where "app_name = ''chatxz''"

section \<open>Link peers and lookups\<close>

definition register_link_peer ::
  "denv \<Rightarrow> string option \<Rightarrow> string option \<Rightarrow> string option \<Rightarrow> string option \<Rightarrow> dstate \<Rightarrow> dstate" where
  "register_link_peer env peer_hash name via ip s = (let hash_hex = normalize_hash peer_hash in
     if hash_hex = '''' then s
     else let record = empty_peer\<lparr>p_hash := Some hash_hex,
                p_name := Some (py_or (py_strip (py_or (orE name) (take 8 hash_hex))) (take 8 hash_hex)),
                p_via := via, p_last_seen := Some (e_now env)\<rparr>;
              record = (if truthy ip then record\<lparr>p_ip := Some (stripE ip)\<rparr> else record)
          in if \<not> peer_allowed env s record then s else snd (store_peer env record s))"

definition peer_row :: "dstate \<Rightarrow> string option \<Rightarrow> string option \<Rightarrow> peer option" where
  "peer_row s hash_hex via = (let clean = normalize_hash hash_hex in
     if clean = '''' then None
     else if truthy via
     then map_of (peers s) (peer_storage_key (empty_peer\<lparr>p_hash := Some clean, p_via := via\<rparr>))
     else case find (\<lambda>p. normalize_hash (p_hash p) = clean) (map snd (peers s)) of
         Some p \<Rightarrow> Some p
       | None \<Rightarrow> map_of (peers s) clean)"

definition has_peer_hash :: "dstate \<Rightarrow> string option \<Rightarrow> bool" where
  "has_peer_hash s hash_hex = (let clean = normalize_hash hash_hex in
     clean \<noteq> '''' \<and> (map_of (peers s) clean \<noteq> None
        \<or> (\<exists>p \<in> set (map snd (peers s)). normalize_hash (p_hash p) = clean)))"

definition log_once :: "denv \<Rightarrow> string \<Rightarrow> dstate \<Rightarrow> dstate" where
  "log_once env key s = (if e_now env - time0 (map_of (last_log s) key) < 5 then s
     else s\<lparr>last_log := AList.update key (e_now env) (last_log s)\<rparr>)"

section \<open>Announces\<close>

record announce =
  a_hash :: string                    \<comment> \<open>\<open>RNS.hexrep(destination_hash)\<close>\<close>
  a_identity :: "string option"       \<comment> \<open>\<open>RNS.hexrep(announced_identity.hash)\<close>\<close>
  a_pubkey :: "string option"         \<comment> \<open>base64 of the public key\<close>
  a_data :: "(string \<times> string \<times> string option) option"   \<comment> \<open>app, name and ip of the payload\<close>
  a_family :: "string option"         \<comment> \<open>family of the receiving interface\<close>

text \<open>The routing decision of \<open>_on_announce\<close>: the transport and the address to store.\<close>

definition announce_route :: "denv \<Rightarrow> string option \<Rightarrow> string \<Rightarrow> (string \<times> string) option" where
  "announce_route env family announce_ip = (
     let packet_fam = orE family; scope = scope_of env;
         ok = (case scope of None \<Rightarrow> True | Some sc \<Rightarrow> peer_in_scope (Some announce_ip) (Some sc)) in
     if packet_fam = ''serial''
     then (if announce_ip \<noteq> '''' \<or> \<not> e_serial env then None else Some (''serial'', ''''))
     else if packet_fam \<in> set [''udp'', ''lan'', ''tcp'']
     then (if announce_ip = '''' then None else if \<not> ok then None else Some (''rns'', announce_ip))
     else if announce_ip \<noteq> '''' then (if \<not> ok then None else Some (''rns'', announce_ip))
     else None)"

definition announce_peer :: "denv \<Rightarrow> announce \<Rightarrow> string \<Rightarrow> string \<Rightarrow> string \<Rightarrow> peer" where
  "announce_peer env a name via ip = (
     let hash_hex = normalize_hash (Some (a_hash a)); identity_hex = normalize_hash (a_identity a) in
     empty_peer\<lparr>p_hash := Some hash_hex, p_name := Some (py_or name (take 8 hash_hex)),
       p_app := Some app_name, p_last_seen := Some (e_now env), p_via := Some via,
       p_serial_rns := (if via = ''serial'' then Some True else None),
       p_ip := or_none ip, p_identity_hash := or_none identity_hex, p_pubkey := a_pubkey a\<rparr>)"

definition on_announce :: "denv \<Rightarrow> announce \<Rightarrow> dstate \<Rightarrow> dstate" where
  "on_announce env a s = (
     if \<not> running s \<or> \<not> accept_peers s then s
     else let hash_hex = normalize_hash (Some (a_hash a)); identity_hex = normalize_hash (a_identity a);
              (app, name, ip) = (case a_data a of None \<Rightarrow> ('''', '''', None) | Some d \<Rightarrow> d);
              announce_ip = stripE ip in
       if app \<noteq> app_name then s
       else if is_local_hash s hash_hex then s
       else if identity_hex \<noteq> '''' \<and> is_local_hash s identity_hex then s
       else case announce_route env (a_family a) announce_ip of
           None \<Rightarrow> s
         | Some (via, ip) \<Rightarrow>
             let peer = announce_peer env a name via ip; (ok, s) = store_peer env peer s in
             if \<not> ok then s
             else let s = emit (RegisterIdentity peer) s;
                      s = (if via = ''serial'' then emit (ReinforceSerial hash_hex) s else s)
                  in log_once env (hash_hex @ '':'' @ via) s)"

section \<open>Beacons\<close>

record beacon =
  b_app :: "string option"
  b_hash :: "string option"
  b_name :: "string option"
  b_ip :: "string option"
  b_port :: "pyval option"
  b_identity_hash :: "string option"
  b_pubkey :: "string option"

text \<open>\<open>peer_record_from_beacon\<close>; \<open>connect\<close> is what \<open>register_beacon_identity\<close> returned.\<close>

definition peer_record_from_beacon :: "string \<Rightarrow> beacon \<Rightarrow> peer option" where
  "peer_record_from_beacon connect data = (
     if b_app data \<noteq> Some app_name then None
     else let hash_hex = normalize_hash (if connect \<noteq> '''' then Some connect else b_hash data) in
       if length hash_hex \<noteq> 32 then None
       else let identity_hex = normalize_hash (b_identity_hash data) in
         Some (empty_peer\<lparr>p_hash := Some hash_hex,
           p_name := Some (py_or (stripE (b_name data)) (take 8 hash_hex)),
           p_app := Some app_name, p_ip := or_none (stripE (b_ip data)),
           p_port := port_or (b_port data) default_port, p_via := Some ''beacon'',
           p_identity_hash := (if identity_hex \<noteq> '''' \<and> identity_hex \<noteq> hash_hex then Some identity_hex else None),
           p_pubkey := (if truthy (b_pubkey data) then b_pubkey data else None)\<rparr>))"

text \<open>The address a beacon is stored under: \<open>None\<close> when it is off the pinned LAN.\<close>

definition beacon_ip :: "denv \<Rightarrow> string option \<Rightarrow> string option \<Rightarrow> string option \<Rightarrow> (string option) option" where
  "beacon_ip env data_ip record_ip source_ip = (
     let peer_ip = py_strip (py_or (orE data_ip) (orE record_ip)); source = stripE source_ip;
         local_ip = stripE (e_scope env) in
     if local_ip \<noteq> ''''
     then (if source \<noteq> '''' \<and> \<not> peer_in_scope (Some source) (Some local_ip) then None
           else if peer_ip \<noteq> '''' \<and> \<not> peer_in_scope (Some peer_ip) (Some local_ip) then None
           else let effective_ip = py_or peer_ip source in
             if effective_ip = '''' \<or> \<not> peer_in_scope (Some effective_ip) (Some local_ip) then None
             else Some (Some effective_ip))
     else Some (if py_or peer_ip source \<noteq> '''' then Some (py_or peer_ip source) else record_ip))"

definition beacon_name :: "dstate \<Rightarrow> string \<Rightarrow> string \<Rightarrow> string \<Rightarrow> string" where
  "beacon_name s hash_hex identity_hex name = (
     if hash_like name (take 8 hash_hex)
     then (case find (\<lambda>e. identity_hex \<noteq> '''' \<and> (normalize_hash (p_identity_hash e) = identity_hex
                \<or> normalize_hash (p_hash e) = identity_hex)
              \<and> \<not> hash_like (stripE (p_name e)) (take 8 (normalize_hash (p_hash e)))) (map snd (peers s)) of
            Some e \<Rightarrow> stripE (p_name e) | None \<Rightarrow> name)
     else name)"

definition drop_plain_serial :: "string \<Rightarrow> dstate \<Rightarrow> dstate" where
  "drop_plain_serial hash_hex s = (
     let serial_key = peer_storage_key (empty_peer\<lparr>p_hash := Some hash_hex, p_via := Some ''serial''\<rparr>) in
     case map_of (peers s) serial_key of None \<Rightarrow> s
     | Some r \<Rightarrow> if p_serial_rns r = Some True then s else remove_peer_entry serial_key s)"

definition on_beacon :: "denv \<Rightarrow> string \<Rightarrow> bool \<Rightarrow> beacon \<Rightarrow> string option \<Rightarrow> string option \<Rightarrow> string option
   \<Rightarrow> dstate \<Rightarrow> bool \<times> dstate" where
  "on_beacon env connect registered data my_dest_hash my_identity_hash source_ip s = (
     if \<not> running s \<or> \<not> accept_peers s then (False, s)
     else if b_app data \<noteq> Some app_name then (False, s)
     else let my_dest = normalize_hash my_dest_hash;
              my_ident = normalize_hash (if truthy my_identity_hash then my_identity_hash else my_dest_hash);
              identity_hex = normalize_hash (b_identity_hash data) in
       if identity_hex \<noteq> '''' \<and> (identity_hex = my_ident \<or> identity_hex = my_dest) then (False, s)
       else case peer_record_from_beacon connect data of
           None \<Rightarrow> (False, s)
         | Some peer \<Rightarrow>
             let hash_hex = normalize_hash (p_hash peer) in
             if hash_hex = '''' \<or> hash_hex = my_dest \<or> hash_hex = my_ident then (False, s)
             else if is_local_hash s hash_hex \<or> is_local_hash s identity_hex then (False, s)
             else if identity_hex \<noteq> '''' \<and> identity_hex = my_ident then (False, s)
             else case beacon_ip env (b_ip data) (p_ip peer) source_ip of
                 None \<Rightarrow> (False, s)
               | Some ip \<Rightarrow>
                   let peer = peer\<lparr>p_last_seen := Some (e_now env), p_ip := ip\<rparr> in
                   if \<not> peer_allowed env s peer then (False, s)
                   else let name = beacon_name s hash_hex identity_hex (stripE (p_name peer));
                            peer = peer\<lparr>p_port := port_or (b_port data) (port_or (p_port peer) default_port),
                                        p_name := Some (py_or name (take 8 hash_hex))\<rparr>;
                            s = drop_plain_serial hash_hex s;
                            s = (if registered then log_once env (''beacon-id:'' @ hash_hex @ '':lan'') s else s);
                            s = snd (store_peer env peer s)
                        in (True, log_once env (''beacon:'' @ hash_hex) s))"

section \<open>Listing\<close>

definition discovery_timeout_s :: real where "discovery_timeout_s = 300"

definition same_subnet :: "string option \<Rightarrow> string option \<Rightarrow> bool" where
  "same_subnet a b = (if \<not> truthy a \<or> \<not> truthy b then True else same_lan_scope (orE a) (orE b))"

definition list_step :: "denv \<Rightarrow> string option \<Rightarrow> peer \<Rightarrow> (string, peer) pydict \<Rightarrow> (string, peer) pydict" where
  "list_step env scope_ip peer deduped = (
     if truthy scope_ip \<and> truthy (p_ip peer) \<and> \<not> same_subnet (p_ip peer) scope_ip then deduped
     else let key = peer_dedup_key peer in
       case map_of deduped key of
         None \<Rightarrow> AList.update key peer deduped
       | Some existing \<Rightarrow>
           let existing_hash = normalize_hash (p_hash existing); peer_hash = normalize_hash (p_hash peer) in
           if existing_hash \<noteq> peer_hash
           then (if stripE (p_via existing) \<noteq> stripE (p_via peer)
                 then AList.update (key @ '':'' @ peer_hash) peer deduped
                 else if same_peer_identity existing peer
                 then AList.update key (prefer_peer env scope_ip existing peer) deduped
                 else if truthy (p_pubkey peer) \<and> \<not> truthy (p_pubkey existing)
                 then AList.update key peer deduped
                 else if truthy (p_pubkey existing) \<and> \<not> truthy (p_pubkey peer) then deduped
                 else if seen0 existing \<le> seen0 peer then AList.update key peer deduped
                 else deduped)
           else AList.update key (prefer_peer env scope_ip existing peer) deduped)"

text \<open>The second loop: serial rows without their address, LAN rows one per address.\<close>

definition collapse_step :: "denv \<Rightarrow> string option \<Rightarrow> peer list \<Rightarrow> peer
   \<Rightarrow> peer list \<times> (string, peer) pydict \<Rightarrow> peer list \<times> (string, peer) pydict" where
  "collapse_step env scope_ip rows peer acc = (case acc of (no_ip, collapsed) \<Rightarrow>
     if is_serial peer
     then (if \<not> e_serial env then acc
           else if p_serial_rns peer \<noteq> Some True
                \<and> (\<exists>other \<in> set rows. normalize_hash (p_hash other) = normalize_hash (p_hash peer)
                       \<and> \<not> is_serial other) then acc
           else (no_ip @ [peer\<lparr>p_ip := None\<rparr>], collapsed))
     else let ip = stripE (p_ip peer) in
       if ip = '''' then acc
       else (case map_of collapsed ip of
               None \<Rightarrow> (no_ip, AList.update ip peer collapsed)
             | Some existing \<Rightarrow> (no_ip, AList.update ip (same_ip_preferred env scope_ip peer existing) collapsed)))"

definition list_rows :: "denv \<Rightarrow> string option \<Rightarrow> peer list \<Rightarrow> peer list" where
  "list_rows env scope_ip ps = (
     let deduped = map snd (fold (list_step env scope_ip) ps []);
         (no_ip, collapsed) = fold (collapse_step env scope_ip deduped) deduped ([], [])
     in filter (peer_viable env scope_ip) (no_ip @ map snd collapsed))"

definition expired :: "denv \<Rightarrow> peer \<Rightarrow> bool" where
  "expired env p \<longleftrightarrow> discovery_timeout_s < e_now env - time0 (p_last_seen p)"

definition get_peers :: "denv \<Rightarrow> string option \<Rightarrow> dstate \<Rightarrow> py_error + (peer list \<times> dstate)" where
  "get_peers env scope_ip s = (
     if \<not> accept_peers s then Inr ([], s)
     else if \<exists>p \<in> set (map snd (peers s)). p_last_seen p = None then Inl KeyError
     else let s = s\<lparr>peers := dict_purge (\<lambda>_ p. expired env p) (peers s)\<rparr>
          in Inr (list_rows env scope_ip (map snd (peers s)), s))"

definition row_hashes :: "peer \<Rightarrow> string list" where
  "row_hashes p = filter (\<lambda>h. h \<noteq> '''') [normalize_hash (p_hash p), normalize_hash (p_identity_hash p)]"

definition current_hashes :: "denv \<Rightarrow> dstate \<Rightarrow> py_error + (string list \<times> dstate)" where
  "current_hashes env s = map_sum id (\<lambda>(ps, s). (remdups (concat (map row_hashes ps)), s)) (get_peers env None s)"

definition peer_is_current :: "denv \<Rightarrow> string option \<Rightarrow> string option \<Rightarrow> dstate \<Rightarrow> py_error + (bool \<times> dstate)" where
  "peer_is_current env peer_hash scope_ip s = (let clean = normalize_hash peer_hash in
     if clean = '''' then Inr (False, s)
     else map_sum id (\<lambda>(ps, s). (clean \<in> set (concat (map row_hashes ps)), s))
       (get_peers env (case scope_ip of Some x \<Rightarrow> Some x | None \<Rightarrow> scope_of env) s))"

end
