(* ===== verification/DiscoveryLaws.thy ===== *)
theory DiscoveryLaws
  imports DiscoveryEvents
begin

text \<open>
  Invariants of the discovery table over every sequence of operations: what a stored row
  looks like, and the isolation of a pinned LAN.  Operations that only remove rows are
  handled by one relation, \<open>keeps\<close>.
\<close>

section \<open>Operations that only remove rows\<close>

definition keeps :: "dstate \<Rightarrow> dstate \<Rightarrow> bool" where
  "keeps s s' \<longleftrightarrow> set (peers s') \<subseteq> set (peers s)
     \<and> (distinct (keys s) \<longrightarrow> distinct (keys s'))
     \<and> local_hashes s' = local_hashes s
     \<and> (known_ok (udp_ips s) \<longrightarrow> known_ok (udp_ips s'))"

named_theorems keeping \<open>operations that only remove rows\<close>

lemma keeps_refl [keeping, simp]: "keeps s s"
  by (simp add: keeps_def)

lemma keeps_trans [trans]: "keeps s t \<Longrightarrow> keeps t u \<Longrightarrow> keeps s u"
  by (auto simp: keeps_def)

lemma keeps_fold: "(\<And>x s. keeps s (f x s)) \<Longrightarrow> keeps s (fold f xs s)"
proof (induction xs arbitrary: s)
  case (Cons x xs)
  then show ?case using keeps_trans by fastforce
qed simp

lemma keeps_fold_pair:
  "(\<And>x a. keeps (snd a) (snd (f x a))) \<Longrightarrow> keeps (snd a) (snd (fold f xs a))"
proof (induction xs arbitrary: a)
  case (Cons x xs)
  have "keeps (snd (f x a)) (snd (fold f xs (f x a)))" using Cons by blast
  with Cons.prems [of a x] show ?case using keeps_trans by simp
qed simp

lemma known_ok_unregister: "known_ok k \<Longrightarrow> known_ok (unregister_udp_peer_ip ip k)"
  using udp.step_inv [where e = "Unregister ip" and s = k] by simp

lemma known_ok_register: "known_ok k \<Longrightarrow> known_ok (register_udp_peer_ip ip k)"
  using udp.step_inv [where e = "Register ip" and s = k] by simp

lemma keeps_basic [keeping]:
  "keeps s (emit e s)" "keeps s (notify_peer_evicted hs np s)" "keeps s (pop_log k s)"
  "keeps s (pop_logs k s)" "keeps s (del_peer k s)" "keeps s (unregister_ip ip s)"
  "keeps s (register_ip ip s)" "keeps s (log_once env k s)" "keeps s (clear_peers s)"
  by (auto simp: keeps_def emit_def notify_peer_evicted_def pop_log_def pop_logs_def del_peer_def
      unregister_ip_def register_ip_def log_once_def clear_peers_def keys_def
      known_ok_unregister known_ok_register keys_delete)

lemma keeps_remove_at [keeping]: "keeps s (remove_entry_at k s)"
  unfolding remove_entry_at_def Let_def
  by (auto intro!: keeps_basic intro: keeps_trans [OF keeps_trans [OF keeps_trans]] keeps_trans [OF keeps_trans])

lemma keeps_remove [keeping]: "keeps s (remove_peer_entry k s)"
  by (simp add: remove_peer_entry_def keeping Let_def)

lemma keeps_purge_loop [keeping]:
  assumes "\<And>k s. keeps s (rm k s)" shows "keeps s (snd (purge_loop bad rm s))"
proof -
  let ?f = "\<lambda>key (n :: int, s). if bad (row s key) key then (n + 1, rm key s) else (n, s)"
  have "keeps (snd (0 :: int, s)) (snd (fold ?f (keys s) (0, s)))"
    by (rule keeps_fold_pair) (use assms in \<open>auto split: prod.split\<close>)
  then show ?thesis by (simp add: purge_loop_def)
qed

lemma keeps_purges [keeping]:
  "keeps s (snd (purge_out_of_scope scope s))" "keeps s (snd (purge_ipless_non_serial s))"
  "keeps s (snd (purge_misclassified_serial env s))" "keeps s (snd (purge_offline_serial_peers env s))"
  "keeps s (snd (purge_hashes hs s))"
proof -
  have drop: "keeps s (drop_serial_row k s)" for k s
    unfolding drop_serial_row_def by (rule keeps_trans [OF keeps_basic(5) keeps_basic(3)])
  have out: "keeps s (del_peer k (unregister_ip ip s))" for k s ip
    by (rule keeps_trans [OF keeps_basic(6) keeps_basic(5)])
  show "keeps s (snd (purge_out_of_scope scope s))"
    by (simp add: purge_out_of_scope_def Let_def keeps_purge_loop out)
  show "keeps s (snd (purge_ipless_non_serial s))"
    by (simp add: purge_ipless_non_serial_def keeps_purge_loop keeping)
  show "keeps s (snd (purge_misclassified_serial env s))"
    by (simp add: purge_misclassified_serial_def keeps_purge_loop drop)
  show "keeps s (snd (purge_offline_serial_peers env s))"
    by (simp add: purge_offline_serial_peers_def keeps_purge_loop drop)
  have "keeps s (fold pop_logs hs s)" for hs s by (rule keeps_fold) (rule keeps_basic)
  then have "keeps s (fold pop_logs hs (snd (purge_loop bad del_peer s)))" for hs bad
    by (rule keeps_trans [rotated]) (rule keeps_purge_loop, rule keeps_basic)
  then show "keeps s (snd (purge_hashes hs s))"
    unfolding purge_hashes_def Let_def case_prod_beta by simp
qed

lemma keeps_dedupe_entries: "keeps (snd a) (snd (snd (dedupe_entries env scope w es a)))"
proof (induction env scope w es a rule: dedupe_entries.induct)
  case (2 env scope winner key peer es n s)
  then show ?case using keeps_trans [OF keeps_remove] by auto
qed simp

lemma keeps_dedupe [keeping]: "keeps s (snd (dedupe_identities env scope_ip s))"
proof -
  have group: "keeps (snd a) (snd (dedupe_group env scope entries a))" for scope entries a
    using keeps_dedupe_entries [of a env scope "hd entries" "tl entries"] keeps_trans [OF _ keeps_remove]
    by (auto simp: dedupe_group_def split: list.split prod.split) 
  have "keeps (snd (0 :: int, s)) (snd (dedupe_identities env scope_ip s))"
    unfolding dedupe_identities_def Let_def by (rule keeps_fold_pair) (simp add: group case_prod_beta)
  then show ?thesis by simp
qed

lemma keeps_refresh_paths [keeping]: "keeps s (snd (refresh_paths_for_scope env scope_ip s))"
proof -
  have "keeps s (snd (case scope of None \<Rightarrow> (0 :: int, s) | Some _ \<Rightarrow> purge_out_of_scope scope s))" for scope
    by (simp add: keeping split: option.split)
  then show ?thesis
    unfolding refresh_paths_for_scope_def Let_def case_prod_beta
    by (auto intro: keeps_trans [OF keeps_trans] keeping)
qed

lemma keeps_stale [keeping]: "keeps s (snd (purge_stale_probes env m st f s))"
  "keeps s (snd (refresh_stale_entries env ma ps mf s))"
proof -
  show one: "keeps s (snd (purge_stale_probes env m st f s))" for s m st f
    unfolding purge_stale_probes_def Let_def snd_conv by (rule keeps_fold) (rule keeping)
  show "keeps s (snd (refresh_stale_entries env ma ps mf s))"
    unfolding refresh_stale_entries_def Let_def case_prod_beta snd_conv
    by (rule keeps_trans [OF one keeps_purge_loop]) (rule keeping)
qed

lemma keeps_reject [keeping]: "keeps s (reject_peer h p s)"
  unfolding reject_peer_def Let_def
  by (rule keeps_trans [OF keeps_remove keeps_fold]) (simp add: keeping)

section \<open>The rows of the table\<close>

definition row_ok :: "string list \<Rightarrow> string \<Rightarrow> peer \<Rightarrow> bool" where
  "row_ok loc key p \<longleftrightarrow> key = peer_storage_key p
     \<and> p_hash p = Some (normalize_hash (p_hash p)) \<and> normalize_hash (p_hash p) \<noteq> ''''
     \<and> normalize_hash (p_hash p) \<notin> set loc \<and> normalize_hash (p_identity_hash p) \<notin> set loc
     \<and> p_last_seen p \<noteq> None
     \<and> (storage_via (p_via p) = ''serial'' \<longrightarrow> is_serial p)
     \<and> (is_serial p \<longrightarrow> p_ip p = None)"

definition dinv :: "dstate \<Rightarrow> bool" where
  "dinv s \<longleftrightarrow> distinct (keys s) \<and> '''' \<notin> set (local_hashes s) \<and> known_ok (udp_ips s)
     \<and> (\<forall>(k, p) \<in> set (peers s). row_ok (local_hashes s) k p)"

lemma dinv_keeps: "dinv s \<Longrightarrow> keeps s s' \<Longrightarrow> dinv s'"
  by (auto simp: dinv_def keeps_def)

lemma dinv_row: "dinv s \<Longrightarrow> map_of (peers s) k = Some p \<Longrightarrow> row_ok (local_hashes s) k p"
  by (auto simp: dinv_def dest!: map_of_SomeD)

lemma storage_via_stripped: "storage_via v \<noteq> [] \<and> py_strip (storage_via v) = storage_via v"
proof -
  have "py_strip (py_lower (py_strip x)) = py_lower (py_strip x)" for x
    by (rule py_strip_lower) simp
  moreover have "py_strip ''serial'' = ''serial''" "py_strip ''lan'' = ''lan''" by code_simp+
  ultimately show ?thesis by (simp add: storage_via_def Let_def)
qed

lemma storage_key_strip: "peer_storage_key p \<noteq> '''' \<Longrightarrow> py_strip (peer_storage_key p) = peer_storage_key p"
proof (rule py_strip_id)
  assume ne: "peer_storage_key p \<noteq> ''''"
  let ?h = "normalize_hash (p_hash p)" and ?v = "storage_via (p_via p)"
  have k: "peer_storage_key p = ?h @ '':'' @ ?v" and h: "?h \<noteq> ''''"
    using ne by (simp_all add: peer_storage_key_def Let_def split: if_splits)
  from h normalize_hash_hd [of "p_hash p"] show "\<not> py_space (hd (peer_storage_key p))" by (simp add: k)
  have "?v \<noteq> []" "py_strip ?v = ?v" using storage_via_stripped by blast+
  with py_strip_last [of ?v] show "\<not> py_space (last (peer_storage_key p))" by (simp add: k)
qed

text \<open>Removing a stored row by its key removes that row and no other.\<close>

lemma remove_stored:
  assumes "dinv s" "map_of (peers s) k = Some p"
  shows "peers (remove_peer_entry k s) = AList.delete k (peers s)"
proof -
  from dinv_row [OF assms] have k: "k = peer_storage_key p" "k \<noteq> ''''" by (auto simp: row_ok_def)
  then have "py_strip k = k" using storage_key_strip by blast
  then show ?thesis using k(2) assms(2)
    by (simp add: remove_peer_entry_def remove_entry_at_def Let_def notify_peer_evicted_def emit_def
        pop_logs_def pop_log_def unregister_ip_def del_peer_def)
qed

lemma row_stored: "dinv s \<Longrightarrow> (k, p) \<in> set (peers s) \<Longrightarrow> row s k = p"
  by (simp add: dinv_def keys_def row_def)

lemma remove_loop_rows:
  assumes "dinv s"
    and "(k, p) \<in> set (peers (fold (\<lambda>k s. if bad (row s k) then remove_peer_entry k s else s) ks s))"
  shows "(k, p) \<in> set (peers s) \<and> (k \<in> set ks \<longrightarrow> \<not> bad p)"
  using assms
proof (induction ks arbitrary: s)
  case (Cons j ks)
  let ?t = "if bad (row s j) then remove_peer_entry j s else s"
  have t: "dinv ?t" using Cons.prems(1) dinv_keeps [OF _ keeps_remove] by simp
  have kp: "(k, p) \<in> set (peers ?t) \<and> (k \<in> set ks \<longrightarrow> \<not> bad p)"
    using Cons.prems(2) by (intro Cons.IH [OF t]) simp
  have sub: "set (peers ?t) \<subseteq> set (peers s)" using keeps_remove [of s j] by (simp add: keeps_def)
  then have s: "(k, p) \<in> set (peers s)" using kp by blast
  have "\<not> bad p" if "k = j"
  proof
    assume b: "bad p"
    have r: "row s j = p" "map_of (peers s) j = Some p"
      using Cons.prems(1) s that by (simp_all add: row_stored) (simp add: dinv_def keys_def)
    with b that kp remove_stored [OF Cons.prems(1) r(2)] show False by simp
  qed
  with kp s show ?case by simp
qed simp

text \<open>\<open>_local_hashes\<close> does not influence the removal of rows.\<close>

definition set_local :: "string list \<Rightarrow> dstate \<Rightarrow> dstate" where
  "set_local l s = s\<lparr>local_hashes := l\<rparr>"

lemma set_local_frame [simp]:
  "peers (set_local l s) = peers s" "row (set_local l s) k = row s k" "keys (set_local l s) = keys s"
  "local_hashes (set_local l s) = l" "udp_ips (set_local l s) = udp_ips s"
  by (simp_all add: set_local_def row_def keys_def)

lemma set_local_del: "del_peer k (set_local l s) = set_local l (del_peer k s)"
  by (simp add: del_peer_def set_local_def)

lemma set_local_pop: "pop_logs k (set_local l s) = set_local l (pop_logs k s)"
  by (simp add: pop_logs_def pop_log_def set_local_def)

lemma set_local_unregister: "unregister_ip ip (set_local l s) = set_local l (unregister_ip ip s)"
  by (simp add: unregister_ip_def set_local_def)

lemma set_local_notify: "notify_peer_evicted hs np (set_local l s) = set_local l (notify_peer_evicted hs np s)"
  by (simp add: notify_peer_evicted_def emit_def set_local_def)

lemma set_local_remove: "remove_peer_entry k (set_local l s) = set_local l (remove_peer_entry k s)"
proof -
  have "remove_entry_at k (set_local l s) = set_local l (remove_entry_at k s)" for k s
    by (simp add: remove_entry_at_def Let_def set_local_del set_local_pop set_local_unregister set_local_notify)
  then show ?thesis by (simp add: remove_peer_entry_def Let_def)
qed

lemma set_local_loop:
  "fold (\<lambda>k s. if bad (row s k) then remove_peer_entry k s else s) ks (set_local l s)
   = set_local l (fold (\<lambda>k s. if bad (row s k) then remove_peer_entry k s else s) ks s)"
  by (induction ks arbitrary: s) (simp_all add: set_local_remove)

lemma set_local_hashes_rows: "set (peers (set_local_hashes hs s)) \<subseteq> set (peers s)"
proof -
  have "keeps (set_local (remdups (filter (\<lambda>h. h \<noteq> '''') (map normalize_hash hs))) s) (set_local_hashes hs s)"
    unfolding set_local_hashes_def Let_def set_local_def [symmetric]
    by (auto intro!: keeps_fold simp: keeping)
  then show ?thesis unfolding keeps_def set_local_frame by blast
qed

lemma row_ok_local: "row_ok l k p \<Longrightarrow> normalize_hash (p_hash p) \<notin> set l' \<Longrightarrow>
    normalize_hash (p_identity_hash p) \<notin> set l' \<Longrightarrow> row_ok l' k p"
  by (simp add: row_ok_def)

lemma dinv_set_local: "dinv s \<Longrightarrow> dinv (set_local_hashes hashes s)"
proof -
  assume inv: "dinv s"
  define clean where "clean = remdups (filter (\<lambda>h. h \<noteq> '''') (map normalize_hash hashes))"
  define bad :: "peer \<Rightarrow> bool" where "bad p \<longleftrightarrow> normalize_hash (p_hash p) \<in> set clean \<or> normalize_hash (p_identity_hash p) \<in> set clean" for p
  define t where "t = fold (\<lambda>k s. if bad (row s k) then remove_peer_entry k s else s) (keys s) s"
  have run: "set_local_hashes hashes s = (if clean = [] then set_local [] s else set_local clean t)"
    unfolding set_local_hashes_def Let_def clean_def [symmetric] set_local_def [symmetric]
      bad_def [symmetric] t_def by (simp add: set_local_loop)
  have k: "keeps s t" unfolding t_def by (rule keeps_fold) (simp add: keeping)
  then have t: "dinv t" using inv dinv_keeps by blast
  have ok: "row_ok clean j p" if "(j, p) \<in> set (peers t)" for j p
  proof -
    have "(j, p) \<in> set (peers s) \<and> (j \<in> set (keys s) \<longrightarrow> \<not> bad p)"
      using remove_loop_rows [OF inv that [unfolded t_def]] .
    then have "\<not> bad p" by (force simp: keys_def)
    moreover have "row_ok (local_hashes t) j p" using t that by (auto simp: dinv_def)
    ultimately show ?thesis by (auto simp: bad_def intro: row_ok_local)
  qed
  have "dinv (set_local [] s)" using inv by (auto simp: dinv_def intro: row_ok_local)
  moreover have "dinv (set_local clean t)" using t ok by (auto simp: dinv_def clean_def)
  ultimately show ?thesis by (simp add: run)
qed

section \<open>Operations that write rows\<close>

lemma row_ok_map:
  assumes "row_ok loc k p" "p_hash q = p_hash p" "p_via q = p_via p" "p_identity_hash q = p_identity_hash p"
    "p_last_seen q = p_last_seen p" "p_ip q = p_ip p"
  shows "row_ok loc k q"
  using assms by (simp add: row_ok_def peer_storage_key_def)

lemma dinv_dict_map:
  assumes "dinv s" "\<And>p. p_hash (f p) = p_hash p \<and> p_via (f p) = p_via p \<and> p_identity_hash (f p) = p_identity_hash p
     \<and> p_last_seen (f p) = p_last_seen p \<and> p_ip (f p) = p_ip p"
  shows "dinv (s\<lparr>peers := dict_map f (peers s)\<rparr>)"
  using assms by (auto simp: dinv_def keys_def intro: row_ok_map)

lemma dinv_map_rows:
  assumes "dinv s" "\<And>p. p_hash (f p) = p_hash p \<and> p_via (f p) = p_via p \<and> p_identity_hash (f p) = p_identity_hash p
     \<and> p_last_seen (f p) = p_last_seen p \<and> p_ip (f p) = p_ip p"
  shows "dinv (map_rows h f s)"
  unfolding map_rows_def by (rule dinv_dict_map [OF assms(1)]) (simp add: assms(2))

lemma probe_frames:
  "p_hash (alive_row env p) = p_hash p \<and> p_via (alive_row env p) = p_via p
     \<and> p_identity_hash (alive_row env p) = p_identity_hash p \<and> p_last_seen (alive_row env p) = p_last_seen p
     \<and> p_ip (alive_row env p) = p_ip p"
  "p_hash (clear_rtt p) = p_hash p \<and> p_via (clear_rtt p) = p_via p
     \<and> p_identity_hash (clear_rtt p) = p_identity_hash p \<and> p_last_seen (clear_rtt p) = p_last_seen p
     \<and> p_ip (clear_rtt p) = p_ip p"
  "p_hash (probed_row env r ok p) = p_hash p \<and> p_via (probed_row env r ok p) = p_via p
     \<and> p_identity_hash (probed_row env r ok p) = p_identity_hash p
     \<and> p_last_seen (probed_row env r ok p) = p_last_seen p \<and> p_ip (probed_row env r ok p) = p_ip p"
  by (simp_all add: alive_row_def clear_rtt_def probed_row_def Let_def split: option.split bool.split)

lemma dinv_probe_ops:
  assumes "dinv s"
  shows "dinv (reset_peer_probe_state env h s)" "dinv (reset_probe_timers s)"
    "dinv (snd (clear_peer_rtt h s))" "dinv (update_peer_probe env h rtt ok s)"
proof -
  show "dinv (reset_peer_probe_state env h s)"
    unfolding reset_peer_probe_state_def Let_def using assms by (simp add: dinv_map_rows probe_frames(1))
  show "dinv (reset_probe_timers s)"
    unfolding reset_probe_timers_def by (rule dinv_dict_map [OF assms]) simp
  show "dinv (snd (clear_peer_rtt h s))"
    unfolding clear_peer_rtt_def Let_def using assms by (simp add: dinv_map_rows probe_frames(2))
  show "dinv (update_peer_probe env h rtt ok s)"
    unfolding update_peer_probe_def Let_def using assms by (simp add: dinv_map_rows probe_frames(3))
qed

lemma dinv_put: "dinv s \<Longrightarrow> row_ok (local_hashes s) k p \<Longrightarrow> dinv (put_peer k p s)"
  using set_update_subset [of k p "peers s"]
  by (fastforce simp: dinv_def put_peer_def keys_def keys_update)

text \<open>What \<open>_store_peer\<close> has made sure of before it touches the table.\<close>

definition storable :: "string list \<Rightarrow> peer \<Rightarrow> bool" where
  "storable loc p \<longleftrightarrow> p_hash p = Some (normalize_hash (p_hash p)) \<and> normalize_hash (p_hash p) \<noteq> ''''
     \<and> normalize_hash (p_hash p) \<notin> set loc \<and> normalize_hash (p_identity_hash p) \<notin> set loc
     \<and> p_last_seen p \<noteq> None
     \<and> (storage_via (p_via p) = ''serial'' \<longrightarrow> is_serial p)"

lemma attach_frame [simp]:
  "p_hash (attach_peer_ip env b s p) = p_hash p" "p_via (attach_peer_ip env b s p) = p_via p"
  "p_identity_hash (attach_peer_ip env b s p) = p_identity_hash p"
  "p_last_seen (attach_peer_ip env b s p) = p_last_seen p"
  "p_pubkey (attach_peer_ip env b s p) = p_pubkey p" "p_name (attach_peer_ip env b s p) = p_name p"
  by (simp_all add: attach_peer_ip_def split: option.split)

lemma sanitize_frame:
  "sanitize_peer_scope env s p = Some q \<Longrightarrow> p_hash q = p_hash p \<and> p_via q = p_via p
     \<and> p_identity_hash q = p_identity_hash p \<and> p_last_seen q = p_last_seen p
     \<and> p_pubkey q = p_pubkey p \<and> (is_serial p \<longrightarrow> p_ip q = None)"
  by (auto simp: sanitize_peer_scope_def Let_def split: if_splits option.splits)

lemma refresh_addr_frame:
  "refresh_addr env p e = Some r \<Longrightarrow> p_hash r = p_hash e \<and> p_via r = p_via e
     \<and> p_identity_hash r = p_identity_hash e \<and> p_last_seen r = p_last_seen e
     \<and> (p_ip p = None \<longrightarrow> p_ip r = p_ip e)"
  by (auto simp: refresh_addr_def Let_def split: if_splits option.splits)

lemma refresh_frames [simp]:
  "p_hash (refresh_ids p e) = p_hash e" "p_via (refresh_ids p e) = p_via e" "p_ip (refresh_ids p e) = p_ip e"
  "p_hash (refresh_name h p e) = p_hash e" "p_via (refresh_name h p e) = p_via e"
  "p_ip (refresh_name h p e) = p_ip e" "p_identity_hash (refresh_name h p e) = p_identity_hash e"
  "p_identity_hash (refresh_ids p e) = p_identity_hash e \<or> p_identity_hash (refresh_ids p e) = p_identity_hash p"
  by (auto simp: refresh_ids_def refresh_name_def Let_def)

lemma refresh_row_frame:
  assumes "refresh_row env h p e = Some r"
  shows "p_hash r = p_hash e \<and> p_via r = p_via e \<and> p_last_seen r \<noteq> None
    \<and> (p_identity_hash r = p_identity_hash e \<or> p_identity_hash r = p_identity_hash p)
    \<and> (p_ip p = None \<longrightarrow> p_ip r = p_ip e)"
proof -
  from assms obtain a where a: "refresh_addr env p e = Some a"
    and r: "r = (refresh_name (take 8 h) p (refresh_ids p a))
       \<lparr>p_last_seen := Some (case p_last_seen p of None \<Rightarrow> e_now env | Some t \<Rightarrow> t)\<rparr>"
    by (auto simp: refresh_row_def)
  from refresh_addr_frame [OF a] refresh_frames(8) [of p a] show ?thesis by (auto simp: r)
qed

lemma refresh_row_ok:
  assumes "row_ok loc k e" "storable loc p" "k = peer_storage_key p" "refresh_row env h p e = Some r"
    "is_serial p \<longrightarrow> p_ip p = None"
  shows "row_ok loc k r"
proof -
  have f: "p_hash r = p_hash e" "p_via r = p_via e" "p_last_seen r \<noteq> None"
      "p_identity_hash r = p_identity_hash e \<or> p_identity_hash r = p_identity_hash p"
      "p_ip p = None \<longrightarrow> p_ip r = p_ip e"
    using refresh_row_frame [OF assms(4)] by blast+
  have e: "p_hash e = Some (normalize_hash (p_hash e))" "normalize_hash (p_hash e) \<noteq> ''''"
      "normalize_hash (p_hash e) \<notin> set loc" "normalize_hash (p_identity_hash e) \<notin> set loc"
      "storage_via (p_via e) = ''serial'' \<longrightarrow> is_serial e" "is_serial e \<longrightarrow> p_ip e = None" "k = peer_storage_key e"
    using assms(1) by (simp_all add: row_ok_def)
  have "storage_via (p_via e) = storage_via (p_via p)"
    using e(2,7) assms(3) storage_key_inject by blast
  moreover have "storage_via (p_via e) = ''serial''" if "is_serial e"
  proof -
    have "py_lower (py_strip (orE (p_via e))) = py_lower ''serial''" using that by simp
    moreover have "py_lower ''serial'' = ''serial''" "py_strip ''lan'' \<noteq> ''serial''" by code_simp+
    ultimately show ?thesis using that by (auto simp: storage_via_def Let_def py_or_def)
  qed
  ultimately have ip: "is_serial e \<longrightarrow> p_ip r = None"
    using f(5) e(6) assms(2,5) by (auto simp: storable_def)
  have id: "normalize_hash (p_identity_hash r) \<notin> set loc"
    using f(4) e(4) assms(2) by (auto simp: storable_def)
  have "k = peer_storage_key r" using e(7) f(1,2) by (simp add: peer_storage_key_def Let_def)
  then show ?thesis using f(1-3) e ip id by (simp add: row_ok_def)
qed

lemma dinv_finish_store:
  "dinv s \<Longrightarrow> dinv (snd (finish_store env h k s))"
proof -
  assume inv: "dinv s"
  let ?t = "if truthy (p_ip (row s k)) then register_ip (p_ip (row s k)) s else s"
  have "dinv ?t" using inv dinv_keeps [OF inv keeps_basic(7)] by simp
  then have "dinv (reset_peer_probe_state env (Some h) ?t)" by (rule dinv_probe_ops)
  then show ?thesis unfolding finish_store_def Let_def snd_conv by (rule dinv_keeps) (rule keeps_basic)
qed

lemma keeps_evict: "evict_superseded_peers env p s = (removed, q, t) \<Longrightarrow> keeps s t
   \<and> p_hash q = p_hash p \<and> p_via q = p_via p \<and> p_identity_hash q = p_identity_hash p
   \<and> p_last_seen q = p_last_seen p \<and> p_pubkey q = p_pubkey p \<and> (is_serial p \<longrightarrow> q = p)
   \<and> (stripE (p_ip p) \<noteq> '''' \<longrightarrow> p_ip q = p_ip p)"
proof -
  assume e: "evict_superseded_peers env p s = (removed, q, t)"
  have "keeps s (fold (\<lambda>(key, _). del_peer key) gone s)" for gone
    by (rule keeps_fold) (simp add: keeping split: prod.split)
  with e show ?thesis
    by (auto simp: evict_superseded_peers_def Let_def attach_peer_ip_def split: if_splits option.splits)
qed

lemma dinv_store_sanitized:
  assumes "dinv s" "storable (local_hashes s) p"
  shows "dinv (snd (store_sanitized env h p s))"
proof -
  let ?p = "if is_serial p then p\<lparr>p_ip := None\<rparr> else p"
  obtain removed q t where e: "evict_superseded_peers env ?p s = (removed, q, t)" 
    by (cases "evict_superseded_peers env ?p s") auto
  let ?u = "notify_peer_evicted removed (Some q) t"
  have k: "keeps s ?u" using keeps_evict [OF e] keeps_trans [OF _ keeps_basic(2)] by blast
  then have u: "dinv ?u" and loc: "local_hashes ?u = local_hashes s"
    using assms(1) dinv_keeps by (auto simp: keeps_def)
  have q: "storable (local_hashes ?u) q" "is_serial q \<longrightarrow> p_ip q = None"
    using keeps_evict [OF e] assms(2) by (auto simp: storable_def loc split: if_splits)
  then have ok: "row_ok (local_hashes ?u) (peer_storage_key q) q" by (simp add: storable_def row_ok_def)
  have fin: "dinv (snd (finish_store env h k (put_peer k r ?u)))" if "row_ok (local_hashes ?u) k r" for k r
    by (rule dinv_finish_store) (rule dinv_put [OF u that])
  have "dinv (snd (case refresh_row env h q x of None \<Rightarrow> (False, remove_peer_entry (peer_storage_key q) ?u)
       | Some r \<Rightarrow> finish_store env h (peer_storage_key q) (put_peer (peer_storage_key q) r ?u)))"
    if "map_of (peers ?u) (peer_storage_key q) = Some x" for x
    using fin refresh_row_ok [OF dinv_row [OF u that] q(1) refl _ q(2)] dinv_keeps [OF u keeps_remove]
    by (simp split: option.split)
  then show ?thesis
    unfolding store_sanitized_def Let_def e case_prod_conv
    using u fin [OF ok] by (simp split: option.split)
qed

lemma claimed_frame [simp]:
  "p_hash (claimed_peer h p) = Some h" "p_via (claimed_peer h p) = p_via p"
  "p_identity_hash (claimed_peer h p) = p_identity_hash p" "p_last_seen (claimed_peer h p) = p_last_seen p"
  "p_ip (claimed_peer h p) = p_ip p" "p_pubkey (claimed_peer h p) = p_pubkey p"
  by (simp_all add: claimed_peer_def Let_def)

lemma store_storable:
  assumes "dinv s" "p_last_seen p \<noteq> None" "storage_via (p_via p) = ''serial'' \<longrightarrow> is_serial p"
    and "sanitize_peer_scope env s (claimed_peer (normalize_hash (p_hash p)) p) = Some q"
    and "normalize_hash (p_hash p) \<noteq> ''''" "\<not> is_local_hash s (normalize_hash (p_hash p))"
    and "\<not> (normalize_hash (p_identity_hash p) \<noteq> '''' \<and> is_local_hash s (normalize_hash (p_identity_hash p)))"
  shows "storable (local_hashes s) q"
proof -
  have f: "p_hash q = Some (normalize_hash (p_hash p))" "p_via q = p_via p"
     "p_identity_hash q = p_identity_hash p" "p_last_seen q = p_last_seen p"
    using sanitize_frame [OF assms(4)] by simp_all
  have "normalize_hash (p_identity_hash p) \<notin> set (local_hashes s)"
    using assms(1,7) by (cases "normalize_hash (p_identity_hash p) = ''''") (auto simp: dinv_def is_local_hash_def)
  moreover have "normalize_hash (p_hash p) \<notin> set (local_hashes s)"
    using assms(5,6) by (simp add: is_local_hash_def)
  ultimately show ?thesis using f assms(2,3,5) by (simp add: storable_def)
qed

lemma dinv_store:
  assumes "dinv s" "p_last_seen p \<noteq> None" "storage_via (p_via p) = ''serial'' \<longrightarrow> is_serial p"
  shows "dinv (snd (store_peer env p s))"
  unfolding store_peer_def Let_def
  using assms(1) dinv_store_sanitized [OF assms(1) store_storable [OF assms]] dinv_keeps [OF assms(1) keeps_reject]
  by (simp split: option.split)

section \<open>A store that succeeds\<close>

lemma serial_storage: "is_serial e \<Longrightarrow> storage_via (p_via e) = ''serial''"
proof -
  assume e: "is_serial e"
  have "py_lower (py_strip (orE (p_via e))) = py_lower ''serial''" using e by simp
  moreover have "py_lower ''serial'' = ''serial''" "py_strip ''lan'' \<noteq> ''serial''" by code_simp+
  ultimately show ?thesis using e by (auto simp: storage_via_def Let_def py_or_def)
qed

text \<open>A row with an address on the scope is not changed by the scope check or the search for
  an address.\<close>

definition on_scope :: "denv \<Rightarrow> string option \<Rightarrow> bool" where
  "on_scope env ip \<longleftrightarrow> stripE ip \<noteq> '''' \<and> (case scope_of env of None \<Rightarrow> True | Some sc \<Rightarrow> peer_in_scope ip (Some sc))"

lemma peer_in_scope_strip [simp]: "peer_in_scope (Some (stripE ip)) sc = peer_in_scope ip sc"
  by (simp add: peer_in_scope_def)

lemma sanitize_on_scope:
  "\<not> is_serial p \<Longrightarrow> on_scope env (p_ip p) \<Longrightarrow> sanitize_peer_scope env s p = Some p"
  by (auto simp: sanitize_peer_scope_def on_scope_def Let_def split: option.split)

lemma attach_on_scope: "\<not> is_serial p \<Longrightarrow> on_scope env (p_ip p) \<Longrightarrow> attach_peer_ip env b s p = p"
  by (simp add: attach_peer_ip_def on_scope_def)

lemma refresh_on_scope:
  assumes "on_scope env (p_ip p)" "p_last_seen p = Some t"
  obtains r where "refresh_row env h p e = Some r" "p_hash r = p_hash e" "p_via r = p_via e"
    "stripE (p_ip r) = stripE (p_ip p)" "p_last_seen r = Some t"
proof -
  have "\<exists>a. refresh_addr env p e = Some a \<and> p_hash a = p_hash e \<and> p_via a = p_via e \<and> stripE (p_ip a) = stripE (p_ip p)"
    using assms(1) by (auto simp: refresh_addr_def on_scope_def Let_def split: option.splits)
  then obtain a where a: "refresh_addr env p e = Some a" "p_hash a = p_hash e" "p_via a = p_via e"
    "stripE (p_ip a) = stripE (p_ip p)" by blast
  then have "refresh_row env h p e = Some ((refresh_name (take 8 h) p (refresh_ids p a))\<lparr>p_last_seen := Some t\<rparr>)"
    using assms(2) by (simp add: refresh_row_def)
  from that [OF this] a show thesis by simp
qed

lemma finish_put:
  "fst (finish_store env h k (put_peer k r u)) \<and>
   (\<exists>q. (k, q) \<in> set (peers (snd (finish_store env h k (put_peer k r u)))) \<and> (q = r \<or> q = alive_row env r))"
proof -
  define d where "d = AList.update k r (peers u)"
  have m: "(k, r) \<in> set d" unfolding d_def by (rule map_of_SomeD) simp
  have "(k, if normalize_hash (p_hash r) = c then f r else r)
      \<in> set (dict_map (\<lambda>p. if normalize_hash (p_hash p) = c then f p else p) d)" for c and f :: "peer \<Rightarrow> peer"
    using imageI [OF m, of "\<lambda>(k, v). (k, if normalize_hash (p_hash v) = c then f v else v)"] by simp
  then have "\<exists>q. (k, q) \<in> set (dict_map (\<lambda>p. if normalize_hash (p_hash p) = c then alive_row env p else p) d)
      \<and> (q = r \<or> q = alive_row env r)" for c
    by (intro exI [of _ "if normalize_hash (p_hash r) = c then alive_row env r else r"] conjI) (assumption, simp)
  moreover have "\<exists>q. (k, q) \<in> set d \<and> (q = r \<or> q = alive_row env r)" using m by blast
  ultimately show ?thesis
    by (simp add: finish_store_def Let_def emit_def reset_peer_probe_state_def map_rows_def register_ip_def
        put_peer_def d_def [symmetric])
qed

lemma store_accepts:
  assumes "dinv s" "normalize_hash (p_hash p) = h" "h \<noteq> ''''" "h \<notin> set (local_hashes s)"
    "normalize_hash (p_identity_hash p) \<notin> set (local_hashes s)" "\<not> is_serial p" "on_scope env (p_ip p)"
    "p_last_seen p = Some t"
  shows "fst (store_peer env p s) \<and> (\<exists>k r. (k, r) \<in> set (peers (snd (store_peer env p s)))
     \<and> normalize_hash (p_hash r) = h \<and> storage_via (p_via r) = storage_via (p_via p)
     \<and> stripE (p_ip r) = stripE (p_ip p) \<and> p_last_seen r = Some t)"
proof -
  let ?p = "claimed_peer h p"
  have p: "\<not> is_serial ?p" "on_scope env (p_ip ?p)" using assms(6,7) by simp_all
  obtain removed q u where e: "evict_superseded_peers env ?p s = (removed, q, u)"
    by (cases "evict_superseded_peers env ?p s") auto
  have q: "q = ?p" using e p by (simp add: evict_superseded_peers_def Let_def attach_on_scope split: if_splits)
  define v where "v = notify_peer_evicted removed (Some ?p) u"
  have "keeps s v" unfolding v_def using keeps_evict [OF e] keeps_trans [OF _ keeps_basic(2)] by blast
  then have v: "dinv v" by (rule dinv_keeps [OF assms(1)])
  have nh: "normalize_hash (p_hash ?p) = h" using assms(2) normalize_hash_idem [of "p_hash p"] by simp
  have nh': "normalize_hash (Some h) = h" using nh by simp
  have key: "peer_storage_key ?p \<noteq> ''''" using nh assms(3) by (simp add: peer_storage_key_def Let_def)
  have "\<not> is_local_hash s h" "\<not> is_local_hash s (normalize_hash (p_identity_hash p))"
    using assms(4,5) nh' by (simp_all add: is_local_hash_def Let_def)
  then have "store_peer env p s = store_sanitized env h ?p s"
    unfolding store_peer_def Let_def assms(2) using assms(3) by (simp add: sanitize_on_scope [OF p])
  moreover have "(if is_serial ?p then ?p\<lparr>p_ip := None\<rparr> else ?p) = ?p" using p(1) by simp
  ultimately  have run: "store_peer env p s = (case map_of (peers v) (peer_storage_key ?p) of
            None \<Rightarrow> finish_store env h (peer_storage_key ?p) (put_peer (peer_storage_key ?p) ?p v)
          | Some existing \<Rightarrow> (case refresh_row env h ?p existing of
                None \<Rightarrow> (False, remove_peer_entry (peer_storage_key ?p) v)
              | Some r \<Rightarrow> finish_store env h (peer_storage_key ?p) (put_peer (peer_storage_key ?p) r v)))"
    using key unfolding store_sanitized_def Let_def by (simp only: e [unfolded q] prod.case v_def if_False)
  have fin: "fst (finish_store env h k (put_peer k r v)) \<and> (\<exists>k' r'. (k', r') \<in> set (peers (snd (finish_store env h k (put_peer k r v))))
     \<and> normalize_hash (p_hash r') = h \<and> storage_via (p_via r') = storage_via (p_via p)
     \<and> stripE (p_ip r') = stripE (p_ip p) \<and> p_last_seen r' = Some t)"
    if "normalize_hash (p_hash r) = h" "storage_via (p_via r) = storage_via (p_via p)"
      "stripE (p_ip r) = stripE (p_ip p)" "p_last_seen r = Some t" for k r
    using finish_put [of env h k r v] that probe_frames(1) [of env r] by (metis (no_types))
  show ?thesis
  proof (cases "map_of (peers v) (peer_storage_key ?p)")
    case None
    then show ?thesis using fin [of ?p "peer_storage_key ?p"] nh assms(8) by (simp add: run)
  next
    case (Some x)
    have "peer_storage_key ?p = peer_storage_key x" using dinv_row [OF v Some] by (simp add: row_ok_def)
    then have x: "normalize_hash (p_hash x) = h" "storage_via (p_via x) = storage_via (p_via p)"
      using storage_key_inject [of ?p x] nh assms(3) by simp_all
    obtain r where r: "refresh_row env h ?p x = Some r" "p_hash r = p_hash x" "p_via r = p_via x"
      "stripE (p_ip r) = stripE (p_ip p)" "p_last_seen r = Some t"
      by (rule refresh_on_scope [of env ?p t h x]) (use p(2) assms(8) in simp_all)
    with Some fin [of r "peer_storage_key ?p"] x show ?thesis by (simp add: run)
  qed
qed

end
