(* ===== verification/DiscoveryProps.thy ===== *)
theory DiscoveryProps
  imports DiscoveryLaws
begin

text \<open>
  The discovery table as a machine over its public operations, its invariants over every
  run, and what \<open>get_peers\<close> returns.
\<close>

section \<open>The machine\<close>

datatype dop =
    SetLocal "string option list" | Start | Stop | Enable bool | Disable | Clear
  | PurgeScope "string option" | PurgeIpless | PurgeMisclassified denv | PurgeOffline denv
  | PurgeHashes "string option list" | Dedupe denv "string option" | RefreshPaths denv "string option"
  | ResetProbe denv "string option" | ResetTimers | ClearRtt "string option"
  | Probe denv "string option" "int option" bool | PurgeStale denv int real int
  | RefreshStale denv real real int
  | LinkPeer denv "string option" "string option" "string option" "string option"
  | Announced denv announce
  | Beaconed denv string bool beacon "string option" "string option" "string option"
  | Listed denv "string option"

fun dstep :: "dop \<Rightarrow> dstate \<Rightarrow> dstate" where
  "dstep (SetLocal hs) s = set_local_hashes hs s"
| "dstep Start s = start s"
| "dstep Stop s = stop s"
| "dstep (Enable c) s = enable_discovery c s"
| "dstep Disable s = disable_discovery s"
| "dstep Clear s = clear_peers s"
| "dstep (PurgeScope sc) s = snd (purge_out_of_scope sc s)"
| "dstep PurgeIpless s = snd (purge_ipless_non_serial s)"
| "dstep (PurgeMisclassified env) s = snd (purge_misclassified_serial env s)"
| "dstep (PurgeOffline env) s = snd (purge_offline_serial_peers env s)"
| "dstep (PurgeHashes hs) s = snd (purge_hashes hs s)"
| "dstep (Dedupe env sc) s = snd (dedupe_identities env sc s)"
| "dstep (RefreshPaths env sc) s = snd (refresh_paths_for_scope env sc s)"
| "dstep (ResetProbe env h) s = reset_peer_probe_state env h s"
| "dstep ResetTimers s = reset_probe_timers s"
| "dstep (ClearRtt h) s = snd (clear_peer_rtt h s)"
| "dstep (Probe env h rtt ok) s = update_peer_probe env h rtt ok s"
| "dstep (PurgeStale env m st f) s = snd (purge_stale_probes env m st f s)"
| "dstep (RefreshStale env ma ps mf) s = snd (refresh_stale_entries env ma ps mf s)"
| "dstep (LinkPeer env h name via ip) s = register_link_peer env h name via ip s"
| "dstep (Announced env a) s = on_announce env a s"
| "dstep (Beaconed env connect reg b dest ident src) s = snd (on_beacon env connect reg b dest ident src s)"
| "dstep (Listed env sc) s = (case get_peers env sc s of Inl _ \<Rightarrow> s | Inr (_, s) \<Rightarrow> s)"

text \<open>The one condition on callers: a link peer's transport spelled \<open>serial\<close> in another
  case is not passed (the service passes lower-case literals).\<close>

fun dop_ok :: "dop \<Rightarrow> bool" where
  "dop_ok (LinkPeer env h name via ip) \<longleftrightarrow> (storage_via via = ''serial'' \<longrightarrow> stripE via = ''serial'')"
| "dop_ok _ \<longleftrightarrow> True"

lemma dinv_frame:
  "dinv s \<Longrightarrow> peers t = peers s \<Longrightarrow> local_hashes t = local_hashes s \<Longrightarrow> udp_ips t = udp_ips s \<Longrightarrow> dinv t"
  by (simp add: dinv_def keys_def)

lemma dinv_link:
  assumes "dinv s" "storage_via via = ''serial'' \<longrightarrow> stripE via = ''serial''"
  shows "dinv (register_link_peer env h name via ip s)"
  unfolding register_link_peer_def Let_def
  using assms by (auto intro!: dinv_store)

lemma announce_peer_frame [simp]:
  "p_last_seen (announce_peer env a name via ip) = Some (e_now env)"
  "p_via (announce_peer env a name via ip) = Some via"
  by (simp_all add: announce_peer_def Let_def)

lemma route_via: "announce_route env f ip = Some (via, ip') \<Longrightarrow> via = ''serial'' \<or> via = ''rns''"
  by (auto simp: announce_route_def Let_def split: if_splits)

lemma via_literals: "py_strip ''serial'' = ''serial''" "py_strip ''rns'' = ''rns''" "py_strip ''beacon'' = ''beacon''"
  "storage_via (Some ''rns'') = ''lan''" "storage_via (Some ''beacon'') = ''lan''"
  by code_simp+

lemma dinv_announce: "dinv s \<Longrightarrow> dinv (on_announce env a s)"
proof -
  assume inv: "dinv s"
  have fin: "dinv (log_once env k (if b then emit (ReinforceSerial h) (emit e t) else emit e t))"
    if "dinv t" for k b h e t
    using that dinv_keeps keeps_basic(1,8) by (metis (full_types))
  have st: "dinv (snd (store_peer env (announce_peer env a name via ip') s))"
    if "announce_route env (a_family a) ip = Some (via, ip')" for name via ip ip'
    using route_via [OF that] by (intro dinv_store [OF inv]) (auto simp: via_literals)
  show ?thesis unfolding on_announce_def Let_def case_prod_beta
    using inv fin st by (auto split: option.split)
qed

lemma record_from_beacon:
  "peer_record_from_beacon c b = Some p \<Longrightarrow> p_via p = Some ''beacon''"
  by (auto simp: peer_record_from_beacon_def Let_def split: if_splits)

lemma keeps_drop_plain: "keeps s (drop_plain_serial h s)"
  by (simp add: drop_plain_serial_def Let_def keeps_remove split: option.split)

lemma dinv_beacon: "dinv s \<Longrightarrow> dinv (snd (on_beacon env c reg b dest ident src s))"
proof -
  assume inv: "dinv s"
  have pre: "dinv (if reg then log_once env k (drop_plain_serial h s) else drop_plain_serial h s)" for k h
    using inv dinv_keeps keeps_basic(8) keeps_drop_plain by metis
  have st: "dinv (log_once env k (snd (store_peer env p t)))"
    if "dinv t" "p_via p = Some ''beacon''" "p_last_seen p \<noteq> None" for k p t
    using dinv_keeps [OF dinv_store [OF that(1,3)] keeps_basic(8)] that(2) by (simp add: via_literals)
  show ?thesis unfolding on_beacon_def Let_def
    using inv pre st record_from_beacon by (auto split: option.split)
qed

text \<open>A beacon the table accepts.\<close>

definition foreign_beacon :: "string \<Rightarrow> beacon \<Rightarrow> string option \<Rightarrow> string option \<Rightarrow> dstate \<Rightarrow> bool" where
  "foreign_beacon h data dest ident s \<longleftrightarrow> (
     let my_dest = normalize_hash dest; my_ident = normalize_hash (if truthy ident then ident else dest);
         i = normalize_hash (b_identity_hash data)
     in h \<notin> {my_dest, my_ident} \<and> (i = '''' \<or> i \<notin> {my_dest, my_ident})
        \<and> h \<notin> set (local_hashes s) \<and> i \<notin> set (local_hashes s))"

lemma record_hash:
  assumes "b_app data = Some app_name" "b_hash data = Some h" "normalize_hash (Some h) = h" "length h = 32"
    "connect = '''' \<or> connect = h"
  obtains p where "peer_record_from_beacon connect data = Some p" "p_hash p = Some h" "p_via p = Some ''beacon''"
    "normalize_hash (p_identity_hash p) = '''' \<or> normalize_hash (p_identity_hash p) = normalize_hash (b_identity_hash data)"
proof -
  have c: "(if connect \<noteq> '''' then Some connect else b_hash data) = Some h" using assms(2,5) by auto
  define i where "i = normalize_hash (b_identity_hash data)"
  define ih where "ih = (if i \<noteq> '''' \<and> i \<noteq> h then Some i else None)"
  have ih: "normalize_hash ih = '''' \<or> normalize_hash ih = i" by (simp add: ih_def i_def)
  obtain p where p: "peer_record_from_beacon connect data = Some p" "p_hash p = Some h" "p_via p = Some ''beacon''"
      "p_identity_hash p = ih"
    using assms(1,3,4) unfolding peer_record_from_beacon_def Let_def c i_def [symmetric] assms(3) ih_def [symmetric]
    by simp
  show thesis by (rule that [OF p(1-3)]) (use ih in \<open>simp add: p(4) i_def\<close>)
qed

lemma beacon_ip_on_scope:
  assumes "on_scope env data_ip" "on_scope env src"
  shows "beacon_ip env data_ip rec_ip src = Some (Some (stripE data_ip))"
proof -
  have "orE data_ip \<noteq> ''''" using assms(1) by (auto simp: on_scope_def)
  with assms show ?thesis
    by (auto simp: beacon_ip_def on_scope_def scope_of_def or_none_def Let_def split: if_splits)
qed

lemma on_beacon_accepts:
  assumes "dinv s" "running s" "accept_peers s" and "b_app data = Some app_name" "b_hash data = Some h"
    "normalize_hash (Some h) = h" "length h = 32" "connect = '''' \<or> connect = h"
    and "foreign_beacon h data dest ident s" and "on_scope env (b_ip data)" "on_scope env src"
  shows "fst (on_beacon env connect reg data dest ident src s)
    \<and> (\<exists>k r. (k, r) \<in> set (peers (snd (on_beacon env connect reg data dest ident src s)))
      \<and> normalize_hash (p_hash r) = h \<and> storage_via (p_via r) = ''lan''
      \<and> stripE (p_ip r) = stripE (b_ip data) \<and> p_last_seen r = Some (e_now env))"
proof -
  obtain p where p: "peer_record_from_beacon connect data = Some p" "p_hash p = Some h" "p_via p = Some ''beacon''"
    and i: "normalize_hash (p_identity_hash p) = '''' \<or> normalize_hash (p_identity_hash p) = normalize_hash (b_identity_hash data)"
    using record_hash [OF assms(4-8)] by blast
  have h: "h \<noteq> ''''" using assms(7) by auto
  have via: "storage_via (Some ''beacon'') = ''lan''" by code_simp
  define name port where "name = beacon_name s h (normalize_hash (b_identity_hash data)) (stripE (p_name p))"
    and "port = port_or (b_port data) (port_or (p_port p) default_port)"
  define q where "q = p\<lparr>p_last_seen := Some (e_now env), p_ip := Some (stripE (b_ip data))\<rparr>"
  define r where "r = q\<lparr>p_port := port, p_name := Some (py_or name (take 8 h))\<rparr>"
  define t where "t = (if reg then log_once env (''beacon-id:'' @ h @ '':lan'') (drop_plain_serial h s) else drop_plain_serial h s)"
  have t: "keeps s t" unfolding t_def using keeps_trans [OF keeps_drop_plain keeps_basic(8)] keeps_drop_plain by simp
  then have loc: "local_hashes t = local_hashes s" by (simp add: keeps_def)
  have scope: "on_scope env (p_ip q)" "\<not> is_serial q"
    using assms(10) p(3) by (auto simp: q_def on_scope_def via_literals split: option.split)
  have allowed: "peer_allowed env s q" using sanitize_on_scope [OF scope(2,1)] by (simp add: peer_allowed_def)
  have ip: "beacon_ip env (b_ip data) (p_ip p) src = Some (Some (stripE (b_ip data)))"
    by (rule beacon_ip_on_scope [OF assms(10,11)])
  have loc': "\<not> is_local_hash s h" "\<not> is_local_hash s (normalize_hash (b_identity_hash data))"
    using assms(6,9) by (simp_all add: is_local_hash_def foreign_beacon_def Let_def)
  let ?i = "normalize_hash (b_identity_hash data)" and ?md = "normalize_hash dest"
    and ?mi = "normalize_hash (if truthy ident then ident else dest)"
  have guards: "\<not> (?i \<noteq> '''' \<and> (?i = ?mi \<or> ?i = ?md))" "\<not> (h = '''' \<or> h = ?md \<or> h = ?mi)" "\<not> (?i \<noteq> '''' \<and> ?i = ?mi)"
    using assms(9) h by (auto simp: foreign_beacon_def Let_def)
  have run: "on_beacon env connect reg data dest ident src s
      = (True, log_once env (''beacon:'' @ h) (snd (store_peer env r t)))"
    unfolding on_beacon_def Let_def p(1) option.case p(2) assms(6) ip
    using assms(2-4) guards loc' allowed
    by (simp only: q_def [symmetric] simp_thms if_True if_False)
       (simp add: r_def t_def name_def port_def q_def)
  have "'''' \<notin> set (local_hashes s)" using assms(1) by (simp add: dinv_def)
  then have "normalize_hash (p_identity_hash r) \<notin> set (local_hashes t)"
    using i assms(9) by (auto simp: r_def q_def loc foreign_beacon_def Let_def)
  moreover have "h \<notin> set (local_hashes t)" using assms(9) by (simp add: loc foreign_beacon_def Let_def)
  ultimately have "\<exists>k r'. (k, r') \<in> set (peers (snd (store_peer env r t))) \<and> normalize_hash (p_hash r') = h
      \<and> storage_via (p_via r') = storage_via (p_via r) \<and> stripE (p_ip r') = stripE (p_ip r) \<and> p_last_seen r' = Some (e_now env)"
    using store_accepts [OF dinv_keeps [OF assms(1) t], of r h env "e_now env"] p(2,3) assms(6) h scope
    by (auto simp: r_def q_def)
  moreover have "p_via r = Some ''beacon''" "stripE (p_ip r) = stripE (b_ip data)" using p(3) by (simp_all add: r_def q_def)
  moreover have "peers (log_once env j u) = peers u" for j u by (simp add: log_once_def)
  ultimately show ?thesis using via by (simp add: run)
qed

lemma dinv_listed: "dinv s \<Longrightarrow> get_peers env sc s = Inr (ps, t) \<Longrightarrow> dinv t"
  by (auto simp: get_peers_def Let_def dinv_def keys_def keys_purge split: if_splits)

lemma dinv_step: "dop_ok e \<Longrightarrow> dinv s \<Longrightarrow> dinv (dstep e s)"
proof (cases e)
  case (Enable c)
  assume "dinv s"
  then have "dinv (s\<lparr>accept_peers := True\<rparr>)" by (rule dinv_frame) simp_all
  then show ?thesis using Enable dinv_keeps [OF _ keeps_basic(9)] by (simp add: enable_discovery_def Let_def)
next
  case Disable
  assume "dinv s"
  then have "dinv (s\<lparr>accept_peers := False\<rparr>)" by (rule dinv_frame) simp_all
  then show ?thesis using Disable dinv_keeps [OF _ keeps_basic(9)] by (simp add: disable_discovery_def Let_def)
next
  case (Listed env sc)
  assume "dinv s"
  then show ?thesis using Listed dinv_listed by (auto split: sum.split)
next
  case Start assume "dinv s" then show ?thesis using Start dinv_frame by (simp add: start_def)
next
  case Stop assume "dinv s" then show ?thesis using Stop dinv_frame by (simp add: stop_def)
qed (auto simp: dinv_set_local dinv_probe_ops dinv_link dinv_announce dinv_beacon intro: dinv_keeps keeping)

interpretation table: step_system dstep dop_ok dinv
  by unfold_locales (rule dinv_step)

lemma dinv_new: "dinv new_discovery"
  by (simp add: dinv_def new_discovery_def keys_def known_ok_def)

text \<open>C4: whatever sequence of announces, beacons, link peers, probes, purges, scope changes
  and listings runs, every row of the table is stored under its own key (one row per
  normalised hash and transport), is never one of our own hashes or identities, has a
  time stamp, and a USB row never has an address.\<close>

theorem table_invariant:
  assumes "\<forall>e \<in> set es. dop_ok e"
  shows "dinv (fold dstep es new_discovery)"
  by (rule table.run_inv [OF assms dinv_new])

definition demo_env :: denv where
  "demo_env = \<lparr>e_scope = Some ''10.0.0.1'', e_serial = True, e_now = 1000, e_pkt_family = (\<lambda>_. None)\<rparr>"

definition demo_beacon :: beacon where
  "demo_beacon = \<lparr>b_app = Some app_name, b_hash = Some (replicate 32 (CHR ''a'')), b_name = Some ''Ann'',
     b_ip = Some ''10.0.0.7'', b_port = None, b_identity_hash = None, b_pubkey = None\<rparr>"

definition demo_run :: "dop list" where
  "demo_run = [Start, Enable False, Beaconed demo_env '''' False demo_beacon (Some ''ff'') None (Some ''10.0.0.7''),
     LinkPeer demo_env (Some ''dd01'') None (Some ''serial'') None]"

lemma demo_run_ok: "\<forall>e \<in> set demo_run. dop_ok e"
  by code_simp

lemma table_invariant_witness:
  "keys (fold dstep demo_run new_discovery) = [replicate 32 (CHR ''a'') @ '':lan'', ''dd01:serial'']
   \<and> dinv (fold dstep demo_run new_discovery)"
proof
  show "dinv (fold dstep demo_run new_discovery)" by (rule table_invariant [OF demo_run_ok])
  show "keys (fold dstep demo_run new_discovery) = [replicate 32 (CHR ''a'') @ '':lan'', ''dd01:serial'']"
    by code_simp
qed

section \<open>Listing\<close>

text \<open>A USB row is listed without its address.\<close>

definition listed_form :: "peer \<Rightarrow> peer" where
  "listed_form p = (if is_serial p then p\<lparr>p_ip := None\<rparr> else p)"

text \<open>The rows the first loop keeps, and what the second loop builds from them.\<close>

lemma list_step_rows: "set (map snd (list_step env sc p d)) \<subseteq> insert p (set (map snd d))"
proof -
  have u: "set (map snd (AList.update k v d)) \<subseteq> insert v (set (map snd d))" for k v
    using set_update_subset [of k v d] by force
  have pr: "prefer_peer env sc e p \<in> insert p (set (map snd d))" if "map_of d k = Some e" for e k
    using map_of_SomeD [OF that] by (force simp: prefer_peer_def)
  show ?thesis
    unfolding list_step_def Let_def
    by (auto split: option.split dest!: u [THEN subsetD, simplified] dest: pr)
qed

lemma fold_list_rows: "set (map snd (fold (list_step env sc) ps d)) \<subseteq> set ps \<union> set (map snd d)"
proof (induction ps arbitrary: d)
  case (Cons p ps)
  show ?case using Cons.IH [of "list_step env sc p d"] list_step_rows [of env sc p d] by auto
qed simp

definition collapse_inv :: "denv \<Rightarrow> peer list \<Rightarrow> peer list \<times> (string, peer) pydict \<Rightarrow> bool" where
  "collapse_inv env rows acc \<longleftrightarrow>
     (\<forall>q \<in> set (fst acc). e_serial env \<and> is_serial q \<and> q \<in> listed_form ` set rows)
     \<and> distinct (map fst (snd acc))
     \<and> (\<forall>(ip, q) \<in> set (snd acc). \<not> is_serial q \<and> q \<in> set rows \<and> stripE (p_ip q) = ip)"

lemma collapse_inv_step:
  assumes "collapse_inv env rows acc" "p \<in> set rows"
  shows "collapse_inv env rows (collapse_step env sc deduped p acc)"
proof -
  obtain no_ip coll where acc: "acc = (no_ip, coll)" by fastforce
  let ?ip = "stripE (p_ip p)"
  have put: "collapse_inv env rows (no_ip, AList.update ?ip q coll)"
    if "\<not> is_serial q" "q \<in> set rows" "stripE (p_ip q) = ?ip" for q
    using assms(1) that set_update_subset [of ?ip q coll]
    by (fastforce simp: collapse_inv_def acc keys_update)
  have pick: "\<not> is_serial (same_ip_preferred env sc p q) \<and> same_ip_preferred env sc p q \<in> set rows
      \<and> stripE (p_ip (same_ip_preferred env sc p q)) = ?ip"
    if "\<not> is_serial p" "map_of coll ?ip = Some q" for q
    using same_ip.pick_one [of env sc p q] that assms map_of_SomeD [OF that(2)]
    by (auto simp: collapse_inv_def acc)
  have ser: "collapse_inv env rows (no_ip @ [p\<lparr>p_ip := None\<rparr>], coll)" if "is_serial p" "e_serial env"
    using that assms by (auto simp: collapse_inv_def acc listed_form_def image_iff)
  show ?thesis
    unfolding collapse_step_def acc case_prod_conv Let_def
    using put pick ser assms by (auto simp: acc split: option.split)
qed

lemma fold_collapse:
  "set ps \<subseteq> set rows \<Longrightarrow> collapse_inv env rows acc \<Longrightarrow> collapse_inv env rows (fold (collapse_step env sc deduped) ps acc)"
  by (induction ps arbitrary: acc) (simp_all add: collapse_inv_step)

lemma list_rows_spec:
  fixes env sc ps
  defines "out \<equiv> list_rows env sc ps"
  shows "\<forall>q \<in> set out. peer_viable env sc q"
    and "\<forall>q \<in> set out. q \<in> listed_form ` set ps"
    and "distinct (map (\<lambda>q. stripE (p_ip q)) (filter (\<lambda>q. \<not> is_serial q) out))"
proof -
  let ?rows = "map snd (fold (list_step env sc) ps [])"
  obtain no_ip coll where c: "fold (collapse_step env sc ?rows) ?rows ([], []) = (no_ip, coll)" by fastforce
  have sub: "set ?rows \<subseteq> set ps" using fold_list_rows [of env sc ps "[]"] by simp
  have out: "out = filter (peer_viable env sc) (no_ip @ map snd coll)"
    by (simp add: out_def list_rows_def Let_def c)
  have inv: "collapse_inv env ?rows (no_ip, coll)"
    unfolding c [symmetric] by (rule fold_collapse) (simp_all add: collapse_inv_def)
  then have ser: "\<forall>q \<in> set no_ip. is_serial q" and lan: "\<forall>(ip, q) \<in> set coll. \<not> is_serial q \<and> stripE (p_ip q) = ip"
    and d: "distinct (map fst coll)" by (auto simp: collapse_inv_def)
  show "\<forall>q \<in> set out. peer_viable env sc q" by (auto simp: out)
  show "\<forall>q \<in> set out. q \<in> listed_form ` set ps"
  proof
    fix q assume "q \<in> set out"
    then consider "q \<in> set no_ip" | "q \<in> snd ` set coll" by (auto simp: out)
    then show "q \<in> listed_form ` set ps"
    proof cases
      case 1
      with inv have "q \<in> listed_form ` set ?rows" unfolding collapse_inv_def fst_conv by blast
      with sub show ?thesis by blast
    next
      case 2
      with inv have "q \<in> set ?rows" "\<not> is_serial q" by (auto simp: collapse_inv_def)
      then have "listed_form q = q" "q \<in> set ps" using sub by (auto simp: listed_form_def)
      then show ?thesis by (metis imageI)
    qed
  qed
  have "map (\<lambda>q. stripE (p_ip q)) (map snd coll) = map fst coll" using lan by auto
  then have dm: "distinct (map (\<lambda>q. stripE (p_ip q)) (map snd coll))" using d by argo
  have "filter (\<lambda>q. peer_viable env sc q \<and> \<not> is_serial q) no_ip = []"
    using ser by (auto simp: filter_empty_conv)
  then have "filter (\<lambda>q. \<not> is_serial q) out = filter (\<lambda>q. peer_viable env sc q \<and> \<not> is_serial q) (map snd coll)"
    by (simp add: out)
  then show "distinct (map (\<lambda>q. stripE (p_ip q)) (filter (\<lambda>q. \<not> is_serial q) out))"
    using dm by (simp add: distinct_map_filter del: map_map)
qed

text \<open>C23: on every reachable table \<open>get_peers\<close> does not raise, and while peers are accepted
  each row it lists is a stored row seen within the last 300 seconds (a USB row without
  its address), reachable on its transport from the given scope; no two LAN rows have
  the same address, and no USB row is listed while the bridge is down.\<close>

theorem get_peers_lists:
  assumes "\<forall>e \<in> set es. dop_ok e" and "s = fold dstep es new_discovery"
  shows "case get_peers env sc s of Inl _ \<Rightarrow> False
    | Inr (out, s') \<Rightarrow> (accept_peers s \<or> out = [])
       \<and> (\<forall>q \<in> set out. peer_viable env sc q
            \<and> (\<exists>k p. (k, p) \<in> set (peers s) \<and> q = listed_form p
                 \<and> e_now env - the (p_last_seen p) \<le> 300))
       \<and> distinct (map (\<lambda>q. stripE (p_ip q)) (filter (\<lambda>q. \<not> is_serial q) out))
       \<and> (e_serial env \<or> (\<forall>q \<in> set out. \<not> is_serial q))"
proof -
  have inv: "dinv s" unfolding assms(2) by (rule table.run_inv [OF assms(1) dinv_new])
  then have seen: "\<forall>(k, p) \<in> set (peers s). p_last_seen p \<noteq> None" by (auto simp: dinv_def row_ok_def)
  show ?thesis
  proof (cases "accept_peers s")
    case False
    then show ?thesis by (simp add: get_peers_def)
  next
    case True
    let ?live = "dict_purge (\<lambda>_ p. expired env p) (peers s)"
    let ?out = "list_rows env sc (map snd ?live)"
    have g: "get_peers env sc s = Inr (?out, s\<lparr>peers := ?live\<rparr>)"
      using True seen by (auto simp: get_peers_def Let_def)
    have "\<exists>k p. (k, p) \<in> set (peers s) \<and> q = listed_form p
        \<and> e_now env - the (p_last_seen p) \<le> 300" if q: "q \<in> set ?out" for q
    proof -
      from q list_rows_spec(2) [of env sc "map snd ?live"] obtain k p where kp: "(k, p) \<in> set ?live"
        "q = listed_form p" by fastforce
      then have "(k, p) \<in> set (peers s)" "\<not> expired env p" by auto
      moreover from this seen obtain t where "p_last_seen p = Some t" by auto
      ultimately have "e_now env - the (p_last_seen p) \<le> 300" by (simp add: expired_def time0_def discovery_timeout_s_def)
      with kp(2) \<open>(k, p) \<in> set (peers s)\<close> show ?thesis by blast
    qed
    moreover have "e_serial env \<or> (\<forall>q \<in> set ?out. \<not> is_serial q)"
      using list_rows_spec(1) [of env sc "map snd ?live"] by (auto simp: peer_viable_def)
    ultimately show ?thesis using g True list_rows_spec(1,3) [of env sc "map snd ?live"] by simp
  qed
qed

lemma get_peers_lists_witness:
  "case get_peers demo_env None (fold dstep demo_run new_discovery) of Inl _ \<Rightarrow> False
     | Inr (out, s') \<Rightarrow> (\<forall>q \<in> set out. peer_viable demo_env None q)"
  using get_peers_lists [OF demo_run_ok refl, of demo_env None] by (auto split: sum.split)

section \<open>Isolation of a pinned LAN\<close>

definition in_scope_inv :: "string \<Rightarrow> dstate \<Rightarrow> bool" where
  "in_scope_inv sc s \<longleftrightarrow> (\<forall>(k, p) \<in> set (peers s). is_serial p \<or> peer_in_scope (p_ip p) (Some sc))"

fun dop_env :: "dop \<Rightarrow> denv option" where
  "dop_env (LinkPeer env _ _ _ _) = Some env"
| "dop_env (Announced env _) = Some env"
| "dop_env (Beaconed env _ _ _ _ _ _) = Some env"
| "dop_env _ = None"

definition scoped_op :: "string \<Rightarrow> dop \<Rightarrow> bool" where
  "scoped_op sc e \<longleftrightarrow> (case dop_env e of None \<Rightarrow> True | Some env \<Rightarrow> scope_of env = Some sc)"

lemma scope_keeps: "in_scope_inv sc s \<Longrightarrow> keeps s t \<Longrightarrow> in_scope_inv sc t"
  by (auto simp: in_scope_inv_def keeps_def)

lemma scope_dict_map:
  assumes "in_scope_inv sc s" "\<And>p. p_via (f p) = p_via p \<and> p_ip (f p) = p_ip p"
  shows "in_scope_inv sc (s\<lparr>peers := dict_map f (peers s)\<rparr>)"
  using assms by (auto simp: in_scope_inv_def)

lemma scope_map_rows:
  "in_scope_inv sc s \<Longrightarrow> (\<And>p. p_via (f p) = p_via p \<and> p_ip (f p) = p_ip p) \<Longrightarrow> in_scope_inv sc (map_rows h f s)"
  unfolding map_rows_def by (rule scope_dict_map) simp_all

lemma scope_probe_ops:
  assumes "in_scope_inv sc s"
  shows "in_scope_inv sc (reset_peer_probe_state env h s)" "in_scope_inv sc (reset_probe_timers s)"
    "in_scope_inv sc (snd (clear_peer_rtt h s))" "in_scope_inv sc (update_peer_probe env h rtt ok s)"
proof -
  show "in_scope_inv sc (reset_peer_probe_state env h s)"
    unfolding reset_peer_probe_state_def Let_def using assms by (simp add: scope_map_rows probe_frames(1))
  show "in_scope_inv sc (reset_probe_timers s)"
    unfolding reset_probe_timers_def by (rule scope_dict_map [OF assms]) simp
  show "in_scope_inv sc (snd (clear_peer_rtt h s))"
    unfolding clear_peer_rtt_def Let_def using assms by (simp add: scope_map_rows probe_frames(2))
  show "in_scope_inv sc (update_peer_probe env h rtt ok s)"
    unfolding update_peer_probe_def Let_def using assms by (simp add: scope_map_rows probe_frames(3))
qed

lemma scope_put: "in_scope_inv sc s \<Longrightarrow> is_serial p \<or> peer_in_scope (p_ip p) (Some sc) \<Longrightarrow> in_scope_inv sc (put_peer k p s)"
  using set_update_subset [of k p "peers s"] by (fastforce simp: in_scope_inv_def put_peer_def)

lemma in_scope_strip: "peer_in_scope (Some (stripE ip)) sc = peer_in_scope ip sc"
  by (simp add: peer_in_scope_def)

lemma sanitize_scope:
  assumes "sanitize_peer_scope env s p = Some q" "scope_of env = Some sc"
  shows "is_serial q \<or> peer_in_scope (p_ip q) (Some sc)"
proof (cases "is_serial p")
  case True
  then show ?thesis using sanitize_frame [OF assms(1)] by simp
next
  case False
  define c where "c = (if stripE (p_ip p) = '''' then attach_peer_ip env True s p else p)"
  have "sanitize_peer_scope env s p = (if stripE (p_ip c) = '''' then None
      else if peer_in_scope (Some (stripE (p_ip c))) (Some sc) then Some c else None)"
    unfolding sanitize_peer_scope_def Let_def c_def assms(2) option.case using False by argo
  with assms(1) show ?thesis by (simp add: in_scope_strip split: if_splits)
qed

lemma refresh_scope:
  assumes "refresh_row env h p e = Some r" "scope_of env = Some sc" "is_serial e \<or> peer_in_scope (p_ip e) (Some sc)"
  shows "is_serial r \<or> peer_in_scope (p_ip r) (Some sc)"
proof -
  from assms(1) obtain a where a: "refresh_addr env p e = Some a" and r: "p_ip r = p_ip a" "p_via r = p_via e"
    using refresh_row_frame [OF assms(1)] by (auto simp: refresh_row_def)
  from a assms(2,3) have "is_serial e \<or> peer_in_scope (p_ip a) (Some sc)"
    by (auto simp: refresh_addr_def Let_def in_scope_strip peer_in_scope_def split: if_splits)
  with r show ?thesis by simp
qed

lemma scope_finish: "in_scope_inv sc s \<Longrightarrow> in_scope_inv sc (snd (finish_store env h k s))"
proof -
  assume inv: "in_scope_inv sc s"
  let ?t = "if truthy (p_ip (row s k)) then register_ip (p_ip (row s k)) s else s"
  have "in_scope_inv sc ?t" using inv scope_keeps [OF inv keeps_basic(7)] by simp
  then have "in_scope_inv sc (reset_peer_probe_state env (Some h) ?t)" by (rule scope_probe_ops)
  then show ?thesis unfolding finish_store_def Let_def snd_conv by (rule scope_keeps) (rule keeps_basic)
qed

lemma scope_store_sanitized:
  assumes "in_scope_inv sc s" "scope_of env = Some sc" "is_serial p \<or> peer_in_scope (p_ip p) (Some sc)"
  shows "in_scope_inv sc (snd (store_sanitized env h p s))"
proof -
  let ?p = "if is_serial p then p\<lparr>p_ip := None\<rparr> else p"
  obtain removed q t where e: "evict_superseded_peers env ?p s = (removed, q, t)"
    by (cases "evict_superseded_peers env ?p s") auto
  let ?u = "notify_peer_evicted removed (Some q) t"
  have u: "in_scope_inv sc ?u"
    using keeps_evict [OF e] keeps_trans [OF _ keeps_basic(2)] scope_keeps [OF assms(1)] by blast
  have ne: "is_serial p \<or> stripE (p_ip p) \<noteq> ''''" using assms(3) by (auto simp: peer_in_scope_def)
  have q: "is_serial q \<or> peer_in_scope (p_ip q) (Some sc)"
    using keeps_evict [OF e] assms(3) ne by (cases "is_serial p") auto
  have old: "is_serial x \<or> peer_in_scope (p_ip x) (Some sc)" if "map_of (peers ?u) k = Some x" for k x
    using u map_of_SomeD [OF that] by (auto simp: in_scope_inv_def)
  have "in_scope_inv sc (snd (case refresh_row env h q x of None \<Rightarrow> (False, remove_peer_entry (peer_storage_key q) ?u)
       | Some r \<Rightarrow> finish_store env h (peer_storage_key q) (put_peer (peer_storage_key q) r ?u)))"
    if "map_of (peers ?u) (peer_storage_key q) = Some x" for x
    using refresh_scope [OF _ assms(2) old [OF that]] scope_keeps [OF u keeps_remove] scope_finish [OF scope_put [OF u]]
    by (simp split: option.split)
  then show ?thesis
    unfolding store_sanitized_def Let_def e case_prod_conv
    using u scope_finish [OF scope_put [OF u q]] by (simp split: option.split)
qed

lemma scope_store:
  assumes "in_scope_inv sc s" "scope_of env = Some sc"
  shows "in_scope_inv sc (snd (store_peer env p s))"
  unfolding store_peer_def Let_def
  using assms scope_store_sanitized [OF assms sanitize_scope [OF _ assms(2)]] scope_keeps [OF assms(1) keeps_reject]
  by (simp split: option.split)

lemma scope_log: "in_scope_inv sc s \<Longrightarrow> in_scope_inv sc (log_once env k s)"
  by (erule scope_keeps) (rule keeps_basic)

lemma scope_emit: "in_scope_inv sc s \<Longrightarrow> in_scope_inv sc (emit e s)"
  by (erule scope_keeps) (rule keeps_basic)

lemma scope_drop_plain: "in_scope_inv sc s \<Longrightarrow> in_scope_inv sc (drop_plain_serial h s)"
  by (erule scope_keeps) (rule keeps_drop_plain)

lemma scope_inputs:
  assumes "in_scope_inv sc s" "scope_of env = Some sc"
  shows "in_scope_inv sc (register_link_peer env h name via ip s)"
    and "in_scope_inv sc (on_announce env a s)"
    and "in_scope_inv sc (snd (on_beacon env c reg b dest ident src s))"
proof -
  note store = scope_store [OF _ assms(2)]
  show "in_scope_inv sc (register_link_peer env h name via ip s)"
    unfolding register_link_peer_def Let_def using store [OF assms(1)] assms(1) by simp
  show "in_scope_inv sc (on_announce env a s)"
    unfolding on_announce_def Let_def case_prod_beta
    using store [OF assms(1)] assms(1) scope_log scope_emit by (simp split: option.split)
  show "in_scope_inv sc (snd (on_beacon env c reg b dest ident src s))"
    unfolding on_beacon_def Let_def
    using store scope_log scope_drop_plain assms(1) by (simp split: option.split)
qed

lemma scope_same:
  "in_scope_inv sc s \<Longrightarrow> in_scope_inv sc (start s)" "in_scope_inv sc s \<Longrightarrow> in_scope_inv sc (stop s)"
  "in_scope_inv sc (disable_discovery s)"
  by (simp_all add: in_scope_inv_def start_def stop_def disable_discovery_def clear_peers_def)

lemma scope_step: "scoped_op sc e \<Longrightarrow> in_scope_inv sc s \<Longrightarrow> in_scope_inv sc (dstep e s)"
proof (cases e)
  case (SetLocal hs)
  assume inv: "in_scope_inv sc s"
  have "set (peers (set_local_hashes hs s)) \<subseteq> set (peers s)" by (rule set_local_hashes_rows)
  then show ?thesis using inv SetLocal by (auto simp: in_scope_inv_def)
next
  case (Listed env x)
  assume "in_scope_inv sc s"
  then show ?thesis using Listed by (auto simp: get_peers_def Let_def in_scope_inv_def)
next
  case (Enable c)
  assume "in_scope_inv sc s"
  then show ?thesis using Enable by (simp add: enable_discovery_def clear_peers_def in_scope_inv_def Let_def)
qed (auto simp: scoped_op_def scope_inputs scope_probe_ops scope_same
     intro: scope_keeps keeping)

interpretation isolation: step_system dstep "scoped_op sc" "in_scope_inv sc" for sc
  by unfold_locales (rule scope_step)

text \<open>C19: while the LAN is pinned to one address, no sequence of announces, beacons and
  link peers puts a row of another subnet into the table: every LAN row is on the scope
  of the pinned address.\<close>

theorem pinned_lan_isolated:
  assumes "\<forall>e \<in> set es. scoped_op sc e"
  shows "\<forall>(k, p) \<in> set (peers (fold dstep es new_discovery)). is_serial p \<or> peer_in_scope (p_ip p) (Some sc)"
proof -
  have "in_scope_inv sc new_discovery" by (simp add: in_scope_inv_def new_discovery_def)
  from isolation.run_inv [OF assms this] show ?thesis by (simp add: in_scope_inv_def)
qed

lemma pinned_lan_isolated_witness:
  "peers (fold dstep demo_run new_discovery) \<noteq> []
   \<and> list_all (\<lambda>(k, p). is_serial p \<or> peer_in_scope (p_ip p) (Some ''10.0.0.1''))
     (peers (fold dstep demo_run new_discovery))"
proof -
  have "\<forall>e \<in> set demo_run. scoped_op ''10.0.0.1'' e" by code_simp
  moreover have "peers (fold dstep demo_run new_discovery) \<noteq> []" by code_simp
  ultimately show ?thesis using pinned_lan_isolated [of demo_run] by (simp add: list_all_iff)
qed

section \<open>Probing and storing\<close>

lemma remove_all_stored:
  assumes "dinv s" "distinct ks" "set ks \<subseteq> set (keys s)"
  shows "peers (fold remove_peer_entry ks s) = filter (\<lambda>(k, p). k \<notin> set ks) (peers s)"
  using assms
proof (induction ks arbitrary: s)
  case (Cons k ks)
  from Cons.prems(3) obtain p where p: "map_of (peers s) k = Some p"
    by (auto simp: keys_def) (metis domI domIff dom_map_of_conv_image_fst image_eqI fst_conv option.exhaust)
  let ?t = "remove_peer_entry k s"
  have d: "peers ?t = AList.delete k (peers s)" by (rule remove_stored [OF Cons.prems(1) p])
  have "dinv ?t" using Cons.prems(1) dinv_keeps keeps_remove by blast
  moreover have "set ks \<subseteq> set (keys ?t)" using Cons.prems(2,3) d by (force simp: keys_def)
  ultimately have "peers (fold remove_peer_entry ks ?t) = filter (\<lambda>(k, p). k \<notin> set ks) (peers ?t)"
    using Cons.prems(2) by (intro Cons.IH) simp_all
  then show ?case by (auto simp: d AList.delete_eq intro!: filter_cong)
qed simp

text \<open>\<open>purge_stale_probes\<close> removes exactly the LAN rows whose last announce is older
  than \<open>stale_s\<close> and whose probes show them dead (too slow on three samples, or
  \<open>max_failures\<close> failures), and returns their number; USB rows and recently announced
  rows always stay.\<close>

theorem purge_stale_exact:
  assumes "dinv s"
  shows "case purge_stale_probes env max_rtt stale failures s of (n, s') \<Rightarrow>
      peers s' = filter (\<lambda>(k, p). \<not> stale_probe env max_rtt stale failures p) (peers s)
    \<and> n = int (length (peers s)) - int (length (peers s'))
    \<and> (\<forall>(k, p) \<in> set (peers s). is_serial p \<or> e_now env - time0 (p_last_seen p) \<le> stale \<longrightarrow> (k, p) \<in> set (peers s'))"
proof -
  define bad where "bad p = stale_probe env max_rtt stale failures p" for p :: peer
  define ks where "ks = filter (\<lambda>k. bad (row s k)) (keys s)"
  have d: "distinct (keys s)" using assms by (simp add: dinv_def)
  have mem: "k \<in> set ks \<longleftrightarrow> bad p" if "(k, p) \<in> set (peers s)" for k p
    using that row_stored [OF assms that] by (force simp: ks_def keys_def)
  have rm: "peers (fold remove_peer_entry ks s) = filter (\<lambda>(k, p). k \<notin> set ks) (peers s)"
    using d by (intro remove_all_stored [OF assms]) (auto simp: ks_def)
  also have "\<dots> = filter (\<lambda>(k, p). \<not> bad p) (peers s)" using mem by (auto intro!: filter_cong)
  finally have ps: "peers (fold remove_peer_entry ks s) = filter (\<lambda>(k, p). \<not> bad p) (peers s)" .
  have "map fst (filter (\<lambda>(k, p). bad p) (peers s)) = ks"
    unfolding ks_def keys_def filter_map using row_stored [OF assms]
    by (intro arg_cong [of _ _ "map fst"] filter_cong) auto
  then have "length ks = length (filter (\<lambda>(k, p). bad p) (peers s))" by (metis length_map)
  moreover have "length (filter (\<lambda>(k, p). bad p) xs) + length (filter (\<lambda>(k, p). \<not> bad p) xs) = length xs" for xs :: "(string, peer) pydict"
    by (induction xs) auto
  ultimately have "int (length ks) = int (length (peers s)) - int (length (filter (\<lambda>(k, p). \<not> bad p) (peers s)))"
    by (metis add_diff_cancel_right' of_nat_add)
  moreover have "\<not> bad p" if "is_serial p \<or> e_now env - time0 (p_last_seen p) \<le> stale" for p
    using that by (auto simp: bad_def stale_probe_def Let_def)
  ultimately show ?thesis
    unfolding purge_stale_probes_def Let_def bad_def [symmetric] ks_def [symmetric] case_prod_conv ps by auto
qed

definition ghost_table :: dstate where
  "ghost_table = new_discovery\<lparr>peers := [(''dd01:lan'', empty_peer\<lparr>p_hash := Some ''dd01'', p_ip := Some ''10.0.0.4'',
     p_last_seen := Some 100, p_probe_failures := Some 5\<rparr>)]\<rparr>"

lemma ghost_table_ok: "dinv ghost_table"
proof -
  have "row_ok [] ''dd01:lan'' (empty_peer\<lparr>p_hash := Some ''dd01'', p_ip := Some ''10.0.0.4'',
     p_last_seen := Some 100, p_probe_failures := Some 5\<rparr>)" by code_simp
  then show ?thesis by (simp add: dinv_def ghost_table_def new_discovery_def keys_def known_ok_def)
qed

lemma purge_stale_exact_witness:
  "fst (purge_stale_probes demo_env 10000 30 5 ghost_table) = 1"
proof -
  have "filter (\<lambda>(k, p). \<not> stale_probe demo_env 10000 30 5 p) (peers ghost_table) = []"
    by (simp add: ghost_table_def new_discovery_def stale_probe_def demo_env_def empty_peer_def time0_def)
  moreover have "length (peers ghost_table) = 1" by (simp add: ghost_table_def)
  ultimately show ?thesis using purge_stale_exact [OF ghost_table_ok, of demo_env 10000 30 5]
    by (auto split: prod.splits)
qed

text \<open>The rows eviction leaves.\<close>

lemma evict_rows:
  assumes "evict_superseded_peers env p s = (removed, q, t)" "dinv s"
  shows "\<forall>(k, e) \<in> set (peers t). (k, e) \<in> set (peers s) \<and> \<not> superseded env q e"
proof -
  have del: "set (peers (fold (\<lambda>(key, _). del_peer key) gone s)) = {x \<in> set (peers s). fst x \<notin> fst ` set gone}" for gone :: "(string \<times> peer) list" and s
    by (induction gone arbitrary: s) (auto simp: del_peer_def)
  define gone where "gone = filter (\<lambda>(key, existing). superseded env q existing) (peers s)"
  have "t = fold (\<lambda>(key, _). del_peer key) gone s"
    using assms(1) by (auto simp: evict_superseded_peers_def Let_def gone_def split: if_splits)
  then have t: "set (peers t) = {x \<in> set (peers s). fst x \<notin> fst ` set gone}" using del by simp
  show ?thesis
  proof (clarify, intro conjI notI)
    fix k e assume ke: "(k, e) \<in> set (peers t)"
    then show "(k, e) \<in> set (peers s)" using t by simp
    assume "superseded env q e"
    then have "(k, e) \<in> set gone" using \<open>(k, e) \<in> set (peers s)\<close> by (simp add: gone_def)
    then have "k \<in> fst ` set gone" by force
    then show False using ke t by simp
  qed
qed

text \<open>Two rows of one identity on one transport under different hashes.\<close>

definition same_owner :: "peer \<Rightarrow> peer \<Rightarrow> bool" where
  "same_owner p e \<longleftrightarrow> (is_serial p \<longleftrightarrow> is_serial e)
     \<and> normalize_hash (p_hash e) \<noteq> normalize_hash (p_hash p)
     \<and> ((normalize_hash (p_identity_hash p) \<noteq> '''' \<and> normalize_hash (p_identity_hash e) = normalize_hash (p_identity_hash p))
        \<or> (truthy (p_pubkey p) \<and> p_pubkey e = p_pubkey p))"

lemma owner_superseded: "same_owner p e \<Longrightarrow> superseded env p e"
  by (auto simp: same_owner_def superseded_def family_of_def Let_def)

lemma owner_cong:
  "p_via q = p_via p \<Longrightarrow> normalize_hash (p_hash q) = normalize_hash (p_hash p) \<Longrightarrow>
   p_identity_hash q = p_identity_hash p \<Longrightarrow> p_pubkey q = p_pubkey p \<Longrightarrow> same_owner q e = same_owner p e"
  by (simp add: same_owner_def)

lemma finish_rows:
  "(k, e) \<in> set (peers (snd (finish_store env h j (put_peer j r u)))) \<Longrightarrow> normalize_hash (p_hash e) \<noteq> h
   \<Longrightarrow> normalize_hash (Some h) = h \<Longrightarrow> normalize_hash (p_hash r) = h \<Longrightarrow> (k, e) \<in> set (peers u)"
  using set_update_subset [of j r "peers u"]
  by (auto simp: finish_store_def Let_def emit_def reset_peer_probe_state_def map_rows_def register_ip_def
      put_peer_def probe_frames split: if_splits)

text \<open>What a successful store did: the sanitised copy, the eviction, the row written.\<close>

lemma store_written:
  assumes "map_of (peers u) k = Some x \<Longrightarrow> normalize_hash (p_hash x) = h" "normalize_hash (p_hash q) = h"
    and "(case map_of (peers u) k of
            None \<Rightarrow> finish_store env h k (put_peer k q u)
          | Some existing \<Rightarrow> (case refresh_row env h q existing of
                None \<Rightarrow> (False, remove_peer_entry k u)
              | Some r \<Rightarrow> finish_store env h k (put_peer k r u))) = (True, s')"
    and "map_of (peers u) k = None \<or> map_of (peers u) k = Some x"
  shows "\<exists>r. normalize_hash (p_hash r) = h \<and> s' = snd (finish_store env h k (put_peer k r u))"
proof (cases "map_of (peers u) k")
  case None
  with assms(2,3) show ?thesis by (intro exI [of _ q]) simp
next
  case (Some y)
  with assms(4) have x: "y = x" "normalize_hash (p_hash x) = h" using assms(1) by simp_all
  with Some assms(3) obtain r where r: "refresh_row env h q x = Some r" "finish_store env h k (put_peer k r u) = (True, s')"
    by (cases "refresh_row env h q x") simp_all
  have "p_hash r = p_hash x" using refresh_row_frame [OF r(1)] by blast
  with r(2) x show ?thesis by (intro exI [of _ r]) simp
qed

lemma store_run:
  assumes "dinv s" and "store_peer env p s = (True, s')"
  obtains sane removed q t r where
    "sanitize_peer_scope env s (claimed_peer (normalize_hash (p_hash p)) p) = Some sane"
    "evict_superseded_peers env (if is_serial sane then sane\<lparr>p_ip := None\<rparr> else sane) s = (removed, q, t)"
    "normalize_hash (p_hash r) = normalize_hash (p_hash p)"
    "s' = snd (finish_store env (normalize_hash (p_hash p)) (peer_storage_key q)
       (put_peer (peer_storage_key q) r (notify_peer_evicted removed (Some q) t)))"
proof -
  let ?h = "normalize_hash (p_hash p)"
  from assms(2) obtain sane where h: "?h \<noteq> ''''"
    and sane: "sanitize_peer_scope env s (claimed_peer ?h p) = Some sane"
    and st: "store_sanitized env ?h sane s = (True, s')"
    by (auto simp: store_peer_def Let_def split: if_splits option.splits)
  let ?p = "if is_serial sane then sane\<lparr>p_ip := None\<rparr> else sane"
  obtain removed q t where e: "evict_superseded_peers env ?p s = (removed, q, t)"
    by (cases "evict_superseded_peers env ?p s") auto
  define u where "u = notify_peer_evicted removed (Some q) t"
  have "p_hash ?p = Some ?h" using sanitize_frame [OF sane] by simp
  then have qh: "normalize_hash (p_hash q) = ?h" using keeps_evict [OF e] by simp
  have "keeps s u" unfolding u_def using keeps_evict [OF e] keeps_trans [OF _ keeps_basic(2)] by blast
  then have u: "dinv u" by (rule dinv_keeps [OF assms(1)])
  have xh: "normalize_hash (p_hash x) = ?h" if "map_of (peers u) (peer_storage_key q) = Some x" for x
  proof -
    have "peer_storage_key q = peer_storage_key x" using dinv_row [OF u that] by (simp add: row_ok_def)
    then show ?thesis using storage_key_inject qh h by metis
  qed
  from st h qh have c: "(case map_of (peers u) (peer_storage_key q) of
            None \<Rightarrow> finish_store env ?h (peer_storage_key q) (put_peer (peer_storage_key q) q u)
          | Some existing \<Rightarrow> (case refresh_row env ?h q existing of
                None \<Rightarrow> (False, remove_peer_entry (peer_storage_key q) u)
              | Some r \<Rightarrow> finish_store env ?h (peer_storage_key q) (put_peer (peer_storage_key q) r u))) = (True, s')"
    unfolding store_sanitized_def Let_def e case_prod_conv u_def [symmetric] by simp
  obtain x where x: "map_of (peers u) (peer_storage_key q) = None \<or> map_of (peers u) (peer_storage_key q) = Some x"
    by (cases "map_of (peers u) (peer_storage_key q)") auto
  from store_written [OF xh qh c x] that [OF sane e] show thesis unfolding u_def by blast
qed

text \<open>When a peer is stored, every older row of the same identity or public key on the
  same transport, under whatever other hash, is gone: a peer that regenerated its
  destination never appears twice.\<close>

theorem stored_peer_supersedes:
  assumes "dinv s" and "store_peer env p s = (True, s')"
  shows "\<forall>(k, e) \<in> set (peers s'). \<not> same_owner p e"
proof (rule store_run [OF assms])
  fix sane removed q t r
  let ?h = "normalize_hash (p_hash p)"
  assume sane: "sanitize_peer_scope env s (claimed_peer ?h p) = Some sane"
    and e: "evict_superseded_peers env (if is_serial sane then sane\<lparr>p_ip := None\<rparr> else sane) s = (removed, q, t)"
    and r: "normalize_hash (p_hash r) = ?h" and s': "s' = snd (finish_store env ?h (peer_storage_key q)
       (put_peer (peer_storage_key q) r (notify_peer_evicted removed (Some q) t)))"
  let ?p = "if is_serial sane then sane\<lparr>p_ip := None\<rparr> else sane"
  have "p_hash ?p = Some ?h" "p_via ?p = p_via p" "p_identity_hash ?p = p_identity_hash p" "p_pubkey ?p = p_pubkey p"
    using sanitize_frame [OF sane] by simp_all
  then have q: "same_owner q x = same_owner p x" for x
    using keeps_evict [OF e] by (intro owner_cong) simp_all
  have old: "\<not> same_owner p x" if "(k, x) \<in> set (peers (notify_peer_evicted removed (Some q) t))" for k x
  proof -
    from that have "(k, x) \<in> set (peers t)" by (simp add: notify_peer_evicted_def emit_def split: if_splits)
    then have "\<not> superseded env q x" using evict_rows [OF e assms(1)] by blast
    then show ?thesis using owner_superseded q by blast
  qed
  show ?thesis
  proof (clarify)
    fix k x assume kx: "(k, x) \<in> set (peers s')" and o: "same_owner p x"
    then have "normalize_hash (p_hash x) \<noteq> ?h" by (simp add: same_owner_def)
    then have "(k, x) \<in> set (peers (notify_peer_evicted removed (Some q) t))"
      using finish_rows [OF kx [unfolded s']] r by simp
    with old o show False by blast
  qed
qed

definition moved_ghost :: peer where
  "moved_ghost = empty_peer\<lparr>p_hash := Some ''dd02'', p_name := Some ''Dan'', p_via := Some ''beacon'',
     p_ip := Some ''10.0.0.4'', p_last_seen := Some 990, p_pubkey := Some ''k''\<rparr>"

lemma stored_peer_supersedes_witness:
  "keys (snd (store_peer demo_env moved_ghost ghost_table)) = [''dd02:lan'']
   \<and> list_all (\<lambda>(k, e). \<not> same_owner moved_ghost e) (peers (snd (store_peer demo_env moved_ghost ghost_table)))"
proof -
  have "fst (store_peer demo_env moved_ghost ghost_table)" by code_simp
  then have "store_peer demo_env moved_ghost ghost_table = (True, snd (store_peer demo_env moved_ghost ghost_table))"
    by (metis (full_types) prod.collapse)
  from stored_peer_supersedes [OF ghost_table_ok this]
  have "\<forall>(k, e) \<in> set (peers (snd (store_peer demo_env moved_ghost ghost_table))). \<not> same_owner moved_ghost e" .
  moreover have "keys (snd (store_peer demo_env moved_ghost ghost_table)) = [''dd02:lan'']" by code_simp
  ultimately show ?thesis by (simp add: list_all_iff)
qed

end
