(* ===== verification/PeerIdentity.thy ===== *)
theory PeerIdentity
  imports DiscoveryEvents
begin

text \<open>
  \<open>chatxz/core/peer_identity.py\<close>: how a beacon or an announce registers a peer's identity
  with Reticulum, and how stale entries of \<open>RNS.Identity.known_destinations\<close> are purged.

  Reticulum is not part of the repository: what the module calls of it is a record of
  functions (\<open>rns_api\<close>), an argument of every definition.  A call that raises inside a
  \<open>try\<close> gives \<open>None\<close>, like a lookup that finds nothing.  The dictionary the module edits
  itself, \<open>known_destinations\<close>, is the state.  \<open>base64.b64decode(..., validate=True)\<close> is
  modelled as the standard library has it.
\<close>

section \<open>base64\<close>

definition b64_val :: "char \<Rightarrow> nat option" where
  "b64_val c = (let n = (of_char c :: nat) in
     if 65 \<le> n \<and> n \<le> 90 then Some (n - 65)
     else if 97 \<le> n \<and> n \<le> 122 then Some (n - 71)
     else if 48 \<le> n \<and> n \<le> 57 then Some (n + 4)
     else if n = 43 then Some 62 else if n = 47 then Some 63 else None)"

definition b64_full :: "char \<Rightarrow> char \<Rightarrow> char \<Rightarrow> char \<Rightarrow> nat list option" where
  "b64_full a b c d = (case (b64_val a, b64_val b, b64_val c, b64_val d) of
      (Some w, Some x, Some y, Some z) \<Rightarrow>
        Some [4 * w + x div 16, 16 * (x mod 16) + y div 4, 64 * (y mod 4) + z]
    | _ \<Rightarrow> None)"

text \<open>The last group, which may be padded.\<close>

definition b64_last :: "char \<Rightarrow> char \<Rightarrow> char \<Rightarrow> char \<Rightarrow> nat list option" where
  "b64_last a b c d = (
     if d = CHR ''='' \<and> c = CHR ''='' then (case (b64_val a, b64_val b) of
         (Some w, Some x) \<Rightarrow> Some [4 * w + x div 16] | _ \<Rightarrow> None)
     else if d = CHR ''='' then (case (b64_val a, b64_val b, b64_val c) of
         (Some w, Some x, Some y) \<Rightarrow> Some [4 * w + x div 16, 16 * (x mod 16) + y div 4] | _ \<Rightarrow> None)
     else b64_full a b c d)"

fun b64decode :: "string \<Rightarrow> nat list option" where
  "b64decode [] = Some []"
| "b64decode (a # b # c # d # rest) = (
     if rest = [] then b64_last a b c d
     else (case b64_full a b c d of None \<Rightarrow> None | Some bs \<Rightarrow> map_option ((@) bs) (b64decode rest)))"
| "b64decode _ = None"

section \<open>What the module uses of Reticulum\<close>

text \<open>An entry of \<open>known_destinations\<close>: a list whose third element is the public key, or one
  too short to have it.\<close>

datatype known_entry = KShort | KEntry (k_packet: "nat list") (k_pubkey: "nat list") (k_app: "string option")

type_synonym known_table = "(nat list, known_entry) pydict"

record 'i rns_api =
  api_recall :: "known_table \<Rightarrow> nat list \<Rightarrow> 'i option"
  api_remember :: "nat list \<Rightarrow> nat list option \<Rightarrow> nat list \<Rightarrow> string option \<Rightarrow> known_table \<Rightarrow> known_table option"
  api_connect :: "'i \<Rightarrow> string"              \<comment> \<open>\<open>message_dest_hash_for_identity\<close>\<close>
  api_hexrep :: "nat list \<Rightarrow> string"
  api_keysize :: nat                         \<comment> \<open>\<open>PUBKEY_SIZE\<close>\<close>

section \<open>Purging\<close>

text \<open>The test in the loop of \<open>purge_stale_known_destinations\<close>.\<close>

definition stale_known :: "'i rns_api \<Rightarrow> nat list \<Rightarrow> string \<Rightarrow> nat list \<Rightarrow> known_entry \<Rightarrow> bool" where
  "stale_known api pubkey canonical dest entry = (case entry of KShort \<Rightarrow> False
     | KEntry _ key _ \<Rightarrow> key = pubkey \<and> canonical \<noteq> ''''
         \<and> normalize_hash (Some (api_hexrep api dest)) \<noteq> canonical)"

definition purge_stale_known_destinations ::
  "'i rns_api \<Rightarrow> nat list \<Rightarrow> string option \<Rightarrow> known_table \<Rightarrow> int \<times> known_table" where
  "purge_stale_known_destinations api pubkey canonical_dest k = (
     if pubkey = [] then (0, k)
     else let kept = dict_purge (stale_known api pubkey (normalize_hash canonical_dest)) k
          in (int (length k) - int (length kept), kept))"

section \<open>Registering\<close>

text \<open>The first half of \<open>register_beacon_identity\<close>: the public key, the identity hash and its
  bytes, \<open>None\<close> for each early \<open>return ""\<close>.\<close>

definition beacon_keys :: "'i rns_api \<Rightarrow> beacon \<Rightarrow> (nat list \<times> nat list) option" where
  "beacon_keys api data = (
     if \<not> truthy (b_pubkey data) then None
     else case b64decode (orE (b_pubkey data)) of None \<Rightarrow> None
       | Some pubkey \<Rightarrow>
           if length pubkey \<noteq> api_keysize api then None
           else let identity_hex = normalize_hash (b_identity_hash data) in
             if length identity_hex \<noteq> 32 then None
             else map_option (Pair pubkey) (py_fromhex identity_hex))"

text \<open>The destination the beacon claims and the bytes it is remembered under.\<close>

definition claimed_dest :: "string \<Rightarrow> string \<Rightarrow> string" where
  "claimed_dest computed dest_hex = py_or computed (if length dest_hex = 32 then dest_hex else '''')"

definition dest_bytes_of :: "string \<Rightarrow> string \<Rightarrow> nat list option" where
  "dest_bytes_of canonical_dest dest_hex = (
     case (if canonical_dest \<noteq> '''' then py_fromhex canonical_dest else None) of
       Some bs \<Rightarrow> Some bs
     | None \<Rightarrow> if length dest_hex = 32 then py_fromhex dest_hex else None)"

text \<open>The last part: the canonical hash of the identity that was just remembered.\<close>

definition settle_identity ::
  "'i rns_api \<Rightarrow> nat list \<Rightarrow> nat list \<Rightarrow> string option \<Rightarrow> string \<Rightarrow> known_table \<Rightarrow> string \<times> known_table" where
  "settle_identity api identity_bytes pubkey app_data dest_hex k = (
     let connect = (case api_recall api k identity_bytes of None \<Rightarrow> '''' | Some i \<Rightarrow> api_connect api i);
         canonical = (if connect = '''' \<and> length dest_hex = 32 then dest_hex else connect)
     in if canonical = '''' then ('''', k)
        else if canonical \<noteq> dest_hex
        then (canonical, case py_fromhex canonical of None \<Rightarrow> k
                | Some bs \<Rightarrow> (case api_remember api identity_bytes (Some bs) pubkey app_data k of
                      None \<Rightarrow> k | Some k' \<Rightarrow> k'))
        else (canonical, k))"

definition register_beacon_identity :: "'i rns_api \<Rightarrow> beacon \<Rightarrow> known_table \<Rightarrow> string \<times> known_table" where
  "register_beacon_identity api data k = (case beacon_keys api data of
      None \<Rightarrow> ('''', k)
    | Some (pubkey, identity_bytes) \<Rightarrow>
        let dest_hex = normalize_hash (b_hash data);
            name = stripE (b_name data);
            app_data = or_none name;
            computed = (case api_recall api k identity_bytes of None \<Rightarrow> '''' | Some i \<Rightarrow> api_connect api i);
            canonical_dest = claimed_dest computed dest_hex;
            dest_bytes = dest_bytes_of canonical_dest dest_hex;
            k = snd (purge_stale_known_destinations api pubkey (Some (py_or canonical_dest dest_hex)) k)
        in (case api_remember api identity_bytes dest_bytes pubkey app_data k of
              None \<Rightarrow> ('''', k)
            | Some k \<Rightarrow> settle_identity api identity_bytes pubkey app_data dest_hex k))"

text \<open>\<open>register_identity_from_announce\<close>: the fields the stored row lacks come from the
  announced identity (its hash and its public key, as the announce carries them).\<close>

definition register_identity_from_announce ::
  "'i rns_api \<Rightarrow> peer \<Rightarrow> announce \<Rightarrow> known_table \<Rightarrow> string \<times> known_table" where
  "register_identity_from_announce api p a k = (
     let identity_hex = py_or (normalize_hash (p_identity_hash p)) (normalize_hash (a_identity a));
         pubkey_b64 = py_or (stripE (p_pubkey p)) (orE (a_pubkey a))
     in if identity_hex = '''' \<or> pubkey_b64 = '''' then ('''', k)
        else register_beacon_identity api \<lparr>b_app = p_app p, b_hash = p_hash p, b_name = p_name p, b_ip = p_ip p,
               b_port = p_port p, b_identity_hash = Some identity_hex, b_pubkey = Some pubkey_b64\<rparr> k)"

text \<open>\<open>connect_hash_for_manager\<close>: the live destination's hash, else the one computed from the
  loaded identity.\<close>

definition connect_hash_for_manager :: "'i rns_api \<Rightarrow> 'i option \<Rightarrow> nat list option \<Rightarrow> string" where
  "connect_hash_for_manager api ident destination = (case destination of
      Some (b # bs) \<Rightarrow> normalize_hash (Some (api_hexrep api (b # bs)))
    | _ \<Rightarrow> (case ident of None \<Rightarrow> '''' | Some i \<Rightarrow> api_connect api i))"

section \<open>Facts\<close>

text \<open>\<open>base64.b64encode\<close>, by which \<open>LanBeacon\<close> puts the public key into its payload.\<close>

definition b64_char :: "nat \<Rightarrow> char" where
  "b64_char n = char_of (if n < 26 then 65 + n else if n < 52 then 71 + n else if n < 62 then n - 4
     else if n = 62 then 43 else 47 :: nat)"

fun b64encode :: "nat list \<Rightarrow> string" where
  "b64encode [] = ''''"
| "b64encode [x] = [b64_char (x div 4), b64_char (16 * (x mod 4)), CHR ''='', CHR ''='']"
| "b64encode [x, y] = [b64_char (x div 4), b64_char (16 * (x mod 4) + y div 16), b64_char (4 * (y mod 16)), CHR ''='']"
| "b64encode (x # y # z # rest) = [b64_char (x div 4), b64_char (16 * (x mod 4) + y div 16),
     b64_char (4 * (y mod 16) + z div 64), b64_char (z mod 64)] @ b64encode rest"

lemma of_b64_char: "n < 64 \<Longrightarrow> (of_char (b64_char n) :: nat) =
   (if n < 26 then 65 + n else if n < 52 then 71 + n else if n < 62 then n - 4 else if n = 62 then 43 else 47)"
proof -
  assume "n < 64"
  then have "(if n < 26 then 65 + n else if n < 52 then 71 + n else if n < 62 then n - 4 else if n = 62 then 43 else 47) < 256"
    by (auto split: if_splits)
  then show ?thesis unfolding b64_char_def of_char_of by (rule mod_less)
qed

lemma b64_val_char [simp]: "n < 64 \<Longrightarrow> b64_val (b64_char n) = Some n"
proof -
  assume n: "n < 64"
  then consider "n < 26" | "26 \<le> n" "n < 52" | "52 \<le> n" "n < 62" | "n = 62" | "n = 63" by linarith
  then show ?thesis unfolding b64_val_def Let_def of_b64_char [OF n] by cases (simp_all, arith)
qed

lemma b64_char_not_pad [simp]: "n < 64 \<Longrightarrow> b64_char n \<noteq> CHR ''=''"
proof
  assume n: "n < 64" "b64_char n = CHR ''=''"
  then have "(of_char (b64_char n) :: nat) = 61" by simp
  with of_b64_char [OF n(1)] show False by (auto split: if_splits)
qed

lemma b64encode_Nil_iff [simp]: "b64encode bs = [] \<longleftrightarrow> bs = []"
  by (cases bs rule: b64encode.cases) simp_all

lemma sextets:
  assumes "x < 256" "y < 256" "z < 256"
  shows "x div 4 < 64" "16 * (x mod 4) + y div 16 < 64" "4 * (y mod 16) + z div 64 < 64" "z mod 64 < 64"
    and "16 * (x mod 4) < 64" "4 * (y mod 16) < 64"
    and "4 * (x div 4) + (16 * (x mod 4) + y div 16) div 16 = (x :: nat)"
    and "16 * ((16 * (x mod 4) + y div 16) mod 16) + (4 * (y mod 16) + z div 64) div 4 = (y :: nat)"
    and "64 * ((4 * (y mod 16) + z div 64) mod 4) + z mod 64 = (z :: nat)"
    and "4 * (x div 4) + (16 * (x mod 4)) div 16 = x"
    and "16 * ((16 * (x mod 4) + y div 16) mod 16) + (4 * (y mod 16)) div 4 = y"
proof -
  have b: "x div 4 < 64" "y div 16 < 16" "z div 64 < 4" using assms by auto
  have m: "x mod 4 < 4" "y mod 16 < 16" "z mod 64 < 64" by simp_all
  show "x div 4 < 64" "16 * (x mod 4) + y div 16 < 64" "4 * (y mod 16) + z div 64 < 64" "z mod 64 < 64"
    "16 * (x mod 4) < 64" "4 * (y mod 16) < 64" using b m by linarith+
  have d: "(16 * (x mod 4) + y div 16) div 16 = x mod 4" "(16 * (x mod 4) + y div 16) mod 16 = y div 16"
    "(4 * (y mod 16) + z div 64) div 4 = y mod 16" "(4 * (y mod 16) + z div 64) mod 4 = z div 64"
    using b by simp_all
  show "4 * (x div 4) + (16 * (x mod 4) + y div 16) div 16 = x" unfolding d by simp
  show "16 * ((16 * (x mod 4) + y div 16) mod 16) + (4 * (y mod 16) + z div 64) div 4 = y" unfolding d by simp
  show "64 * ((4 * (y mod 16) + z div 64) mod 4) + z mod 64 = z" unfolding d by simp
  show "4 * (x div 4) + (16 * (x mod 4)) div 16 = x" by simp
  show "16 * ((16 * (x mod 4) + y div 16) mod 16) + (4 * (y mod 16)) div 4 = y" unfolding d by simp
qed

lemma b64_full_encode:
  assumes "x < 256" "y < 256" "z < 256"
  shows "b64_full (b64_char (x div 4)) (b64_char (16 * (x mod 4) + y div 16))
     (b64_char (4 * (y mod 16) + z div 64)) (b64_char (z mod 64)) = Some [x, y, z]"
  unfolding b64_full_def using sextets [OF assms] by (simp only: b64_val_char prod.case option.case)

lemma b64_roundtrip: "\<forall>b \<in> set bs. b < 256 \<Longrightarrow> b64decode (b64encode bs) = Some bs"
proof (induction bs rule: b64encode.induct)
  case (2 x)
  then have "x < 256" by simp
  from sextets [OF this this this] show ?case by (simp add: b64_last_def)
next
  case (3 x y)
  then have "x < 256" "y < 256" by simp_all
  note s = sextets [OF this this(2)]
  have "b64_last (b64_char (x div 4)) (b64_char (16 * (x mod 4) + y div 16)) (b64_char (4 * (y mod 16))) (CHR ''='')
      = Some [x, y]"
    unfolding b64_last_def using s b64_char_not_pad [OF s(6)]
    by (simp only: b64_val_char prod.case option.case if_True if_False simp_thms)
  then show ?case by simp
next
  case (4 x y z rest)
  then have "x < 256" "y < 256" "z < 256" by simp_all
  then show ?case
    using 4 b64_full_encode [of x y z] sextets(4) [of x y z]
    by (cases "rest = []") (simp_all add: b64_last_def)
qed simp

section \<open>One destination per key\<close>

definition byte_list :: "nat list \<Rightarrow> bool" where
  "byte_list bs \<longleftrightarrow> (\<forall>b \<in> set bs. b < 256)"

text \<open>
  Documented behaviour of Reticulum: \<open>remember\<close> stores an entry under the destination
  hash (for a public key of the right size), and \<open>hexrep\<close> prints the bytes in hexadecimal
  with separators that \<open>normalize_hash\<close> drops.
\<close>

definition remembers :: "'i rns_api \<Rightarrow> bool" where
  "remembers api \<longleftrightarrow> (\<forall>i d p a k. length p = api_keysize api \<longrightarrow>
     api_remember api i (Some d) p a k = Some (AList.update d (KEntry i p a) k))"

definition hexreps :: "'i rns_api \<Rightarrow> bool" where
  "hexreps api \<longleftrightarrow> (\<forall>b. byte_list b \<longrightarrow> normalize_hash (Some (api_hexrep api b)) = py_hex b)"

definition known_key :: "known_entry \<Rightarrow> nat list option" where
  "known_key e = (case e of KShort \<Rightarrow> None | KEntry _ key _ \<Rightarrow> Some key)"

lemma py_hex_inject: "byte_list a \<Longrightarrow> byte_list b \<Longrightarrow> py_hex a = py_hex b \<longleftrightarrow> a = b"
  unfolding byte_list_def by (metis py_fromhex_hex option.inject)

lemma hexreps_fix: "hexreps api \<Longrightarrow> byte_list b \<Longrightarrow> normalize_hash (Some (py_hex b)) = py_hex b"
  unfolding hexreps_def by (metis normalize_hash_idem)

lemma stale_known_iff:
  assumes "hexreps api" "byte_list d" "byte_list D" "pubkey = key"
  shows "stale_known api pubkey (py_hex D) d e \<longleftrightarrow> known_key e = Some key \<and> d \<noteq> D \<and> D \<noteq> []"
proof -
  have "py_hex D \<noteq> '''' \<longleftrightarrow> D \<noteq> []" by (cases D) (simp_all add: py_hex_def)
  moreover have "normalize_hash (Some (api_hexrep api d)) = py_hex D \<longleftrightarrow> d = D"
    using assms(1,2) py_hex_inject [OF assms(2,3)] by (simp add: hexreps_def)
  ultimately show ?thesis using assms(4) by (auto simp: stale_known_def known_key_def split: known_entry.splits)
qed

lemma settle_known:
  assumes "remembers api" "length pubkey = api_keysize api" "settle_identity api i pubkey a dest_hex k = (c, k')"
  shows "k' = k \<or> (\<exists>bs. py_fromhex c = Some bs \<and> k' = AList.update bs (KEntry i pubkey a) k)"
  using assms by (auto simp: settle_identity_def remembers_def Let_def split: if_splits option.splits)

lemma b64_nonempty: "b64decode s = Some [] \<Longrightarrow> s = []"
  by (cases s rule: b64decode.cases)
    (auto simp: b64_last_def b64_full_def split: if_splits option.splits)

lemma beacon_keys_spec:
  "beacon_keys api data = Some (pubkey, ident) \<Longrightarrow> length pubkey = api_keysize api \<and> pubkey \<noteq> []
     \<and> py_fromhex (normalize_hash (b_identity_hash data)) = Some ident"
  using b64_nonempty [of "orE (b_pubkey data)"]
  by (auto simp: beacon_keys_def Let_def truthy_def split: if_splits option.splits)

text \<open>Registering a beacon or an announce leaves one destination per public key: if the
  claimed (or recalled) destination is 16 bytes, afterwards \<open>known_destinations\<close> maps that
  destination to the peer's identity hash and key, every other entry of the key is gone
  except one under the canonical hash the call returns, and all other entries are
  untouched.\<close>

theorem identity_registered:
  assumes "remembers api" "hexreps api" and "distinct (map fst k)" "\<forall>d \<in> fst ` set k. byte_list d"
    and "beacon_keys api data = Some (pubkey, ident)"
    and "py_or (case api_recall api k ident of None \<Rightarrow> '''' | Some i \<Rightarrow> api_connect api i) (normalize_hash (b_hash data)) = py_hex D"
    and "byte_list D" "length D = 16"
  shows "case register_beacon_identity api data k of (c, k') \<Rightarrow>
    map_of k' D = Some (KEntry ident pubkey (or_none (stripE (b_name data))))
    \<and> (\<forall>d. d \<noteq> D \<and> py_fromhex c \<noteq> Some d \<longrightarrow> map_of k' d = (case map_of k d of None \<Rightarrow> None
         | Some e \<Rightarrow> if known_key e = Some pubkey then None else Some e))"
proof -
  define computed where "computed = (case api_recall api k ident of None \<Rightarrow> '''' | Some i \<Rightarrow> api_connect api i)"
  define dest_hex where "dest_hex = normalize_hash (b_hash data)"
  define app where "app = or_none (stripE (b_name data))"
  have hex: "py_fromhex (py_hex D) = Some D" "length (py_hex D) = 32" "py_hex D \<noteq> ''''"
    using assms(7,8) py_fromhex_hex [of D] length_py_hex [of D] by (auto simp: byte_list_def simp del: length_py_hex)
  have or: "py_or computed dest_hex = py_hex D" using assms(6) by (simp add: computed_def dest_hex_def)
  have claim: "claimed_dest computed dest_hex = py_hex D"
    using or hex(2) by (auto simp: claimed_dest_def py_or_def split: if_splits)
  have dest: "dest_bytes_of (py_hex D) dest_hex = Some D" using hex by (simp add: dest_bytes_of_def)
  have key: "length pubkey = api_keysize api" "pubkey \<noteq> []" using beacon_keys_spec [OF assms(5)] by auto
  define k1 where "k1 = snd (purge_stale_known_destinations api pubkey (Some (py_hex D)) k)"
  define k2 where "k2 = AList.update D (KEntry ident pubkey app) k1"
  have run: "register_beacon_identity api data k = settle_identity api ident pubkey app dest_hex k2"
    unfolding register_beacon_identity_def assms(5) option.case prod.case Let_def computed_def [symmetric]
      dest_hex_def [symmetric] app_def [symmetric] claim dest py_or_simps(2) [OF hex(3)] k1_def [symmetric]
    using assms(1) key by (simp add: remembers_def k2_def)
  have k1: "map_of k1 d = (case map_of k d of None \<Rightarrow> None
      | Some e \<Rightarrow> if known_key e = Some pubkey then None else Some e)" if "d \<noteq> D" for d
  proof -
    have D: "D \<noteq> []" using assms(8) by auto
    have st: "stale_known api pubkey (py_hex D) d e \<longleftrightarrow> known_key e = Some pubkey" if "map_of k d = Some e" for e
    proof -
      have "byte_list d" using assms(4) map_of_SomeD [OF that] by force
      from stale_known_iff [OF assms(2) this assms(7) refl] D \<open>d \<noteq> D\<close> show ?thesis by auto
    qed
    with key(2) show ?thesis
      by (simp add: k1_def purge_stale_known_destinations_def Let_def hexreps_fix [OF assms(2,7)]
          map_of_dict_purge [OF assms(3)] split: option.split)
  qed
  obtain c k' where r: "settle_identity api ident pubkey app dest_hex k2 = (c, k')" by fastforce
  have "k' = k2 \<or> (\<exists>bs. py_fromhex c = Some bs \<and> k' = AList.update bs (KEntry ident pubkey app) k2)"
    by (rule settle_known [OF assms(1) key(1) r])
  then show ?thesis unfolding run r prod.case app_def [symmetric] using k1 by (auto simp: k2_def)
qed

text \<open>An instance: a table without recall, with a one-byte key size.\<close>

definition demo_api :: "nat list rns_api" where
  "demo_api = \<lparr>api_recall = (\<lambda>_ _. None),
     api_remember = (\<lambda>i d p a k. if length p = 1 then (case d of None \<Rightarrow> Some k | Some d \<Rightarrow> Some (AList.update d (KEntry i p a) k)) else None),
     api_connect = (\<lambda>_. ''''), api_hexrep = py_hex, api_keysize = 1\<rparr>"

lemma of_nibble_range: "n < 16 \<Longrightarrow> (of_char (nibble n) :: nat) \<in> {48..57} \<union> {97..102}"
  by (auto simp: of_nibble)

lemma py_hex_chars: "byte_list b \<Longrightarrow> c \<in> set (py_hex b) \<Longrightarrow> (of_char c :: nat) \<in> {48..57} \<union> {97..102}"
proof (induction b)
  case (Cons x b)
  have "x div 16 < 16" "x mod 16 < 16" "byte_list b" using Cons.prems(1) by (auto simp: byte_list_def)
  moreover have "c = nibble (x div 16) \<or> c = nibble (x mod 16) \<or> c \<in> set (py_hex b)"
    using Cons.prems(2) by (auto simp: py_hex_def)
  ultimately show ?case using Cons.IH of_nibble_range by blast
qed (simp add: py_hex_def)

lemma normalize_py_hex: "byte_list b \<Longrightarrow> normalize_hash (Some (py_hex b)) = py_hex b"
proof -
  assume b: "byte_list b"
  have n: "CHR ''<'' \<notin> set (py_hex b)" "CHR ''>'' \<notin> set (py_hex b)" "CHR '':'' \<notin> set (py_hex b)"
    using py_hex_chars [OF b] by fastforce+
  have "\<not> py_space c" "lower_char c = c" if "c \<in> set (py_hex b)" for c
  proof -
    from py_hex_chars [OF b that] have r: "(of_char c :: nat) \<in> {48..57} \<union> {97..102}" .
    then show "\<not> py_space c" by (auto simp: py_space_def)
    from r show "lower_char c = c" by (auto simp: lower_char_def upper_char_def Let_def)
  qed
  then have "py_strip (py_hex b) = py_hex b" "py_lower (py_hex b) = py_hex b"
    by (auto intro!: py_strip_id map_idI simp: py_lower_def)
  with n show ?thesis by (simp add: normalize_hash_def py_remove_id)
qed

lemma demo_api_laws: "remembers demo_api" "hexreps demo_api"
  by (simp_all add: demo_api_def remembers_def hexreps_def normalize_py_hex)

definition demo_identity_beacon :: beacon where
  "demo_identity_beacon = \<lparr>b_app = Some ''chatxz'', b_hash = Some (py_hex (replicate 16 171)), b_name = Some ''Ann'',
     b_ip = None, b_port = None, b_identity_hash = Some (py_hex (replicate 16 17)), b_pubkey = Some ''BQ==''\<rparr>"

lemma identity_registered_witness:
  "map_of (snd (register_beacon_identity demo_api demo_identity_beacon
      [(replicate 16 (1 :: nat), KEntry (replicate 16 17) [5] None), (replicate 16 2, KEntry [] [6] None)]))
   (replicate 16 171) = Some (KEntry (replicate 16 17) [5] (Some ''Ann''))"
proof -
  let ?k = "[(replicate 16 (1 :: nat), KEntry (replicate 16 17) [5] None), (replicate 16 2, KEntry [] [6] None)]"
  have k: "distinct (map fst ?k)" "\<forall>d \<in> fst ` set ?k. byte_list d" by (simp_all add: byte_list_def replicate_eq_replicate)
  have b: "beacon_keys demo_api demo_identity_beacon = Some ([5], replicate 16 17)" by code_simp
  have h: "py_or (case api_recall demo_api ?k (replicate 16 17) of None \<Rightarrow> '''' | Some i \<Rightarrow> api_connect demo_api i)
      (normalize_hash (b_hash demo_identity_beacon)) = py_hex (replicate 16 171)" by code_simp
  have n: "or_none (stripE (b_name demo_identity_beacon)) = Some ''Ann''" by code_simp
  have d: "byte_list (replicate 16 (171 :: nat))" "length (replicate 16 (171 :: nat)) = 16"
    by (simp_all add: byte_list_def)
  from identity_registered [OF demo_api_laws k b h d] show ?thesis
    by (simp add: n split: prod.splits)
qed

end
