(* ===== verification/Json.thy ===== *)
theory Json
  imports PeerRow
begin

text \<open>
  What \<open>json.loads\<close> returns, as a datatype, with the operations the code applies to a
  value before it knows its type: the truth value, \<open>float(x)\<close>, \<open>d.get(k)\<close>, and the
  reading of a text field.  Floats are \<open>inf\<close>/\<open>nan\<close> or a real number; the range of a
  double is kept (a value that overflows raises or becomes infinite, one that underflows
  becomes zero), its rounding is not.
\<close>

datatype pyfloat = Fin real | NonFin

datatype json =
    JNull
  | JBool bool
  | JInt int
  | JFloat pyfloat
  | JStr string
  | JArr "json list"
  | JObj "(string \<times> json) list"

text \<open>\<open>d.get(key)\<close> of a parsed object, whose keys are distinct.\<close>

definition jget :: "(string \<times> json) list \<Rightarrow> string \<Rightarrow> json" where
  "jget d key = (case map_of d key of None \<Rightarrow> JNull | Some v \<Rightarrow> v)"

fun json_truthy :: "json \<Rightarrow> bool" where
  "json_truthy JNull = False"
| "json_truthy (JBool b) = b"
| "json_truthy (JInt n) = (n \<noteq> 0)"
| "json_truthy (JFloat x) = (x \<noteq> Fin 0)"
| "json_truthy (JStr s) = (s \<noteq> '''')"
| "json_truthy (JArr xs) = (xs \<noteq> [])"
| "json_truthy (JObj d) = (d \<noteq> [])"

text \<open>The range of a double: \<open>2^1024 - 2^970\<close> is the first value that rounds to infinity,
  \<open>2^-1075\<close> the last that rounds to zero.\<close>

definition to_double :: "real \<Rightarrow> pyfloat" where
  "to_double x = (if 2 ^ 1024 - 2 ^ 970 \<le> \<bar>x\<bar> then NonFin else if \<bar>x\<bar> * 2 ^ 1075 \<le> 1 then Fin 0 else Fin x)"

text \<open>\<open>float(s)\<close>: digits with single underscores between them, a fraction, an exponent, or
  one of the names of infinity and NaN; \<open>None\<close> stands for \<open>ValueError\<close>.\<close>

fun scan_digits :: "int \<Rightarrow> nat \<Rightarrow> string \<Rightarrow> int \<times> nat \<times> string" where
  "scan_digits acc n [] = (acc, n, [])"
| "scan_digits acc n (c # cs) = (case digit_val c of
      Some d \<Rightarrow> scan_digits (10 * acc + d) (Suc n) cs
    | None \<Rightarrow> (case cs of
          d # _ \<Rightarrow> if c = CHR ''_'' \<and> 0 < n \<and> digit_val d \<noteq> None then scan_digits acc n cs else (acc, n, c # cs)
        | [] \<Rightarrow> (acc, n, c # cs)))"

definition split_sign :: "string \<Rightarrow> bool \<times> string" where
  "split_sign s = (case s of c # cs \<Rightarrow> if c = CHR ''-'' then (True, cs) else if c = CHR ''+'' then (False, cs) else (False, s)
     | [] \<Rightarrow> (False, s))"

definition scan_exponent :: "string \<Rightarrow> int option" where
  "scan_exponent s = (case s of [] \<Rightarrow> Some 0
     | c # cs \<Rightarrow> if lower_char c \<noteq> CHR ''e'' then None
         else (case split_sign cs of (neg, ds) \<Rightarrow> (case scan_digits 0 0 ds of (e, n, rest) \<Rightarrow>
                 if n = 0 \<or> rest \<noteq> [] then None else Some (if neg then - e else e))))"

definition scale10 :: "int \<Rightarrow> int \<Rightarrow> real" where
  "scale10 m e = (if 0 \<le> e then of_int m * 10 ^ nat e else of_int m / 10 ^ nat (- e))"

definition parse_float :: "string \<Rightarrow> pyfloat option" where
  "parse_float s = (case split_sign (py_strip s) of (neg, body) \<Rightarrow>
     if py_lower body \<in> {''inf'', ''infinity'', ''nan''} then Some NonFin
     else (case scan_digits 0 0 body of (whole, ni, r1) \<Rightarrow>
       (case (case r1 of c # cs \<Rightarrow> if c = CHR ''.'' then scan_digits whole 0 cs else (whole, 0, r1) | [] \<Rightarrow> (whole, 0, r1)) of
          (mantissa, nf, r2) \<Rightarrow>
            if ni + nf = 0 then None
            else map_option (\<lambda>e. to_double (scale10 (if neg then - mantissa else mantissa) (e - int nf))) (scan_exponent r2))))"

text \<open>\<open>float(x)\<close>; \<open>None\<close> stands for the \<open>TypeError\<close>, \<open>ValueError\<close> or \<open>OverflowError\<close>.\<close>

fun json_float :: "json \<Rightarrow> pyfloat option" where
  "json_float JNull = None"
| "json_float (JBool b) = Some (Fin (if b then 1 else 0))"
| "json_float (JInt n) = (case to_double (of_int n) of NonFin \<Rightarrow> None | x \<Rightarrow> Some x)"
| "json_float (JFloat x) = Some x"
| "json_float (JStr s) = parse_float s"
| "json_float (JArr _) = None"
| "json_float (JObj _) = None"

text \<open>\<open>(d.get(key) or "")\<close> before a string method is called on it: \<open>None\<close> stands for the
  \<open>AttributeError\<close> of a true value that is no string.\<close>

definition text_field :: "json \<Rightarrow> string option option" where
  "text_field v = (case v of JStr s \<Rightarrow> Some (Some s) | _ \<Rightarrow> if json_truthy v then None else Some None)"

text \<open>A port as it is stored, to be read by \<open>int()\<close> later.\<close>

fun json_val :: "json \<Rightarrow> pyval option" where
  "json_val JNull = None"
| "json_val (JBool b) = Some (VInt (if b then 1 else 0))"
| "json_val (JInt n) = Some (VInt n)"
| "json_val (JFloat (Fin x)) = Some (VReal x)"
| "json_val (JStr s) = Some (VStr s)"
| "json_val _ = Some VOther"

definition jstr :: "string option \<Rightarrow> json" where
  "jstr x = (case x of None \<Rightarrow> JNull | Some s \<Rightarrow> JStr s)"

lemma text_field_JStr [simp]: "text_field (JStr s) = Some (Some s)"
  by (simp add: text_field_def)

lemma text_field_JNull [simp]: "text_field JNull = Some None"
  by (simp add: text_field_def)

lemma jget_Nil [simp]: "jget [] k = JNull"
  by (simp add: jget_def)

lemma jget_Cons [simp]: "jget ((j, v) # d) k = (if k = j then v else jget d k)"
  by (simp add: jget_def)

lemma jget_append: "jget (d @ e) k = (case map_of d k of None \<Rightarrow> jget e k | Some v \<Rightarrow> v)"
  by (auto simp: jget_def map_add_def split: option.split)

end
