(* ===== verification/LanBeacon.thy ===== *)
theory LanBeacon
  imports DiscoveryProps PeerIdentity Json
begin

text \<open>
  \<open>chatxz/core/lan_beacon.py\<close>: the \<open>LanBeacon\<close> object, which broadcasts this node's
  payload and feeds what it hears to \<open>PeerDiscovery\<close>.  The state is the object, the
  discovery table, the pending probes and Reticulum's \<open>known_destinations\<close>; the packets
  it sends are recorded in order.  The two threads are flags: \<open>lb_listening\<close> while the
  listener's loop runs, \<open>lb_ticking\<close> while the periodic one does.  One call of \<open>listen\<close> is
  one datagram through the body of \<open>_listen\<close>, one \<open>periodic_tick\<close> one round of
  \<open>_periodic\<close>; an exception the body does not catch ends the thread.

  \<open>json.loads\<close> after the UTF-8 decoding is the argument \<open>loads\<close> (\<open>None\<close> for the two
  exceptions the code catches); \<open>sendto\<close> succeeds on the addresses in \<open>reach\<close>.
\<close>

section \<open>State\<close>

record lan_beacon =
  lb_dest_hash :: string
  lb_identity_hash :: string
  lb_pubkey :: "nat list"                \<comment> \<open>empty for \<open>None\<close>\<close>
  lb_name :: string
  lb_ip :: "string option"
  lb_port :: int
  lb_on_periodic :: bool                 \<comment> \<open>a callback is set\<close>
  lb_periodic :: bool
  lb_running :: bool
  lb_rx :: bool                          \<comment> \<open>the sockets are open\<close>
  lb_tx :: bool
  lb_listening :: bool
  lb_ticking :: bool
  lb_targets :: "string list"
  lb_subnet_probes :: int
  lb_broadcast_sent :: int
  lb_announce_sent :: int
  lb_sent :: int
  lb_received :: int
  lb_interval :: int

record world =
  w_beacon :: lan_beacon
  w_disc :: dstate
  w_probes :: probe_state
  w_known :: known_table
  w_wire :: "(string \<times> json) list"      \<comment> \<open>destination and payload, in sending order\<close>
  w_callbacks :: nat

text \<open>What the calls outside the object answer: the host's address, its interfaces, whether
  it is an Android device, and which addresses a datagram can be sent to.\<close>

record lan_env =
  le_lan_ip :: "string option"
  le_ifaces :: "iface list"
  le_android :: bool
  le_reach :: "string \<Rightarrow> bool"

definition new_beacon ::
  "string option \<Rightarrow> string option \<Rightarrow> nat list \<Rightarrow> string option \<Rightarrow> string option \<Rightarrow> int \<Rightarrow> bool \<Rightarrow> bool \<Rightarrow> lan_beacon" where
  "new_beacon dest_hash identity_hash pubkey display_name ip port periodic on_periodic = \<lparr>
     lb_dest_hash = nocolon (orE dest_hash), lb_identity_hash = nocolon (orE identity_hash),
     lb_pubkey = pubkey, lb_name = orE display_name, lb_ip = ip, lb_port = port,
     lb_on_periodic = on_periodic, lb_periodic = periodic, lb_running = False, lb_rx = False, lb_tx = False,
     lb_listening = False, lb_ticking = False, lb_targets = [], lb_subnet_probes = 0, lb_broadcast_sent = 0,
     lb_announce_sent = 0, lb_sent = 0, lb_received = 0, lb_interval = 30\<rparr>"

section \<open>Starting, stopping, configuring\<close>

text \<open>\<open>start\<close>; the answer is \<open>False\<close> when \<open>bind\<close> raised \<open>OSError\<close>, which leaves the object
  marked as running with its first socket open and no thread.\<close>

definition start_beacon :: "bool \<Rightarrow> lan_beacon \<Rightarrow> bool \<times> lan_beacon" where
  "start_beacon bind_ok b = (
     if lb_running b then (True, b)
     else let b = b\<lparr>lb_running := True, lb_rx := True\<rparr>
          in if \<not> bind_ok then (False, b)
             else (True, b\<lparr>lb_tx := True, lb_listening := True, lb_ticking := lb_ticking b \<or> lb_periodic b\<rparr>))"

definition stop_beacon :: "lan_beacon \<Rightarrow> lan_beacon" where
  "stop_beacon b = b\<lparr>lb_running := False, lb_rx := False, lb_tx := False\<rparr>"

definition set_interval :: "pyval \<Rightarrow> lan_beacon \<Rightarrow> lan_beacon" where
  "set_interval seconds b = (
     let value = (case py_int_val seconds of None \<Rightarrow> lb_interval b | Some n \<Rightarrow> n)
     in b\<lparr>lb_interval := max 5 (min 300 value)\<rparr>)"

definition set_periodic :: "bool \<Rightarrow> bool \<Rightarrow> lan_beacon \<Rightarrow> lan_beacon" where
  "set_periodic enabled callback b = (
     let b = (if callback then b\<lparr>lb_on_periodic := True\<rparr> else b)
     in if enabled = lb_periodic b then b
        else let b = b\<lparr>lb_periodic := enabled\<rparr>
             in if enabled \<and> lb_running b then b\<lparr>lb_ticking := True\<rparr> else b)"

definition reset_stats :: "lan_beacon \<Rightarrow> lan_beacon" where
  "reset_stats b = b\<lparr>lb_sent := 0, lb_received := 0, lb_announce_sent := 0, lb_broadcast_sent := 0,
     lb_subnet_probes := 0, lb_targets := []\<rparr>"

definition beacon_status :: "lan_env \<Rightarrow> lan_beacon \<Rightarrow> (string \<times> json) list" where
  "beacon_status le b = [(''port'', JInt 8743), (''running'', JBool (lb_running b)), (''periodic'', JBool (lb_periodic b)),
     (''lan_ip'', jstr (if truthy (lb_ip b) then lb_ip b else le_lan_ip le)),
     (''broadcast_targets'', JArr (map JStr (lb_targets b))), (''last_subnet_probes'', JInt (lb_subnet_probes b)),
     (''last_broadcast_sent'', JInt (lb_broadcast_sent b)), (''last_announce_sent'', JInt (lb_announce_sent b)),
     (''packets_sent'', JInt (lb_sent b)), (''packets_received'', JInt (lb_received b)),
     (''interval_sec'', JInt (if lb_periodic b then lb_interval b else 0))]"

section \<open>Sending\<close>

definition refresh_ip :: "lan_env \<Rightarrow> lan_beacon \<Rightarrow> lan_beacon" where
  "refresh_ip le b = (if truthy (le_lan_ip le) then b\<lparr>lb_ip := le_lan_ip le\<rparr> else b)"

definition payload :: "lan_beacon \<Rightarrow> (string \<times> json) list" where
  "payload b = [(''app'', JStr app_name), (''v'', JInt 1), (''hash'', JStr (lb_dest_hash b)),
       (''name'', JStr (lb_name b)), (''ip'', JStr (orE (lb_ip b))), (''port'', JInt (lb_port b))]
     @ (if lb_identity_hash b \<noteq> '''' then [(''identity_hash'', JStr (lb_identity_hash b))] else [])
     @ (if lb_pubkey b \<noteq> [] then [(''pubkey'', JStr (b64encode (lb_pubkey b)))] else [])"

definition beacon_ip_of :: "lan_env \<Rightarrow> lan_beacon \<Rightarrow> string option" where
  "beacon_ip_of le b = (if truthy (lb_ip b) then lb_ip b else le_lan_ip le)"

definition unicast_targets :: "lan_env \<Rightarrow> bool \<Rightarrow> dstate \<Rightarrow> lan_beacon \<Rightarrow> string list" where
  "unicast_targets le subnet_probe disc b = (if \<not> subnet_probe then []
     else efficient_unicast_hosts (le_android le) (beacon_ip_of le b)
            (map Some (known_udp_peer_ips (udp_ips disc))) None (le_lan_ip le))"

definition put_wire :: "json \<Rightarrow> string list \<Rightarrow> world \<Rightarrow> world" where
  "put_wire packet hosts w = w\<lparr>w_wire := w_wire w @ map (\<lambda>h. (h, packet)) hosts\<rparr>"

definition send_unicast :: "lan_env \<Rightarrow> json \<Rightarrow> world \<Rightarrow> int \<times> world" where
  "send_unicast le packet w = (
     let hosts = filter (le_reach le) (unicast_targets le True (w_disc w) (w_beacon w))
     in (int (length hosts), put_wire packet hosts
           (w\<lparr>w_beacon := (w_beacon w)\<lparr>lb_subnet_probes := int (length hosts)\<rparr>\<rparr>)))"

definition send_broadcast :: "lan_env \<Rightarrow> nat \<Rightarrow> json \<Rightarrow> world \<Rightarrow> int \<times> world" where
  "send_broadcast le count packet w = (
     let targets = directed_broadcasts (le_ifaces le) (beacon_ip_of le (w_beacon w)) (le_lan_ip le);
         hosts = concat (replicate count (filter (le_reach le) targets))
     in (int (length hosts), put_wire packet hosts (w\<lparr>w_beacon := (w_beacon w)\<lparr>lb_targets := targets\<rparr>\<rparr>)))"

definition send :: "lan_env \<Rightarrow> nat \<Rightarrow> bool \<Rightarrow> world \<Rightarrow> int \<times> world" where
  "send le count subnet_probe w = (
     if \<not> lb_tx (w_beacon w) \<or> \<not> lb_running (w_beacon w) then (0, w)
     else let w = w\<lparr>w_beacon := refresh_ip le (w_beacon w)\<rparr>;
              packet = JObj (payload (w_beacon w));
              (probed, w) = (if subnet_probe \<or> le_android le then send_unicast le packet w else (0, w));
              (broadcasts, w) = send_broadcast le count packet w
          in (probed + broadcasts, w\<lparr>w_beacon := (w_beacon w)\<lparr>lb_broadcast_sent := broadcasts,
                lb_announce_sent := probed + broadcasts, lb_sent := lb_sent (w_beacon w) + (probed + broadcasts)\<rparr>\<rparr>))"

text \<open>One round of \<open>_periodic\<close>: the loop condition, the announcement, the callback.\<close>

definition periodic_tick :: "lan_env \<Rightarrow> world \<Rightarrow> world" where
  "periodic_tick le w = (
     if \<not> lb_ticking (w_beacon w) then w
     else if \<not> lb_running (w_beacon w) then w\<lparr>w_beacon := (w_beacon w)\<lparr>lb_ticking := False\<rparr>\<rparr>
     else let w = snd (send le 1 (le_android le) w)
          in if lb_on_periodic (w_beacon w) then w\<lparr>w_callbacks := Suc (w_callbacks w)\<rparr> else w)"

section \<open>Hearing\<close>

text \<open>A parsed payload as the typed record \<open>PeerDiscovery\<close> works on, \<open>None\<close> when a text field
  it calls a string method on holds a value that has none.  A true \<open>pubkey\<close> that is no
  string is read as absent, as no key can be decoded from it.\<close>

definition beacon_of :: "(string \<times> json) list \<Rightarrow> beacon option" where
  "beacon_of d = (
     case (text_field (jget d ''hash''), text_field (jget d ''name''), text_field (jget d ''ip''),
           text_field (jget d ''identity_hash'')) of
       (Some h, Some n, Some ip, Some i) \<Rightarrow> Some \<lparr>
         b_app = (case jget d ''app'' of JStr s \<Rightarrow> Some s | _ \<Rightarrow> None), b_hash = h, b_name = n, b_ip = ip,
         b_port = json_val (jget d ''port''), b_identity_hash = i,
         b_pubkey = (case jget d ''pubkey'' of JStr s \<Rightarrow> Some s | _ \<Rightarrow> None)\<rparr>
     | _ \<Rightarrow> None)"

text \<open>\<open>_on_beacon\<close> asks for the identity twice: once inside \<open>peer_record_from_beacon\<close>, once
  after the row was accepted.  The guards before the first call are repeated here to say
  when it happens.\<close>

definition own_identity :: "beacon \<Rightarrow> string option \<Rightarrow> string option \<Rightarrow> bool" where
  "own_identity data my_dest_hash my_identity_hash = (
     let identity_hex = normalize_hash (b_identity_hash data)
     in identity_hex \<noteq> '''' \<and> (identity_hex = normalize_hash (if truthy my_identity_hash then my_identity_hash else my_dest_hash)
          \<or> identity_hex = normalize_hash my_dest_hash))"

definition hear_beacon ::
  "denv \<Rightarrow> 'i rns_api \<Rightarrow> beacon \<Rightarrow> string \<Rightarrow> world \<Rightarrow> bool \<times> world" where
  "hear_beacon env api data addr w = (
     let b = w_beacon w; my_dest = Some (lb_dest_hash b); my_ident = Some (lb_identity_hash b) in
     if \<not> running (w_disc w) \<or> \<not> accept_peers (w_disc w) \<or> b_app data \<noteq> Some app_name
        \<or> own_identity data my_dest my_ident then (False, w)
     else let (connect, k1) = register_beacon_identity api data (w_known w);
              (again, k2) = register_beacon_identity api data k1;
              (ok, s) = on_beacon env connect (again \<noteq> '''') data my_dest my_ident (Some addr) (w_disc w)
          in (ok, w\<lparr>w_disc := s, w_known := (if ok then k2 else k1)\<rparr>))"

text \<open>The answer to a probe, and the acknowledgement of one of ours; \<open>None\<close> for an exception.\<close>

definition answer_probe :: "lan_env \<Rightarrow> (string \<times> json) list \<Rightarrow> string \<Rightarrow> world \<Rightarrow> world" where
  "answer_probe le d addr w = (
     if lb_tx (w_beacon w) \<and> le_reach le addr
     then put_wire (JObj [(''app'', JStr app_name), (''type'', JStr ''probe_ack''), (''id'', jget d ''id''), (''ts'', jget d ''ts'')]) [addr] w
     else w)"

definition hear_probe_ack :: "real \<Rightarrow> (string \<times> json) list \<Rightarrow> world \<Rightarrow> world option" where
  "hear_probe_ack now d w = (
     let probe_id = jget d ''id''; ts = jget d ''ts'' in
     case (if json_truthy ts then json_float ts else Some (Fin 0)) of
       None \<Rightarrow> None
     | Some sent_ts \<Rightarrow>
         if \<not> json_truthy probe_id \<or> sent_ts = Fin 0 then Some w
         else (case sent_ts of NonFin \<Rightarrow> None
             | Fin t \<Rightarrow> (case to_double ((now - t) * 1000) of NonFin \<Rightarrow> None
                 | Fin ms \<Rightarrow> (case probe_id of
                       JStr i \<Rightarrow> Some (w\<lparr>w_probes := snd (register_probe_ack i (max 0 (py_trunc ms)) (w_probes w))\<rparr>)
                     | JArr _ \<Rightarrow> None
                     | JObj _ \<Rightarrow> None
                     | _ \<Rightarrow> Some w))))"

text \<open>A payload whose fields are not all texts: only an ill-typed \<open>identity_hash\<close> raises outside
  a \<open>try\<close>; an ill-typed address is noticed after the identity was registered.\<close>

definition hear_malformed :: "'i rns_api \<Rightarrow> (string \<times> json) list \<Rightarrow> world \<Rightarrow> world option" where
  "hear_malformed api d w = (
     if \<not> running (w_disc w) \<or> \<not> accept_peers (w_disc w) \<or> jget d ''app'' \<noteq> JStr app_name then Some w
     else if text_field (jget d ''identity_hash'') = None then None
     else (case beacon_of ((''ip'', JNull) # d) of None \<Rightarrow> Some w
         | Some data \<Rightarrow>
             if own_identity data (Some (lb_dest_hash (w_beacon w))) (Some (lb_identity_hash (w_beacon w))) then Some w
             else Some (w\<lparr>w_known := snd (register_beacon_identity api data (w_known w))\<rparr>)))"

definition hear_peer :: "denv \<Rightarrow> 'i rns_api \<Rightarrow> (string \<times> json) list \<Rightarrow> string \<Rightarrow> world \<Rightarrow> world option" where
  "hear_peer env api d addr w = (
     let d = (if json_truthy (jget d ''ip'') then d else (''ip'', JStr addr) # d) in
     case beacon_of d of
       None \<Rightarrow> hear_malformed api d w
     | Some data \<Rightarrow> (case hear_beacon env api data addr w of (ok, w) \<Rightarrow>
         if ok then Some (w\<lparr>w_beacon := (w_beacon w)\<lparr>lb_received := lb_received (w_beacon w) + 1\<rparr>,
                           w_disc := register_ip (b_ip data) (w_disc w)\<rparr>)
         else Some w))"

definition magic :: string where "magic = ''CHATXZ1''"

definition handle_payload :: "denv \<Rightarrow> lan_env \<Rightarrow> 'i rns_api \<Rightarrow> json \<Rightarrow> string \<Rightarrow> world \<Rightarrow> world option" where
  "handle_payload env le api v addr w = (case v of
      JObj d \<Rightarrow>
        if jget d ''type'' = JStr ''probe'' then Some (answer_probe le d addr w)
        else if jget d ''type'' = JStr ''probe_ack'' then hear_probe_ack (e_now env) d w
        else hear_peer env api d addr w
    | _ \<Rightarrow> None)"

text \<open>One round of \<open>_listen\<close> with a datagram received; an exception ends the thread.\<close>

definition listen :: "denv \<Rightarrow> lan_env \<Rightarrow> 'i rns_api \<Rightarrow> (string \<Rightarrow> json option) \<Rightarrow> string \<times> string \<Rightarrow> world \<Rightarrow> world" where
  "listen env le api loads dgram w = (case dgram of (raw, addr) \<Rightarrow>
     if \<not> lb_listening (w_beacon w) then w
     else if \<not> lb_running (w_beacon w) \<or> \<not> lb_rx (w_beacon w) then w\<lparr>w_beacon := (w_beacon w)\<lparr>lb_listening := False\<rparr>\<rparr>
     else let data = take 4096 raw in
       if length data < length magic + 2 \<or> \<not> prefix magic data then w
       else (case loads (drop (length magic) data) of None \<Rightarrow> w
           | Some v \<Rightarrow> (case handle_payload env le api v addr w of
                 None \<Rightarrow> w\<lparr>w_beacon := (w_beacon w)\<lparr>lb_listening := False\<rparr>\<rparr>
               | Some w \<Rightarrow> w)))"

section \<open>Sending is counted\<close>

lemma put_wire_simps [simp]:
  "w_beacon (put_wire p hs w) = w_beacon w" "w_disc (put_wire p hs w) = w_disc w"
  "w_wire (put_wire p hs w) = w_wire w @ map (\<lambda>h. (h, p)) hs"
  by (simp_all add: put_wire_def)

lemma refresh_ip_simps [simp]:
  "lb_tx (refresh_ip le b) = lb_tx b" "lb_running (refresh_ip le b) = lb_running b"
  "lb_sent (refresh_ip le b) = lb_sent b" "lb_periodic (refresh_ip le b) = lb_periodic b"
  "lb_ticking (refresh_ip le b) = lb_ticking b" "lb_on_periodic (refresh_ip le b) = lb_on_periodic b"
  by (simp_all add: refresh_ip_def)

lemma payload_stats [simp]:
  "payload (b\<lparr>lb_subnet_probes := n\<rparr>) = payload b" "payload (b\<lparr>lb_targets := ts\<rparr>) = payload b"
  "payload (b\<lparr>lb_broadcast_sent := n\<rparr>) = payload b" "payload (b\<lparr>lb_announce_sent := n\<rparr>) = payload b"
  "payload (b\<lparr>lb_sent := n\<rparr>) = payload b" "payload (b\<lparr>lb_periodic := p\<rparr>) = payload b"
  by (simp_all add: payload_def)

lemma limited_broadcast: "''255.255.255.255'' \<in> set (directed_broadcasts entries ip lan)"
  by (simp add: directed_broadcasts_def Let_def append_new_def)

lemma broadcast_hosts:
  "set (concat (replicate n xs)) \<subseteq> set xs" "x \<in> set xs \<Longrightarrow> n \<le> length (concat (replicate n xs))"
proof -
  show "set (concat (replicate n xs)) \<subseteq> set xs" by (induction n) auto
  show "n \<le> length (concat (replicate n xs))" if "x \<in> set xs"
    using length_pos_if_in_set [OF that] by (induction n) (simp_all del: length_greater_0_conv)
qed

lemma send_unicast_run:
  "send_unicast le p w = (n, w') \<Longrightarrow> \<exists>hs. n = int (length hs) \<and> (\<forall>h \<in> set hs. le_reach le h)
     \<and> w' = put_wire p hs (w\<lparr>w_beacon := (w_beacon w)\<lparr>lb_subnet_probes := n\<rparr>\<rparr>)"
  by (auto simp: send_unicast_def Let_def intro!: exI)

lemma send_broadcast_run:
  "send_broadcast le count p w = (n, w') \<Longrightarrow> \<exists>hs ts. n = int (length hs) \<and> (\<forall>h \<in> set hs. le_reach le h)
     \<and> w' = put_wire p hs (w\<lparr>w_beacon := (w_beacon w)\<lparr>lb_targets := ts\<rparr>\<rparr>)
     \<and> (le_reach le ''255.255.255.255'' \<longrightarrow> count \<le> length hs)"
proof -
  assume r: "send_broadcast le count p w = (n, w')"
  define ts where "ts = directed_broadcasts (le_ifaces le) (beacon_ip_of le (w_beacon w)) (le_lan_ip le)"
  define hs where "hs = concat (replicate count (filter (le_reach le) ts))"
  have "n = int (length hs)" "w' = put_wire p hs (w\<lparr>w_beacon := (w_beacon w)\<lparr>lb_targets := ts\<rparr>\<rparr>)"
    using r unfolding send_broadcast_def Let_def ts_def [symmetric] hs_def [symmetric] by auto
  moreover have "\<forall>h \<in> set hs. le_reach le h" using broadcast_hosts(1) [of count "filter (le_reach le) ts"] by (auto simp: hs_def)
  moreover have "count \<le> length hs" if "le_reach le ''255.255.255.255''"
    unfolding hs_def by (rule broadcast_hosts(2) [of "''255.255.255.255''"]) (use that in \<open>simp add: ts_def limited_broadcast\<close>)
  ultimately show ?thesis by blast
qed

text \<open>A call of \<open>send\<close> puts exactly as many datagrams on the wire as it answers and adds to
  \<open>packets_sent\<close>; each is this node's payload to an address the socket can reach, and at
  least \<open>count\<close> of them go out while the limited broadcast is reachable.  A stopped beacon
  sends nothing and changes nothing.\<close>

theorem send_counts:
  "case send le count probe w of (n, w') \<Rightarrow>
     \<exists>hs. n = int (length hs) \<and> w_wire w' = w_wire w @ map (\<lambda>h. (h, JObj (payload (w_beacon w')))) hs
       \<and> lb_sent (w_beacon w') = lb_sent (w_beacon w) + n \<and> list_all (le_reach le) hs
       \<and> (if lb_tx (w_beacon w) \<and> lb_running (w_beacon w)
          then le_reach le ''255.255.255.255'' \<longrightarrow> count \<le> length hs else w' = w \<and> hs = [])"
proof (cases "lb_tx (w_beacon w) \<and> lb_running (w_beacon w)")
  case False
  then show ?thesis by (auto simp: send_def)
next
  case True
  define u where "u = w\<lparr>w_beacon := refresh_ip le (w_beacon w)\<rparr>"
  define p where "p = JObj (payload (w_beacon u))"
  obtain n1 v where v: "(if probe \<or> le_android le then send_unicast le p u else (0, u)) = (n1, v)" by fastforce
  obtain n2 x where x: "send_broadcast le count p v = (n2, x)" by fastforce
  have "\<exists>hs k. n1 = int (length hs) \<and> (\<forall>h \<in> set hs. le_reach le h)
     \<and> v = put_wire p hs (u\<lparr>w_beacon := (w_beacon u)\<lparr>lb_subnet_probes := k\<rparr>\<rparr>)"
  proof (cases "probe \<or> le_android le")
    case True
    then show ?thesis using v send_unicast_run [of le p u n1 v] by auto
  next
    case False
    have "put_wire p [] (u\<lparr>w_beacon := (w_beacon u)\<lparr>lb_subnet_probes := lb_subnet_probes (w_beacon u)\<rparr>\<rparr>) = u"
      by (simp add: put_wire_def)
    then show ?thesis using False v
      by (intro exI [of _ "[]"] exI [of _ "lb_subnet_probes (w_beacon u)"]) auto
  qed
  then obtain hs1 k where h1: "n1 = int (length hs1)" "\<forall>h \<in> set hs1. le_reach le h"
     "v = put_wire p hs1 (u\<lparr>w_beacon := (w_beacon u)\<lparr>lb_subnet_probes := k\<rparr>\<rparr>)" by blast
  from send_broadcast_run [OF x] obtain hs2 ts where h2: "n2 = int (length hs2)" "\<forall>h \<in> set hs2. le_reach le h"
     "x = put_wire p hs2 (v\<lparr>w_beacon := (w_beacon v)\<lparr>lb_targets := ts\<rparr>\<rparr>)"
     "le_reach le ''255.255.255.255'' \<longrightarrow> count \<le> length hs2" by blast
  have run: "send le count probe w = (n1 + n2, x\<lparr>w_beacon := (w_beacon x)\<lparr>lb_broadcast_sent := n2,
      lb_announce_sent := n1 + n2, lb_sent := lb_sent (w_beacon x) + (n1 + n2)\<rparr>\<rparr>)"
    using True unfolding send_def Let_def u_def [symmetric] p_def [symmetric] v x prod.case by simp
  show ?thesis
    unfolding run prod.case
    by (rule exI [of _ "hs1 @ hs2"])
      (use True h1 h2 in \<open>auto simp: p_def u_def list_all_iff\<close>)
qed

section \<open>Switching periodic announces off\<close>

definition with_periodic :: "bool \<Rightarrow> world \<Rightarrow> world" where
  "with_periodic p w = w\<lparr>w_beacon := (w_beacon w)\<lparr>lb_periodic := p\<rparr>\<rparr>"

lemma with_periodic_simps [simp]:
  "w_wire (with_periodic p w) = w_wire w" "w_disc (with_periodic p w) = w_disc w"
  "w_callbacks (with_periodic p w) = w_callbacks w"
  "lb_ticking (w_beacon (with_periodic p w)) = lb_ticking (w_beacon w)"
  "lb_running (w_beacon (with_periodic p w)) = lb_running (w_beacon w)"
  "lb_on_periodic (w_beacon (with_periodic p w)) = lb_on_periodic (w_beacon w)"
  by (simp_all add: with_periodic_def)

lemma send_parts_periodic:
  "send_unicast le q (with_periodic p w) = map_prod id (with_periodic p) (send_unicast le q w)"
  "send_broadcast le c q (with_periodic p w) = map_prod id (with_periodic p) (send_broadcast le c q w)"
  by (simp_all add: send_unicast_def send_broadcast_def with_periodic_def Let_def put_wire_def
      unicast_targets_def beacon_ip_of_def)

lemma send_periodic: "send le c pr (with_periodic p w) = map_prod id (with_periodic p) (send le c pr w)"
proof (cases "lb_tx (w_beacon w) \<and> lb_running (w_beacon w)")
  case False
  then show ?thesis by (auto simp: send_def with_periodic_def)
next
  case True
  define u where "u = w\<lparr>w_beacon := refresh_ip le (w_beacon w)\<rparr>"
  have u: "(with_periodic p w)\<lparr>w_beacon := refresh_ip le (w_beacon (with_periodic p w))\<rparr> = with_periodic p u"
    by (simp add: u_def with_periodic_def refresh_ip_def)
  have pl: "payload (w_beacon (with_periodic p u)) = payload (w_beacon u)" by (simp add: with_periodic_def)
  define q where "q = JObj (payload (w_beacon u))"
  obtain n1 v where v: "(if pr \<or> le_android le then send_unicast le q u else (0, u)) = (n1, v)" by fastforce
  then have v': "(if pr \<or> le_android le then send_unicast le q (with_periodic p u) else (0, with_periodic p u))
      = (n1, with_periodic p v)"
    by (auto simp: send_parts_periodic split: if_splits)
  obtain n2 x where x: "send_broadcast le c q v = (n2, x)" by fastforce
  then have x': "send_broadcast le c q (with_periodic p v) = (n2, with_periodic p x)"
    by (simp add: send_parts_periodic)
  have on: "\<not> (\<not> lb_tx (w_beacon w) \<or> \<not> lb_running (w_beacon w))" using True by simp
  have on': "\<not> (\<not> lb_tx (w_beacon (with_periodic p w)) \<or> \<not> lb_running (w_beacon (with_periodic p w)))"
    using True by (simp add: with_periodic_def)
  show ?thesis
    unfolding send_def Let_def if_not_P [OF on] if_not_P [OF on'] u pl u_def [symmetric] q_def [symmetric]
      v v' x x' prod.case map_prod_simp
    by (simp add: with_periodic_def)
qed

lemma tick_periodic: "periodic_tick le (with_periodic p w) = with_periodic p (periodic_tick le w)"
proof -
  have "w_callbacks_update f (with_periodic p v) = with_periodic p (w_callbacks_update f v)" for f v
    by (simp add: with_periodic_def)
  moreover have "(with_periodic p w)\<lparr>w_beacon := (w_beacon (with_periodic p w))\<lparr>lb_ticking := False\<rparr>\<rparr>
      = with_periodic p (w\<lparr>w_beacon := (w_beacon w)\<lparr>lb_ticking := False\<rparr>\<rparr>)"
    by (simp add: with_periodic_def)
  ultimately show ?thesis by (simp add: periodic_tick_def Let_def send_periodic)
qed

lemma ticks_periodic: "fold periodic_tick les (with_periodic p w) = with_periodic p (fold periodic_tick les w)"
  by (induction les arbitrary: w) (simp_all add: tick_periodic)

text \<open>\<open>set_periodic(False)\<close> does not stop the periodic announces: the thread's loop tests
  only \<open>running\<close>, so every later round sends the same datagrams and calls the same
  callback as if periodic announces were still on, while \<open>status()\<close> reports them off.\<close>

theorem periodic_never_stops:
  fixes w le les
  defines "off \<equiv> w\<lparr>w_beacon := set_periodic False False (w_beacon w)\<rparr>"
  shows "w_wire (fold periodic_tick les off) = w_wire (fold periodic_tick les w)
    \<and> w_callbacks (fold periodic_tick les off) = w_callbacks (fold periodic_tick les w)
    \<and> jget (beacon_status le (w_beacon off)) ''periodic'' = JBool False
    \<and> jget (beacon_status le (w_beacon off)) ''interval_sec'' = JInt 0"
proof -
  have "off = with_periodic False w"
    unfolding off_def by (cases "lb_periodic (w_beacon w)") (simp_all add: set_periodic_def with_periodic_def)
  then show ?thesis by (simp add: ticks_periodic) (simp add: beacon_status_def with_periodic_def)
qed

section \<open>The listener's thread\<close>

type_synonym 'i hearing = "denv \<times> lan_env \<times> 'i rns_api \<times> string \<times> string"

fun hear_step :: "(string \<Rightarrow> json option) \<Rightarrow> 'i hearing \<Rightarrow> world \<Rightarrow> world" where
  "hear_step loads (env, le, api, dgram) w = listen env le api loads dgram w"

definition deaf :: "world \<Rightarrow> bool" where
  "deaf w \<longleftrightarrow> \<not> lb_listening (w_beacon w)"

lemma deaf_step: "deaf w \<Longrightarrow> hear_step loads e w = w"
  by (cases e) (simp add: deaf_def listen_def split: prod.split)

interpretation deafness: step_system "hear_step loads" "\<lambda>_. True" deaf for loads
  by unfold_locales (simp add: deaf_step)

lemma deaf_run: "deaf w \<Longrightarrow> fold (hear_step loads) es w = w"
  by (induction es) (simp_all add: deaf_step)

text \<open>The nine bytes \<open>CHATXZ1[]\<close> from any host end LAN discovery for good: the JSON value is
  a list, \<open>payload.get\<close> raises outside every \<open>try\<close> and the listener's thread dies.  The
  object still counts as running, no later datagram changes anything, and \<open>start\<close> does not
  revive the thread.\<close>

theorem one_datagram_deafens:
  assumes "loads ''[]'' = Some (JArr [])" and "lb_running (w_beacon w)"
  shows "case listen env le api loads (''CHATXZ1[]'', addr) w of w' \<Rightarrow>
     deaf w' \<and> lb_running (w_beacon w') \<and> fold (hear_step loads) es w' = w'
     \<and> start_beacon True (w_beacon w') = (True, w_beacon w') \<and> w_disc w' = w_disc w"
proof -
  define w' where "w' = listen env le api loads (''CHATXZ1[]'', addr) w"
  have d: "drop (length magic) (take 4096 ''CHATXZ1[]'') = ''[]''" "prefix magic (take 4096 ''CHATXZ1[]'')"
    "\<not> length (take 4096 ''CHATXZ1[]'') < length magic + 2"
    by (simp_all add: magic_def)
  have "w' = (if lb_listening (w_beacon w) then w\<lparr>w_beacon := (w_beacon w)\<lparr>lb_listening := False\<rparr>\<rparr> else w)"
    using assms d by (simp add: w'_def listen_def Let_def handle_payload_def)
  then have "deaf w'" "lb_running (w_beacon w')" "w_disc w' = w_disc w" using assms(2) by (auto simp: deaf_def)
  then show ?thesis unfolding w'_def [symmetric] by (simp add: deaf_run start_beacon_def)
qed

definition idle_beacon :: lan_beacon where
  "idle_beacon = snd (start_beacon True (new_beacon (Some ''aa'') None [] (Some ''Me'') (Some ''10.0.0.1'') 8742 False False))"

definition idle_world :: world where
  "idle_world = \<lparr>w_beacon = idle_beacon, w_disc = enable_discovery False (start new_discovery), w_probes = no_probes,
     w_known = [], w_wire = [], w_callbacks = 0\<rparr>"

definition quiet_lan :: lan_env where
  "quiet_lan = \<lparr>le_lan_ip = None, le_ifaces = [], le_android = False, le_reach = (\<lambda>_. True)\<rparr>"

definition loads_list :: "string \<Rightarrow> json option" where
  "loads_list s = (if s = ''[]'' then Some (JArr []) else None)"

lemma one_datagram_deafens_witness:
  "lb_listening (w_beacon idle_world)
   \<and> deaf (listen demo_env quiet_lan demo_api loads_list (''CHATXZ1[]'', ''10.0.0.9'') idle_world)"
proof -
  have r: "lb_running (w_beacon idle_world)" "lb_listening (w_beacon idle_world)"
    by (simp_all add: idle_world_def idle_beacon_def start_beacon_def new_beacon_def)
  have l: "loads_list ''[]'' = Some (JArr [])" by (simp add: loads_list_def)
  from one_datagram_deafens [where api = demo_api and env = demo_env and le = quiet_lan and addr = "''10.0.0.9''"
      and loads = loads_list and w = idle_world, OF l r(1), of "[]"] r(2)
  show ?thesis by blast
qed

section \<open>From one node to the next\<close>

text \<open>What a listener makes of the payload of \<open>a\<close> when it comes from \<open>addr\<close>.\<close>

definition heard_beacon :: "lan_beacon \<Rightarrow> string \<Rightarrow> beacon" where
  "heard_beacon a addr = \<lparr>b_app = Some app_name, b_hash = Some (lb_dest_hash a), b_name = Some (lb_name a),
     b_ip = Some (py_or (orE (lb_ip a)) addr), b_port = Some (VInt (lb_port a)),
     b_identity_hash = or_none (lb_identity_hash a),
     b_pubkey = (if lb_pubkey a = [] then None else Some (b64encode (lb_pubkey a)))\<rparr>"

lemma payload_fields:
  "jget (payload a) ''type'' = JNull" "jget (payload a) ''ip'' = JStr (orE (lb_ip a))"
  by (simp_all add: payload_def jget_append)

lemma beacon_of_payload:
  "beacon_of (if json_truthy (jget (payload a) ''ip'') then payload a else (''ip'', JStr addr) # payload a)
     = Some (heard_beacon a addr)"
proof -
  define i where "i = lb_identity_hash a"
  define k where "k = lb_pubkey a"
  have i: "jget (payload a) ''identity_hash'' = (if i = '''' then JNull else JStr i)"
    by (simp add: payload_def jget_append i_def)
  have k: "jget (payload a) ''pubkey'' = (if k = [] then JNull else JStr (b64encode k))"
    by (simp add: payload_def jget_append k_def)
  have f: "jget (payload a) ''app'' = JStr app_name" "jget (payload a) ''hash'' = JStr (lb_dest_hash a)"
    "jget (payload a) ''name'' = JStr (lb_name a)" "jget (payload a) ''port'' = JInt (lb_port a)"
    by (simp_all add: payload_def)
  show ?thesis
    by (simp add: beacon_of_def payload_fields f i k heard_beacon_def or_none_def i_def k_def split: option.split)
qed

lemma hear_accepts:
  assumes "dinv (w_disc w)" "running (w_disc w)" "accept_peers (w_disc w)"
    and "b_app data = Some app_name" "b_hash data = Some h" "normalize_hash (Some h) = h" "length h = 32"
    and "foreign_beacon h data (Some (lb_dest_hash (w_beacon w))) (Some (lb_identity_hash (w_beacon w))) (w_disc w)"
    and "on_scope env (b_ip data)" "on_scope env (Some addr)"
    and "\<And>k. fst (register_beacon_identity api data k) \<in> {'''', h}"
  obtains s k where "hear_beacon env api data addr w = (True, w\<lparr>w_disc := s, w_known := k\<rparr>)"
    "\<exists>k r. (k, r) \<in> set (peers s) \<and> normalize_hash (p_hash r) = h \<and> storage_via (p_via r) = ''lan''
      \<and> stripE (p_ip r) = stripE (b_ip data) \<and> p_last_seen r = Some (e_now env)"
proof -
  define dest ident where "dest = Some (lb_dest_hash (w_beacon w))" and "ident = Some (lb_identity_hash (w_beacon w))"
  obtain connect k1 where c: "register_beacon_identity api data (w_known w) = (connect, k1)" by fastforce
  obtain again k2 where a: "register_beacon_identity api data k1 = (again, k2)" by fastforce
  have "connect = '''' \<or> connect = h" using assms(11) [of "w_known w"] c by auto
  note acc = on_beacon_accepts [OF assms(1-7) this assms(8) [folded dest_def ident_def] assms(9,10), of "again \<noteq> ''''"]
  obtain ok s where o: "on_beacon env connect (again \<noteq> '''') data dest ident (Some addr) (w_disc w) = (ok, s)" by fastforce
  have "\<not> own_identity data dest ident"
    using assms(8) by (auto simp: own_identity_def foreign_beacon_def Let_def dest_def ident_def)
  then have "hear_beacon env api data addr w = (ok, w\<lparr>w_disc := s, w_known := if ok then k2 else k1\<rparr>)"
    using assms(2-4) unfolding hear_beacon_def Let_def dest_def [symmetric] ident_def [symmetric] c a prod.case o by simp
  with acc o that show thesis by auto
qed

text \<open>C37: what one node sends, the next one lists: a datagram with the payload of beacon \<open>a\<close>,
  received by a listening node that accepts peers and is on the same LAN scope, gives that
  node a LAN row with \<open>a\<close>'s destination hash, its address (the sender's if \<open>a\<close> does not know
  its own) and the time of receipt, counts as received, and keeps the listener alive.  The
  hypotheses exclude the node's own hashes and a Reticulum that knows the sender's identity
  under another destination.\<close>

theorem beacon_reaches_peer:
  assumes "deaf w = False" "lb_running (w_beacon w)" "lb_rx (w_beacon w)"
    and "prefix magic raw" "9 \<le> length raw" "loads (drop 7 (take 4096 raw)) = Some (JObj (payload a))"
    and "dinv (w_disc w)" "running (w_disc w)" "accept_peers (w_disc w)"
    and "normalize_hash (Some (lb_dest_hash a)) = lb_dest_hash a" "length (lb_dest_hash a) = 32"
    and "foreign_beacon (lb_dest_hash a) (heard_beacon a addr) (Some (lb_dest_hash (w_beacon w)))
           (Some (lb_identity_hash (w_beacon w))) (w_disc w)"
    and "on_scope env (b_ip (heard_beacon a addr))" "on_scope env (Some addr)"
    and "\<And>k. fst (register_beacon_identity api (heard_beacon a addr) k) \<in> {'''', lb_dest_hash a}"
  shows "case listen env le api loads (raw, addr) w of w' \<Rightarrow>
     \<not> deaf w' \<and> lb_received (w_beacon w') = lb_received (w_beacon w) + 1
     \<and> (\<exists>k r. (k, r) \<in> set (peers (w_disc w')) \<and> normalize_hash (p_hash r) = lb_dest_hash a
         \<and> storage_via (p_via r) = ''lan'' \<and> stripE (p_ip r) = stripE (b_ip (heard_beacon a addr))
         \<and> p_last_seen r = Some (e_now env))"
proof -
  let ?b = "heard_beacon a addr"
  have b: "b_app ?b = Some app_name" "b_hash ?b = Some (lb_dest_hash a)" by (simp_all add: heard_beacon_def)
  obtain s k where h: "hear_beacon env api ?b addr w = (True, w\<lparr>w_disc := s, w_known := k\<rparr>)"
    and r: "\<exists>k r. (k, r) \<in> set (peers s) \<and> normalize_hash (p_hash r) = lb_dest_hash a \<and> storage_via (p_via r) = ''lan''
      \<and> stripE (p_ip r) = stripE (b_ip ?b) \<and> p_last_seen r = Some (e_now env)"
    by (rule hear_accepts [OF assms(7-9) b assms(10-15)])
  have m: "length magic = 7" "\<not> length (take 4096 raw) < length magic + 2" "prefix magic (take 4096 raw)"
    using assms(4,5) by (auto simp: magic_def prefix_def)
  have "handle_payload env le api (JObj (payload a)) addr w = hear_peer env api (payload a) addr w"
    by (simp add: handle_payload_def payload_fields)
  also have "\<dots> = Some (w\<lparr>w_beacon := (w_beacon w)\<lparr>lb_received := lb_received (w_beacon w) + 1\<rparr>,
      w_disc := register_ip (b_ip ?b) s, w_known := k\<rparr>)"
    unfolding hear_peer_def Let_def beacon_of_payload option.case h by simp
  finally have "listen env le api loads (raw, addr) w = w\<lparr>w_beacon := (w_beacon w)\<lparr>lb_received := lb_received (w_beacon w) + 1\<rparr>,
      w_disc := register_ip (b_ip ?b) s, w_known := k\<rparr>"
    using assms(1-3,6) m by (simp add: listen_def Let_def deaf_def)
  moreover have "peers (register_ip (b_ip ?b) s) = peers s" by (simp add: register_ip_def)
  ultimately show ?thesis using r assms(1) by (simp add: deaf_def)
qed

text \<open>Ann on \<open>10.0.0.7\<close> heard by the idle node on \<open>10.0.0.1\<close>.\<close>

definition ann_hash :: string where
  "ann_hash = replicate 32 (CHR ''b'')"

definition ann :: lan_beacon where
  "ann = new_beacon (Some ann_hash) None [] (Some ''Ann'') (Some ''10.0.0.7'') 8742 False False"

definition ann_raw :: string where "ann_raw = magic @ ''{}''"

lemma ann_heard:
  "heard_beacon ann ''10.0.0.7'' = \<lparr>b_app = Some app_name, b_hash = Some ann_hash, b_name = Some ''Ann'',
     b_ip = Some ''10.0.0.7'', b_port = Some (VInt 8742), b_identity_hash = None, b_pubkey = None\<rparr>"
proof -
  have "nocolon ann_hash = ann_hash" by (rule py_remove_id) (simp add: ann_hash_def)
  then show ?thesis by (simp add: heard_beacon_def ann_def new_beacon_def or_none_def)
qed

lemma idle_ready:
  "deaf idle_world = False" "lb_running (w_beacon idle_world)" "lb_rx (w_beacon idle_world)"
  "running (w_disc idle_world)" "accept_peers (w_disc idle_world)" "dinv (w_disc idle_world)"
  "lb_dest_hash (w_beacon idle_world) = ''aa''" "lb_identity_hash (w_beacon idle_world) = ''''"
  "local_hashes (w_disc idle_world) = []" "lb_received (w_beacon idle_world) = 0"
  using dinv_new
  by (simp_all add: idle_world_def idle_beacon_def start_beacon_def new_beacon_def deaf_def enable_discovery_def
      start_def new_discovery_def dinv_def keys_def py_remove_def)

lemma beacon_reaches_peer_witness:
  "lb_received (w_beacon (listen demo_env quiet_lan demo_api (\<lambda>s. if s = ''{}'' then Some (JObj (payload ann)) else None)
     (ann_raw, ''10.0.0.7'') idle_world)) = 1"
proof -
  let ?loads = "\<lambda>s. if s = ''{}'' then Some (JObj (payload ann)) else None"
  have h: "lb_dest_hash ann = ann_hash" using ann_heard by (simp add: heard_beacon_def)
  have raw: "prefix magic ann_raw" "9 \<le> length ann_raw" "?loads (drop 7 (take 4096 ann_raw)) = Some (JObj (payload ann))"
    by (simp_all add: ann_raw_def magic_def)
  have n: "normalize_hash (Some ann_hash) = ann_hash" "length ann_hash = 32" by (code_simp, simp add: ann_hash_def)
  have f: "foreign_beacon ann_hash (heard_beacon ann ''10.0.0.7'') (Some (lb_dest_hash (w_beacon idle_world)))
      (Some (lb_identity_hash (w_beacon idle_world))) (w_disc idle_world)"
  proof -
    have "normalize_hash (Some ''aa'') = ''aa''" by code_simp
    moreover have "ann_hash \<noteq> ''aa''" by code_simp
    ultimately show ?thesis by (simp add: foreign_beacon_def idle_ready ann_heard Let_def)
  qed
  have s: "on_scope demo_env (Some ''10.0.0.7'')" by code_simp
  have r: "fst (register_beacon_identity demo_api (heard_beacon ann ''10.0.0.7'') k) \<in> {'''', ann_hash}" for k
    by (simp add: ann_heard register_beacon_identity_def beacon_keys_def)
  from beacon_reaches_peer [where loads = ?loads and a = ann and addr = "''10.0.0.7''" and w = idle_world and env = demo_env
      and api = demo_api and le = quiet_lan, OF idle_ready(1-3) raw idle_ready(6,4,5), unfolded h, OF n f _ s r]
  show ?thesis using s by (simp add: ann_heard idle_ready)
qed

lemma send_counts_witness:
  "\<exists>hs. 2 \<le> length hs \<and> w_wire (snd (send quiet_lan 2 False idle_world))
     = map (\<lambda>h. (h, JObj (payload (w_beacon (snd (send quiet_lan 2 False idle_world)))))) hs"
proof -
  have r: "lb_tx (w_beacon idle_world)" "lb_running (w_beacon idle_world)" "w_wire idle_world = []"
    by (simp_all add: idle_world_def idle_beacon_def start_beacon_def new_beacon_def)
  have "le_reach quiet_lan ''255.255.255.255''" by (simp add: quiet_lan_def)
  with r send_counts [where le = quiet_lan and count = 2 and probe = False and w = idle_world] show ?thesis
    by (auto simp: case_prod_beta)
qed

text \<open>The public key travels unharmed: from the heard payload \<open>register_beacon_identity\<close>
  decodes exactly the sender's key and identity hash.\<close>

theorem key_travels:
  assumes "byte_list (lb_pubkey a)" "lb_pubkey a \<noteq> []" "length (lb_pubkey a) = api_keysize api"
    and "lb_identity_hash a = py_hex ident" "byte_list ident" "length ident = 16"
  shows "beacon_keys api (heard_beacon a addr) = Some (lb_pubkey a, ident)"
proof -
  have k: "b64decode (b64encode (lb_pubkey a)) = Some (lb_pubkey a)"
    using assms(1) by (intro b64_roundtrip) (simp add: byte_list_def)
  have i: "normalize_hash (or_none (py_hex ident)) = py_hex ident"
    using normalize_py_hex [OF assms(5)] by (auto simp: or_none_def)
  have "py_fromhex (py_hex ident) = Some ident" using assms(5) by (intro py_fromhex_hex) (simp add: byte_list_def)
  then show ?thesis
    using assms k by (simp add: beacon_keys_def heard_beacon_def i Let_def)
qed

definition keyed_ann :: lan_beacon where
  "keyed_ann = ann\<lparr>lb_pubkey := [5], lb_identity_hash := py_hex (replicate 16 17)\<rparr>"

lemma key_travels_witness:
  "beacon_keys demo_api (heard_beacon keyed_ann ''10.0.0.7'') = Some ([5], replicate 16 17)"
proof -
  have p: "lb_pubkey keyed_ann = [5]" "lb_identity_hash keyed_ann = py_hex (replicate 16 17)"
    by (simp_all add: keyed_ann_def)
  have "byte_list [5]" "byte_list (replicate 16 17)" "length [5 :: nat] = api_keysize demo_api"
    by (simp_all add: byte_list_def demo_api_def)
  then show ?thesis using key_travels [of keyed_ann demo_api "replicate 16 17"] p by simp
qed

end
