(* ===== verification/PeerHashes.thy ===== *)
theory PeerHashes
  imports PeerRow
begin

text \<open>
  The addressing tables of \<open>core/messaging.py\<close>.  A peer has a destination hash (what one
  connects to) and an identity hash; \<open>MessagingBackend\<close> keeps the two dicts between them
  and a set of the peers the user has disconnected.  Everything else in the engine names a
  peer by \<open>dest_hash_for\<close> and compares peers with \<open>hashes_equivalent\<close>.  The theory models
  these operations and shows when the comparison is an equivalence.  A hash argument that
  is \<open>None\<close> is read as the empty string, as the code does.
\<close>

definition hub_group_peer :: string where
  "hub_group_peer = ''__hub_group__''"

abbreviation nhash :: "string \<Rightarrow> string" where
  "nhash h \<equiv> normalize_hash (Some h)"

definition is_hub_peer_hash :: "string \<Rightarrow> bool" where
  "is_hub_peer_hash peer_hash \<longleftrightarrow> nhash peer_hash = hub_group_peer"

text \<open>\<open>self.identity_to_dest\<close> and \<open>self.dest_to_identity\<close>.\<close>

record peer_maps =
  identity_to_dest :: "(string, string) pydict"
  dest_to_identity :: "(string, string) pydict"

definition no_maps :: peer_maps where
  "no_maps = \<lparr>identity_to_dest = [], dest_to_identity = []\<rparr>"

definition register_peer_mapping :: "string \<Rightarrow> string \<Rightarrow> peer_maps \<Rightarrow> peer_maps" where
  "register_peer_mapping dest_hash identity_hash m = (let dest = nhash dest_hash in
     if dest = '''' then m
     else if identity_hash = '''' then m
     else let ident = nhash identity_hash in
       if ident \<noteq> '''' \<and> ident \<noteq> dest
       then m\<lparr>identity_to_dest := AList.update ident dest (identity_to_dest m),
              dest_to_identity := AList.update dest ident (dest_to_identity m)\<rparr>
       else m)"

definition dest_hash_for :: "peer_maps \<Rightarrow> string \<Rightarrow> string" where
  "dest_hash_for m any_hash = (let clean = nhash any_hash in
     if clean = '''' then ''''
     else if map_of (dest_to_identity m) clean \<noteq> None then clean
     else let mapped = orE (map_of (identity_to_dest m) clean) in
       if mapped \<noteq> '''' then mapped else clean)"

text \<open>One round of the loop of \<open>hashes_equivalent\<close>: the alias \<open>key\<close> is known to belong to
  the destination of the other hash.\<close>

definition alias_of :: "peer_maps \<Rightarrow> string \<Rightarrow> string \<Rightarrow> string \<Rightarrow> bool" where
  "alias_of m hash_a hash_b key = (let clean = nhash key in
     case map_of (identity_to_dest m) clean of
       None \<Rightarrow> False
     | Some d \<Rightarrow> let other = dest_hash_for m (if key = hash_a then hash_b else hash_a)
                 in other \<noteq> '''' \<and> d = other)"

definition hashes_equivalent :: "peer_maps \<Rightarrow> string \<Rightarrow> string \<Rightarrow> bool" where
  "hashes_equivalent m hash_a hash_b = (let a = dest_hash_for m hash_a; b = dest_hash_for m hash_b in
     if a \<noteq> '''' \<and> b \<noteq> '''' \<and> a = b then True
     else if a = '''' \<or> b = '''' then False
     else list_ex (alias_of m hash_a hash_b) [hash_a, hash_b])"

definition peer_aliases_for :: "peer_maps \<Rightarrow> string \<Rightarrow> string list" where
  "peer_aliases_for m any_hash = (let canonical = dest_hash_for m any_hash;
       known = (if canonical \<noteq> '''' then [canonical] else []);
       ident = orE (map_of (dest_to_identity m) canonical);
       known = (if ident \<noteq> '''' then known @ [ident] else known);
       known = known @ map fst (filter (\<lambda>(_, dest). dest = canonical) (identity_to_dest m))
     in sort (remdups (filter (\<lambda>h. h \<noteq> '''' \<and> h \<noteq> ''unknown'') known)))"

text \<open>\<open>_is_self_hash\<close>: our two destination hashes and the hashes of our two identities
  (\<open>RNS.hexrep\<close> of each, empty where there is none).\<close>

record self_ids =
  my_dest_hash :: string
  my_dest_hash_serial :: string
  my_ident_hex :: string
  my_ident_hex_serial :: string

definition is_self_hash :: "self_ids \<Rightarrow> string \<Rightarrow> bool" where
  "is_self_hash me h = (let clean = nhash h in
     if clean = '''' then False
     else if my_dest_hash me \<noteq> '''' \<and> clean = nhash (my_dest_hash me) then True
     else if my_dest_hash_serial me \<noteq> '''' \<and> clean = nhash (my_dest_hash_serial me) then True
     else if my_ident_hex me \<noteq> '''' \<and> clean = nhash (my_ident_hex me) then True
     else my_ident_hex_serial me \<noteq> '''' \<and> clean = nhash (my_ident_hex_serial me))"

section \<open>Link keys\<close>

text \<open>A link is filed under \<open>peer:transport\<close>.\<close>

definition normalize_transport :: "string \<Rightarrow> string" where
  "normalize_transport via = (let v = py_lower (py_strip (py_or via ''lan'')) in
     if v = ''serial'' \<or> v = ''usb'' then ''serial'' else ''lan'')"

definition link_map_key :: "peer_maps \<Rightarrow> string \<Rightarrow> string \<Rightarrow> string" where
  "link_map_key m peer_hash transport = (let peer = dest_hash_for m peer_hash in
     if peer = '''' \<or> peer = ''unknown'' then ''''
     else if transport \<noteq> '''' then peer @ '':'' @ normalize_transport transport
     else peer)"

text \<open>\<open>text.rsplit(":", 1)\<close> of a text that has a colon.\<close>

definition rsplit_colon :: "string \<Rightarrow> string \<times> string" where
  "rsplit_colon s = (rev (tl (dropWhile (\<lambda>c. c \<noteq> CHR '':'') (rev s))),
                     rev (takeWhile (\<lambda>c. c \<noteq> CHR '':'') (rev s)))"

definition peer_from_link_key :: "string \<Rightarrow> string" where
  "peer_from_link_key key = (if CHR '':'' \<in> set key then fst (rsplit_colon key) else key)"

section \<open>Peers the user disconnected\<close>

definition mark_user_disconnected :: "peer_maps \<Rightarrow> string \<Rightarrow> string set \<Rightarrow> string set" where
  "mark_user_disconnected m peer_hash blocked = (let peer = dest_hash_for m peer_hash in
     if peer \<noteq> '''' \<and> peer \<noteq> ''unknown'' then insert peer blocked else blocked)"

definition clear_user_disconnected :: "peer_maps \<Rightarrow> string \<Rightarrow> string set \<Rightarrow> string set" where
  "clear_user_disconnected m peer_hash blocked = (let peer = dest_hash_for m peer_hash in
     if peer = '''' then blocked else {h \<in> blocked. \<not> hashes_equivalent m h peer})"

definition is_user_disconnected :: "peer_maps \<Rightarrow> string \<Rightarrow> string set \<Rightarrow> bool" where
  "is_user_disconnected m peer_hash blocked = (let peer = dest_hash_for m peer_hash in
     peer \<noteq> '''' \<and> (\<exists>h \<in> blocked. hashes_equivalent m peer h))"

section \<open>The tables stay canonical\<close>

text \<open>Every name in the tables is a normalised hash, and what an identity is mapped to is a
  known destination.\<close>

definition maps_ok :: "peer_maps \<Rightarrow> bool" where
  "maps_ok m \<longleftrightarrow>
     (\<forall>(i, d) \<in> set (identity_to_dest m). nhash d = d \<and> d \<noteq> '''' \<and> i \<noteq> ''''
        \<and> map_of (dest_to_identity m) d \<noteq> None)"

text \<open>No hash is used both as an identity and as a destination.\<close>

definition separate :: "peer_maps \<Rightarrow> bool" where
  "separate m \<longleftrightarrow> (\<forall>i \<in> fst ` set (identity_to_dest m). map_of (dest_to_identity m) i = None)"

lemma maps_okD:
  assumes "maps_ok m" "map_of (identity_to_dest m) i = Some d"
  shows "nhash d = d" "d \<noteq> ''''" "map_of (dest_to_identity m) d \<noteq> None"
  using assms by (auto simp: maps_ok_def dest: map_of_SomeD)

lemma no_maps_ok: "maps_ok no_maps"
  by (simp add: maps_ok_def no_maps_def)

lemma register_maps_ok:
  assumes "maps_ok m" shows "maps_ok (register_peer_mapping d i m)"
proof -
  have "map_of (AList.update (nhash d) (nhash i) (dest_to_identity m)) x \<noteq> None"
    if "map_of (dest_to_identity m) x \<noteq> None" for x using that by simp
  with assms show ?thesis
    unfolding maps_ok_def register_peer_mapping_def Let_def
    by (auto dest!: set_update_subset [THEN subsetD] split: prod.splits)
qed

interpretation mapping: step_system
  "\<lambda>(d, i). register_peer_mapping d i" "\<lambda>_. True" maps_ok
  by unfold_locales (auto intro: register_maps_ok)

lemma dest_norm [simp]: "dest_hash_for m (nhash h) = dest_hash_for m h"
  by (simp add: dest_hash_for_def)

lemma dest_normal: "maps_ok m \<Longrightarrow> nhash (dest_hash_for m h) = dest_hash_for m h"
  by (auto simp: dest_hash_for_def Let_def truthy_def orE_def split: option.splits dest: maps_okD(1))

lemma dest_idem:
  assumes "maps_ok m" shows "dest_hash_for m (dest_hash_for m h) = dest_hash_for m h"
proof (cases "map_of (identity_to_dest m) (nhash h)")
  case None
  then show ?thesis by (auto simp: dest_hash_for_def Let_def)
next
  case (Some d)
  with maps_okD [OF assms Some] show ?thesis by (auto simp: dest_hash_for_def Let_def)
qed

lemma dest_empty: "maps_ok m \<Longrightarrow> dest_hash_for m h = '''' \<longleftrightarrow> nhash h = ''''"
  by (auto simp: dest_hash_for_def Let_def)

lemma dest_no_colon: "maps_ok m \<Longrightarrow> CHR '':'' \<notin> set (dest_hash_for m h)"
  by (metis dest_normal normalize_hash_no_colon)

section \<open>When two hashes name the same peer\<close>

lemma equiv_dest: "dest_hash_for m a \<noteq> '''' \<Longrightarrow> dest_hash_for m a = dest_hash_for m b \<Longrightarrow> hashes_equivalent m a b"
  by (simp add: hashes_equivalent_def)

lemma equiv_ne: "hashes_equivalent m a b \<Longrightarrow> dest_hash_for m a \<noteq> '''' \<and> dest_hash_for m b \<noteq> ''''"
  by (auto simp: hashes_equivalent_def Let_def split: if_splits)

text \<open>What the comparison computes, whatever the tables hold.\<close>

lemma equiv_unfold:
  "hashes_equivalent m a b \<longleftrightarrow> dest_hash_for m a \<noteq> '''' \<and> dest_hash_for m b \<noteq> ''''
     \<and> (dest_hash_for m a = dest_hash_for m b
        \<or> map_of (identity_to_dest m) (nhash a) = Some (dest_hash_for m b)
        \<or> map_of (identity_to_dest m) (nhash b) = Some (dest_hash_for m a))"
proof (cases "a = b")
  case True
  then show ?thesis by (auto simp: hashes_equivalent_def alias_of_def Let_def)
next
  case False
  then show ?thesis
    by (auto simp: hashes_equivalent_def alias_of_def Let_def split: option.splits)
qed

lemma equiv_sym: "hashes_equivalent m a b \<longleftrightarrow> hashes_equivalent m b a"
  by (auto simp: equiv_unfold)

lemma separate_dest:
  assumes "maps_ok m" "separate m" "map_of (identity_to_dest m) (nhash a) = Some d"
  shows "dest_hash_for m a = d"
proof -
  have "map_of (dest_to_identity m) (nhash a) = None"
    using assms(2,3) by (force simp: separate_def dest: map_of_SomeD)
  moreover have "nhash a \<noteq> ''''" using assms(1,3) by (force simp: maps_ok_def dest: map_of_SomeD)
  ultimately show ?thesis using assms(3) maps_okD(2) [OF assms(1,3)] by (simp add: dest_hash_for_def)
qed

lemma equiv_separate:
  assumes "maps_ok m" "separate m"
  shows "hashes_equivalent m a b \<longleftrightarrow> dest_hash_for m a \<noteq> '''' \<and> dest_hash_for m a = dest_hash_for m b"
  using separate_dest [OF assms] by (auto simp: equiv_unfold)

text \<open>An interface for the components that compare peers: canonical names and an equivalence
  on them.\<close>

locale peer_naming =
  fixes wf :: "'s \<Rightarrow> bool" and canon :: "'s \<Rightarrow> 'h \<Rightarrow> 'h"
    and same :: "'s \<Rightarrow> 'h \<Rightarrow> 'h \<Rightarrow> bool" and blank :: 'h
  assumes canon_idem: "wf s \<Longrightarrow> canon s (canon s h) = canon s h"
    and same_iff: "wf s \<Longrightarrow> same s a b \<longleftrightarrow> canon s a \<noteq> blank \<and> canon s a = canon s b"
begin

lemma same_refl: "wf s \<Longrightarrow> canon s a \<noteq> blank \<Longrightarrow> same s a a"
  by (simp add: same_iff)

lemma same_trans: "wf s \<Longrightarrow> same s a b \<Longrightarrow> same s b c \<Longrightarrow> same s a c"
  by (auto simp: same_iff)

lemma same_canon:
  "wf s \<Longrightarrow> same s (canon s a) b \<longleftrightarrow> same s a b" "wf s \<Longrightarrow> same s a (canon s b) \<longleftrightarrow> same s a b"
  by (simp_all add: same_iff canon_idem)

lemma same_blocked: "wf s \<Longrightarrow> same s a b \<Longrightarrow>
    (\<exists>h \<in> S. same s (canon s a) h) \<longleftrightarrow> (\<exists>h \<in> S. same s (canon s b) h)"
  by (auto simp: same_iff canon_idem)

end

definition wf_maps :: "peer_maps \<Rightarrow> bool" where
  "wf_maps m \<longleftrightarrow> maps_ok m \<and> separate m"

interpretation naming: peer_naming wf_maps dest_hash_for hashes_equivalent "''''"
  by unfold_locales (auto simp: wf_maps_def dest_idem equiv_separate)

text \<open>The tables after a run of registrations.\<close>

abbreviation learned :: "(string \<times> string) list \<Rightarrow> peer_maps" where
  "learned rs \<equiv> fold (\<lambda>(d, i). register_peer_mapping d i) rs no_maps"

lemma learned_ok: "maps_ok (learned rs)"
  by (rule mapping.run_inv) (simp_all add: no_maps_ok)

text \<open>No normalised identity among the pairs is the normalised destination of another: this
  is what truncated hashes of different preimages give.\<close>

definition roles_disjoint :: "(string \<times> string) list \<Rightarrow> bool" where
  "roles_disjoint rs \<longleftrightarrow> list_all (\<lambda>(_, i). list_all (\<lambda>(d, _). nhash i \<noteq> nhash d) rs) rs"

lemma register_keys:
  "fst ` set (identity_to_dest (register_peer_mapping d i m)) \<subseteq> insert (nhash i) (fst ` set (identity_to_dest m))"
  "map_of (dest_to_identity (register_peer_mapping d i m)) x \<noteq> None \<Longrightarrow> x = nhash d \<or> map_of (dest_to_identity m) x \<noteq> None"
  by (auto simp: register_peer_mapping_def Let_def split: if_splits dest: set_update_subset [THEN subsetD])

lemma learned_keys:
  "fst ` set (identity_to_dest (fold (\<lambda>(d, i). register_peer_mapping d i) rs m))
     \<subseteq> (\<lambda>(_, i). nhash i) ` set rs \<union> fst ` set (identity_to_dest m)"
  "map_of (dest_to_identity (fold (\<lambda>(d, i). register_peer_mapping d i) rs m)) x \<noteq> None
     \<Longrightarrow> x \<in> (\<lambda>(d, _). nhash d) ` set rs \<or> map_of (dest_to_identity m) x \<noteq> None"
proof (induction rs arbitrary: m)
  case (Cons r rs)
  obtain d i where r: "r = (d, i)" by force
  { case 1 show ?case using Cons.IH(1) [of "register_peer_mapping d i m"] register_keys(1) [of d i m]
      by (auto simp: r) }
  { case 2 then show ?case using Cons.IH(2) [of "register_peer_mapping d i m"] register_keys(2) [of d i m x]
      by (auto simp: r) }
qed auto

lemma learned_separate: "roles_disjoint rs \<Longrightarrow> separate (learned rs)"
proof -
  assume disj: "roles_disjoint rs"
  have "map_of (dest_to_identity (learned rs)) i = None" if i: "i \<in> fst ` set (identity_to_dest (learned rs))" for i
  proof (rule ccontr)
    assume "map_of (dest_to_identity (learned rs)) i \<noteq> None"
    then obtain d j where "(d, j) \<in> set rs" "i = nhash d"
      using learned_keys(2) [of rs no_maps i] by (auto simp: no_maps_def)
    moreover obtain d' j' where "(d', j') \<in> set rs" "i = nhash j'"
      using i learned_keys(1) [of rs no_maps] by (auto simp: no_maps_def)
    ultimately show False using disj by (force simp: roles_disjoint_def list_all_iff)
  qed
  then show ?thesis by (simp add: separate_def)
qed

lemma roles_disjoint_prefix: "roles_disjoint (rs @ qs) \<Longrightarrow> roles_disjoint rs"
  unfolding roles_disjoint_def list_all_iff by fastforce

lemma learned_wf: "roles_disjoint rs \<Longrightarrow> wf_maps (learned rs)"
  by (simp add: wf_maps_def learned_ok learned_separate)

section \<open>The tables refine a list of claims\<close>

text \<open>The abstract view: the destination of a hash is the one of the last accepted pair that
  names it as the identity, and otherwise the hash itself.\<close>

definition accepted :: "string \<times> string \<Rightarrow> bool" where
  "accepted r \<longleftrightarrow> nhash (fst r) \<noteq> '''' \<and> nhash (snd r) \<noteq> '''' \<and> nhash (snd r) \<noteq> nhash (fst r)"

definition owner :: "(string \<times> string) list \<Rightarrow> string \<Rightarrow> string" where
  "owner rs h = (case find (\<lambda>r. accepted r \<and> nhash (snd r) = h) (rev rs) of
     Some r \<Rightarrow> nhash (fst r) | None \<Rightarrow> h)"

lemma register_accepted:
  "register_peer_mapping d i m = (if accepted (d, i)
     then m\<lparr>identity_to_dest := AList.update (nhash i) (nhash d) (identity_to_dest m),
            dest_to_identity := AList.update (nhash d) (nhash i) (dest_to_identity m)\<rparr> else m)"
  by (auto simp: register_peer_mapping_def accepted_def Let_def)

lemma owner_snoc: "owner (rs @ [r]) h = (if accepted r \<and> nhash (snd r) = h then nhash (fst r) else owner rs h)"
  by (simp add: owner_def)

lemma learned_identity: "orE (map_of (identity_to_dest (learned rs)) h) = (if owner rs h = h then '''' else owner rs h)"
proof (induction rs rule: rev_induct)
  case Nil
  show ?case by (simp add: owner_def no_maps_def)
next
  case (snoc r rs)
  then show ?case
    by (cases r) (auto simp: register_accepted owner_snoc accepted_def)
qed

lemma owner_norm: "h = nhash h \<Longrightarrow> nhash (owner rs h) = owner rs h"
  by (auto simp: owner_def split: option.splits)

lemma owner_ne [simp]: "owner rs h = [] \<longleftrightarrow> h = []"
proof (induction rs rule: rev_induct)
  case Nil
  show ?case by (simp add: owner_def)
next
  case (snoc r rs)
  then show ?case by (auto simp: owner_snoc accepted_def)
qed

lemma owner_Nil [simp]: "owner rs [] = []"
  by simp

lemma unmapped_owner: "map_of (identity_to_dest (learned rs)) h = None \<Longrightarrow> owner rs h = h"
  using learned_identity [of rs h] by (metis orE_simps(1) owner_ne)

lemma owner_source: "owner rs h = h \<or> (\<exists>r \<in> set rs. owner rs h = nhash (fst r))"
proof (induction rs rule: rev_induct)
  case Nil
  show ?case by (simp add: owner_def)
next
  case (snoc r rs)
  then show ?case by (auto simp: owner_snoc)
qed

lemma dest_owner:
  assumes "roles_disjoint rs" shows "dest_hash_for (learned rs) h = owner rs (nhash h)"
proof (cases "map_of (dest_to_identity (learned rs)) (nhash h)")
  case None
  then show ?thesis by (auto simp: dest_hash_for_def Let_def learned_identity)
next
  case (Some j)
  then have "map_of (identity_to_dest (learned rs)) (nhash h) = None"
    using learned_separate [OF assms] by (metis separate_def map_of_eq_None_iff option.distinct(1))
  then have "owner rs (nhash h) = nhash h" by (rule unmapped_owner)
  with Some show ?thesis by (auto simp: dest_hash_for_def Let_def)
qed

section \<open>Properties\<close>



text \<open>Without the separation of roles the comparison is not transitive: a hash that is an
  identity of one peer and the destination of another connects both.\<close>

lemma equivalence_not_transitive:
  "hashes_equivalent (learned [(''a'', ''b''), (''b'', ''c'')]) ''c'' ''b''
   \<and> hashes_equivalent (learned [(''a'', ''b''), (''b'', ''c'')]) ''b'' ''a''
   \<and> \<not> hashes_equivalent (learned [(''a'', ''b''), (''b'', ''c'')]) ''c'' ''a''"
  by code_simp

lemma register_same_identity: "nhash j \<noteq> nhash i \<Longrightarrow>
    map_of (identity_to_dest (register_peer_mapping e j m)) (nhash i) = map_of (identity_to_dest m) (nhash i)"
  by (simp add: register_accepted)

lemma register_keeps_dest: "map_of (dest_to_identity m) x \<noteq> None \<Longrightarrow>
    map_of (dest_to_identity (register_peer_mapping e j m)) x \<noteq> None"
  unfolding register_accepted by auto

lemma later_registrations:
  assumes "\<forall>(e, j) \<in> set rs. nhash j \<noteq> nhash i"
  shows "map_of (identity_to_dest (fold (\<lambda>(d, i). register_peer_mapping d i) rs m)) (nhash i) = map_of (identity_to_dest m) (nhash i)"
    and "map_of (dest_to_identity m) x \<noteq> None \<Longrightarrow>
      map_of (dest_to_identity (fold (\<lambda>(d, i). register_peer_mapping d i) rs m)) x \<noteq> None"
  using assms
proof (induction rs arbitrary: m)
  case (Cons r rs)
  { case 1 with Cons.IH(1) show ?case by (cases r) (simp add: register_same_identity) }
  { case 2 then have "map_of (dest_to_identity ((\<lambda>(d, i). register_peer_mapping d i) r m)) x \<noteq> None"
      unfolding case_prod_beta using register_keeps_dest by blast
    then show ?case using Cons.IH(2) 2 by simp }
qed simp_all

text \<open>In whatever state the tables are, a registered identity and its destination are the
  same peer, and stay so through all later registrations that do not name that identity.\<close>

theorem registration_holds:
  assumes "accepted (d, i)" and "\<forall>(e, j) \<in> set rs. nhash j \<noteq> nhash i"
  shows "hashes_equivalent (fold (\<lambda>(d, i). register_peer_mapping d i) rs (register_peer_mapping d i m)) d i"
proof -
  define m' where "m' = register_peer_mapping d i m"
  define n where "n = fold (\<lambda>(d, i). register_peer_mapping d i) rs m'"
  have i2d: "map_of (identity_to_dest n) (nhash i) = Some (nhash d)"
    using later_registrations(1) [OF assms(2)] assms(1) by (simp add: n_def m'_def register_accepted)
  have "map_of (dest_to_identity m') (nhash d) \<noteq> None" using assms(1) by (simp add: m'_def register_accepted)
  then have d2i: "map_of (dest_to_identity n) (nhash d) \<noteq> None"
    using later_registrations(2) [OF assms(2)] unfolding n_def by blast
  have dd: "dest_hash_for n d = nhash d" using d2i by (auto simp: dest_hash_for_def Let_def)
  have "hashes_equivalent n d i"
    using assms(1) i2d dd by (auto simp: equiv_unfold accepted_def dest_hash_for_def Let_def)
  then show ?thesis by (simp add: n_def m'_def)
qed

lemma registration_holds_witness:
  "hashes_equivalent (fold (\<lambda>(d, i). register_peer_mapping d i) [(''e'', ''j''), (''i'', ''k'')]
      (register_peer_mapping ''d'' ''i'' no_maps)) ''d'' ''i''"
proof (rule registration_holds)
  show "accepted (''d'', ''i'')" by code_simp
  show "\<forall>(e, j) \<in> set [(''e'', ''j''), (''i'', ''k'')]. nhash j \<noteq> nhash ''i''" by code_simp
qed


lemma is_disconnected_iff: "wf_maps m \<Longrightarrow> is_user_disconnected m c S \<longleftrightarrow>
    dest_hash_for m c \<noteq> '''' \<and> (\<exists>h \<in> S. dest_hash_for m c = dest_hash_for m h)"
  by (auto simp: is_user_disconnected_def Let_def naming.same_iff naming.canon_idem)

lemma clear_disconnected_set: "wf_maps m \<Longrightarrow> dest_hash_for m a \<noteq> '''' \<Longrightarrow>
    clear_user_disconnected m a S = {h \<in> S. dest_hash_for m h \<noteq> dest_hash_for m a}"
  by (auto simp: clear_user_disconnected_def Let_def naming.same_iff naming.canon_idem)

lemma owner_extend:
  assumes dj: "roles_disjoint (rs @ [r])" and new: "owner rs (nhash (snd r)) = nhash (snd r)"
    and o: "owner rs x = owner rs y"
  shows "owner (rs @ [r]) x = owner (rs @ [r]) y"
proof (cases "x = nhash (snd r) \<or> y = nhash (snd r)")
  case True
  have far: "nhash (snd r) \<noteq> nhash (fst q)" if "q \<in> set rs" for q
    using dj that by (auto simp: roles_disjoint_def list_all_iff)
  have only: "owner rs z = nhash (snd r) \<Longrightarrow> z = nhash (snd r)" for z
    using owner_source [of rs z] far by metis
  from True have "owner rs x = nhash (snd r) \<and> owner rs y = nhash (snd r)"
    using o new by metis
  with only [of x] only [of y] have "x = y" by blast
  then show ?thesis by simp
next
  case False
  then have "nhash (snd r) \<noteq> x" "nhash (snd r) \<noteq> y" by blast+
  then show ?thesis using o unfolding owner_snoc by presburger
qed

lemma learning_keeps_names:
  assumes dj: "roles_disjoint (rs @ [(d, i)])" and new: "map_of (identity_to_dest (learned rs)) (nhash i) = None"
    and same: "dest_hash_for (learned rs) c = dest_hash_for (learned rs) h"
  shows "dest_hash_for (learned (rs @ [(d, i)])) c = dest_hash_for (learned (rs @ [(d, i)])) h"
proof -
  note old = dest_owner [OF roles_disjoint_prefix [OF dj]]
  have "owner rs (nhash c) = owner rs (nhash h)" using same by (simp only: old)
  from owner_extend [OF dj _ this] have "owner (rs @ [(d, i)]) (nhash c) = owner (rs @ [(d, i)]) (nhash h)"
    using unmapped_owner [OF new] by simp
  then show ?thesis by (simp only: dest_owner [OF dj])
qed

text \<open>What the user disconnected is remembered per peer: after a disconnect every name
  of the peer counts as disconnected until the mark is cleared under any of its names, and
  clearing it touches no other peer.\<close>

theorem disconnect_remembered:
  assumes "roles_disjoint rs" and "hashes_equivalent (learned rs) a b"
    and "dest_hash_for (learned rs) a \<noteq> ''unknown''" and "\<not> hashes_equivalent (learned rs) a c"
  shows "is_user_disconnected (learned rs) b (mark_user_disconnected (learned rs) a S)
    \<and> \<not> is_user_disconnected (learned rs) b (clear_user_disconnected (learned rs) a S)
    \<and> is_user_disconnected (learned rs) c (clear_user_disconnected (learned rs) a S) = is_user_disconnected (learned rs) c S"
proof -
  define m where "m = learned rs"
  have wf: "wf_maps m" unfolding m_def by (rule learned_wf [OF assms(1)])
  have a: "dest_hash_for m a \<noteq> ''''" and b: "dest_hash_for m b = dest_hash_for m a"
    and u: "dest_hash_for m a \<noteq> ''unknown''" and c: "dest_hash_for m c \<noteq> dest_hash_for m a"
    using assms(2-4) unfolding m_def [symmetric] naming.same_iff [OF wf] by auto
  have "is_user_disconnected m b (mark_user_disconnected m a S)"
    unfolding is_disconnected_iff [OF wf] mark_user_disconnected_def Let_def
    using a b u by (simp add: naming.canon_idem [OF wf])
  moreover have "\<not> is_user_disconnected m b (clear_user_disconnected m a S)"
    unfolding is_disconnected_iff [OF wf] clear_disconnected_set [OF wf a] using b by auto
  moreover have "is_user_disconnected m c (clear_user_disconnected m a S) = is_user_disconnected m c S"
    unfolding is_disconnected_iff [OF wf] clear_disconnected_set [OF wf a] using c by auto
  ultimately show ?thesis unfolding m_def by blast
qed

lemma disconnect_remembered_witness:
  "is_user_disconnected (learned [(''d'', ''i''), (''e'', ''j'')]) ''i'' (mark_user_disconnected (learned [(''d'', ''i''), (''e'', ''j'')]) ''d'' {''e''})
    \<and> is_user_disconnected (learned [(''d'', ''i''), (''e'', ''j'')]) ''j'' (clear_user_disconnected (learned [(''d'', ''i''), (''e'', ''j'')]) ''d'' {''e''})"
proof -
  let ?rs = "[(''d'', ''i''), (''e'', ''j'')]"
  have "roles_disjoint ?rs" "hashes_equivalent (learned ?rs) ''d'' ''i''"
    "dest_hash_for (learned ?rs) ''d'' \<noteq> ''unknown''" "\<not> hashes_equivalent (learned ?rs) ''d'' ''j''"
    by code_simp+
  note p = disconnect_remembered [OF this, of "{''e''}"]
  have "is_user_disconnected (learned ?rs) ''j'' {''e''}" by code_simp
  with p show ?thesis by blast
qed

text \<open>A peer that was disconnected under its identity hash stays disconnected when its
  destination is learned later.\<close>

theorem disconnect_survives_learning:
  assumes "roles_disjoint (rs @ [(d, i)])" and "map_of (identity_to_dest (learned rs)) (nhash i) = None"
    and "is_user_disconnected (learned rs) c S"
  shows "is_user_disconnected (learned (rs @ [(d, i)])) c S"
proof -
  have wf: "wf_maps (learned rs)" by (rule learned_wf [OF roles_disjoint_prefix [OF assms(1)]])
  obtain h where "h \<in> S" "dest_hash_for (learned rs) c = dest_hash_for (learned rs) h" "dest_hash_for (learned rs) c \<noteq> ''''"
    using assms(3) unfolding is_disconnected_iff [OF wf] by blast
  moreover have "dest_hash_for (learned (rs @ [(d, i)])) c \<noteq> ''''"
    using calculation(3) unfolding dest_empty [OF learned_ok] .
  ultimately show ?thesis
    using learning_keeps_names [OF assms(1,2), of c h] is_disconnected_iff [OF learned_wf [OF assms(1)], of c S] by blast
qed

lemma disconnect_survives_learning_witness:
  "is_user_disconnected (learned ([(''e'', ''j'')] @ [(''d'', ''i'')])) ''i'' {''i''}"
  by (rule disconnect_survives_learning) code_simp+

section \<open>Link keys\<close>

lemma rsplit_colon_key: "CHR '':'' \<notin> set t \<Longrightarrow> rsplit_colon (p @ '':'' @ t) = (p, t)"
proof -
  assume t: "CHR '':'' \<notin> set t"
  then have "dropWhile (\<lambda>c. c \<noteq> CHR '':'') (rev t @ CHR '':'' # rev p) = CHR '':'' # rev p"
    "takeWhile (\<lambda>c. c \<noteq> CHR '':'') (rev t @ CHR '':'' # rev p) = rev t"
    by (subst dropWhile_append2, auto, subst takeWhile_append2, auto)
  then show ?thesis by (simp add: rsplit_colon_def)
qed

lemma transport_cases: "normalize_transport t = ''serial'' \<or> normalize_transport t = ''lan''"
  by (simp add: normalize_transport_def Let_def)

lemma link_map_key_parts:
  assumes "dest_hash_for m h \<noteq> ''''" "dest_hash_for m h \<noteq> ''unknown''" "t \<noteq> ''''"
  shows "rsplit_colon (link_map_key m h t) = (dest_hash_for m h, normalize_transport t)"
  using assms transport_cases [of t] rsplit_colon_key [of "normalize_transport t" "dest_hash_for m h"]
  by (auto simp: link_map_key_def Let_def)

text \<open>A link key gives back the peer it was made from, and two keys are equal exactly
  when they are made from the same peer and the same transport: links of one peer over USB
  and over LAN never share a slot.\<close>

theorem link_key_roundtrip:
  assumes "dest_hash_for m g \<noteq> ''''" "dest_hash_for m g \<noteq> ''unknown''" "t \<noteq> ''''"
    and "dest_hash_for m h \<noteq> ''''" "dest_hash_for m h \<noteq> ''unknown''" "u \<noteq> ''''"
  shows "peer_from_link_key (link_map_key m g t) = dest_hash_for m g
    \<and> (link_map_key m g t = link_map_key m h u
        \<longleftrightarrow> dest_hash_for m g = dest_hash_for m h \<and> normalize_transport t = normalize_transport u)"
proof -
  have kg: "link_map_key m g t = dest_hash_for m g @ '':'' @ normalize_transport t"
    using assms(1-3) by (simp add: link_map_key_def Let_def)
  have kh: "link_map_key m h u = dest_hash_for m h @ '':'' @ normalize_transport u"
    using assms(4-6) by (simp add: link_map_key_def Let_def)
  have "CHR '':'' \<in> set (link_map_key m g t)" by (simp add: kg)
  then have "peer_from_link_key (link_map_key m g t) = dest_hash_for m g"
    by (simp add: peer_from_link_key_def link_map_key_parts [OF assms(1-3)])
  moreover have "link_map_key m g t = link_map_key m h u
      \<longleftrightarrow> dest_hash_for m g = dest_hash_for m h \<and> normalize_transport t = normalize_transport u"
    using link_map_key_parts [OF assms(1-3)] link_map_key_parts [OF assms(4-6)] kg kh by (metis prod.inject)
  ultimately show ?thesis by blast
qed

lemma link_key_roundtrip_witness:
  "peer_from_link_key (link_map_key no_maps ''ab'' ''usb'') = ''ab''
    \<and> link_map_key no_maps ''ab'' ''usb'' = link_map_key no_maps ''AB'' '' Serial''"
proof -
  have d: "dest_hash_for no_maps ''ab'' = dest_hash_for no_maps ''AB''"
    "normalize_transport ''usb'' = normalize_transport '' Serial''" "dest_hash_for no_maps ''ab'' = ''ab''"
    by code_simp+
  have "dest_hash_for no_maps ''ab'' \<noteq> ''''" "dest_hash_for no_maps ''ab'' \<noteq> ''unknown''" "''usb'' \<noteq> ''''"
    "dest_hash_for no_maps ''AB'' \<noteq> ''''" "dest_hash_for no_maps ''AB'' \<noteq> ''unknown''" "'' Serial'' \<noteq> ''''"
    by code_simp+
  from link_key_roundtrip [OF this] d show ?thesis by metis
qed

end
