(* ===== verification/Messages.thy ===== *)
theory Messages
  imports Json PeerHashes
begin

text \<open>
  The wire format of a chat message (\<open>ChatMessage\<close> in \<open>core/messaging.py\<close>).  The fields hold
  whatever JSON value came over the link; \<open>to_dict\<close> leaves out the ones that are false in
  Python's sense, \<open>from_dict\<close> fills in defaults.  The clock and the fresh message id are
  arguments.
\<close>

definition message_type_text :: string where
  "message_type_text = ''text''"

record chat_message =
  m_type :: json
  m_content :: json
  m_sender :: json
  m_timestamp :: json
  m_file_name :: json
  m_file_size :: json
  m_msg_id :: json
  m_hub_group :: bool

text \<open>\<open>x or y\<close>, and \<open>d.get(key, default)\<close>.\<close>

definition json_or :: "json \<Rightarrow> json \<Rightarrow> json" where
  "json_or a b = (if json_truthy a then a else b)"

definition jget_or :: "(string \<times> json) list \<Rightarrow> string \<Rightarrow> json \<Rightarrow> json" where
  "jget_or d key dflt = (case map_of d key of None \<Rightarrow> dflt | Some v \<Rightarrow> v)"

definition new_message :: "json \<Rightarrow> string \<Rightarrow> json \<Rightarrow> json \<Rightarrow> json \<Rightarrow> json \<Rightarrow> json \<Rightarrow> json \<Rightarrow> json \<Rightarrow> chat_message" where
  "new_message now fresh msg_type content sender timestamp file_name file_size msg_id =
     \<lparr>m_type = msg_type, m_content = content, m_sender = sender, m_timestamp = json_or timestamp now,
      m_file_name = file_name, m_file_size = file_size, m_msg_id = json_or msg_id (JStr (take 12 fresh)),
      m_hub_group = False\<rparr>"

definition to_dict :: "chat_message \<Rightarrow> (string \<times> json) list" where
  "to_dict m = (let
     d = [(''type'', m_type m), (''content'', m_content m), (''timestamp'', m_timestamp m), (''msg_id'', m_msg_id m)];
     d = (if json_truthy (m_sender m) then d @ [(''sender'', m_sender m)] else d);
     d = (if json_truthy (m_file_name m) then d @ [(''file_name'', m_file_name m)] else d);
     d = (if json_truthy (m_file_size m) then d @ [(''file_size'', m_file_size m)] else d)
     in if m_hub_group m then d @ [(''hub'', JBool True)] else d)"

definition from_dict :: "json \<Rightarrow> string \<Rightarrow> (string \<times> json) list \<Rightarrow> chat_message" where
  "from_dict now fresh d = (let
     m = new_message now fresh (jget_or d ''type'' (JStr message_type_text)) (jget_or d ''content'' (JStr ''''))
           (jget d ''sender'') (jget_or d ''timestamp'' now) (jget d ''file_name'') (jget d ''file_size'') (jget d ''msg_id'')
     in m\<lparr>m_hub_group := json_truthy (jget d ''hub'')\<rparr>)"

section \<open>Round trips\<close>

text \<open>What a message is after a round trip: the optional fields that were false are gone.\<close>

definition json_or_null :: "json \<Rightarrow> json" where
  "json_or_null v = json_or v JNull"

definition tidy :: "chat_message \<Rightarrow> chat_message" where
  "tidy m = m\<lparr>m_sender := json_or_null (m_sender m), m_file_name := json_or_null (m_file_name m),
     m_file_size := json_or_null (m_file_size m)\<rparr>"

lemma json_or_idem [simp]: "json_or_null (json_or_null v) = json_or_null v"
  by (simp add: json_or_null_def json_or_def)

lemma to_dict_fields:
  "map_of (to_dict m) ''type'' = Some (m_type m)" "map_of (to_dict m) ''content'' = Some (m_content m)"
  "map_of (to_dict m) ''timestamp'' = Some (m_timestamp m)" "map_of (to_dict m) ''msg_id'' = Some (m_msg_id m)"
  "jget (to_dict m) ''sender'' = json_or_null (m_sender m)"
  "jget (to_dict m) ''file_name'' = json_or_null (m_file_name m)"
  "jget (to_dict m) ''file_size'' = json_or_null (m_file_size m)"
  "json_truthy (jget (to_dict m) ''hub'') = m_hub_group m"
  by (simp_all add: to_dict_def json_or_null_def json_or_def jget_def Let_def)

interpretation tidy: normaliser tidy
  by unfold_locales (simp add: tidy_def)

lemma from_to_dict:
  assumes "json_truthy (m_timestamp m)" and "json_truthy (m_msg_id m)"
  shows "from_dict now fresh (to_dict m) = tidy m"
  using assms
  by (simp add: from_dict_def new_message_def jget_or_def to_dict_fields tidy_def json_or_def Let_def
      jget_def [of _ "''msg_id''"])

lemma to_dict_tidy [simp]: "to_dict (tidy m) = to_dict m"
  by (simp add: to_dict_def tidy_def json_or_null_def json_or_def Let_def)

text \<open>A message that went over the wire is the message that was sent, with the time
  stamp and id the sender gave it and its false optional fields absent; sending it on again
  changes nothing more.\<close>

theorem message_roundtrip:
  assumes "json_truthy (m_timestamp m)" and "json_truthy (m_msg_id m)"
  shows "from_dict now fresh (to_dict m) = tidy m \<and> to_dict (from_dict now fresh (to_dict m)) = to_dict m"
  using from_to_dict [OF assms] by simp

definition sample_message :: chat_message where
  "sample_message = (new_message (JInt 7) ''0123456789abcdef'' (JStr ''file'') (JStr ''x'') JNull JNull (JStr ''a.txt'') (JInt 0) JNull)"

lemma message_roundtrip_witness:
  "from_dict JNull '''' (to_dict sample_message) = sample_message\<lparr>m_file_size := JNull\<rparr>"
proof -
  have t: "json_truthy (m_timestamp sample_message)" "json_truthy (m_msg_id sample_message)" by code_simp+
  have "tidy sample_message = sample_message\<lparr>m_file_size := JNull\<rparr>" by code_simp
  then show ?thesis using message_roundtrip [OF t] by simp
qed

text \<open>Every incoming object becomes a message with a time stamp and an id, whatever fields
  it lacks, provided the clock and the fresh id are there; a message without them gets the
  local ones.\<close>

theorem received_message_complete:
  assumes "json_truthy now" and "fresh \<noteq> ''''"
  shows "json_truthy (m_timestamp (from_dict now fresh d)) \<and> json_truthy (m_msg_id (from_dict now fresh d))
    \<and> from_dict now fresh (to_dict (from_dict now fresh d)) = tidy (from_dict now fresh d)"
proof -
  have t: "json_truthy (m_timestamp (from_dict now fresh d))" "json_truthy (m_msg_id (from_dict now fresh d))"
    using assms by (auto simp: from_dict_def new_message_def json_or_def Let_def)
  then show ?thesis using from_to_dict [OF t] by blast
qed

lemma received_message_complete_witness:
  "m_msg_id (from_dict (JInt 7) ''0123456789abcdef'' [(''content'', JStr ''hi'')]) = JStr ''0123456789ab''
    \<and> json_truthy (m_timestamp (from_dict (JInt 7) ''0123456789abcdef'' [(''content'', JStr ''hi'')]))"
  using received_message_complete [of "JInt 7" "''0123456789abcdef''" "[(''content'', JStr ''hi'')]"]
  by (simp add: from_dict_def new_message_def json_or_def)

end
