(* ===== verification/InterfaceConfig.thy ===== *)
theory InterfaceConfig
  imports Json
begin

text \<open>
  The list of Reticulum interfaces in \<open>settings.json\<close> (\<open>core/rns_interfaces.py\<close>): presets,
  the normal form every reader goes through, the edits the settings page makes, and what
  the rest of the program asks of the list.  An interface is a dict of JSON values.  The
  state of the serial devices, the platform and the random ids are in the environment.
  Fields the code calls \<open>strip\<close> on are strings, absent or null, as the settings page writes
  them; an edit raises \<open>ValueError\<close> (\<open>Inl\<close>) where the code does.
\<close>

type_synonym iface_dict = "(string \<times> json) list"

record iface_env =
  ic_android :: bool
  ic_status :: "string \<Rightarrow> string"            \<comment> \<open>\<open>serial_port_status\<close>\<close>
  ic_fresh :: "nat \<Rightarrow> string"               \<comment> \<open>the ids \<open>_new_id\<close> gives the items of a list\<close>
  ic_ports :: "(string \<times> bool) list"        \<comment> \<open>\<open>list_serial_ports\<close>: device, accessible\<close>

text \<open>\<open>(d.get(key) or "").strip()\<close>, and \<open>d.get(key, default)\<close>.\<close>

definition jtext :: "json \<Rightarrow> string" where
  "jtext v = (case v of JStr s \<Rightarrow> py_strip s | _ \<Rightarrow> '''')"

definition jget_def_to :: "json \<Rightarrow> iface_dict \<Rightarrow> string \<Rightarrow> json" where
  "jget_def_to dflt d key = (case map_of d key of None \<Rightarrow> dflt | Some v \<Rightarrow> v)"

abbreviation has :: "iface_dict \<Rightarrow> string \<Rightarrow> string \<Rightarrow> bool" where
  "has d key s \<equiv> jget d key = JStr s"

text \<open>\<open>{**base, **item}\<close> and \<open>d.setdefault(key, v)\<close>.\<close>

definition dict_merge :: "iface_dict \<Rightarrow> iface_dict \<Rightarrow> iface_dict" where
  "dict_merge base item =
     map (\<lambda>(k, v). (k, case map_of item k of None \<Rightarrow> v | Some w \<Rightarrow> w)) base
     @ filter (\<lambda>(k, _). map_of base k = None) item"

definition set_default :: "string \<Rightarrow> json \<Rightarrow> iface_dict \<Rightarrow> iface_dict" where
  "set_default k v d = (if map_of d k = None then AList.update k v d else d)"

section \<open>Presets\<close>

record preset =
  pr_label :: string
  pr_type :: string
  pr_defaults :: iface_dict

definition interface_presets :: "(string \<times> preset) list" where
  "interface_presets = [
     (''udp_lan'', \<lparr>pr_label = ''UDP LAN'', pr_type = ''UDPInterface'', pr_defaults =
        [(''enabled'', JBool True), (''listen_ip'', JStr ''0.0.0.0''), (''listen_port'', JInt 4242),
         (''forward_ip'', JStr ''255.255.255.255''), (''forward_port'', JInt 4242), (''ifac_size'', JInt 16)]\<rparr>),
     (''tcp_lan'', \<lparr>pr_label = ''TCP LAN'', pr_type = ''TCPServerInterface'', pr_defaults =
        [(''enabled'', JBool True), (''listen_ip'', JStr ''0.0.0.0''), (''listen_port'', JInt 4242), (''ifac_size'', JInt 16)]\<rparr>),
     (''tcp_client'', \<lparr>pr_label = ''TCP Client'', pr_type = ''TCPClientInterface'', pr_defaults =
        [(''enabled'', JBool True), (''target_host'', JStr ''127.0.0.1''), (''target_port'', JInt 4242), (''ifac_size'', JInt 16)]\<rparr>),
     (''tcp_server'', \<lparr>pr_label = ''TCP Hub Server'', pr_type = ''TCPServerInterface'', pr_defaults =
        [(''enabled'', JBool True), (''listen_ip'', JStr ''0.0.0.0''), (''listen_port'', JInt 4242), (''ifac_size'', JInt 16)]\<rparr>),
     (''serial'', \<lparr>pr_label = ''Serial'', pr_type = ''SerialInterface'', pr_defaults =
        [(''enabled'', JBool False), (''port'', JStr ''''), (''speed'', JInt 57600), (''ifac_size'', JInt 16)]\<rparr>)]"

definition serial_default_baud :: int where
  "serial_default_baud = 57600"

definition desktop_default_interface_list :: "iface_dict list" where
  "desktop_default_interface_list = [[(''id'', JStr ''udp-lan''), (''preset'', JStr ''udp_lan''),
     (''name'', JStr ''UDP Interface''), (''type'', JStr ''UDPInterface''), (''enabled'', JBool True),
     (''listen_ip'', JStr ''0.0.0.0''), (''listen_port'', JInt 4242), (''forward_ip'', JStr ''255.255.255.255''),
     (''forward_port'', JInt 4242), (''ifac_size'', JInt 16)]]"

definition android_default_interface_list :: "iface_dict list" where
  "android_default_interface_list = [[(''id'', JStr ''tcp-lan''), (''preset'', JStr ''tcp_lan''),
     (''name'', JStr ''TCP LAN''), (''type'', JStr ''TCPServerInterface''), (''enabled'', JBool True),
     (''listen_ip'', JStr ''0.0.0.0''), (''listen_port'', JInt 4242), (''ifac_size'', JInt 16)]]"

definition default_interface_list :: "iface_env \<Rightarrow> iface_dict list" where
  "default_interface_list env =
     (if ic_android env then android_default_interface_list else desktop_default_interface_list)"

section \<open>The normal form\<close>

definition is_serial_dict :: "iface_dict \<Rightarrow> bool" where
  "is_serial_dict d \<longleftrightarrow> has d ''preset'' ''serial'' \<or> has d ''type'' ''SerialInterface''"

definition sync_serial_enabled :: "iface_env \<Rightarrow> iface_dict \<Rightarrow> iface_dict" where
  "sync_serial_enabled env d = (
     if \<not> is_serial_dict d then d
     else if json_truthy (jget d ''user_disabled'') then AList.update ''enabled'' (JBool False) d
     else let port = jtext (jget d ''port'') in
       if port = '''' then AList.update ''enabled'' (JBool False) d
       else AList.update ''enabled'' (JBool (ic_status env port = ''ok'')) d)"

text \<open>The preset of an item, and the defaults merged under it.\<close>

definition item_preset :: "iface_dict \<Rightarrow> json" where
  "item_preset d = (if json_truthy (jget d ''preset'') then jget d ''preset'' else JStr ''udp_lan'')"

definition known_preset :: "json \<Rightarrow> preset option" where
  "known_preset key = (case key of JStr s \<Rightarrow> map_of interface_presets s | _ \<Rightarrow> None)"

definition preset_base :: "json \<Rightarrow> iface_dict" where
  "preset_base key = (case known_preset key of Some p \<Rightarrow> pr_defaults p
     | None \<Rightarrow> pr_defaults (snd (hd interface_presets)))"

definition merge_item :: "iface_env \<Rightarrow> nat \<Rightarrow> iface_dict \<Rightarrow> iface_dict" where
  "merge_item env n item = (let
     preset = item_preset item;
     merged = dict_merge (preset_base preset) item;
     merged = set_default ''id'' (JStr (ic_fresh env n)) merged;
     merged = set_default ''preset'' preset merged;
     merged = set_default ''name'' (case known_preset preset of Some p \<Rightarrow> JStr (pr_label p)
                | None \<Rightarrow> jget_def_to (JStr ''Interface'') merged ''type'') merged
     in AList.update ''type'' (case known_preset preset of Some p \<Rightarrow> JStr (pr_type p)
                | None \<Rightarrow> jget_def_to (JStr ''UDPInterface'') merged ''type'') merged)"

definition normalize_item :: "iface_env \<Rightarrow> nat \<Rightarrow> iface_dict \<Rightarrow> iface_dict" where
  "normalize_item env n item = sync_serial_enabled env (merge_item env n item)"

text \<open>The second loop: one UDP interface, one TCP LAN listener, one interface per serial port.\<close>

record dedup =
  seen_serial :: "string list"
  seen_udp :: bool
  seen_tcp_lan :: bool

definition dup_step :: "iface_dict \<Rightarrow> dedup \<Rightarrow> bool \<times> dedup" where
  "dup_step d s = (
     if has d ''type'' ''SerialInterface'' then
       (let port = jtext (jget d ''port'') in
        if port \<noteq> '''' \<and> port \<in> set (seen_serial s) then (False, s)
        else (True, if port \<noteq> '''' then s\<lparr>seen_serial := port # seen_serial s\<rparr> else s))
     else if has d ''type'' ''UDPInterface'' \<or> has d ''preset'' ''udp_lan'' then
       (if seen_udp s then (False, s) else (True, s\<lparr>seen_udp := True\<rparr>))
     else if has d ''preset'' ''tcp_lan'' \<or> (has d ''type'' ''TCPServerInterface'' \<and> \<not> has d ''preset'' ''tcp_server'') then
       (if seen_tcp_lan s then (False, s) else (True, s\<lparr>seen_tcp_lan := True\<rparr>))
     else (True, s))"

fun dedup_list :: "iface_dict list \<Rightarrow> dedup \<Rightarrow> iface_dict list" where
  "dedup_list [] s = []"
| "dedup_list (d # ds) s = (case dup_step d s of (keep, s') \<Rightarrow>
     if keep then d # dedup_list ds s' else dedup_list ds s')"

definition no_dups :: dedup where
  "no_dups = \<lparr>seen_serial = [], seen_udp = False, seen_tcp_lan = False\<rparr>"

definition as_dict :: "json \<Rightarrow> iface_dict option" where
  "as_dict v = (case v of JObj d \<Rightarrow> Some d | _ \<Rightarrow> None)"

definition normalize_interface_list :: "iface_env \<Rightarrow> json list \<Rightarrow> iface_dict list" where
  "normalize_interface_list env items = (
     if items = [] then default_interface_list env
     else let out = map (\<lambda>(n, d). normalize_item env n d) (enumerate 0 (List.map_filter as_dict items)) in
       if out = [] then default_interface_list env else dedup_list out no_dups)"

section \<open>What the program asks of the list\<close>

definition enabled :: "iface_dict \<Rightarrow> bool" where
  "enabled d \<longleftrightarrow> json_truthy (jget_def_to (JBool True) d ''enabled'')"

definition configured_udp_lan_enabled :: "iface_env \<Rightarrow> json list \<Rightarrow> bool" where
  "configured_udp_lan_enabled env items =
     list_ex (\<lambda>d. has d ''type'' ''UDPInterface'' \<and> enabled d) (normalize_interface_list env items)"

definition configured_tcp_lan_enabled :: "iface_env \<Rightarrow> json list \<Rightarrow> bool" where
  "configured_tcp_lan_enabled env items =
     list_ex (\<lambda>d. has d ''preset'' ''tcp_lan'' \<and> enabled d) (normalize_interface_list env items)"

definition lan_discovery_configured :: "iface_env \<Rightarrow> json list \<Rightarrow> bool" where
  "lan_discovery_configured env items \<longleftrightarrow>
     configured_udp_lan_enabled env items \<or> configured_tcp_lan_enabled env items"

definition configured_serial_enabled :: "iface_env \<Rightarrow> json list \<Rightarrow> bool" where
  "configured_serial_enabled env items = list_ex (\<lambda>d. is_serial_dict d
     \<and> \<not> (json_truthy (jget d ''user_disabled'') \<or> jget d ''enabled'' = JBool False)
     \<and> jtext (jget d ''port'') \<noteq> '''') (normalize_interface_list env items)"

definition android_standalone_needs_udp :: "iface_env \<Rightarrow> json list \<Rightarrow> string \<Rightarrow> bool" where
  "android_standalone_needs_udp env interfaces hub_role = (
     if hub_role \<noteq> '''' \<and> hub_role \<noteq> ''off'' then False
     else let items = normalize_interface_list env interfaces in
       if items = [] then True
       else if list_ex (\<lambda>d. has d ''type'' ''UDPInterface'') items then False
       else if list_ex (\<lambda>d. has d ''preset'' ''tcp_lan'') items then False
       else if length items \<noteq> 1 then False
       else if \<not> has (hd items) ''type'' ''TCPClientInterface'' then False
       else py_lower (jtext (jget (hd items) ''target_host'')) \<in> {''127.0.0.1'', ''localhost'', ''''})"

definition serial_runtime_active :: "iface_env \<Rightarrow> iface_dict \<Rightarrow> bool" where
  "serial_runtime_active env d = (
     if \<not> is_serial_dict d then False
     else if json_truthy (jget d ''user_disabled'') \<or> jget d ''enabled'' = JBool False then False
     else let port = jtext (jget d ''port'') in port \<noteq> '''' \<and> ic_status env port = ''ok'')"

text \<open>\<open>int(v)\<close> of a JSON value; \<open>None\<close> stands for the \<open>ValueError\<close> or \<open>TypeError\<close>.\<close>

definition json_int :: "json \<Rightarrow> int option" where
  "json_int v = (case json_val v of None \<Rightarrow> None | Some p \<Rightarrow> py_int_val p)"

definition configured_serial_port :: "iface_env \<Rightarrow> json list \<Rightarrow> (string \<times> int) option" where
  "configured_serial_port env items =
     (case find (\<lambda>d. has d ''type'' ''SerialInterface'' \<and> jtext (jget d ''port'') \<noteq> '''') (normalize_interface_list env items) of
        Some d \<Rightarrow> map_option (\<lambda>speed. (jtext (jget d ''port''), speed))
                   (if json_truthy (jget d ''speed'') then json_int (jget d ''speed'') else Some serial_default_baud)
      | None \<Rightarrow> Some ('''', serial_default_baud))"

section \<open>Edits\<close>

definition pick_default_serial_port :: "iface_env \<Rightarrow> string" where
  "pick_default_serial_port env = (case ic_ports env of [] \<Rightarrow> ''''
     | p # _ \<Rightarrow> (case find snd (ic_ports env) of Some q \<Rightarrow> fst q | None \<Rightarrow> fst p))"

text \<open>\<open>{"id": ..., "preset": ..., "name": ..., **defaults}\<close> for a fresh id and name tag.\<close>

definition preset_entry :: "string \<Rightarrow> string \<Rightarrow> string \<Rightarrow> preset \<Rightarrow> iface_dict" where
  "preset_entry new_id tag key p = [(''id'', JStr new_id), (''preset'', JStr key),
     (''name'', JStr (pr_label p @ '' '' @ tag))] @ pr_defaults p"

definition add_interface :: "iface_env \<Rightarrow> string \<Rightarrow> string \<Rightarrow> json list \<Rightarrow> string \<Rightarrow> py_error + iface_dict list" where
  "add_interface env new_id tag items preset_key = (case map_of interface_presets preset_key of
       None \<Rightarrow> Inl ValueError
     | Some p \<Rightarrow> let items = normalize_interface_list env items in
         if preset_key = ''udp_lan'' \<and> list_ex (\<lambda>d. has d ''preset'' ''udp_lan'' \<or> has d ''type'' ''UDPInterface'') items
         then Inr items
         else if preset_key = ''tcp_lan'' \<and> list_ex (\<lambda>d. has d ''preset'' ''tcp_lan'') items then Inr items
         else let entry = preset_entry new_id tag preset_key p;
                  entry = (if preset_key = ''serial''
                    then sync_serial_enabled env (AList.update ''speed'' (JInt serial_default_baud)
                           (AList.update ''port'' (JStr (pick_default_serial_port env)) entry))
                    else entry)
              in Inr (items @ [entry]))"

text \<open>The interfaces \<open>set_primary_lan_transport\<close> keeps.\<close>

definition keeps_beside_lan :: "iface_dict \<Rightarrow> bool" where
  "keeps_beside_lan d = (
     if has d ''preset'' ''udp_lan'' \<or> has d ''preset'' ''tcp_lan'' then False
     else if has d ''type'' ''UDPInterface'' then False
     else if has d ''preset'' ''tcp_server'' then True
     else \<not> has d ''type'' ''TCPServerInterface'')"

definition set_primary_lan_transport :: "iface_env \<Rightarrow> string \<Rightarrow> string \<Rightarrow> json list \<Rightarrow> string \<Rightarrow> iface_dict list" where
  "set_primary_lan_transport env new_id tag interfaces preset_key = (
     if preset_key \<notin> {''udp_lan'', ''tcp_lan''} then normalize_interface_list env interfaces
     else let kept = filter keeps_beside_lan (normalize_interface_list env interfaces) in
       if list_ex (\<lambda>d. has d ''preset'' preset_key) kept then kept
       else case map_of interface_presets preset_key of None \<Rightarrow> kept
       | Some p \<Rightarrow> normalize_interface_list env (map JObj (kept @ [preset_entry new_id tag preset_key p])))"

definition delete_interface :: "iface_env \<Rightarrow> json list \<Rightarrow> string \<Rightarrow> iface_dict list" where
  "delete_interface env items iface_id =
     filter (\<lambda>d. jget d ''id'' \<noteq> JStr iface_id) (normalize_interface_list env items)"

text \<open>\<open>if key in updates and updates[key]: updated[key] = str(updates[key]).strip()\<close>, and the
  same for numbers, where \<open>int\<close> may fail.\<close>

definition put_text :: "iface_dict \<Rightarrow> string \<Rightarrow> iface_dict \<Rightarrow> iface_dict" where
  "put_text updates key d = (if json_truthy (jget updates key)
     then AList.update key (JStr (jtext (jget updates key))) d else d)"

definition put_int :: "iface_dict \<Rightarrow> string \<Rightarrow> iface_dict \<Rightarrow> py_error + iface_dict" where
  "put_int updates key d = (if jget updates key = JNull then Inr d
     else case json_int (jget updates key) of None \<Rightarrow> Inl ValueError
       | Some n \<Rightarrow> Inr (AList.update key (JInt n) d))"

definition put_raw :: "iface_dict \<Rightarrow> string \<Rightarrow> iface_dict \<Rightarrow> iface_dict" where
  "put_raw updates key d = (if jget updates key = JNull then d else AList.update key (jget updates key) d)"

definition and_then :: "'e + 'a \<Rightarrow> ('a \<Rightarrow> 'e + 'b) \<Rightarrow> 'e + 'b" where
  "and_then r f = (case r of Inl e \<Rightarrow> Inl e | Inr x \<Rightarrow> f x)"

definition put_enabled :: "iface_dict \<Rightarrow> iface_dict \<Rightarrow> iface_dict" where
  "put_enabled updates d = (if map_of updates ''enabled'' = None then d
     else let on = json_truthy (jget updates ''enabled''); d' = AList.update ''enabled'' (JBool on) d in
       if is_serial_dict d then AList.update ''user_disabled'' (JBool (\<not> on)) d' else d')"

definition is_tcp_dict :: "iface_dict \<Rightarrow> bool" where
  "is_tcp_dict d \<longleftrightarrow> jget d ''preset'' \<in> {JStr ''tcp_client'', JStr ''tcp_server'', JStr ''tcp_lan''}
     \<or> jget d ''type'' \<in> {JStr ''TCPClientInterface'', JStr ''TCPServerInterface''}"

definition is_udp_dict :: "iface_dict \<Rightarrow> bool" where
  "is_udp_dict d \<longleftrightarrow> has d ''preset'' ''udp_lan'' \<or> has d ''type'' ''UDPInterface''"

definition update_item :: "iface_env \<Rightarrow> iface_dict \<Rightarrow> iface_dict \<Rightarrow> py_error + iface_dict" where
  "update_item env updates item = (let updated = put_enabled updates item in
     if is_serial_dict item then
       (let updated = (if map_of updates ''port'' = None then updated
             else AList.update ''port'' (JStr (jtext (jget updates ''port''))) updated) in
        and_then (put_int updates ''speed'' updated) (\<lambda>d. Inr (sync_serial_enabled env d)))
     else if is_tcp_dict item then
       and_then (put_int updates ''target_port'' (put_text updates ''target_host'' updated))
         (\<lambda>d. put_int updates ''listen_port'' (put_text updates ''listen_ip'' d))
     else if is_udp_dict item then
       Inr (fold (put_raw updates) [''listen_ip'', ''listen_port'', ''forward_ip'', ''forward_port''] updated)
     else Inr updated)"

fun update_each :: "iface_env \<Rightarrow> string \<Rightarrow> iface_dict \<Rightarrow> iface_dict list \<Rightarrow> py_error + iface_dict list" where
  "update_each env iface_id updates [] = Inr []"
| "update_each env iface_id updates (d # ds) = (
     if jget d ''id'' \<noteq> JStr iface_id
     then and_then (update_each env iface_id updates ds) (\<lambda>out. Inr (d # out))
     else and_then (update_item env updates d) (\<lambda>d'.
            and_then (update_each env iface_id updates ds) (\<lambda>out. Inr (d' # out))))"

definition update_interface :: "iface_env \<Rightarrow> json list \<Rightarrow> string \<Rightarrow> iface_dict \<Rightarrow> py_error + iface_dict list" where
  "update_interface env items iface_id updates = (let items = normalize_interface_list env items in
     if iface_id = '''' then Inl ValueError
     else and_then (update_each env iface_id updates items) (\<lambda>out.
       if list_ex (\<lambda>d. jget d ''id'' = JStr iface_id) items then Inr out else Inl ValueError))"

text \<open>\<open>lan_transport_hub_policy\<close>: whether the switch is allowed, and whether it warns.\<close>

definition lan_transport_hub_policy :: "string \<Rightarrow> string \<Rightarrow> bool \<times> bool" where
  "lan_transport_hub_policy hub_role preset_key = (let
     hub_role = py_lower (py_strip (py_or hub_role ''off'')); preset_key = py_strip preset_key in
     if preset_key \<noteq> ''tcp_lan'' then (True, False)
     else if hub_role = ''server'' then (False, True)
     else if hub_role = ''client'' then (True, True)
     else (True, False))"

section \<open>Dictionaries\<close>

lemma jget_update [simp]: "jget (AList.update k v d) j = (if j = k then v else jget d j)"
  by (simp add: jget_def)

lemma set_default_other [simp]: "k \<noteq> j \<Longrightarrow> map_of (set_default j w d) k = map_of d k"
  by (simp add: set_default_def)

lemma set_default_keep: "map_of d k = Some v \<Longrightarrow> map_of (set_default j w d) k = Some v"
  by (auto simp: set_default_def)

lemma set_default_ne: "map_of d k \<noteq> None \<or> k = j \<Longrightarrow> map_of (set_default j w d) k \<noteq> None"
  by (auto simp: set_default_def)

lemma set_default_self: "map_of (set_default j w d) j = Some (case map_of d j of None \<Rightarrow> w | Some v \<Rightarrow> v)"
  by (auto simp: set_default_def)

lemma map_of_merge [simp]:
  "map_of (dict_merge b d) k = (case map_of d k of None \<Rightarrow> map_of b k | Some v \<Rightarrow> Some v)"
proof -
  have "map_of (map (\<lambda>(k, v). (k, case map_of d k of None \<Rightarrow> v | Some w \<Rightarrow> w)) b) k
      = map_option (\<lambda>v. case map_of d k of None \<Rightarrow> v | Some w \<Rightarrow> w) (map_of b k)"
    by (induction b) (auto split: option.split)
  moreover have "map_of (filter (\<lambda>(k, _). map_of b k = None) d) k = (if map_of b k = None then map_of d k else None)"
    by (induction d) auto
  ultimately show ?thesis
    by (auto simp: dict_merge_def map_add_def split: option.splits)
qed

section \<open>One interface per slot\<close>

text \<open>The abstract view of the second loop: what an interface occupies.\<close>

datatype slot = SerialSlot string | UdpSlot | TcpSlot

definition slot_of :: "iface_dict \<Rightarrow> slot option" where
  "slot_of d = (
     if has d ''type'' ''SerialInterface'' then
       (if jtext (jget d ''port'') = '''' then None else Some (SerialSlot (jtext (jget d ''port''))))
     else if has d ''type'' ''UDPInterface'' \<or> has d ''preset'' ''udp_lan'' then Some UdpSlot
     else if has d ''preset'' ''tcp_lan'' \<or> (has d ''type'' ''TCPServerInterface'' \<and> \<not> has d ''preset'' ''tcp_server'')
       then Some TcpSlot
     else None)"

definition taken :: "dedup \<Rightarrow> slot set" where
  "taken s = SerialSlot ` set (seen_serial s) \<union> (if seen_udp s then {UdpSlot} else {}) \<union> (if seen_tcp_lan s then {TcpSlot} else {})"

lemma dup_step_slot:
  "fst (dup_step d s) \<longleftrightarrow> (case slot_of d of None \<Rightarrow> True | Some x \<Rightarrow> x \<notin> taken s)"
  "taken (snd (dup_step d s)) = taken s \<union> set_option (slot_of d)"
  by (auto simp: dup_step_def slot_of_def taken_def Let_def)

abbreviation slots :: "iface_dict list \<Rightarrow> slot list" where
  "slots ds \<equiv> List.map_filter slot_of ds"

lemma map_filter_Cons: "List.map_filter f (x # xs) = (case f x of None \<Rightarrow> List.map_filter f xs | Some y \<Rightarrow> y # List.map_filter f xs)"
  by (simp add: map_filter_def split: option.split)

lemma dedup_slots: "distinct (slots (dedup_list ds s)) \<and> set (slots (dedup_list ds s)) \<inter> taken s = {}"
proof (induction ds arbitrary: s)
  case Nil
  then show ?case by (simp add: map_filter_def)
next
  case (Cons d ds)
  obtain keep s' where st: "dup_step d s = (keep, s')" by force
  have keep: "keep \<longleftrightarrow> (case slot_of d of None \<Rightarrow> True | Some x \<Rightarrow> x \<notin> taken s)" "taken s' = taken s \<union> set_option (slot_of d)"
    using dup_step_slot [of d s] st by simp_all
  show ?case using Cons.IH [of s'] keep by (cases "slot_of d") (auto simp: st map_filter_Cons)
qed

lemma dedup_id: "distinct (slots ds) \<Longrightarrow> set (slots ds) \<inter> taken s = {} \<Longrightarrow> dedup_list ds s = ds"
proof (induction ds arbitrary: s)
  case (Cons d ds)
  obtain keep s' where st: "dup_step d s = (keep, s')" by force
  have keep: "keep \<longleftrightarrow> (case slot_of d of None \<Rightarrow> True | Some x \<Rightarrow> x \<notin> taken s)" "taken s' = taken s \<union> set_option (slot_of d)"
    using dup_step_slot [of d s] st by simp_all
  show ?case using Cons.prems Cons.IH [of s'] keep by (cases "slot_of d") (auto simp: st map_filter_Cons)
qed simp

lemma dedup_subset: "set (dedup_list ds s) \<subseteq> set ds"
proof (induction ds arbitrary: s)
  case (Cons d ds)
  obtain keep s' where "dup_step d s = (keep, s')" by force
  then show ?case using Cons.IH [of s'] by auto
qed simp

lemma taken_none [simp]: "taken no_dups = {}"
  by (simp add: taken_def no_dups_def)

lemma dedup_ne: "ds \<noteq> [] \<Longrightarrow> dedup_list ds no_dups \<noteq> []"
proof (cases ds)
  case (Cons d ds')
  moreover have "fst (dup_step d no_dups)" by (simp add: dup_step_slot(1) split: option.split)
  ultimately show ?thesis by (cases "dup_step d no_dups") simp
qed simp

section \<open>The normal form of an item\<close>

definition preset_type :: "iface_dict \<Rightarrow> json" where
  "preset_type d = (case known_preset (item_preset d) of Some p \<Rightarrow> JStr (pr_type p)
     | None \<Rightarrow> jget_def_to (JStr ''UDPInterface'') d ''type'')"

definition live_enabled :: "iface_env \<Rightarrow> iface_dict \<Rightarrow> json option" where
  "live_enabled env d = (
     if \<not> is_serial_dict d then map_of d ''enabled''
     else Some (JBool (\<not> json_truthy (jget d ''user_disabled'') \<and> jtext (jget d ''port'') \<noteq> ''''
            \<and> ic_status env (jtext (jget d ''port'')) = ''ok'')))"

definition normal_item :: "iface_env \<Rightarrow> iface_dict \<Rightarrow> bool" where
  "normal_item env d \<longleftrightarrow>
     map_of d ''id'' \<noteq> None \<and> map_of d ''preset'' \<noteq> None \<and> map_of d ''name'' \<noteq> None
     \<and> list_all (\<lambda>(k, _). map_of d k \<noteq> None) (preset_base (item_preset d))
     \<and> map_of d ''type'' = Some (preset_type d)
     \<and> map_of d ''enabled'' = live_enabled env d"

lemma map_of_sync: "map_of (sync_serial_enabled env d) k = (if k = ''enabled'' then live_enabled env d else map_of d k)"
  by (simp add: sync_serial_enabled_def live_enabled_def Let_def)

lemma jget_sync [simp]: "k \<noteq> ''enabled'' \<Longrightarrow> jget (sync_serial_enabled env d) k = jget d k"
  by (simp add: jget_def map_of_sync)

lemma item_preset_sync [simp]: "item_preset (sync_serial_enabled env d) = item_preset d"
  unfolding item_preset_def by (simp only: jget_sync list.simps char.inject simp_thms)

lemma live_sync: "live_enabled env (sync_serial_enabled env d) = live_enabled env d"
  by (simp add: live_enabled_def is_serial_dict_def map_of_sync)

lemma base_keys: "map_of (preset_base key) ''type'' = None" "map_of (preset_base key) ''preset'' = None"
  by (auto simp: preset_base_def known_preset_def interface_presets_def split: json.split option.splits if_splits)

text \<open>What \<open>merge_item\<close> leaves under each key.\<close>

lemma merge_item_known:
  assumes "map_of d k = Some v" "k \<noteq> ''type''"
  shows "map_of (merge_item env n d) k = Some v"
proof -
  have "map_of (dict_merge b d) k = Some v" for b using assms(1) by simp
  then show ?thesis using assms(2) by (simp add: merge_item_def Let_def set_default_keep)
qed

lemma merge_item_type: "map_of (merge_item env n d) ''type'' = Some (preset_type d)"
  by (simp add: merge_item_def Let_def preset_type_def jget_def_to_def base_keys split: option.split)

lemma merge_item_preset: "map_of (merge_item env n d) ''preset'' = Some (case map_of d ''preset'' of None \<Rightarrow> item_preset d | Some v \<Rightarrow> v)"
  by (simp add: merge_item_def Let_def set_default_self base_keys split: option.split)

lemma merge_item_id_name: "map_of (merge_item env n d) ''id'' \<noteq> None" "map_of (merge_item env n d) ''name'' \<noteq> None"
  by (simp_all add: merge_item_def Let_def set_default_self)

lemma merge_item_base:
  assumes "map_of (preset_base (item_preset d)) k \<noteq> None" "k \<noteq> ''type''"
  shows "map_of (merge_item env n d) k \<noteq> None"
proof -
  have "map_of (dict_merge (preset_base (item_preset d)) d) k \<noteq> None"
    using assms(1) by (simp split: option.split)
  then show ?thesis
    using assms(2) unfolding merge_item_def Let_def map_of_update by (simp only: if_False) (intro set_default_ne disjI1)
qed

lemma merge_item_nothing:
  assumes "map_of d k = None" "map_of (preset_base (item_preset d)) k = None" "k \<notin> {''id'', ''preset'', ''name'', ''type''}"
  shows "map_of (merge_item env n d) k = None"
  using assms by (simp add: merge_item_def Let_def)

lemma item_preset_merge: "item_preset (merge_item env n d) = item_preset d"
  by (cases "map_of d ''preset''") (simp_all add: item_preset_def jget_def merge_item_preset)

text \<open>The normal form is one, and a normal item stays what it is.\<close>

lemma preset_type_cong: "item_preset d = item_preset e \<Longrightarrow> map_of d ''type'' = Some (preset_type e) \<Longrightarrow> preset_type d = preset_type e"
  by (auto simp: preset_type_def jget_def_to_def split: option.splits)

lemma normalize_item_normal: "normal_item env (normalize_item env n d)"
proof -
  let ?m = "merge_item env n d"
  have p: "item_preset (sync_serial_enabled env ?m) = item_preset d"
    by (simp add: item_preset_merge)
  have t: "map_of (sync_serial_enabled env ?m) ''type'' = Some (preset_type d)"
    by (simp add: map_of_sync merge_item_type)
  have "map_of (sync_serial_enabled env ?m) k \<noteq> None" if kv: "(k, v) \<in> set (preset_base (item_preset d))" for k v
  proof -
    have b: "map_of (preset_base (item_preset d)) k \<noteq> None" using weak_map_of_SomeI [OF kv] by auto
    then have "map_of ?m k \<noteq> None" using base_keys(1) by (intro merge_item_base) auto
    then show ?thesis by (auto simp: map_of_sync live_enabled_def)
  qed
  then have "\<forall>(k, v) \<in> set (preset_base (item_preset d)). map_of (sync_serial_enabled env ?m) k \<noteq> None" by blast
  then show ?thesis
    using merge_item_id_name [of env n d] preset_type_cong [OF p t] t merge_item_preset [of env n d]
    by (simp add: normal_item_def normalize_item_def p live_sync list_all_iff item_preset_merge)
       (simp add: map_of_sync)
qed

lemma normal_item_fixpoint:
  assumes "normal_item env d" shows "map_of (normalize_item env n d) = map_of d"
proof
  fix k
  note nd = assms [unfolded normal_item_def]
  have base: "map_of (preset_base (item_preset d)) k \<noteq> None \<Longrightarrow> map_of d k \<noteq> None" for k
    using nd by (fastforce simp: list_all_iff dest: map_of_SomeD)
  have m: "map_of (merge_item env n d) k = map_of d k" for k
  proof (cases "k = ''type''")
    case True
    then show ?thesis using nd merge_item_type by simp
  next
    case False
    show ?thesis
    proof (cases "map_of d k")
      case None
      then have "k \<notin> {''id'', ''preset'', ''name''}" "map_of (preset_base (item_preset d)) k = None"
        using nd base [of k] by (auto, metis option.distinct(1) option.exhaust)
      with None False show ?thesis by (simp add: merge_item_nothing)
    next
      case (Some v)
      with False show ?thesis by (simp add: merge_item_known)
    qed
  qed
  then have "jget (merge_item env n d) = jget d" by (auto simp: jget_def fun_eq_iff)
  then have "live_enabled env (merge_item env n d) = live_enabled env d"
    using m by (simp add: live_enabled_def is_serial_dict_def)
  then show "map_of (normalize_item env n d) k = map_of d k"
    using nd m by (simp add: normalize_item_def map_of_sync)
qed


section \<open>Properties of the list\<close>

text \<open>The same dicts: Python's equality of dicts does not see the order of keys.\<close>

definition same_dicts :: "iface_dict list \<Rightarrow> iface_dict list \<Rightarrow> bool" where
  "same_dicts ds es \<longleftrightarrow> list_all2 (\<lambda>d e. map_of d = map_of e) ds es"

definition normal_list :: "iface_env \<Rightarrow> iface_dict list \<Rightarrow> bool" where
  "normal_list env ds \<longleftrightarrow> ds \<noteq> [] \<and> list_all (normal_item env) ds \<and> distinct (slots ds)"

lemma default_normal: "normal_list env (default_interface_list env)"
  by (simp add: normal_list_def default_interface_list_def android_default_interface_list_def
      desktop_default_interface_list_def normal_item_def live_enabled_def is_serial_dict_def preset_type_def
      item_preset_def known_preset_def preset_base_def interface_presets_def slot_of_def jget_def map_filter_def)

lemma normalize_normal_list: "normal_list env (normalize_interface_list env items)"
proof -
  have "list_all (normal_item env) (dedup_list (map (\<lambda>(n, d). normalize_item env n d) ds) no_dups)" for ds
    using dedup_subset normalize_item_normal by (fastforce simp: list_all_iff)
  then show ?thesis
    using default_normal dedup_slots dedup_ne
    by (simp add: normalize_interface_list_def Let_def normal_list_def [of env "dedup_list _ _"] map_is_Nil_conv)
qed

lemma slot_cong: "map_of d = map_of e \<Longrightarrow> slot_of d = slot_of e"
  by (simp add: slot_of_def jget_def)

lemma map_filter_JObj [simp]: "List.map_filter as_dict (map JObj ds) = ds"
  by (induction ds) (simp_all add: map_filter_def as_dict_def)

lemma slots_map: "slots ds = List.map_filter id (map slot_of ds)"
  by (induction ds) (simp_all add: map_filter_def)

text \<open>On dicts that occupy different slots the list is normalised item by item.\<close>

lemma normalize_pointwise:
  assumes "ds \<noteq> []" "distinct (slots (map (\<lambda>(n, d). normalize_item env n d) (enumerate 0 ds)))"
  shows "normalize_interface_list env (map JObj ds) = map (\<lambda>(n, d). normalize_item env n d) (enumerate 0 ds)"
proof -
  have "enumerate 0 ds \<noteq> []" using assms(1) by (metis length_enumerate length_0_conv)
  then show ?thesis using assms dedup_id [OF assms(2), of no_dups] by (simp add: normalize_interface_list_def Let_def)
qed

lemma normal_items_same:
  assumes "list_all (normal_item env) ds"
  shows "same_dicts (map (\<lambda>(n, d). normalize_item env n d) (enumerate m ds)) ds"
proof -
  let ?out = "map (\<lambda>(n, d). normalize_item env n d) (enumerate m ds)"
  have "map_of (?out ! i) = map_of (ds ! i)" if "i < length ds" for i
  proof -
    have "normal_item env (ds ! i)" using assms that by (simp add: list_all_length)
    then show ?thesis using that by (simp add: nth_enumerate_eq normal_item_fixpoint)
  qed
  then show ?thesis by (auto simp: same_dicts_def intro: list_all2_all_nthI)
qed

lemma same_dicts_map:
  assumes "same_dicts ds es" and "\<And>d e. map_of d = map_of e \<Longrightarrow> f d = f e"
  shows "map f ds = map f es"
  using assms(1) assms(2) unfolding same_dicts_def
proof (induction rule: list_all2_induct)
  case (Cons d ds e es)
  from Cons.prems [OF Cons.hyps(1)] Cons.IH [OF Cons.prems] show ?case by simp
qed simp

lemma same_dicts_slots: "same_dicts ds es \<Longrightarrow> slots ds = slots es"
  using same_dicts_map [of ds es slot_of] slot_cong slots_map [of ds] slots_map [of es] by metis

lemma normal_list_fixpoint:
  assumes "normal_list env ds" shows "same_dicts (normalize_interface_list env (map JObj ds)) ds"
proof -
  have ds: "ds \<noteq> []" "list_all (normal_item env) ds" "distinct (slots ds)" using assms by (simp_all add: normal_list_def)
  note same = normal_items_same [OF ds(2), of 0]
  have sl: "slots (map (\<lambda>(n, d). normalize_item env n d) (enumerate 0 ds)) = slots ds"
    by (rule same_dicts_slots [OF same])
  have "normalize_interface_list env (map JObj ds) = map (\<lambda>(n, d). normalize_item env n d) (enumerate 0 ds)"
    using ds(3) by (intro normalize_pointwise [OF ds(1)]) (simp only: sl)
  then show ?thesis by (simp only: same)
qed


section \<open>The primary LAN transport\<close>

lemma keeps_cong: "map_of d = map_of e \<Longrightarrow> keeps_beside_lan d = keeps_beside_lan e"
  by (simp add: keeps_beside_lan_def jget_def)

lemma keepsD:
  assumes "keeps_beside_lan d"
  shows "\<not> has d ''preset'' ''udp_lan''" "\<not> has d ''preset'' ''tcp_lan''" "\<not> has d ''type'' ''UDPInterface''"
    "has d ''preset'' ''tcp_server'' \<or> \<not> has d ''type'' ''TCPServerInterface''"
  using assms unfolding keeps_beside_lan_def by metis+

lemma keeps_slot: "keeps_beside_lan d \<Longrightarrow> slot_of d \<noteq> Some UdpSlot \<and> slot_of d \<noteq> Some TcpSlot"
proof -
  assume "keeps_beside_lan d"
  note k = keepsD [OF this]
  have "\<not> (has d ''preset'' ''tcp_lan'' \<or> (has d ''type'' ''TCPServerInterface'' \<and> \<not> has d ''preset'' ''tcp_server''))"
    using k(2,4) by blast
  then have "slot_of d = (if has d ''type'' ''SerialInterface'' then
      (if jtext (jget d ''port'') = '''' then None else Some (SerialSlot (jtext (jget d ''port'')))) else None)"
    unfolding slot_of_def by (simp only: k(1,3) simp_thms if_False)
  then show ?thesis by (simp split: if_split)
qed

lemma slots_append: "slots (ds @ es) = slots ds @ slots es"
  by (simp add: map_filter_def)

lemma mem_slots: "x \<in> set (slots ds) \<longleftrightarrow> (\<exists>d \<in> set ds. slot_of d = Some x)"
  by (induction ds) (auto simp: map_filter_def)

lemma slots_filter: "distinct (slots ds) \<Longrightarrow> distinct (slots (filter P ds))"
proof (induction ds)
  case (Cons d ds)
  then show ?case by (cases "slot_of d") (auto simp: map_filter_Cons mem_slots)
qed (simp add: map_filter_def)

lemma lan_entry:
  assumes key: "preset_key \<in> {''udp_lan'', ''tcp_lan''}" and p: "map_of interface_presets preset_key = Some p"
    and e_def: "e = normalize_item env n (preset_entry i t preset_key p)"
  shows "\<not> keeps_beside_lan e \<and> has e ''preset'' preset_key \<and> enabled e \<and> slot_of e \<in> {Some UdpSlot, Some TcpSlot}"
proof -
  let ?x = "preset_entry i t preset_key p"
  have x: "map_of ?x ''preset'' = Some (JStr preset_key)" "map_of ?x ''enabled'' = Some (JBool True)"
    "map_of ?x ''type'' = None"
    using key p by (auto simp: preset_entry_def interface_presets_def)
  have ip: "item_preset ?x = JStr preset_key" using x(1) key by (auto simp: item_preset_def jget_def)
  have "preset_type ?x = JStr (pr_type p)" by (simp add: preset_type_def ip known_preset_def p)
  then have ty: "map_of (merge_item env n ?x) ''type'' = Some (JStr (pr_type p))" by (simp add: merge_item_type)
  have pr: "map_of (merge_item env n ?x) ''preset'' = Some (JStr preset_key)" by (simp add: merge_item_preset x)
  have en: "map_of (merge_item env n ?x) ''enabled'' = Some (JBool True)" by (rule merge_item_known [OF x(2)]) simp
  have cases: "preset_key = ''udp_lan'' \<and> pr_type p = ''UDPInterface'' \<or> preset_key = ''tcp_lan'' \<and> pr_type p = ''TCPServerInterface''"
    using key p by (auto simp: interface_presets_def)
  then have "\<not> is_serial_dict (merge_item env n ?x)" using ty pr by (auto simp: is_serial_dict_def jget_def)
  then have e: "e = merge_item env n ?x" by (simp add: e_def normalize_item_def sync_serial_enabled_def)
  have h: "jget e ''preset'' = JStr preset_key" "jget e ''type'' = JStr (pr_type p)" using pr ty by (simp_all add: e jget_def)
  have "enabled e" using en by (simp add: e enabled_def jget_def_to_def)
  moreover have "\<not> keeps_beside_lan e" using h cases by (auto simp: keeps_beside_lan_def)
  moreover have "slot_of e \<in> {Some UdpSlot, Some TcpSlot}" using h cases by (auto simp: slot_of_def)
  ultimately show ?thesis using h by blast
qed





section \<open>Edits touch one interface\<close>

lemma and_then_Inr [simp]: "and_then r f = Inr y \<longleftrightarrow> (\<exists>x. r = Inr x \<and> f x = Inr y)"
  by (auto simp: and_then_def split: sum.splits)

text \<open>What an edit does to the item at one position.\<close>

definition edited :: "iface_env \<Rightarrow> string \<Rightarrow> iface_dict \<Rightarrow> iface_dict \<Rightarrow> iface_dict \<Rightarrow> bool" where
  "edited env i upd d d' = (if jget d ''id'' = JStr i then update_item env upd d = Inr d' else d' = d)"

lemma update_each_pointwise:
  "update_each env i upd ds = Inr out \<Longrightarrow>
     list_all2 (edited env i upd) ds out"
proof (induction ds arbitrary: out)
  case (Cons d ds)
  have "edited env i upd d d" if "jget d ''id'' \<noteq> JStr i" using that by (simp add: edited_def)
  moreover have "edited env i upd d d'" if "jget d ''id'' = JStr i" "update_item env upd d = Inr d'" for d'
    using that by (simp add: edited_def)
  ultimately show ?case using Cons by (cases "jget d ''id'' = JStr i") auto
qed simp

lemma update_each_missing: "\<not> list_ex (\<lambda>d. jget d ''id'' = JStr i) ds \<Longrightarrow> update_each env i upd ds = Inr ds"
  by (induction ds) (auto simp: and_then_def)

text \<open>An edit of an interface changes only the interface with that id and leaves the length
  and order of the list; an empty or unknown id raises \<open>ValueError\<close>.\<close>

theorem update_interface_frame:
  "(case update_interface env items i upd of
      Inr out \<Rightarrow> list_all2 (edited env i upd) (normalize_interface_list env items) out
    | Inl e \<Rightarrow> e = ValueError \<or> e = KeyError)
   \<and> (if i \<noteq> '''' \<and> list_ex (\<lambda>d. jget d ''id'' = JStr i) (normalize_interface_list env items)
      then update_interface env items i upd = update_each env i upd (normalize_interface_list env items)
      else update_interface env items i upd = Inl ValueError)"
proof (rule conjI)
  show "case update_interface env items i upd of
      Inr out \<Rightarrow> list_all2 (edited env i upd) (normalize_interface_list env items) out
    | Inl e \<Rightarrow> e = ValueError \<or> e = KeyError"
  proof (cases "update_interface env items i upd")
    case (Inl e)
    then show ?thesis by (cases e) simp_all
  next
    case (Inr out)
    then have "update_each env i upd (normalize_interface_list env items) = Inr out"
      by (auto simp: update_interface_def Let_def split: if_splits)
    from update_each_pointwise [OF this] Inr show ?thesis by simp
  qed
  show "if i \<noteq> '''' \<and> list_ex (\<lambda>d. jget d ''id'' = JStr i) (normalize_interface_list env items)
      then update_interface env items i upd = update_each env i upd (normalize_interface_list env items)
      else update_interface env items i upd = Inl ValueError"
    using update_each_missing [of i "normalize_interface_list env items" env upd]
    by (auto simp: update_interface_def Let_def and_then_def split: sum.splits)
qed

section \<open>Serial interfaces and their devices\<close>

lemma configured_serial_iff:
  "configured_serial_enabled env items \<longleftrightarrow>
     list_ex (\<lambda>d. is_serial_dict d \<and> \<not> json_truthy (jget d ''user_disabled'')
       \<and> jtext (jget d ''port'') \<noteq> '''' \<and> ic_status env (jtext (jget d ''port'')) = ''ok'')
     (normalize_interface_list env items)"
proof -
  have live: "jget d ''enabled'' = JBool (\<not> json_truthy (jget d ''user_disabled'') \<and> jtext (jget d ''port'') \<noteq> ''''
      \<and> ic_status env (jtext (jget d ''port'')) = ''ok'')"
    if "d \<in> set (normalize_interface_list env items)" "is_serial_dict d" for d
  proof -
    have "normal_item env d" using normalize_normal_list [of env items] that(1) by (auto simp: normal_list_def list_all_iff)
    with that(2) show ?thesis by (simp add: normal_item_def live_enabled_def jget_def)
  qed
  then show ?thesis unfolding configured_serial_enabled_def list_ex_iff by auto
qed
text \<open>Serial counts as configured exactly when some serial interface is not switched off by the
  user and its device can be opened right now.\<close>

theorem serial_enabled_exact:
  "configured_serial_enabled env items \<longleftrightarrow>
     list_ex (\<lambda>d. is_serial_dict d \<and> \<not> json_truthy (jget d ''user_disabled'')
       \<and> jtext (jget d ''port'') \<noteq> '''' \<and> ic_status env (jtext (jget d ''port'')) = ''ok'')
     (normalize_interface_list env items)"
  by (rule configured_serial_iff)

text \<open>So an interface whose device was unplugged no longer counts as configured, and
  \<open>ensure_runtime_serial\<close> returns before it reaches its removal of the dead interface.\<close>

lemma unplugged_not_configured:
  "\<forall>port. ic_status env port \<noteq> ''ok'' \<Longrightarrow> \<not> configured_serial_enabled env items"
  by (auto simp: configured_serial_iff list_ex_iff)

text \<open>Deleting the only interface brings the default one back.\<close>

lemma delete_last:
  "delete_interface env items i = [] \<Longrightarrow>
     normalize_interface_list env (map JObj (delete_interface env items i)) = default_interface_list env"
  by (simp add: normalize_interface_list_def)

end
