(* ===== verification/RnsConfig.thy ===== *)
theory RnsConfig
  imports InterfaceConfig
begin

text \<open>
  The Reticulum configuration file written from the interface list
  (\<open>render_rns_config\<close> in \<open>core/rns_interfaces.py\<close>).  A section is its heading, the type
  that is written and the lines below it; how Python prints a JSON value that is no
  string in an f-string is an argument.  \<open>AutoInterface\<close> and the LAN presets bind the same UDP port, so the
  file must never have both; the theory shows that it has not.
\<close>

record config_env =
  cf_env :: iface_env
  cf_show :: "json \<Rightarrow> string"
  cf_broadcast :: string              \<comment> \<open>empty for \<open>None\<close>\<close>
  cf_android :: bool
  cf_auto :: bool                     \<comment> \<open>\<open>auto_interface_enabled\<close>\<close>
  cf_windows :: bool

record cfg_section =
  sec_name :: string
  sec_type :: string
  sec_lines :: "string list"

definition py_format :: "config_env \<Rightarrow> json \<Rightarrow> string" where
  "py_format cf v = (case v of JStr s \<Rightarrow> s | _ \<Rightarrow> cf_show cf v)"

definition field_line :: "config_env \<Rightarrow> iface_dict \<Rightarrow> json \<Rightarrow> string \<Rightarrow> string" where
  "field_line cf d dflt key = ''    '' @ key @ '' = '' @ py_format cf (jget_def_to dflt d key)"

definition ifac_line :: "config_env \<Rightarrow> iface_dict \<Rightarrow> string list" where
  "ifac_line cf d = (if json_truthy (jget d ''ifac_size'')
     then [''    ifac_size = '' @ py_format cf (jget d ''ifac_size'')] else [])"

text \<open>\<open>a or b\<close> on JSON values.\<close>

definition jor :: "json \<Rightarrow> json \<Rightarrow> json" where
  "jor a b = (if json_truthy a then a else b)"

definition section_name :: "config_env \<Rightarrow> iface_dict \<Rightarrow> string \<Rightarrow> string" where
  "section_name cf d dflt = py_format cf (jor (jget d ''name'') (jget_def_to (JStr dflt) d ''type''))"

definition serial_section :: "config_env \<Rightarrow> iface_dict \<Rightarrow> cfg_section" where
  "serial_section cf d = \<lparr>sec_name = section_name cf d ''Serial'', sec_type = ''SerialInterface'',
     sec_lines = [field_line cf d (JStr ''/dev/ttyUSB0'') ''port'', field_line cf d (JInt serial_default_baud) ''speed'']
       @ ifac_line cf d\<rparr>"

definition net_section :: "config_env \<Rightarrow> iface_dict \<Rightarrow> cfg_section" where
  "net_section cf d = \<lparr>sec_name = section_name cf d ''Interface'',
     sec_type = py_format cf (jget_def_to (JStr ''UDPInterface'') d ''type''),
     sec_lines =
       (if has d ''type'' ''UDPInterface'' then
          [field_line cf d (JStr ''0.0.0.0'') ''listen_ip'', field_line cf d (JInt 4242) ''listen_port'',
           ''    forward_ip = '' @ py_format cf (jor (jget d ''forward_ip'') (jor (JStr (cf_broadcast cf)) (JStr ''255.255.255.255''))),
           field_line cf d (JInt 4242) ''forward_port''] @ ifac_line cf d
        else if has d ''type'' ''TCPServerInterface'' then
          [field_line cf d (JStr ''0.0.0.0'') ''listen_ip'', field_line cf d (JInt 4242) ''listen_port''] @ ifac_line cf d
        else if has d ''type'' ''TCPClientInterface'' then
          [field_line cf d (JStr ''127.0.0.1'') ''target_host'', field_line cf d (JInt 4242) ''target_port''] @ ifac_line cf d
        else [])\<rparr>"

text \<open>One round of the loop: the section the interface gets, if any; the serial interfaces that
  are skipped are only logged.\<close>

definition render_one :: "config_env \<Rightarrow> iface_dict \<Rightarrow> dedup \<Rightarrow> cfg_section option \<times> dedup" where
  "render_one cf d s = (
     if has d ''type'' ''SerialInterface'' then
       (case dup_step d s of (fresh, s') \<Rightarrow>
         if \<not> fresh then (None, s)
         else if cf_android cf then (None, s')
         else if serial_runtime_active (cf_env cf) d then (Some (serial_section cf d), s')
         else (None, s'))
     else if \<not> enabled d then (None, s)
     else (case dup_step d s of (fresh, s') \<Rightarrow> if fresh then (Some (net_section cf d), s') else (None, s)))"

fun render_loop :: "config_env \<Rightarrow> iface_dict list \<Rightarrow> dedup \<Rightarrow> cfg_section list" where
  "render_loop cf [] s = []"
| "render_loop cf (d # ds) s = (case render_one cf d s of (sec, s') \<Rightarrow>
     (case sec of None \<Rightarrow> render_loop cf ds s' | Some x \<Rightarrow> x # render_loop cf ds s'))"

definition default_section :: cfg_section where
  "default_section = \<lparr>sec_name = ''Default Interface'', sec_type = ''AutoInterface'', sec_lines = []\<rparr>"

definition needs_auto :: "config_env \<Rightarrow> iface_dict list \<Rightarrow> bool" where
  "needs_auto cf normalized \<longleftrightarrow> cf_auto cf
     \<and> \<not> list_ex (\<lambda>d. has d ''type'' ''UDPInterface'' \<and> enabled d) normalized
     \<and> \<not> configured_tcp_lan_enabled (cf_env cf) (map JObj normalized)
     \<and> \<not> list_ex (\<lambda>d. has d ''preset'' ''udp_lan'' \<or> has d ''preset'' ''tcp_lan'') normalized
     \<and> \<not> cf_android cf \<and> \<not> cf_windows cf"

definition config_sections :: "config_env \<Rightarrow> json list \<Rightarrow> cfg_section list" where
  "config_sections cf interfaces = (let normalized = normalize_interface_list (cf_env cf) interfaces in
     render_loop cf normalized no_dups @ (if needs_auto cf normalized then [default_section] else []))"

definition enable_transport :: "config_env \<Rightarrow> iface_dict list \<Rightarrow> bool" where
  "enable_transport cf normalized \<longleftrightarrow> \<not> cf_android cf
     \<or> list_ex (\<lambda>d. has d ''type'' ''TCPServerInterface'' \<and> enabled d) normalized
     \<or> list_ex (\<lambda>d. has d ''type'' ''SerialInterface'' \<and> enabled d) normalized
     \<or> list_ex (\<lambda>d. has d ''type'' ''UDPInterface'' \<and> enabled d) normalized
     \<or> configured_tcp_lan_enabled (cf_env cf) (map JObj normalized)"

definition section_lines :: "cfg_section \<Rightarrow> string list" where
  "section_lines sec = [''  [['' @ sec_name sec @ '']]'', ''    type = '' @ sec_type sec, ''    enabled = Yes'']
     @ sec_lines sec @ ['''']"

definition join_lines :: "string list \<Rightarrow> string" where
  "join_lines ls = (case ls of [] \<Rightarrow> [] | l # rest \<Rightarrow> l @ concat (map (\<lambda>x. CHR 0x0A # x) rest))"

definition render_rns_config :: "config_env \<Rightarrow> json list \<Rightarrow> string" where
  "render_rns_config cf interfaces = (let
     normalized = normalize_interface_list (cf_env cf) interfaces;
     lines = [''[reticulum]'', ''enable_transport = '' @ (if enable_transport cf normalized then ''Yes'' else ''No''),
              ''share_instance = No'', ''link_mtu_discovery = Yes'', '''',
              ''[logging]'', (if cf_android cf then ''loglevel = 4'' else ''loglevel = 3''), '''', ''[interfaces]'']
             @ concat (map section_lines (config_sections cf interfaces))
     in rev (dropWhile py_space (rev (join_lines lines))) @ [CHR 0x0A])"


lemma rendered:
  assumes "x \<in> set (render_loop cf ds s)"
  shows "\<exists>d \<in> set ds. (x = serial_section cf d \<and> has d ''type'' ''SerialInterface'' \<and> serial_runtime_active (cf_env cf) d \<and> \<not> cf_android cf)
    \<or> (x = net_section cf d \<and> \<not> has d ''type'' ''SerialInterface'' \<and> enabled d)"
  using assms
proof (induction ds arbitrary: s)
  case (Cons d ds)
  obtain sec s' where r: "render_one cf d s = (sec, s')" by force
  show ?case
  proof (cases "x \<in> set (render_loop cf ds s')")
    case True
    from Cons.IH [OF this] show ?thesis by auto
  next
    case False
    then have "sec = Some x" using Cons.prems r by (auto split: option.splits)
    then show ?thesis using r by (auto simp: render_one_def split: if_splits prod.splits)
  qed
qed simp

text \<open>What is not a string prints as a number, a truth value, a list or a dict.\<close>

definition prints_no_type :: "config_env \<Rightarrow> bool" where
  "prints_no_type cf \<longleftrightarrow> (\<forall>v. cf_show cf v \<noteq> ''UDPInterface'')"

lemma net_section_type:
  "prints_no_type cf \<Longrightarrow> map_of d ''type'' \<noteq> None \<Longrightarrow> sec_type (net_section cf d) = ''UDPInterface'' \<Longrightarrow> has d ''type'' ''UDPInterface''"
  by (auto simp: net_section_def py_format_def prints_no_type_def jget_def_to_def jget_def split: json.splits)

text \<open>The written configuration never combines \<open>AutoInterface\<close> with a LAN interface: it has
  the automatic section exactly when it is wanted and no LAN preset is there, and then no
  section is of the UDP type.  It has a section only for an interface that is switched on, a
  serial section only for a device that can be opened, and none on Android.\<close>

theorem config_sections_safe:
  assumes "prints_no_type cf"
  shows "list_all (\<lambda>x. x = default_section
       \<or> list_ex (\<lambda>d. (x = serial_section cf d \<and> serial_runtime_active (cf_env cf) d \<and> \<not> cf_android cf)
                    \<or> (x = net_section cf d \<and> enabled d)) (normalize_interface_list (cf_env cf) items))
     (config_sections cf items)
   \<and> (if needs_auto cf (normalize_interface_list (cf_env cf) items)
      then list_all (\<lambda>x. sec_type x \<noteq> ''UDPInterface'') (config_sections cf items)
        \<and> list_all (\<lambda>d. \<not> has d ''preset'' ''tcp_lan'' \<and> \<not> has d ''preset'' ''udp_lan'')
            (normalize_interface_list (cf_env cf) items)
      else config_sections cf items = render_loop cf (normalize_interface_list (cf_env cf) items) no_dups)"
proof -
  define ns where "ns = normalize_interface_list (cf_env cf) items"
  have secs: "config_sections cf items = render_loop cf ns no_dups @ (if needs_auto cf ns then [default_section] else [])"
    by (simp add: config_sections_def ns_def Let_def)
  have typed: "map_of d ''type'' \<noteq> None" if "d \<in> set ns" for d
    using normalize_normal_list [of "cf_env cf" items] that by (auto simp: ns_def normal_list_def list_all_iff normal_item_def)
  have noudp: "sec_type x \<noteq> ''UDPInterface''" if na: "needs_auto cf ns" and x: "x \<in> set (render_loop cf ns no_dups)" for x
  proof
    assume ty: "sec_type x = ''UDPInterface''"
    obtain d where d: "d \<in> set ns" "x = serial_section cf d \<or> x = net_section cf d \<and> enabled d"
      using rendered [OF x] by blast
    have "x \<noteq> serial_section cf d" using ty by (auto simp: serial_section_def)
    then have "has d ''type'' ''UDPInterface'' \<and> enabled d"
      using d(2) ty net_section_type [OF assms typed [OF d(1)]] by auto
    with na d(1) show False by (auto simp: needs_auto_def list_ex_iff)
  qed
  have "list_all (\<lambda>x. x = default_section \<or> list_ex (\<lambda>d. (x = serial_section cf d
        \<and> serial_runtime_active (cf_env cf) d \<and> \<not> cf_android cf) \<or> (x = net_section cf d \<and> enabled d)) ns)
      (config_sections cf items)"
    unfolding secs list_all_iff list_ex_iff using rendered [of _ cf ns no_dups] by fastforce
  moreover have "list_all (\<lambda>x. sec_type x \<noteq> ''UDPInterface'') (config_sections cf items)" if "needs_auto cf ns"
    using that noudp by (auto simp: secs list_all_iff default_section_def)
  moreover have "list_all (\<lambda>d. \<not> has d ''preset'' ''tcp_lan'' \<and> \<not> has d ''preset'' ''udp_lan'') ns" if "needs_auto cf ns"
    using that by (auto simp: needs_auto_def list_all_iff list_ex_iff)
  moreover have "config_sections cf items = render_loop cf ns no_dups" if "\<not> needs_auto cf ns"
    using that by (simp add: secs)
  ultimately show ?thesis unfolding ns_def [symmetric] by (simp split: if_split)
qed

definition sample_config :: config_env where
  "sample_config = \<lparr>cf_env = \<lparr>ic_android = False, ic_status = (\<lambda>_. ''missing''), ic_fresh = (\<lambda>_. ''id''), ic_ports = []\<rparr>,
     cf_show = (\<lambda>_. ''4242''), cf_broadcast = '''', cf_android = False, cf_auto = True, cf_windows = False\<rparr>"

lemma config_sections_safe_witness:
  "list_all (\<lambda>x. sec_type x \<noteq> ''UDPInterface'') (config_sections sample_config [JObj [(''preset'', JStr ''tcp_client'')]])
   \<and> map sec_type (config_sections sample_config [JObj [(''preset'', JStr ''tcp_client'')]]) = [''TCPClientInterface'', ''AutoInterface'']"
proof -
  have p: "prints_no_type sample_config" by (simp add: prints_no_type_def sample_config_def)
  have n: "needs_auto sample_config (normalize_interface_list (cf_env sample_config) [JObj [(''preset'', JStr ''tcp_client'')]])"
    and v: "map sec_type (config_sections sample_config [JObj [(''preset'', JStr ''tcp_client'')]]) = [''TCPClientInterface'', ''AutoInterface'']"
    by code_simp+
  show ?thesis using config_sections_safe [OF p, of "[JObj [(''preset'', JStr ''tcp_client'')]]"] n v by simp
qed

end
