(* ===== verification/TransportChoice.thy ===== *)
theory TransportChoice
  imports RnsPaths InterfaceConfig PeerHashes
begin

text \<open>
  Which transport the message engine uses for a peer (\<open>core/messaging.py\<close>): the families a
  peer may be reached on, whether a link's interface is acceptable for it, the readiness of
  LAN and USB, and the order in which transports are tried.  The decisions read
  Reticulum's interfaces and path table, the interface list of the settings, the pinned
  discovery address and the discovery row of the peer, all in \<open>route_env\<close>.

  The code's path lookups drop the peer's own entry when its interface is dead
  (\<open>scrub_peer_path\<close>).  The decisions here read the table without writing it: by
  \<open>scrub_invisible\<close> a dropped entry changes no later answer.
\<close>

record route_env =
  r_host :: host
  r_rns :: rns
  r_if :: iface_env
  r_items :: "json list"                        \<comment> \<open>\<open>load_settings_interfaces\<close>\<close>
  r_scope :: string                             \<comment> \<open>\<open>discovery_scope_ip\<close>\<close>
  r_meta :: "string \<Rightarrow> (string \<times> string) option"  \<comment> \<open>the peer's discovery row: its \<open>via\<close> and \<open>ip\<close>\<close>
  r_role :: string                              \<comment> \<open>\<open>_load_hub_settings\<close>\<close>
  r_hub_hash :: string
  r_unreachable :: "(string, real) pydict"      \<comment> \<open>\<open>_peer_lan_unreachable\<close>\<close>
  r_now :: real

section \<open>What is up\<close>

definition serial_ready :: "route_env \<Rightarrow> bool" where
  "serial_ready env \<longleftrightarrow> serial_interface_online (r_host env) None (r_rns env) \<noteq> None"

definition tcp_online :: "string \<Rightarrow> route_env \<Rightarrow> bool" where
  "tcp_online cls env \<longleftrightarrow>
     list_ex (\<lambda>(i, _). i_class i = cls \<and> i_online i = Some True) (interfaces (r_rns env))"

abbreviation "tcp_server_online \<equiv> tcp_online ''TCPServerInterface''"
abbreviation "tcp_client_online \<equiv> tcp_online ''TCPClientInterface''"

abbreviation udp_cfg :: "route_env \<Rightarrow> bool" where
  "udp_cfg env \<equiv> configured_udp_lan_enabled (r_if env) (r_items env)"
abbreviation tcp_cfg :: "route_env \<Rightarrow> bool" where
  "tcp_cfg env \<equiv> configured_tcp_lan_enabled (r_if env) (r_items env)"
abbreviation lan_cfg :: "route_env \<Rightarrow> bool" where
  "lan_cfg env \<equiv> lan_discovery_configured (r_if env) (r_items env)"
abbreviation any_online :: "route_env \<Rightarrow> string \<Rightarrow> bool" where
  "any_online env fam \<equiv> online_interfaces (r_host env) (Some fam) (r_rns env) \<noteq> []"
abbreviation mesh_peer :: "route_env \<Rightarrow> bool" where
  "mesh_peer env \<equiv> lan_mesh_has_peer (r_host env) (r_rns env)"
abbreviation android :: "route_env \<Rightarrow> bool" where
  "android env \<equiv> h_android (r_host env)"
abbreviation physical_lan :: "route_env \<Rightarrow> bool" where
  "physical_lan env \<equiv> h_physical_lan (r_host env)"

definition lan_transport_ready :: "route_env \<Rightarrow> bool" where
  "lan_transport_ready env = (
     if \<not> lan_cfg env then False
     else if android env then
       (if tcp_cfg env \<and> \<not> udp_cfg env then tcp_server_online env \<or> mesh_peer env \<or> any_online env ''tcp''
        else mesh_peer env \<or> any_online env ''udp'')
     else if \<not> physical_lan env then mesh_peer env
     else if tcp_cfg env \<and> \<not> udp_cfg env then mesh_peer env \<or> tcp_server_online env \<or> any_online env ''tcp''
     else mesh_peer env \<or> any_online env ''udp'')"

definition hub_active :: "route_env \<Rightarrow> bool" where
  "hub_active env \<longleftrightarrow> r_role env \<noteq> ''off''"

definition has_online_family :: "route_env \<Rightarrow> string \<Rightarrow> bool" where
  "has_online_family env family = (
     if family = ''tcp'' then
       (if tcp_cfg env \<and> \<not> hub_active env then tcp_server_online env \<or> tcp_client_online env
        else tcp_client_online env \<or> tcp_server_online env)
     else if family = ''serial'' then serial_ready env
     else if family = ''udp'' then
       (if \<not> lan_cfg env then False
        else if \<not> any_online env ''udp'' then False
        else if android env then True
        else physical_lan env \<or> mesh_peer env)
     else if family = ''lan'' then mesh_peer env
     else any_online env family)"

definition peer_lan_ip_usable :: "route_env \<Rightarrow> string \<Rightarrow> bool" where
  "peer_lan_ip_usable env peer_ip = (let host = py_strip peer_ip in
     if host = '''' then False
     else let scope = py_strip (r_scope env) in
       if scope = '''' then True else peer_in_scope (Some host) (Some scope))"

definition peer_lan_recently_unreachable :: "route_env \<Rightarrow> string \<Rightarrow> bool" where
  "peer_lan_recently_unreachable env peer_ip = (let ip = py_strip peer_ip in
     ip \<noteq> '''' \<and> r_now env < (case map_of (r_unreachable env) ip of None \<Rightarrow> 0 | Some t \<Rightarrow> t))"

section \<open>The path of a peer\<close>

definition peer_has_path_on_family :: "route_env \<Rightarrow> string \<Rightarrow> string \<Rightarrow> bool" where
  "peer_has_path_on_family env dest_hash family = (let clean = nhash dest_hash in
     if length clean \<noteq> 32 then False
     else fst (peer_path_on_family (r_host env) (Some clean) (Some family) (r_rns env)) \<noteq> None)"

definition peer_has_path :: "route_env \<Rightarrow> string \<Rightarrow> bool" where
  "peer_has_path env dest_hash = (let clean = nhash dest_hash in
     if length clean \<noteq> 32 then False
     else let t = snd (scrub_peer_path (r_host env) (Some clean) (r_rns env));
              path_iface = peer_path_iface t (Some clean)
       in path_iface \<noteq> None \<and> interface_is_healthy (r_host env) path_iface)"

section \<open>The families of a peer\<close>

abbreviation lan_set :: "string set" where
  "lan_set \<equiv> {''udp'', ''lan'', ''tcp''}"

text \<open>The first block of \<open>_peer_expected_transport_families\<close>: what the discovery row says.\<close>

definition by_meta :: "route_env \<Rightarrow> string \<Rightarrow> (string \<times> string) option \<Rightarrow> string set option" where
  "by_meta env peer meta = (case meta of None \<Rightarrow> None
   | Some (via, ip) \<Rightarrow>
       let via = py_strip via; ip = py_strip ip in
       if via = ''serial'' then Some (if serial_ready env then {''serial''} else {})
       else if ip \<noteq> '''' \<and> peer_lan_ip_usable env ip then Some lan_set
       else if ip = '''' \<and> serial_ready env then Some {''serial''}
       else if serial_ready env \<and> ip \<noteq> '''' \<and> \<not> peer_lan_ip_usable env ip
               \<and> peer_has_path_on_family env peer ''serial''
         then Some {''serial''}
       else None)"

text \<open>The second block: USB and LAN are both up.\<close>

definition by_dual :: "route_env \<Rightarrow> string \<Rightarrow> (string \<times> string) option \<Rightarrow> string set option" where
  "by_dual env peer meta = (
     if serial_ready env \<and> lan_transport_ready env \<and> peer_has_path_on_family env peer ''serial'' then
       (if \<not> peer_has_path_on_family env peer ''udp'' \<and> \<not> peer_has_path_on_family env peer ''tcp'' then Some {''serial''}
        else case meta of None \<Rightarrow> None | Some (via, ip) \<Rightarrow>
          if py_strip via = ''serial'' then Some {''serial''}
          else if py_strip ip = '''' then Some {''serial''} else None)
     else None)"

text \<open>The rest: the path table.\<close>

definition by_paths :: "route_env \<Rightarrow> string \<Rightarrow> (string \<times> string) option \<Rightarrow> string set" where
  "by_paths env peer meta = (let
     via = (case meta of None \<Rightarrow> '''' | Some (v, _) \<Rightarrow> py_strip v);
     ip = (case meta of None \<Rightarrow> '''' | Some (_, i) \<Rightarrow> py_strip i);
     on = peer_has_path_on_family env peer in
     if serial_ready env \<and> on ''serial'' \<and> \<not> on ''udp'' \<and> \<not> on ''tcp'' then {''serial''}
     else if meta \<noteq> None \<and> via = ''serial'' \<and> serial_ready env then {''serial''}
     else if serial_ready env \<and> on ''serial'' \<and> (via = ''serial'' \<or> ip = '''' \<or> \<not> peer_lan_ip_usable env ip)
       then {''serial''}
     else if on ''udp'' \<or> on ''tcp'' then lan_set
     else {})"

definition expected_families :: "route_env \<Rightarrow> peer_maps \<Rightarrow> string \<Rightarrow> string set" where
  "expected_families env m peer_hash = (let peer = dest_hash_for m peer_hash in
     if peer = '''' \<or> peer = ''unknown'' \<or> is_hub_peer_hash peer then {}
     else let meta = r_meta env peer in
       case by_meta env peer meta of Some fams \<Rightarrow> fams
       | None \<Rightarrow> (case by_dual env peer meta of Some fams \<Rightarrow> fams | None \<Rightarrow> by_paths env peer meta))"

definition family_allowed :: "string set \<Rightarrow> string \<Rightarrow> bool" where
  "family_allowed expected fam = (
     if fam = ''serial'' then ''serial'' \<in> expected
     else if is_lan_family fam then expected \<inter> lan_set \<noteq> {}
     else fam \<in> expected)"

text \<open>\<open>_link_acceptable_for_peer\<close> for the interface a link is attached to.\<close>

definition link_acceptable :: "route_env \<Rightarrow> peer_maps \<Rightarrow> rns_iface option \<Rightarrow> string \<Rightarrow> bool" where
  "link_acceptable env m iface peer_hash = (let peer = dest_hash_for m peer_hash in
     if peer = '''' \<or> peer = ''unknown'' then interface_family iface = ''serial''
     else let expected = expected_families env m peer in
       if expected = {} then True else family_allowed expected (interface_family iface))"

section \<open>The order of transports\<close>

definition peer_uses_hub_transport :: "route_env \<Rightarrow> peer_maps \<Rightarrow> string \<Rightarrow> bool" where
  "peer_uses_hub_transport env m peer_hash = (
     if is_hub_peer_hash peer_hash then True
     else if r_role env = ''off'' then False
     else let peer = nhash (py_or (dest_hash_for m peer_hash) peer_hash) in
       if length peer \<noteq> 32 then False
       else let hub_hex = nhash (r_hub_hash env) in hub_hex \<noteq> '''' \<and> hashes_equivalent m peer hub_hex)"

text \<open>The first round trip time a list of links (family, time) has on the given families.\<close>

definition first_rtt :: "string set \<Rightarrow> (string \<times> real option) list \<Rightarrow> real option" where
  "first_rtt fams links = (case find (\<lambda>(f, rtt). f \<in> fams \<and> rtt \<noteq> None) links of
     Some (_, rtt) \<Rightarrow> rtt | None \<Rightarrow> None)"

definition serial_speed_margin :: real where
  "serial_speed_margin = 115 / 100"

definition serial_faster_than_lan ::
  "route_env \<Rightarrow> string \<Rightarrow> (string \<times> real option) list \<Rightarrow> (string \<times> real option) list \<Rightarrow> bool" where
  "serial_faster_than_lan env peer links active = (
     if \<not> serial_ready env then False
     else if \<not> physical_lan env \<or> \<not> has_online_family env ''udp'' then True
     else if \<not> peer_has_path_on_family env peer ''serial'' then False
     else case first_rtt {''serial''} (links @ active) of None \<Rightarrow> False
     | Some serial_rtt \<Rightarrow> (case first_rtt lan_set (links @ active) of None \<Rightarrow> False
         | Some lan_rtt \<Rightarrow> serial_rtt * serial_speed_margin < lan_rtt))"

text \<open>The order in which \<open>_failover_families_to_try\<close> tries the families, before the zone of the
  peer is taken into account.\<close>

definition failover_order :: "route_env \<Rightarrow> bool \<Rightarrow> string \<Rightarrow> string list" where
  "failover_order env faster peer_ip = (let
     udp_lan = udp_cfg env; tcp_lan = tcp_cfg env;
     peer_lan_down = (peer_ip \<noteq> '''' \<and> peer_lan_recently_unreachable env peer_ip);
     lan_up = (physical_lan env \<and> \<not> peer_lan_down
       \<and> ((udp_lan \<and> has_online_family env ''udp'') \<or> (tcp_lan \<and> has_online_family env ''tcp'')));
     serial_up = serial_ready env in
     if tcp_lan \<and> \<not> udp_lan then
       (if lan_up \<and> serial_up then (if faster then [''serial'', ''tcp''] else [''tcp'', ''serial''])
        else if lan_up then [''tcp'', ''serial'']
        else if serial_up then [''serial'', ''tcp'']
        else [''tcp'', ''serial''])
     else if lan_up \<and> serial_up then
       (if faster then (if tcp_lan then [''serial'', ''udp'', ''tcp'', ''lan''] else [''serial'', ''udp'', ''lan''])
        else if tcp_lan then [''udp'', ''tcp'', ''lan'', ''serial''] else [''udp'', ''lan'', ''serial''])
     else if lan_up then
       (if android env \<and> tcp_lan \<and> udp_lan then [''tcp'', ''udp'', ''lan'', ''serial'']
        else if tcp_lan then [''udp'', ''tcp'', ''lan'', ''serial''] else [''udp'', ''lan'', ''serial''])
     else if serial_up then (if tcp_lan then [''serial'', ''udp'', ''tcp'', ''lan''] else [''serial'', ''udp'', ''lan''])
     else if tcp_lan then [''udp'', ''tcp'', ''serial'', ''lan''] else [''udp'', ''serial'', ''lan''])"

definition keep_expected :: "string set \<Rightarrow> string list \<Rightarrow> string list" where
  "keep_expected expected order = rev (remdups (rev (filter (\<lambda>fam. fam \<noteq> ''''
     \<and> (expected = {} \<or> \<not> ((fam = ''serial'' \<and> ''serial'' \<notin> expected)
                            \<or> (is_lan_family fam \<and> expected \<inter> lan_set = {})))) order)))"

definition failover_families_to_try ::
  "route_env \<Rightarrow> peer_maps \<Rightarrow> string \<Rightarrow> bool \<Rightarrow> string \<Rightarrow> string \<Rightarrow> string list" where
  "failover_families_to_try env m session_transport faster peer peer_ip = (let
     raw_session = py_lower (py_strip session_transport);
     session = (if raw_session = '''' then '''' else normalize_transport raw_session) in
     if session = ''serial'' \<and> serial_ready env then [''serial'']
     else if session = ''lan'' then
       (if tcp_cfg env \<and> \<not> udp_cfg env then [''tcp'']
        else if udp_cfg env then (if tcp_cfg env then [''udp'', ''tcp''] else [''udp''])
        else [''udp'', ''tcp'', ''lan''])
     else if hub_active env \<and> peer_uses_hub_transport env m peer then [''tcp'']
     else let meta = (let p = dest_hash_for m peer in if p = '''' \<or> p = ''unknown'' then None else r_meta env p) in
       if (case meta of Some (via, _) \<Rightarrow> py_strip via = ''serial'' | None \<Rightarrow> False)
       then (if serial_ready env then [''serial''] else [])
       else let expected = expected_families env m peer;
                out = keep_expected expected (failover_order env faster peer_ip) in
         if expected = {''serial''} \<and> ''serial'' \<in> set out then [''serial''] else out)"


section \<open>Properties\<close>

lemma dest_bytes_fun: "peer_path_iface t x = (case dest_bytes_for_hash x of None \<Rightarrow> None
    | Some d \<Rightarrow> (case map_of (path_table t) d of Some (Path _ i) \<Rightarrow> i | _ \<Rightarrow> None))"
  by (simp add: peer_path_iface_def)

text \<open>Dropping the dead entry of one peer changes the answer for no peer.\<close>

lemma scrub_invisible:
  "fst (peer_path_on_family h x f (snd (scrub_peer_path h y t))) = fst (peer_path_on_family h x f t)"
proof -
  define live where "live u = (if peer_path_iface u x \<noteq> None \<and> interface_is_healthy h (peer_path_iface u x)
      \<and> (case f of None \<Rightarrow> True | Some g \<Rightarrow> interface_family (peer_path_iface u x) = g) then peer_path_iface u x else None)" for u
  have iface: "peer_path_iface (snd (scrub_peer_path h z u)) x = peer_path_iface u x
      \<or> peer_path_iface (snd (scrub_peer_path h z u)) x = None \<and> \<not> interface_is_healthy h (peer_path_iface u x)" for z u
    by (auto simp: scrub_peer_path_def clear_peer_path_def dest_bytes_fun split: option.splits path_entry.splits)
  have live_scrub: "live (snd (scrub_peer_path h z u)) = live u" for z u
  proof (cases "peer_path_iface (snd (scrub_peer_path h z u)) x = peer_path_iface u x")
    case True
    then show ?thesis by (simp only: live_def)
  next
    case False
    with iface [of z u] show ?thesis by (simp add: live_def)
  qed
  have "fst (peer_path_on_family h x f u) = live u" for u
    using live_scrub [of x u] by (simp add: peer_path_on_family_def Let_def live_def)
  then show ?thesis using live_scrub by simp
qed


lemma by_meta_zone: "by_meta env peer meta = Some fams \<Longrightarrow> fams = {} \<or> fams = {''serial''} \<and> serial_ready env \<or> fams = lan_set"
  by (auto simp: by_meta_def Let_def split: option.splits if_splits)

lemma by_dual_zone: "by_dual env peer meta = Some fams \<Longrightarrow> fams = {''serial''} \<and> serial_ready env"
  by (auto simp: by_dual_def split: option.splits if_splits)

lemma by_paths_zone: "by_paths env peer meta = {} \<or> by_paths env peer meta = {''serial''} \<and> serial_ready env \<or> by_paths env peer meta = lan_set"
  by (simp add: by_paths_def Let_def)

lemma expected_zone:
  "expected_families env m h = {} \<or> expected_families env m h = {''serial''} \<and> serial_ready env \<or> expected_families env m h = lan_set"
proof -
  define p where "p = dest_hash_for m h"
  show ?thesis
  proof (cases "p = '''' \<or> p = ''unknown'' \<or> is_hub_peer_hash p")
    case True
    then show ?thesis by (simp add: expected_families_def Let_def flip: p_def)
  next
    case False
    then have e: "expected_families env m h = (case by_meta env p (r_meta env p) of Some fams \<Rightarrow> fams
        | None \<Rightarrow> (case by_dual env p (r_meta env p) of Some fams \<Rightarrow> fams | None \<Rightarrow> by_paths env p (r_meta env p)))"
      by (simp add: expected_families_def Let_def flip: p_def)
    show ?thesis
    proof (cases "by_meta env p (r_meta env p)")
      case None
      then show ?thesis unfolding e using by_dual_zone [of env p] by_paths_zone [of env p]
        by (cases "by_dual env p (r_meta env p)") simp_all
    next
      case (Some fams)
      from by_meta_zone [OF Some] show ?thesis unfolding e Some option.case .
    qed
  qed
qed

lemma allowed_one_zone:
  assumes "fams = {''serial''} \<or> fams = lan_set"
  shows "family_allowed fams fam \<longleftrightarrow> (if fams = lan_set then is_lan_family fam else fam = ''serial'')"
  using assms by (auto simp: family_allowed_def is_lan_family_def lan_families_def)


definition lan_peer_env :: route_env where
  "lan_peer_env = \<lparr>r_host = up_host, r_rns = \<lparr>path_table = [], announce_table = [], interfaces = [(udp_if, [])], serial_pins = [], requests = []\<rparr>,
     r_if = \<lparr>ic_android = False, ic_status = (\<lambda>_. ''missing''), ic_fresh = (\<lambda>_. ''id''), ic_ports = []\<rparr>, r_items = [],
     r_scope = '''', r_meta = (\<lambda>_. Some (''udp'', ''10.0.0.2'')), r_role = ''off'', r_hub_hash = '''', r_unreachable = [], r_now = 0\<rparr>"



section \<open>The order follows the zone\<close>

lemma failover_order_props:
  "distinct (failover_order env faster ip) \<and> ''serial'' \<in> set (failover_order env faster ip)
    \<and> set (failover_order env faster ip) \<subseteq> {''serial'', ''tcp'', ''udp'', ''lan''}"
  unfolding failover_order_def Let_def by (simp split: if_split)

lemma first_occurrences_distinct: "distinct xs \<Longrightarrow> rev (remdups (rev xs)) = xs"
  by (simp add: distinct_remdups_id)

lemma keep_expected_distinct:
  "distinct order \<Longrightarrow> keep_expected expected order = filter (\<lambda>fam. fam \<noteq> ''''
     \<and> (expected = {} \<or> \<not> ((fam = ''serial'' \<and> ''serial'' \<notin> expected)
                            \<or> (is_lan_family fam \<and> expected \<inter> lan_set = {})))) order"
  unfolding keep_expected_def by (rule first_occurrences_distinct) simp

text \<open>Without a session transport and outside the hub, the transports tried for a peer are
  exactly those of its zone: USB alone for a USB peer, the LAN families in the preferred order
  for a LAN peer, all of them for a peer of no known zone, and none for a peer that was
  announced on USB while no serial interface is up.\<close>

theorem failover_by_zone:
  assumes p: "dest_hash_for m peer = p" "p \<noteq> ''''" "p \<noteq> ''unknown''" "\<not> is_hub_peer_hash p"
    and hub: "r_role env = ''off''"
  shows "failover_families_to_try env m '''' faster peer ip =
    (if expected_families env m peer = {''serial''} then [''serial'']
     else if expected_families env m peer = lan_set then filter is_lan_family (failover_order env faster ip)
     else if (case r_meta env p of Some (via, _) \<Rightarrow> py_strip via = ''serial'' | None \<Rightarrow> False) then []
     else failover_order env faster ip)"
proof -
  define E where "E = expected_families env m peer"
  define order where "order = failover_order env faster ip"
  define usb where "usb \<longleftrightarrow> (case r_meta env p of Some (via, _) \<Rightarrow> py_strip via = ''serial'' | None \<Rightarrow> False)"
  have out: "failover_families_to_try env m '''' faster peer ip =
    (if usb then (if serial_ready env then [''serial''] else [])
     else if E = {''serial''} \<and> ''serial'' \<in> set (keep_expected E order) then [''serial''] else keep_expected E order)"
    using p hub unfolding E_def order_def usb_def
    by (simp add: failover_families_to_try_def Let_def hub_active_def split del: if_split)
       (simp only: Let_def)
  have o: "distinct order" "''serial'' \<in> set order" "set order \<subseteq> {''serial'', ''tcp'', ''udp'', ''lan''}"
    using failover_order_props by (simp_all add: order_def)
  have usbE: "E = (if serial_ready env then {''serial''} else {})" if usb
    using that p by (auto simp: usb_def E_def expected_families_def Let_def by_meta_def split: option.splits)
  consider "E = {}" | "E = {''serial''}" "serial_ready env" | "E = lan_set"
    using expected_zone [of env m peer] by (auto simp: E_def)
  then have "failover_families_to_try env m '''' faster peer ip =
    (if E = {''serial''} then [''serial''] else if E = lan_set then filter is_lan_family order
     else if usb then [] else order)"
  proof cases
    case 1
    have "keep_expected {} order = order"
      unfolding keep_expected_distinct [OF o(1)] using o(3) by (auto simp: filter_id_conv)
    with 1 show ?thesis unfolding out using usbE by auto
  next
    case 2
    have "''serial'' \<in> set (keep_expected {''serial''} order)"
      unfolding keep_expected_distinct [OF o(1)] using o(2) by (simp add: is_lan_family_def lan_families_def)
    with 2 show ?thesis unfolding out by simp
  next
    case 3
    have ne: "lan_set = {''serial''} \<longleftrightarrow> False" "lan_set \<noteq> {}" by auto
    have "(fam \<noteq> '''' \<and> (lan_set = {} \<or> \<not> ((fam = ''serial'' \<and> ''serial'' \<notin> lan_set)
        \<or> (is_lan_family fam \<and> lan_set \<inter> lan_set = {})))) \<longleftrightarrow> is_lan_family fam" if "fam \<in> set order" for fam
    proof -
      have "fam \<in> {''serial'', ''tcp'', ''udp'', ''lan''}" using o(3) that by (rule subsetD)
      then consider "fam = ''serial''" | "fam = ''tcp''" | "fam = ''udp''" | "fam = ''lan''" by (elim insertE) simp_all
      then show ?thesis by cases (simp_all add: is_lan_family_def lan_families_def)
    qed
    then have keep: "keep_expected lan_set order = filter is_lan_family order"
      unfolding keep_expected_distinct [OF o(1)] by (rule filter_cong [OF refl])
    have "\<not> usb"
    proof
      assume usb
      from usbE [OF this] 3 ne show False by (metis (full_types))
    qed
    with keep show ?thesis unfolding out 3 ne(1) by (simp only: if_False if_True simp_thms)
  qed
  then show ?thesis by (simp add: E_def order_def usb_def)
qed

lemma failover_by_zone_witness:
  "failover_families_to_try lan_peer_env no_maps '''' False ''ab'' '''' = [''udp'', ''lan'']"
proof -
  have p: "dest_hash_for no_maps ''ab'' = ''ab''" "''ab'' \<noteq> ''''" "''ab'' \<noteq> ''unknown''" "\<not> is_hub_peer_hash ''ab''"
    "r_role lan_peer_env = ''off''" by code_simp+
  have "expected_families lan_peer_env no_maps ''ab'' = lan_set"
    "filter is_lan_family (failover_order lan_peer_env False '''') = [''udp'', ''lan'']" by code_simp+
  then show ?thesis using failover_by_zone [OF p, of False "''''"] by simp
qed

end
