(* ===== verification/PeerLinks.thy ===== *)
theory PeerLinks
  imports TransportChoice
begin

text \<open>
  The links of the message engine (\<open>core/messaging.py\<close>): which open link belongs to which
  peer, which one a message goes over, and what a disconnect by the user leaves.  A link is
  its \<open>link_id\<close>; what Reticulum knows of it (status, interface, identity of the remote side,
  round trip time) is in \<open>link_env\<close>, as are the identities Reticulum can recall.  Asking a
  link for its remote party registers the identity with the addressing tables, so the
  queries return the state as well.  \<open>link.teardown()\<close> is Reticulum's and runs the closing
  callback: it is an argument.
\<close>

section \<open>State\<close>

record rns_link =
  l_status :: string                        \<comment> \<open>\<open>active\<close>, \<open>stale\<close>, \<open>closed\<close>, \<open>pending\<close>\<close>
  l_iface :: "rns_iface option"
  l_remote :: "(string \<times> string) option"    \<comment> \<open>\<open>Destination.hash\<close> of the remote identity for this application, and its own hash\<close>
  l_rtt :: "real option"
  l_target :: "string \<times> int"                \<comment> \<open>\<open>target_host\<close> and port of the interface\<close>

record link_env =
  e_route :: route_env
  e_info :: "string \<Rightarrow> rns_link"
  e_me :: self_ids
  e_recall :: "string \<Rightarrow> (string \<times> string) option"   \<comment> \<open>\<open>_recall_identity_bytes\<close>\<close>
  e_hub_host :: string
  e_hub_port :: int

text \<open>\<open>on_link_established\<close>, \<open>on_link_closed\<close>, a transfer reported as failed, a timer for the queue.\<close>

datatype link_event =
    LinkUp string string bool bool bool
  | LinkDown string bool
  | FilesFailed "string list"
  | DrainSoon string string

record engine =
  maps :: peer_maps
  links :: "string list"                             \<comment> \<open>the keys of \<open>self.links\<close>\<close>
  link_peer_hashes :: "(string, string) pydict"
  peer_links :: "(string, string) pydict"
  active_link :: "string option"
  active_peer_hash :: string
  send_link :: "string option"
  session_peer_hash :: string
  session_transport :: string
  user_disconnected :: "string set"
  reconnect_pending :: bool
  last_link_lost_at :: real
  gone :: "string set"                               \<comment> \<open>the links closed since \<open>link_env\<close> was read\<close>
  link_handoff :: bool
  last_handoff :: bool
  established_at :: real
  pending_sends :: "string set"
  pending_files :: "(string, string list) pydict"    \<comment> \<open>per link, the names of the files to come\<close>
  events :: "link_event list"                        \<comment> \<open>the callbacks that were called\<close>

definition link_status :: "link_env \<Rightarrow> engine \<Rightarrow> string \<Rightarrow> string" where
  "link_status env s l = (if l \<in> gone s then ''closed'' else l_status (e_info env l))"

abbreviation fam_of :: "link_env \<Rightarrow> string \<Rightarrow> string" where
  "fam_of env l \<equiv> interface_family (l_iface (e_info env l))"

definition link_interface_healthy :: "link_env \<Rightarrow> string \<Rightarrow> bool" where
  "link_interface_healthy env l = interface_is_healthy (r_host (e_route env)) (l_iface (e_info env l))"

abbreviation acceptable :: "link_env \<Rightarrow> engine \<Rightarrow> string \<Rightarrow> string \<Rightarrow> bool" where
  "acceptable env s l peer \<equiv> link_acceptable (e_route env) (maps s) (l_iface (e_info env l)) peer"

definition transport_from_link :: "link_env \<Rightarrow> string \<Rightarrow> string" where
  "transport_from_link env l = (if fam_of env l = ''serial'' then ''serial'' else ''lan'')"

definition link_transport_matches :: "link_env \<Rightarrow> string \<Rightarrow> string \<Rightarrow> bool" where
  "link_transport_matches env l transport = (
     if transport = '''' then True else transport_from_link env l = normalize_transport transport)"

section \<open>Who is on the other side\<close>

definition message_dest_hash_for_identity :: "string \<times> string \<Rightarrow> string" where
  "message_dest_hash_for_identity ident = (if snd ident = '''' then '''' else nhash (fst ident))"

text \<open>\<open>_dest_hash_from_identity\<close>: an identity whose destination is known is registered.\<close>

definition dest_hash_from_identity :: "string \<times> string \<Rightarrow> engine \<Rightarrow> string \<times> engine" where
  "dest_hash_from_identity ident s = (let dest = message_dest_hash_for_identity ident; ident_hex = nhash (snd ident) in
     if dest \<noteq> '''' \<and> ident_hex \<noteq> '''' \<and> ident_hex \<noteq> dest
     then (dest, s\<lparr>maps := register_peer_mapping dest ident_hex (maps s)\<rparr>)
     else (dest, s))"

definition peer_hash_from_link_identity :: "link_env \<Rightarrow> string \<Rightarrow> engine \<Rightarrow> string \<times> engine" where
  "peer_hash_from_link_identity env l s = (case l_remote (e_info env l) of None \<Rightarrow> ('''', s)
   | Some ident \<Rightarrow> if snd ident = '''' then ('''', s)
       else (case dest_hash_from_identity ident s of (dest, s) \<Rightarrow>
         (if dest \<noteq> '''' \<and> \<not> is_self_hash (e_me env) dest then dest else '''', s)))"

definition known_party :: "link_env \<Rightarrow> string \<Rightarrow> bool" where
  "known_party env h \<longleftrightarrow> h \<noteq> '''' \<and> h \<noteq> ''unknown'' \<and> \<not> is_self_hash (e_me env) h"

definition link_remote_peer_hash :: "link_env \<Rightarrow> string \<Rightarrow> engine \<Rightarrow> string \<times> engine" where
  "link_remote_peer_hash env l s = (case peer_hash_from_link_identity env l s of (identity_peer, s) \<Rightarrow>
     if known_party env identity_peer then (dest_hash_for (maps s) identity_peer, s)
     else let cached = orE (map_of (link_peer_hashes s) l) in
       if known_party env cached then (dest_hash_for (maps s) cached, s) else ('''', s))"

definition link_matches_peer :: "link_env \<Rightarrow> string \<Rightarrow> string \<Rightarrow> engine \<Rightarrow> bool \<times> engine" where
  "link_matches_peer env l peer_hash s = (let peer = dest_hash_for (maps s) peer_hash in
     if peer = '''' \<or> peer = ''unknown'' then (False, s)
     else case link_remote_peer_hash env l s of (remote, s) \<Rightarrow>
       if remote \<noteq> '''' then (hashes_equivalent (maps s) remote peer, s)
       else if map_of (peer_links s) peer = Some l then (True, s)
       else (list_ex (\<lambda>(cached_peer, cached_link). cached_link = l \<and> hashes_equivalent (maps s) cached_peer peer)
               (peer_links s), s))"

text \<open>\<open>_identity_hash_candidates\<close> and \<open>_identity_for_hash\<close>.\<close>

definition add_new :: "string \<Rightarrow> string list \<Rightarrow> string list" where
  "add_new h hs = (if h \<noteq> '''' \<and> h \<notin> set hs then hs @ [h] else hs)"

definition identity_hash_candidates :: "peer_maps \<Rightarrow> string \<Rightarrow> string list" where
  "identity_hash_candidates m hash_hex = (let clean = nhash hash_hex in
     if length clean \<noteq> 32 then []
     else let c = add_new (dest_hash_for m clean) [clean];
              c = add_new (orE (map_of (dest_to_identity m) clean)) c
       in fold (\<lambda>(ih, dest) c. if ih = clean \<or> dest = clean then add_new dest (add_new ih c) else c)
            (identity_to_dest m) c)"

definition identity_for_hash :: "link_env \<Rightarrow> string \<Rightarrow> engine \<Rightarrow> (string \<times> string) option \<times> engine" where
  "identity_for_hash env hash_hex s = (
     case find (\<lambda>c. py_fromhex c \<noteq> None \<and> e_recall env c \<noteq> None) (identity_hash_candidates (maps s) hash_hex) of
       None \<Rightarrow> (None, s)
     | Some c \<Rightarrow> (case e_recall env c of None \<Rightarrow> (None, s)
         | Some ident \<Rightarrow> (Some ident, let dest = message_dest_hash_for_identity ident in
             if dest \<noteq> '''' then s\<lparr>maps := register_peer_mapping dest (nhash (snd ident)) (maps s)\<rparr> else s)))"

definition from_link :: "link_env \<Rightarrow> string option \<Rightarrow> engine \<Rightarrow> string \<times> engine" where
  "from_link env link s = (case link of None \<Rightarrow> ('''', s)
     | Some l \<Rightarrow> (case peer_hash_from_link_identity env l s of (h, s) \<Rightarrow> (if known_party env h then h else '''', s)))"

definition canonical_connect_hash :: "link_env \<Rightarrow> string \<Rightarrow> string option \<Rightarrow> engine \<Rightarrow> string \<times> engine" where
  "canonical_connect_hash env any_hash link s = (let clean = nhash any_hash in
     if \<not> known_party env clean then from_link env link s
     else let mapped = dest_hash_for (maps s) clean in
       if map_of (dest_to_identity (maps s)) mapped \<noteq> None then (mapped, s)
       else case identity_for_hash env clean s of (ident, s) \<Rightarrow>
         (case (case ident of None \<Rightarrow> ('''', s) | Some i \<Rightarrow> dest_hash_from_identity i s) of (dest, s) \<Rightarrow>
           if dest \<noteq> '''' \<and> \<not> is_self_hash (e_me env) dest then (dest, s)
           else case from_link env link s of (h, s) \<Rightarrow>
             if h \<noteq> '''' then (h, s)
             else (if mapped \<noteq> '''' \<and> length mapped = 32 then mapped else '''', s)))"

definition cache_link_peer :: "link_env \<Rightarrow> string \<Rightarrow> string \<Rightarrow> engine \<Rightarrow> engine" where
  "cache_link_peer env l peer_hash s = (
     if peer_hash = '''' \<or> peer_hash = ''unknown'' then s
     else case canonical_connect_hash env peer_hash (Some l) s of (canon, s) \<Rightarrow>
       if canon \<noteq> '''' \<and> \<not> is_self_hash (e_me env) canon
       then s\<lparr>link_peer_hashes := AList.update l canon (link_peer_hashes s)\<rparr> else s)"

section \<open>Finding a link\<close>

fun scan_peer_links :: "link_env \<Rightarrow> string \<Rightarrow> (string \<times> string) list \<Rightarrow> engine \<Rightarrow> string option \<times> engine" where
  "scan_peer_links env peer [] s = (None, s)"
| "scan_peer_links env peer ((key, l) # rest) s = (
     if \<not> hashes_equivalent (maps s) (peer_from_link_key key) peer then scan_peer_links env peer rest s
     else case link_matches_peer env l peer s of (ok, s) \<Rightarrow>
       if ok then (Some l, s) else scan_peer_links env peer rest s)"

fun scan_cached_links :: "link_env \<Rightarrow> string \<Rightarrow> (string \<times> string) list \<Rightarrow> engine \<Rightarrow> string option \<times> engine" where
  "scan_cached_links env peer [] s = (None, s)"
| "scan_cached_links env peer ((l, cached) # rest) s = (
     if \<not> hashes_equivalent (maps s) cached peer then scan_cached_links env peer rest s
     else if l \<notin> set (links s) then scan_cached_links env peer rest s
     else case link_matches_peer env l peer s of (ok, s) \<Rightarrow>
       if ok then (Some l, s) else scan_cached_links env peer rest s)"

text \<open>A link stored under a key, when it matches.\<close>

definition link_at :: "link_env \<Rightarrow> string \<Rightarrow> string \<Rightarrow> engine \<Rightarrow> string option \<times> engine" where
  "link_at env key peer s = (case map_of (peer_links s) key of None \<Rightarrow> (None, s)
     | Some l \<Rightarrow> (case link_matches_peer env l peer s of (ok, s) \<Rightarrow> (if ok then Some l else None, s)))"

definition link_for_peer :: "link_env \<Rightarrow> string \<Rightarrow> string \<Rightarrow> engine \<Rightarrow> string option \<times> engine" where
  "link_for_peer env peer_hash transport s = (let
     (peer, transport) = (if CHR '':'' \<in> set peer_hash \<and> transport = ''''
       then (dest_hash_for (maps s) (fst (rsplit_colon peer_hash)), snd (rsplit_colon peer_hash))
       else (dest_hash_for (maps s) peer_hash, transport)) in
     if peer = '''' \<or> peer = ''unknown'' then (None, s)
     else if transport \<noteq> '''' then link_at env (link_map_key (maps s) peer transport) peer s
     else case link_at env peer peer s of (Some l, s) \<Rightarrow> (Some l, s)
     | (None, s) \<Rightarrow> (case scan_peer_links env peer (peer_links s) s of (Some l, s) \<Rightarrow> (Some l, s)
         | (None, s) \<Rightarrow> scan_cached_links env peer (link_peer_hashes s) s))"

section \<open>The table of links\<close>

definition register_peer_link :: "link_env \<Rightarrow> string \<Rightarrow> string \<Rightarrow> string \<Rightarrow> engine \<Rightarrow> engine" where
  "register_peer_link env l peer_hash transport s = (let peer = dest_hash_for (maps s) peer_hash in
     if peer = '''' \<or> peer = ''unknown'' then s
     else case link_remote_peer_hash env l s of (remote, s) \<Rightarrow>
       if remote \<noteq> '''' \<and> \<not> hashes_equivalent (maps s) remote peer then s
       else let t = py_or transport (transport_from_link env l); key = link_map_key (maps s) peer t;
                s = s\<lparr>peer_links := AList.update key l (peer_links s)\<rparr>;
                s = (if key \<noteq> peer then s\<lparr>peer_links := AList.delete peer (peer_links s)\<rparr> else s)
         in cache_link_peer env l peer s)"

definition unlink_peer :: "string \<Rightarrow> string \<Rightarrow> engine \<Rightarrow> engine" where
  "unlink_peer peer_hash transport s = (let peer = dest_hash_for (maps s) peer_hash in
     if peer = '''' then s
     else if transport \<noteq> '''' then s\<lparr>peer_links := AList.delete (link_map_key (maps s) peer transport) (peer_links s)\<rparr>
     else s\<lparr>peer_links := dict_purge (\<lambda>key _. hashes_equivalent (maps s) (peer_from_link_key key) peer)
              (AList.delete peer (peer_links s))\<rparr>)"

definition other_active_links_for_peer :: "link_env \<Rightarrow> string \<Rightarrow> string option \<Rightarrow> engine \<Rightarrow> string list" where
  "other_active_links_for_peer env peer_hash except_link s = (let peer = dest_hash_for (maps s) peer_hash in
     if peer = '''' \<or> peer = ''unknown'' then []
     else map fst (filter (\<lambda>(l, cached). hashes_equivalent (maps s) cached peer \<and> l \<in> set (links s)
            \<and> except_link \<noteq> Some l \<and> link_status env s l = ''active'') (link_peer_hashes s)))"

definition links_for_peer :: "link_env \<Rightarrow> string \<Rightarrow> engine \<Rightarrow> string list" where
  "links_for_peer env peer_hash s = (let peer = dest_hash_for (maps s) peer_hash in
     if peer = '''' \<or> peer = ''unknown'' then []
     else fold add_new
       (other_active_links_for_peer env peer None s
        @ map snd (filter (\<lambda>(key, _). hashes_equivalent (maps s) (peer_from_link_key key) peer) (peer_links s))) [])"

end
