(* ===== verification/LinkOps.thy ===== *)
theory LinkOps
  imports PeerLinks Json
begin

text \<open>
  Choosing the link a message goes over, sending, and closing links (\<open>core/messaging.py\<close>).
  A packet that leaves is the link it was handed to; whether Reticulum accepts it, and
  \<open>link.teardown()\<close> with its callback, are arguments.
\<close>

section \<open>Scores\<close>

text \<open>\<open>int(100 - min(float(rtt) * 8, 95))\<close>, the score a round trip time gives.\<close>

definition rtt_score :: "real \<Rightarrow> int" where
  "rtt_score rtt = py_trunc (100 - min (rtt * 8) 95)"

definition family_score :: "link_env \<Rightarrow> string \<Rightarrow> int" where
  "family_score env fam = (
     if fam = ''serial'' then (if \<not> physical_lan (e_route env) then 85 else 45)
     else if fam = ''tcp'' then 95
     else if fam = ''lan'' then 100
     else if fam = ''udp'' then 80
     else 50)"

definition link_path_score :: "link_env \<Rightarrow> string \<Rightarrow> int" where
  "link_path_score env l = (
     if \<not> link_interface_healthy env l then 0
     else let score = family_score env (fam_of env l) in
       case l_rtt (e_info env l) of None \<Rightarrow> score | Some rtt \<Rightarrow> max score (rtt_score rtt))"

definition link_is_hub_transport :: "link_env \<Rightarrow> string \<Rightarrow> bool" where
  "link_is_hub_transport env l = (let iface = l_iface (e_info env l) in
     if iface = None \<or> interface_family iface \<noteq> ''tcp'' then False
     else if r_role (e_route env) = ''off'' then False
     else if r_role (e_route env) = ''client'' then
       e_hub_host env \<noteq> '''' \<and> l_target (e_info env l) = (e_hub_host env, e_hub_port env)
     else if r_role (e_route env) = ''server'' then (case iface of Some i \<Rightarrow> i_class i = ''TCPServerInterface'' | None \<Rightarrow> False)
     else False)"

section \<open>The outgoing link\<close>

text \<open>\<open>prefer\<close> and the rank of a family in it.\<close>

definition preferred_families :: "string set \<Rightarrow> string list" where
  "preferred_families expected = (
     if expected = {''serial''} then [''serial'']
     else if expected \<inter> lan_set \<noteq> {} then [''tcp'', ''lan'', ''udp'']
     else [''tcp'', ''lan'', ''udp'', ''serial''])"

fun index_of :: "string \<Rightarrow> string list \<Rightarrow> nat option" where
  "index_of x [] = None"
| "index_of x (y # ys) = (if x = y then Some 0 else map_option Suc (index_of x ys))"

definition fam_rank :: "string list \<Rightarrow> string \<Rightarrow> int" where
  "fam_rank prefer fam = (case index_of fam prefer of None \<Rightarrow> 0 | Some n \<Rightarrow> int (length prefer) - int n)"

definition off_zone :: "string set \<Rightarrow> string \<Rightarrow> bool" where
  "off_zone expected fam \<longleftrightarrow> expected \<noteq> {} \<and> ((fam = ''serial'' \<and> ''serial'' \<notin> expected)
     \<or> (is_lan_family fam \<and> expected \<inter> lan_set = {}))"

definition skips_hub :: "link_env \<Rightarrow> engine \<Rightarrow> string \<Rightarrow> bool" where
  "skips_hub env s peer \<longleftrightarrow> hub_active (e_route env) \<and> \<not> peer_uses_hub_transport (e_route env) (maps s) peer"

text \<open>The first loop of \<open>_best_outgoing_link\<close>: the healthy, acceptable link of the highest score.\<close>

fun best_scored :: "link_env \<Rightarrow> string \<Rightarrow> string set \<Rightarrow> bool \<Rightarrow> string list \<Rightarrow> string option \<times> int \<Rightarrow> engine
    \<Rightarrow> string option \<times> engine" where
  "best_scored env peer expected hub_p2p [] best s = (fst best, s)"
| "best_scored env peer expected hub_p2p (l # rest) best s = (
     case link_matches_peer env l peer s of (ok, s) \<Rightarrow>
       if \<not> ok \<or> \<not> link_interface_healthy env l \<or> \<not> acceptable env s l peer
          \<or> (hub_p2p \<and> link_is_hub_transport env l) \<or> off_zone expected (fam_of env l)
       then best_scored env peer expected hub_p2p rest best s
       else let score = link_path_score env l + fam_rank (preferred_families expected) (fam_of env l) * 5 in
         best_scored env peer expected hub_p2p rest (if snd best < score then (Some l, score) else best) s)"

text \<open>The second loop: any active link of the right zone.\<close>

fun first_active :: "link_env \<Rightarrow> string \<Rightarrow> bool \<Rightarrow> string list \<Rightarrow> engine \<Rightarrow> string option \<times> engine" where
  "first_active env peer hub_p2p [] s = (None, s)"
| "first_active env peer hub_p2p (l # rest) s = (
     case link_matches_peer env l peer s of (ok, s) \<Rightarrow>
       if ok \<and> acceptable env s l peer \<and> \<not> (hub_p2p \<and> link_is_hub_transport env l) \<and> link_status env s l = ''active''
       then (Some l, s) else first_active env peer hub_p2p rest s)"

text \<open>The preferred link on the transport the session was opened on.\<close>

definition session_link :: "link_env \<Rightarrow> string \<Rightarrow> engine \<Rightarrow> string option \<times> engine" where
  "session_link env peer s = (let transport = (if session_peer_hash s \<noteq> '''' \<and> hashes_equivalent (maps s) peer (session_peer_hash s)
        then session_transport s else '''') in
     if transport = '''' then (None, s)
     else case link_for_peer env peer transport s of (None, s) \<Rightarrow> (None, s)
     | (Some l, s) \<Rightarrow> if \<not> link_interface_healthy env l then (None, s)
         else (case link_matches_peer env l peer s of (ok, s) \<Rightarrow> (if ok \<and> acceptable env s l peer then Some l else None, s)))"

definition default_peer :: "string \<Rightarrow> engine \<Rightarrow> string" where
  "default_peer peer_hash s = dest_hash_for (maps s) (py_or peer_hash (py_or (active_peer_hash s) (session_peer_hash s)))"

definition best_outgoing_link :: "link_env \<Rightarrow> string \<Rightarrow> engine \<Rightarrow> string option \<times> engine" where
  "best_outgoing_link env peer_hash s = (let peer = default_peer peer_hash s in
     if peer = '''' \<or> peer = ''unknown'' then (None, s)
     else case session_link env peer s of (Some l, s) \<Rightarrow> (Some l, s)
     | (None, s) \<Rightarrow> (let expected = expected_families (e_route env) (maps s) peer; hub_p2p = skips_hub env s peer in
         case best_scored env peer expected hub_p2p (links_for_peer env peer s) (None, -1) s of (Some l, s) \<Rightarrow> (Some l, s)
         | (None, s) \<Rightarrow> (case first_active env peer hub_p2p (links_for_peer env peer s) s of (Some l, s) \<Rightarrow> (Some l, s)
             | (None, s) \<Rightarrow> link_for_peer env peer '''' s)))"

definition queue_send_link :: "link_env \<Rightarrow> string \<Rightarrow> string option \<Rightarrow> engine \<Rightarrow> string option \<times> engine" where
  "queue_send_link env peer_hash link_hint s = (let
     peer = dest_hash_for (maps s) peer_hash;
     hinted = (\<lambda>s. case link_hint of None \<Rightarrow> (None, s)
       | Some l \<Rightarrow> (case link_matches_peer env l peer s of (ok, s) \<Rightarrow> (if ok \<and> acceptable env s l peer then Some l else None, s)))
     in if peer = '''' \<or> peer = ''unknown'' then (None, s)
     else case hinted s of (Some l, s) \<Rightarrow> (Some l, s)
     | (None, s) \<Rightarrow> (case best_outgoing_link env peer s of (best, s) \<Rightarrow>
         if (case best of None \<Rightarrow> False | Some l \<Rightarrow> acceptable env s l peer) then (best, s)
         else case hinted s of (Some l, s) \<Rightarrow> (Some l, s)
         | (None, s) \<Rightarrow> (case link_for_peer env peer '''' s of (fallback, s) \<Rightarrow>
             (if (case fallback of None \<Rightarrow> False | Some l \<Rightarrow> acceptable env s l peer) then fallback else None, s))))"

section \<open>Is there a link\<close>

fun find_active :: "link_env \<Rightarrow> string list \<Rightarrow> string list \<Rightarrow> engine \<Rightarrow> string option \<times> engine" where
  "find_active env targets [] s = (None, s)"
| "find_active env targets (l # rest) s = (
     if link_status env s l \<noteq> ''active'' then find_active env targets rest s
     else case peer_hash_from_link_identity env l s of (peer, s) \<Rightarrow>
       let peer = (if peer = '''' \<or> peer = ''unknown''
                   then (let cached = orE (map_of (link_peer_hashes s) l) in
                         if cached \<noteq> '''' then dest_hash_for (maps s) cached else peer) else peer) in
       if peer = '''' \<or> peer = ''unknown'' then find_active env targets rest s
       else if list_ex (hashes_equivalent (maps s) peer) targets then (Some l, s)
       else find_active env targets rest s)"

definition find_active_link_for_peer :: "link_env \<Rightarrow> string \<Rightarrow> string \<Rightarrow> engine \<Rightarrow> string option \<times> engine" where
  "find_active_link_for_peer env dest_hex alt_hex s = (let
     targets = filter (\<lambda>t. t \<noteq> ''unknown'') (fold add_new [dest_hash_for (maps s) dest_hex, dest_hash_for (maps s) alt_hex] []) in
     if targets = [] then (None, s) else find_active env targets (links s) s)"

text \<open>The first loop of \<open>_peer_link_active\<close>, one round per name of the peer.\<close>

definition active_under :: "link_env \<Rightarrow> string \<Rightarrow> string \<Rightarrow> engine \<Rightarrow> bool \<times> engine" where
  "active_under env raw transport s = (
     if raw = '''' then (False, s)
     else let peer = dest_hash_for (maps s) raw in
       case link_for_peer env peer transport s of (None, s) \<Rightarrow> (False, s)
       | (Some l, s) \<Rightarrow> if link_status env s l \<noteq> ''active'' then (False, s)
           else (case link_matches_peer env l peer s of (ok, s) \<Rightarrow>
             (ok \<and> acceptable env s l peer \<and> link_transport_matches env l transport, s)))"

definition peer_link_active :: "link_env \<Rightarrow> string \<Rightarrow> string \<Rightarrow> string \<Rightarrow> engine \<Rightarrow> bool \<times> engine" where
  "peer_link_active env dest_hex alt_hex transport s = (
     case active_under env dest_hex transport s of (True, s) \<Rightarrow> (True, s)
     | (False, s) \<Rightarrow> (case active_under env alt_hex transport s of (True, s) \<Rightarrow> (True, s)
       | (False, s) \<Rightarrow>
         if transport \<noteq> '''' then (False, s)
         else case find_active_link_for_peer env dest_hex alt_hex s of (None, s) \<Rightarrow> (False, s)
         | (Some l, s) \<Rightarrow> (let peer = dest_hash_for (maps s) (py_or dest_hex alt_hex) in
             case link_matches_peer env l peer s of (ok, s) \<Rightarrow> (ok \<and> acceptable env s l peer, s))))"

definition peer_link_usable :: "link_env \<Rightarrow> string \<Rightarrow> string \<Rightarrow> string \<Rightarrow> engine \<Rightarrow> (bool \<times> string option) \<times> engine" where
  "peer_link_usable env dest_hex alt_hex transport s = (
     case peer_link_active env dest_hex alt_hex transport s of (False, s) \<Rightarrow> ((False, None), s)
     | (True, s) \<Rightarrow> (let peer = dest_hash_for (maps s) dest_hex in
         case (case link_for_peer env peer transport s of (Some l, s) \<Rightarrow> (Some l, s)
               | (None, s) \<Rightarrow> find_active_link_for_peer env dest_hex alt_hex s) of
           (None, s) \<Rightarrow> ((False, None), s)
         | (Some l, s) \<Rightarrow> ((link_interface_healthy env l \<and> peer_has_path (e_route env) dest_hex, Some l), s)))"

section \<open>Sending\<close>

definition peer_send_ready :: "link_env \<Rightarrow> string \<Rightarrow> engine \<Rightarrow> bool \<times> engine" where
  "peer_send_ready env target_peer s = (let peer = default_peer target_peer s in
     if peer = '''' \<or> peer = ''unknown'' then (False, s)
     else case peer_link_active env peer '''' '''' s of (False, s) \<Rightarrow> (False, s)
     | (True, s) \<Rightarrow> (case queue_send_link env peer None s of (None, s) \<Rightarrow> (False, s)
       | (Some l, s) \<Rightarrow> (case link_matches_peer env l peer s of (ok, s) \<Rightarrow> (ok \<and> link_interface_healthy env l, s))))"

datatype send_result = NotSent | Sent string

definition send_message :: "link_env \<Rightarrow> (string \<Rightarrow> bool) \<Rightarrow> string \<Rightarrow> string option \<Rightarrow> engine \<Rightarrow> send_result \<times> engine" where
  "send_message env accepts target_peer hint s = (let peer = default_peer target_peer s in
     if peer = '''' \<or> peer = ''unknown'' then (NotSent, s)
     else case peer_link_active env peer '''' '''' s of (False, s) \<Rightarrow> (NotSent, s)
     | (True, s) \<Rightarrow> (case queue_send_link env peer hint s of (None, s) \<Rightarrow> (NotSent, s)
       | (Some l, s) \<Rightarrow> (case link_matches_peer env l peer s of (False, s) \<Rightarrow> (NotSent, s)
         | (True, s) \<Rightarrow> (case link_remote_peer_hash env l s of (remote, s) \<Rightarrow>
             if remote \<noteq> '''' \<and> \<not> hashes_equivalent (maps s) remote peer then (NotSent, s)
             else if link_interface_healthy env l then (if accepts l then Sent l else NotSent, s)
             else (case queue_send_link env peer None s of (None, s) \<Rightarrow> (NotSent, s)
               | (Some alt, s) \<Rightarrow>
                   if alt = l then (NotSent, s)
                   else (case link_matches_peer env alt peer s of (ok, s) \<Rightarrow>
                     if ok \<and> link_interface_healthy env alt then (if accepts alt then Sent alt else NotSent, s)
                     else (NotSent, s)))))))"

end
