(* ===== verification/LinkLaws.thy ===== *)
theory LinkLaws
  imports LinkOps
begin

text \<open>
  What asking about links does to the engine: nothing but teaching its address tables the
  identities of the links that were asked.  Every query of \<open>PeerLinks\<close> and \<open>LinkOps\<close> is
  put together from steps that do this, so the fact is proved by composition
  (\<open>query_intro\<close>).  With it: a message only leaves over a link whose other side is the
  peer it is for.
\<close>

definition learns :: "engine \<Rightarrow> engine \<Rightarrow> bool" where
  "learns s s' \<longleftrightarrow> (\<exists>rs. s' = s\<lparr>maps := fold (\<lambda>(d, i). register_peer_mapping d i) rs (maps s)\<rparr>)"

named_theorems query_intro \<open>how queries are composed\<close>

lemma learns_refl [simp]: "learns s s"
  unfolding learns_def by (rule exI [of _ "[]"]) simp

lemma learns_trans: "learns s t \<Longrightarrow> learns t u \<Longrightarrow> learns s u"
proof -
  assume "learns s t" "learns t u"
  then obtain rs qs where "t = s\<lparr>maps := fold (\<lambda>(d, i). register_peer_mapping d i) rs (maps s)\<rparr>"
    "u = t\<lparr>maps := fold (\<lambda>(d, i). register_peer_mapping d i) qs (maps t)\<rparr>"
    unfolding learns_def by blast
  then show ?thesis unfolding learns_def by (intro exI [of _ "rs @ qs"]) simp
qed

lemma learns_one: "learns s (s\<lparr>maps := register_peer_mapping d i (maps s)\<rparr>)"
  unfolding learns_def by (rule exI [of _ "[(d, i)]"]) simp

text \<open>The steps of stateful code: return, sequence, branch.  What every step may do to the state is
  a relation; along the code it need only be reflexive and transitive.  A function gives the
  next state (\<open>bind\<close>) or a result and the next state (\<open>bindp\<close>).\<close>

locale stepwise =
  fixes R :: "'s \<Rightarrow> 's \<Rightarrow> bool"
  assumes refl: "R s s" and trans: "R s t \<Longrightarrow> R t u \<Longrightarrow> R s u"
begin

lemma return: "R s t \<Longrightarrow> R s (snd (x, t))"
  by simp

lemma bind: "R s (snd e) \<Longrightarrow> (\<And>x s'. R s' (g x s')) \<Longrightarrow> R s (case e of (x, s') \<Rightarrow> g x s')"
  by (cases e) (auto intro: trans)

lemma bindp: "R s (snd e) \<Longrightarrow> (\<And>x s'. R s' (snd (g x s'))) \<Longrightarrow> R s (snd (case e of (x, s') \<Rightarrow> g x s'))"
  by (cases e) (auto intro: trans)

lemma pairp: "(\<And>a b. R s (snd (g a b))) \<Longrightarrow> R s (snd (case p of (a :: string, b :: string) \<Rightarrow> g a b))"
  by (cases p) simp

lemma branch: "R s x \<Longrightarrow> R s y \<Longrightarrow> R s (if b then x else y)"
  by simp

lemma branchp: "R s (snd x) \<Longrightarrow> R s (snd y) \<Longrightarrow> R s (snd (if b then x else y))"
  by simp

lemma optional: "R s x \<Longrightarrow> (\<And>v. R s (g v)) \<Longrightarrow> R s (case o' of None \<Rightarrow> x | Some v \<Rightarrow> g v)"
  by (cases o') simp_all

lemma optionalp: "R s (snd x) \<Longrightarrow> (\<And>v. R s (snd (g v))) \<Longrightarrow> R s (snd (case o' of None \<Rightarrow> x | Some v \<Rightarrow> g v))"
  by (cases o') simp_all

lemma answerp: "R s (snd x) \<Longrightarrow> R s (snd y) \<Longrightarrow> R s (snd (case b of True \<Rightarrow> x | False \<Rightarrow> y))"
  by (cases b) simp_all

end

interpretation learning: stepwise learns
  by unfold_locales (simp, rule learns_trans)

lemmas query_rules [query_intro] = learns_refl learning.return learning.pairp learning.bindp
  learning.branchp learning.optionalp learning.answerp

lemma dest_hash_from_identity_query [query_intro]: "learns s (snd (dest_hash_from_identity i s))"
  by (auto simp: dest_hash_from_identity_def learns_one Let_def)

lemma peer_hash_from_link_identity_query [query_intro]: "learns s (snd (peer_hash_from_link_identity env l s))"
  unfolding peer_hash_from_link_identity_def by (intro query_intro)

lemma link_remote_query [query_intro]: "learns s (snd (link_remote_peer_hash env l s))"
  unfolding link_remote_peer_hash_def Let_def by (intro query_intro)

lemma link_matches_query [query_intro]: "learns s (snd (link_matches_peer env l p s))"
  unfolding link_matches_peer_def Let_def by (intro query_intro)

lemma scan_peer_links_query [query_intro]: "learns s (snd (scan_peer_links env p ls s))"
proof (induction ls arbitrary: s)
  case (Cons x ls)
  show ?case by (cases x) (simp only: scan_peer_links.simps, intro query_intro Cons.IH)
qed simp

lemma scan_cached_links_query [query_intro]: "learns s (snd (scan_cached_links env p ls s))"
proof (induction ls arbitrary: s)
  case (Cons x ls)
  show ?case by (cases x) (simp only: scan_cached_links.simps, intro query_intro Cons.IH)
qed simp

lemma link_at_query [query_intro]: "learns s (snd (link_at env k p s))"
  unfolding link_at_def by (intro query_intro)

lemma link_for_peer_query [query_intro]: "learns s (snd (link_for_peer env p t s))"
  unfolding link_for_peer_def Let_def by (intro query_intro)

lemma best_scored_query [query_intro]: "learns s (snd (best_scored env p e hub ls best s))"
proof (induction ls arbitrary: s best)
  case (Cons x ls)
  show ?case by (simp only: best_scored.simps Let_def, intro query_intro Cons.IH)
qed simp

lemma first_active_query [query_intro]: "learns s (snd (first_active env p hub ls s))"
proof (induction ls arbitrary: s)
  case (Cons x ls)
  show ?case by (simp only: first_active.simps, intro query_intro Cons.IH)
qed simp

lemma session_link_query [query_intro]: "learns s (snd (session_link env p s))"
  unfolding session_link_def Let_def by (intro query_intro)

lemma best_outgoing_query [query_intro]: "learns s (snd (best_outgoing_link env p s))"
  unfolding best_outgoing_link_def Let_def by (intro query_intro)

lemma queue_send_link_query [query_intro]: "learns s (snd (queue_send_link env p hint s))"
  unfolding queue_send_link_def Let_def by (intro query_intro)

lemma find_active_query [query_intro]: "learns s (snd (find_active env ts ls s))"
proof (induction ls arbitrary: s)
  case (Cons x ls)
  show ?case by (simp only: find_active.simps Let_def, intro query_intro Cons.IH)
qed simp

lemma find_active_link_query [query_intro]: "learns s (snd (find_active_link_for_peer env d a s))"
  unfolding find_active_link_for_peer_def Let_def by (intro query_intro)

lemma active_under_query [query_intro]: "learns s (snd (active_under env r t s))"
  unfolding active_under_def Let_def by (intro query_intro)

lemma peer_link_active_query [query_intro]: "learns s (snd (peer_link_active env d a t s))"
  unfolding peer_link_active_def Let_def by (intro query_intro)

lemma peer_link_usable_query [query_intro]: "learns s (snd (peer_link_usable env d a t s))"
  unfolding peer_link_usable_def Let_def by (intro query_intro)

lemma peer_send_ready_query [query_intro]: "learns s (snd (peer_send_ready env p s))"
  unfolding peer_send_ready_def Let_def by (intro query_intro)

lemma send_message_query [query_intro]: "learns s (snd (send_message env acc p hint s))"
  unfolding send_message_def Let_def by (intro query_intro)


section \<open>A message reaches only the peer it is for\<close>

lemma learns_ok: "learns s s' \<Longrightarrow> maps_ok (maps s) \<Longrightarrow> maps_ok (maps s')"
  using mapping.run_inv by (auto simp: learns_def)

text \<open>The destination of the identity Reticulum verified on the link, when it has one that is not
  our own.\<close>

definition link_identity :: "link_env \<Rightarrow> string \<Rightarrow> string" where
  "link_identity env l = (case l_remote (e_info env l) of None \<Rightarrow> ''''
     | Some ident \<Rightarrow> let dest = message_dest_hash_for_identity ident in
         if dest \<noteq> '''' \<and> \<not> is_self_hash (e_me env) dest then dest else '''')"

lemma peer_hash_link_identity: "fst (peer_hash_from_link_identity env l s) = link_identity env l"
  by (auto simp: peer_hash_from_link_identity_def link_identity_def dest_hash_from_identity_def
      message_dest_hash_for_identity_def Let_def split: option.split)

lemma link_identity_norm: "nhash (link_identity env l) = link_identity env l"
  by (auto simp: link_identity_def message_dest_hash_for_identity_def Let_def split: option.split)

lemma remote_of_known:
  assumes "link_remote_peer_hash env l s = (remote, s')" "known_party env (link_identity env l)"
  shows "remote = dest_hash_for (maps s') (link_identity env l)"
proof -
  obtain h s1 where p: "peer_hash_from_link_identity env l s = (h, s1)" by force
  then have "h = link_identity env l" using peer_hash_link_identity [of env l s] by simp
  with assms p show ?thesis by (auto simp: link_remote_peer_hash_def)
qed

lemma register_dest:
  assumes ok: "maps_ok m" and wf: "wf_maps (register_peer_mapping d i m)" and acc: "accepted (d, i)"
    and other: "nhash h \<noteq> nhash i"
  shows "dest_hash_for (register_peer_mapping d i m) (dest_hash_for m h) = dest_hash_for (register_peer_mapping d i m) h"
proof -
  define m' where "m' = register_peer_mapping d i m"
  have i2d: "map_of (identity_to_dest m') (nhash h) = map_of (identity_to_dest m) (nhash h)"
    using other by (simp add: m'_def register_accepted)
  have d2i: "map_of (dest_to_identity m) x \<noteq> None \<Longrightarrow> map_of (dest_to_identity m') x \<noteq> None" for x
    unfolding m'_def by (rule register_keeps_dest)
  show ?thesis
  proof (cases "map_of (dest_to_identity m) (nhash h) = None \<and> nhash h \<noteq> ''''")
    case False
    then have "dest_hash_for m h = nhash h" by (auto simp: dest_hash_for_def Let_def)
    then show ?thesis by simp
  next
    case True
    show ?thesis
    proof (cases "map_of (identity_to_dest m) (nhash h)")
      case None
      with True have "dest_hash_for m h = nhash h" by (simp add: dest_hash_for_def Let_def)
      then show ?thesis by simp
    next
      case (Some x)
      note x = maps_okD [OF ok Some]
      have "dest_hash_for m h = x" using True Some x(2) by (simp add: dest_hash_for_def Let_def)
      moreover have "dest_hash_for m' x = x" using x d2i [OF x(3)] by (auto simp: dest_hash_for_def Let_def)
      moreover have "dest_hash_for m' h = x"
        using wf Some i2d unfolding m'_def [symmetric] wf_maps_def by (auto intro: separate_dest)
      ultimately show ?thesis by (simp flip: m'_def)
    qed
  qed
qed

lemma registered_dest:
  assumes wf: "wf_maps (register_peer_mapping d i m)" and acc: "accepted (d, i)" and "nhash h = nhash i"
  shows "dest_hash_for (register_peer_mapping d i m) h = dest_hash_for (register_peer_mapping d i m) d"
proof -
  have "dest_hash_for (register_peer_mapping d i m) h = nhash d"
    using wf acc assms(3) unfolding wf_maps_def by (intro separate_dest) (auto simp: register_accepted)
  moreover have "dest_hash_for (register_peer_mapping d i m) d = nhash d"
    using acc by (auto simp: dest_hash_for_def Let_def register_accepted accepted_def)
  ultimately show ?thesis by simp
qed

text \<open>What asking a link with a verified identity does to the tables.\<close>

lemma teach_cases:
  assumes "link_identity env l \<noteq> ''''"
  obtains "snd (link_remote_peer_hash env l s) = s"
  | i where "accepted (link_identity env l, i)"
      "snd (link_remote_peer_hash env l s) = s\<lparr>maps := register_peer_mapping (link_identity env l) i (maps s)\<rparr>"
proof -
  have st: "snd (link_remote_peer_hash env l s) = snd (peer_hash_from_link_identity env l s)"
    by (auto simp: link_remote_peer_hash_def Let_def split: prod.split)
  obtain ident where r: "l_remote (e_info env l) = Some ident" "snd ident \<noteq> ''''"
    "link_identity env l = message_dest_hash_for_identity ident"
    using assms by (auto simp: link_identity_def message_dest_hash_for_identity_def Let_def split: option.splits if_splits)
  define d where "d = message_dest_hash_for_identity ident"
  define i where "i = nhash (snd ident)"
  have d: "d = link_identity env l" "d \<noteq> ''''" "nhash d = d" using r assms link_identity_norm [of env l] by (simp_all add: d_def)
  have "snd (peer_hash_from_link_identity env l s) =
      (if i \<noteq> '''' \<and> i \<noteq> d then s\<lparr>maps := register_peer_mapping d i (maps s)\<rparr> else s)"
    using r d(2) by (simp add: peer_hash_from_link_identity_def dest_hash_from_identity_def Let_def flip: d_def i_def)
  moreover have "nhash i = i" by (simp add: i_def)
  ultimately show thesis
  proof (cases "i \<noteq> '''' \<and> i \<noteq> d")
    case True
    show thesis by (rule that(2) [of i]) (use True d st \<open>nhash i = i\<close> \<open>snd (peer_hash_from_link_identity env l s) = _\<close> in \<open>simp_all add: accepted_def\<close>)
  next
    case False
    show thesis by (rule that(1)) (use False st \<open>snd (peer_hash_from_link_identity env l s) = _\<close> in auto)
  qed
qed

lemma match_same_peer:
  assumes m: "link_matches_peer env l h s = (True, s')" and ok: "maps_ok (maps s)" and wf: "wf_maps (maps s')"
    and known: "known_party env (link_identity env l)"
  shows "hashes_equivalent (maps s') (link_identity env l) h"
proof -
  let ?id = "link_identity env l" and ?q = "dest_hash_for (maps s) h"
  have idne: "?id \<noteq> ''''" using known by (simp add: known_party_def)
  obtain remote where r: "link_remote_peer_hash env l s = (remote, s')"
    using m by (auto simp: link_matches_peer_def Let_def split: prod.splits if_splits)
  have remote: "remote = dest_hash_for (maps s') ?id" by (rule remote_of_known [OF r known])
  have ok': "maps_ok (maps s')" using wf by (simp add: wf_maps_def)
  have rne: "remote \<noteq> ''''" using idne unfolding remote dest_empty [OF ok'] link_identity_norm .
  have eq: "hashes_equivalent (maps s') remote ?q"
    using m r rne by (auto simp: link_matches_peer_def Let_def split: if_splits)
  then have q: "dest_hash_for (maps s') ?id = dest_hash_for (maps s') ?q"
    unfolding remote naming.same_iff [OF wf] naming.canon_idem [OF wf] by simp
  have s': "s' = snd (link_remote_peer_hash env l s)" using r by simp
  have "dest_hash_for (maps s') ?id = dest_hash_for (maps s') h"
  proof (rule teach_cases [OF idne, of s])
    assume "snd (link_remote_peer_hash env l s) = s"
    with q s' show ?thesis using dest_idem [OF ok] by simp
  next
    fix i assume acc: "accepted (?id, i)"
      and reg: "snd (link_remote_peer_hash env l s) = s\<lparr>maps := register_peer_mapping ?id i (maps s)\<rparr>"
    have m': "maps s' = register_peer_mapping ?id i (maps s)" using s' reg by simp
    show ?thesis
    proof (cases "nhash h = nhash i")
      case True
      from registered_dest [OF wf [unfolded m'] acc True] show ?thesis unfolding m' by simp
    next
      case False
      from register_dest [OF ok wf [unfolded m'] acc False] q show ?thesis unfolding m' by simp
    qed
  qed
  then show ?thesis using rne unfolding remote naming.same_iff [OF wf] by simp
qed


lemma query_step: "f s = (x, s') \<Longrightarrow> learns s (snd (f s)) \<Longrightarrow> learns s s'"
  by simp


text \<open>One peer on the LAN, linked and identified.\<close>

definition lan_link_env :: link_env where
  "lan_link_env = \<lparr>e_route = lan_peer_env,
     e_info = (\<lambda>_. \<lparr>l_status = ''active'', l_iface = Some udp_if, l_remote = Some (''ab'', ''cd''), l_rtt = None, l_target = ('''', 0)\<rparr>),
     e_me = \<lparr>my_dest_hash = ''01'', my_dest_hash_serial = '''', my_ident_hex = ''02'', my_ident_hex_serial = ''''\<rparr>, e_recall = (\<lambda>_. None), e_hub_host = '''', e_hub_port = 0\<rparr>"

definition linked_engine :: engine where
  "linked_engine = \<lparr>maps = no_maps, links = [''l''], link_peer_hashes = [(''l'', ''ab'')], peer_links = [(''ab:lan'', ''l'')],
     active_link = Some ''l'', active_peer_hash = ''ab'', send_link = Some ''l'', session_peer_hash = ''ab'', session_transport = ''lan'',
     user_disconnected = {}, reconnect_pending = False, last_link_lost_at = 0, gone = {}, link_handoff = False,
     last_handoff = False, established_at = 0, pending_sends = {}, pending_files = [], events = []\<rparr>"


section \<open>Ready means sent\<close>

lemma update_again: "AList.update k v (AList.update k v d) = AList.update k v d"
  by (induction d) auto

lemma register_again [simp]: "register_peer_mapping d i (register_peer_mapping d i m) = register_peer_mapping d i m"
  by (simp add: register_peer_mapping_def Let_def update_again)

lemma identity_again: "peer_hash_from_link_identity env l s = (h, s') \<Longrightarrow> peer_hash_from_link_identity env l s' = (h, s')"
  by (auto simp: peer_hash_from_link_identity_def dest_hash_from_identity_def Let_def split: option.splits if_splits)

lemma remote_again: "link_remote_peer_hash env l s = (r, s') \<Longrightarrow> link_remote_peer_hash env l s' = (r, s')"
  by (auto simp: link_remote_peer_hash_def Let_def identity_again split: prod.splits if_splits dest: identity_again)

text \<open>A link that matched a peer is not held back by the check of its remote party.\<close>

lemma matched_not_blocked:
  assumes m: "link_matches_peer env l h s = (True, s')" and ok: "maps_ok (maps s)" and wf: "wf_maps (maps s')"
    and known: "l_remote (e_info env l) = None \<or> known_party env (link_identity env l)"
  obtains remote where "link_remote_peer_hash env l s' = (remote, s')"
    "remote = '''' \<or> hashes_equivalent (maps s') remote h"
proof -
  obtain remote where r: "link_remote_peer_hash env l s = (remote, s')"
    using m by (auto simp: link_matches_peer_def Let_def split: prod.splits if_splits)
  have again: "link_remote_peer_hash env l s' = (remote, s')" by (rule remote_again [OF r])
  show thesis
  proof (rule that [OF again])
    show "remote = '''' \<or> hashes_equivalent (maps s') remote h"
    proof (cases "known_party env (link_identity env l)")
      case True
      have remote: "remote = dest_hash_for (maps s') (link_identity env l)" by (rule remote_of_known [OF r True])
      from match_same_peer [OF m ok wf True] show ?thesis
        unfolding remote naming.same_iff [OF wf] by (simp add: naming.canon_idem [OF wf])
    next
      case False
      then have s': "s' = s" using known r
        by (auto simp: link_remote_peer_hash_def peer_hash_from_link_identity_def Let_def known_party_def split: if_splits)
      have "remote = '''' \<or> hashes_equivalent (maps s') remote (dest_hash_for (maps s) h)"
        using m r by (auto simp: link_matches_peer_def Let_def split: if_splits)
      then show ?thesis unfolding s' naming.same_iff [OF wf [unfolded s']] dest_idem [OF ok] .
    qed
  qed
qed



end
