(* ===== verification/Sessions.thy ===== *)
theory Sessions
  imports LinkOps
begin

text \<open>
  The life of a link in the message engine (\<open>core/messaging.py\<close>): a link is established,
  becomes the active one, is replaced by another, is closed; a user disconnects.
  \<open>link.teardown()\<close> is Reticulum's and runs the closing callback (\<open>link_closed\<close>), which may
  tear down further links: it is an argument, the state it leaves and whether it raised.
  The rest of the environment is the resolver of peers and the scope check of the service,
  and what Reticulum knows of transfers.
\<close>

record session_env =
  se_link :: link_env
  se_td :: "string \<Rightarrow> engine \<Rightarrow> bool \<times> engine"
  se_resolver :: "string \<Rightarrow> string \<Rightarrow> string \<Rightarrow> string \<Rightarrow> string"   \<comment> \<open>\<open>peer_resolver\<close>: identity, destination, fallback, link\<close>
  se_known_key :: "string \<Rightarrow> string"      \<comment> \<open>the known destination with the public key of a link's identity\<close>
  se_scope :: "(string \<Rightarrow> string \<Rightarrow> bool) option"   \<comment> \<open>\<open>peer_scope_checker\<close>\<close>
  se_transfer :: bool                     \<comment> \<open>a transfer or an incoming resource is active\<close>
  se_failover :: bool
  se_now :: real

abbreviation td :: "session_env \<Rightarrow> string \<Rightarrow> engine \<Rightarrow> engine" where
  "td se l s \<equiv> snd (se_td se l s)"

abbreviation emit_link :: "link_event \<Rightarrow> engine \<Rightarrow> engine" where
  "emit_link e s \<equiv> s\<lparr>events := events s @ [e]\<rparr>"

definition parallel_sessions_allowed :: "session_env \<Rightarrow> bool" where
  "parallel_sessions_allowed se = dual_transport_isolation_enabled (r_host (e_route (se_link se))) (r_rns (e_route (se_link se)))"

section \<open>Whose link is it\<close>

definition resolve_remote_peer :: "session_env \<Rightarrow> string \<Rightarrow> string \<Rightarrow> engine \<Rightarrow> string \<times> engine" where
  "resolve_remote_peer se l fallback s = (let
     ident = (case l_remote (e_info (se_link se) l) of Some i \<Rightarrow> if snd i = '''' then None else Some i | None \<Rightarrow> None);
     ident_hex = (case ident of None \<Rightarrow> '''' | Some i \<Rightarrow> nhash (snd i)) in
     case (case ident of None \<Rightarrow> ('''', s)
           | Some i \<Rightarrow> (case dest_hash_from_identity i s of (dest, s) \<Rightarrow>
               if dest \<noteq> '''' \<or> se_known_key se l = '''' then (dest, s)
               else (nhash (se_known_key se l),
                     s\<lparr>maps := register_peer_mapping (nhash (se_known_key se l)) ident_hex (maps s)\<rparr>))) of
       (computed, s) \<Rightarrow>
         let resolved = se_resolver se ident_hex computed fallback l in
         (if resolved \<noteq> '''' then dest_hash_for (maps s) resolved
          else if computed \<noteq> '''' then dest_hash_for (maps s) computed
          else if fallback \<noteq> '''' then dest_hash_for (maps s) fallback
          else if ident_hex \<noteq> '''' \<and> \<not> is_self_hash (e_me (se_link se)) ident_hex then dest_hash_for (maps s) ident_hex
          else ''unknown'', s))"

text \<open>The steps of \<open>_peer_for_link\<close> after the identity: each returns a hash, or none and the state.\<close>

definition by_cached :: "session_env \<Rightarrow> string \<Rightarrow> string \<Rightarrow> engine \<Rightarrow> string \<times> engine" where
  "by_cached se l cached s = (if cached \<noteq> '''' \<and> \<not> is_self_hash (e_me (se_link se)) cached
     then canonical_connect_hash (se_link se) cached (Some l) s else ('''', s))"

definition by_resolved :: "session_env \<Rightarrow> string \<Rightarrow> string \<Rightarrow> engine \<Rightarrow> string \<times> engine" where
  "by_resolved se l fallback s = (case resolve_remote_peer se l fallback s of (resolved, s) \<Rightarrow>
     if known_party (se_link se) resolved
     then (case canonical_connect_hash (se_link se) resolved (Some l) s of (canon, s) \<Rightarrow>
             if canon \<noteq> '''' then (canon, cache_link_peer (se_link se) l canon s) else ('''', s))
     else ('''', s))"

definition by_fallback :: "session_env \<Rightarrow> string \<Rightarrow> string \<Rightarrow> engine \<Rightarrow> string \<times> engine" where
  "by_fallback se l fallback s = (if fallback \<noteq> '''' \<and> \<not> is_self_hash (e_me (se_link se)) fallback
     then (case canonical_connect_hash (se_link se) fallback (Some l) s of (mapped, s) \<Rightarrow>
             if mapped \<noteq> '''' then (mapped, cache_link_peer (se_link se) l mapped s) else ('''', s))
     else ('''', s))"

definition peer_for_link :: "session_env \<Rightarrow> string \<Rightarrow> string \<Rightarrow> engine \<Rightarrow> string \<times> engine" where
  "peer_for_link se l fallback s = (case peer_hash_from_link_identity (se_link se) l s of (identity_peer, s) \<Rightarrow>
     if known_party (se_link se) identity_peer then (identity_peer, cache_link_peer (se_link se) l identity_peer s)
     else let cached = orE (map_of (link_peer_hashes s) l) in
       case by_cached se l cached s of (h, s) \<Rightarrow> if h \<noteq> '''' then (h, s)
       else case by_resolved se l fallback s of (h, s) \<Rightarrow> if h \<noteq> '''' then (h, s)
       else case by_fallback se l fallback s of (h, s) \<Rightarrow> if h \<noteq> '''' then (h, s)
       else case by_cached se l cached s of (h, s) \<Rightarrow> if h \<noteq> '''' then (h, s) else (''unknown'', s))"

definition incoming_matches_active_session :: "session_env \<Rightarrow> string \<Rightarrow> engine \<Rightarrow> bool \<times> engine" where
  "incoming_matches_active_session se l s = (
     if active_peer_hash s = '''' \<or> active_link s = None then (False, s)
     else if \<not> acceptable (se_link se) s l (active_peer_hash s) then (False, s)
     else case l_remote (e_info (se_link se) l) of None \<Rightarrow> (False, s)
     | Some ident \<Rightarrow> (case dest_hash_from_identity ident s of (dest, s) \<Rightarrow>
         ((dest \<noteq> '''' \<and> hashes_equivalent (maps s) dest (active_peer_hash s))
          \<or> (nhash (snd ident) \<noteq> '''' \<and> hashes_equivalent (maps s) (nhash (snd ident)) (active_peer_hash s)), s)))"

definition resolve_incoming_link_peer :: "session_env \<Rightarrow> string \<Rightarrow> string \<Rightarrow> engine \<Rightarrow> string \<times> engine" where
  "resolve_incoming_link_peer se l peer_hash s = (case peer_hash_from_link_identity (se_link se) l s of (identity_peer, s) \<Rightarrow>
     if known_party (se_link se) identity_peer then (identity_peer, s)
     else let peer_hash = dest_hash_for (maps s) peer_hash;
              peer_hash = (if is_hub_peer_hash peer_hash then '''' else peer_hash);
              peer_hash = (if known_party (se_link se) peer_hash \<and> identity_peer \<noteq> ''''
                  \<and> \<not> hashes_equivalent (maps s) peer_hash identity_peer then '''' else peer_hash);
              ident = (case l_remote (e_info (se_link se) l) of Some i \<Rightarrow> if snd i = '''' then None else Some i | None \<Rightarrow> None)
       in case (case ident of None \<Rightarrow> ('''', s) | Some i \<Rightarrow> dest_hash_from_identity i s) of (computed, s) \<Rightarrow>
         let fixed = se_resolver se (case ident of None \<Rightarrow> '''' | Some i \<Rightarrow> nhash (snd i)) computed '''' l in
         if fixed \<noteq> '''' \<and> \<not> is_self_hash (e_me (se_link se)) fixed then (dest_hash_for (maps s) fixed, s)
         else case resolve_remote_peer se l '''' s of (resolved, s) \<Rightarrow>
           if known_party (se_link se) resolved then (dest_hash_for (maps s) resolved, s)
           else if active_peer_hash s \<noteq> '''' \<and> \<not> is_self_hash (e_me (se_link se)) (active_peer_hash s)
                   \<and> \<not> is_hub_peer_hash (active_peer_hash s)
             then (case incoming_matches_active_session se l s of (ok, s) \<Rightarrow>
                     (if ok \<and> acceptable (se_link se) s l (active_peer_hash s) then dest_hash_for (maps s) (active_peer_hash s)
                      else py_or peer_hash ''unknown'', s))
             else (py_or peer_hash ''unknown'', s))"

definition peer_allowed_by_scope :: "session_env \<Rightarrow> string \<Rightarrow> string \<Rightarrow> engine \<Rightarrow> bool" where
  "peer_allowed_by_scope se peer_hash l s = (
     if peer_hash = '''' \<or> peer_hash = ''unknown''
     then fam_of (se_link se) l = ''serial'' \<or> se_scope se = None
     else if fam_of (se_link se) l = ''serial'' then True
     else if l_iface (e_info (se_link se) l) \<noteq> None \<and> \<not> acceptable (se_link se) s l peer_hash then False
     else case se_scope se of None \<Rightarrow> True
     | Some check \<Rightarrow> if is_hub_peer_hash peer_hash then True else check peer_hash l)"

section \<open>Tearing down\<close>

text \<open>The loops over links: the links are listed first, a link that is to go is torn down in the
  state the ones before it left.\<close>

definition tear :: "session_env \<Rightarrow> bool \<Rightarrow> string \<Rightarrow> engine \<Rightarrow> bool \<times> engine" where
  "tear se handoff l s = (case se_td se l (if handoff then s\<lparr>link_handoff := True\<rparr> else s) of (ok, s) \<Rightarrow>
     (ok, if handoff then s\<lparr>link_handoff := False\<rparr> else s))"

fun tear_each :: "session_env \<Rightarrow> bool \<Rightarrow> (string \<Rightarrow> engine \<Rightarrow> bool \<times> engine) \<Rightarrow> string list \<Rightarrow> nat \<times> engine \<Rightarrow> nat \<times> engine" where
  "tear_each se handoff goes [] (n, s) = (n, s)"
| "tear_each se handoff goes (l # ls) (n, s) = (case goes l s of (False, s) \<Rightarrow> tear_each se handoff goes ls (n, s)
     | (True, s) \<Rightarrow> (case tear se handoff l s of (ok, s) \<Rightarrow> tear_each se handoff goes ls (if ok then Suc n else n, s)))"

definition consolidate_peer_links :: "session_env \<Rightarrow> string \<Rightarrow> string option \<Rightarrow> string \<Rightarrow> engine \<Rightarrow> nat \<times> engine" where
  "consolidate_peer_links se peer_hash keep transport s = (let peer = dest_hash_for (maps s) peer_hash in
     if peer = '''' \<or> peer = ''unknown'' then (0, s)
     else tear_each se False (\<lambda>l s. (\<not> (keep = Some l)
         \<and> \<not> (parallel_sessions_allowed se \<and> (case keep of None \<Rightarrow> False
                | Some k \<Rightarrow> fam_of (se_link se) k \<noteq> '''' \<and> fam_of (se_link se) l \<noteq> fam_of (se_link se) k))
         \<and> \<not> (transport \<noteq> '''' \<and> \<not> link_transport_matches (se_link se) l transport)
         \<and> link_status (se_link se) s l \<noteq> ''closed'', s))
       (links_for_peer (se_link se) peer s) (0, s))"

definition teardown_stale_peer_links :: "session_env \<Rightarrow> string \<Rightarrow> bool \<Rightarrow> engine \<Rightarrow> nat \<times> engine" where
  "teardown_stale_peer_links se peer_hash handoff s = (let peer = dest_hash_for (maps s) peer_hash in
     if peer = '''' \<or> peer = ''unknown'' then (0, s)
     else tear_each se handoff (\<lambda>l s. (let cached = orE (map_of (link_peer_hashes s) l) in
         cached \<noteq> '''' \<and> hashes_equivalent (maps s) cached peer
         \<and> \<not> (link_status (se_link se) s l = ''active'' \<and> link_interface_healthy (se_link se) l), s))
       (links s) (0, s))"

definition teardown_other_peer_links :: "session_env \<Rightarrow> string \<Rightarrow> bool \<Rightarrow> engine \<Rightarrow> nat \<times> engine" where
  "teardown_other_peer_links se keep_peer_hash handoff s = (
     if parallel_sessions_allowed se then (0, s)
     else let keep = dest_hash_for (maps s) keep_peer_hash in
       if keep = '''' \<or> keep = ''unknown'' then (0, s)
       else tear_each se handoff (\<lambda>l s. case peer_for_link se l '''' s of (h, s) \<Rightarrow> (let remote = dest_hash_for (maps s) h in
           (remote \<noteq> '''' \<and> remote \<noteq> ''unknown'' \<and> \<not> hashes_equivalent (maps s) remote keep, s)))
         (links s) (0, s))"

definition teardown_mismatched_links :: "session_env \<Rightarrow> string \<Rightarrow> engine \<Rightarrow> nat \<times> engine" where
  "teardown_mismatched_links se target_peer s = (let target = dest_hash_for (maps s) target_peer in
     if target = '''' \<or> target = ''unknown'' then (0, s)
     else case tear_each se False (\<lambda>l s. case peer_hash_from_link_identity (se_link se) l s of (resolved, s) \<Rightarrow>
         if resolved = '''' \<or> hashes_equivalent (maps s) resolved target then (False, s)
         else case (case l_remote (e_info (se_link se) l) of None \<Rightarrow> ('''', s) | Some i \<Rightarrow> dest_hash_from_identity i s) of
           (dest, s) \<Rightarrow> if dest \<noteq> '''' \<and> hashes_equivalent (maps s) dest target
             then (False, register_peer_link (se_link se) l dest '''' (cache_link_peer (se_link se) l dest s))
             else (True, s)) (links s) (0, s) of
       (n, s) \<Rightarrow> (n, if 0 < n then s\<lparr>pending_sends := {}\<rparr> else s))"

definition clear_session_peer :: "engine \<Rightarrow> engine" where
  "clear_session_peer s = s\<lparr>session_peer_hash := '''', session_transport := ''''\<rparr>"

definition teardown_active_link :: "session_env \<Rightarrow> bool \<Rightarrow> bool \<Rightarrow> bool \<Rightarrow> engine \<Rightarrow> engine" where
  "teardown_active_link se preserve_peer handoff clear_session s = (let
     s = s\<lparr>link_handoff := handoff\<rparr>;
     s = (case active_link s of None \<Rightarrow> s | Some l \<Rightarrow> td se l s);
     s = s\<lparr>active_link := None, send_link := None\<rparr>;
     s = (if \<not> preserve_peer then s\<lparr>active_peer_hash := '''', link_peer_hashes := []\<rparr> else s);
     s = (if clear_session then clear_session_peer s else s)
     in if handoff then s\<lparr>link_handoff := False\<rparr> else s)"
section \<open>Established\<close>

definition adopts_session :: "session_env \<Rightarrow> string \<Rightarrow> engine \<Rightarrow> bool" where
  "adopts_session se peer s = (let session_peer = dest_hash_for (maps s) (session_peer_hash s) in
     \<not> parallel_sessions_allowed se \<or> session_peer = '''' \<or> hashes_equivalent (maps s) peer session_peer
     \<or> active_link s = None)"

text \<open>The end of \<open>_notify_link_established\<close>, for a peer that is known.\<close>

definition promote_link :: "session_env \<Rightarrow> string \<Rightarrow> string \<Rightarrow> engine \<Rightarrow> engine" where
  "promote_link se l peer s = (let s = snd (consolidate_peer_links se peer (Some l) '''' s) in
     if adopts_session se peer s
     then (let old_active = active_peer_hash s;
               s' = s\<lparr>active_link := Some l, active_peer_hash := peer, session_peer_hash := peer, send_link := Some l\<rparr>
       in if old_active = '''' \<or> hashes_equivalent (maps s) peer old_active then s'\<lparr>pending_sends := {}\<rparr> else s')
     else register_peer_link (se_link se) l peer '''' s)"

definition established_peer :: "session_env \<Rightarrow> string \<Rightarrow> string \<Rightarrow> engine \<Rightarrow> string \<times> engine" where
  "established_peer se l peer_hash s = (case canonical_connect_hash (se_link se) peer_hash (Some l) s of (peer, s) \<Rightarrow>
     case (if peer = '''' \<or> peer = ''unknown'' then peer_hash_from_link_identity (se_link se) l s else (peer, s)) of (peer, s) \<Rightarrow>
     if peer = '''' \<or> peer = ''unknown''
     then (case peer_for_link se l peer_hash s of (h, s) \<Rightarrow> canonical_connect_hash (se_link se) h (Some l) s)
     else (peer, s))"

definition notify_link_established :: "session_env \<Rightarrow> string \<Rightarrow> string \<Rightarrow> bool \<Rightarrow> bool \<Rightarrow> bool \<Rightarrow> engine \<Rightarrow> engine" where
  "notify_link_established se l peer_hash promote_active background passive s = (
     case established_peer se l peer_hash s of (peer, s) \<Rightarrow>
     if is_hub_peer_hash peer then s
     else let session_peer = dest_hash_for (maps s) (session_peer_hash s);
              peer = (if (peer = '''' \<or> peer = ''unknown'') \<and> session_peer \<noteq> '''' \<and> \<not> is_hub_peer_hash session_peer
                      then session_peer else peer)
       in if peer = '''' \<or> peer = ''unknown'' then s
       else let s = (register_peer_link (se_link se) l peer '''' s)\<lparr>established_at := se_now se\<rparr>;
                s = (if promote_active then promote_link se l peer s else s)
         in emit_link (LinkUp peer l background promote_active passive) s)"

definition setup_link :: "string \<Rightarrow> engine \<Rightarrow> engine" where
  "setup_link l s = s\<lparr>links := (if l \<in> set (links s) then links s else links s @ [l])\<rparr>"

definition schedule_queue_drain :: "string \<Rightarrow> string \<Rightarrow> engine \<Rightarrow> engine" where
  "schedule_queue_drain peer_hash l s = (let peer = dest_hash_for (maps s) peer_hash in
     if peer = '''' \<or> peer = ''unknown'' \<or> is_hub_peer_hash peer then s
     else if is_user_disconnected (maps s) peer (user_disconnected s) then s
     else emit_link (DrainSoon peer l) s)"

definition adopt_loop :: "session_env \<Rightarrow> string \<Rightarrow> string list \<Rightarrow> engine \<Rightarrow> string option \<times> engine" where
  "adopt_loop se peer ls s = fold (\<lambda>l (found, s). if found \<noteq> None then (found, s)
     else if \<not> link_interface_healthy (se_link se) l \<or> \<not> acceptable (se_link se) s l peer then (None, s)
     else case link_matches_peer (se_link se) l peer s of (ok, s) \<Rightarrow> (if ok then Some l else None, s)) ls (None, s)"

definition adopt_healthy_peer_link :: "session_env \<Rightarrow> string \<Rightarrow> bool option \<Rightarrow> engine \<Rightarrow> string option \<times> engine" where
  "adopt_healthy_peer_link se peer_hash promote_session s = (let peer = dest_hash_for (maps s) peer_hash in
     if peer = '''' \<or> peer = ''unknown'' then (None, s)
     else let session_peer = dest_hash_for (maps s) (py_or (session_peer_hash s) (active_peer_hash s));
              promote = (case promote_session of Some b \<Rightarrow> b
                | None \<Rightarrow> session_peer \<noteq> '''' \<and> hashes_equivalent (maps s) peer session_peer)
       in case (case active_link s of None \<Rightarrow> (None, s)
             | Some a \<Rightarrow> (case peer_link_active (se_link se) peer '''' '''' s of (live, s) \<Rightarrow>
                 if live \<and> link_interface_healthy (se_link se) a
                 then (case peer_for_link se a '''' s of (h, s) \<Rightarrow> (if hashes_equivalent (maps s) h peer then Some a else None, s))
                 else (None, s))) of
         (Some a, s) \<Rightarrow> (Some a, s)
       | (None, s) \<Rightarrow> (case adopt_loop se peer (other_active_links_for_peer (se_link se) peer None s) s of
           (None, s) \<Rightarrow> (None, s)
         | (Some l, s) \<Rightarrow> (let s = register_peer_link (se_link se) l peer '''' s in
             (Some l, if promote then notify_link_established se l peer True False False s else s))))"

section \<open>Closed\<close>

definition migrate_pending_files :: "string \<Rightarrow> string \<Rightarrow> engine \<Rightarrow> engine" where
  "migrate_pending_files old new s = (if old = '''' \<or> old = new then s
     else let q = (case map_of (pending_files s) old of None \<Rightarrow> [] | Some q \<Rightarrow> q); rest = AList.delete old (pending_files s) in
       s\<lparr>pending_files := (if q = [] then rest
         else AList.update new ((case map_of rest new of None \<Rightarrow> [] | Some r \<Rightarrow> r) @ q) rest)\<rparr>)"

definition flush_pending_files_failed :: "string \<Rightarrow> engine \<Rightarrow> engine" where
  "flush_pending_files_failed l s = (let q = (case map_of (pending_files s) l of None \<Rightarrow> [] | Some q \<Rightarrow> q);
       s = s\<lparr>pending_files := AList.delete l (pending_files s)\<rparr> in
     if q = [] then s else emit_link (FilesFailed q) s)"

definition has_active_transfer :: "session_env \<Rightarrow> engine \<Rightarrow> bool" where
  "has_active_transfer se s \<longleftrightarrow> se_transfer se \<or> list_ex (\<lambda>(_, q). q \<noteq> []) (pending_files s)"

text \<open>The parts of the closing callback, in order: the table of links, the pending files, the
  active link, the callback of the service.\<close>

definition closed_unlinks :: "session_env \<Rightarrow> string \<Rightarrow> string \<Rightarrow> engine \<Rightarrow> engine" where
  "closed_unlinks se l remote s = (
     if remote = '''' \<or> remote = ''unknown'' then s
     else let peer = dest_hash_for (maps s) remote in
       case other_active_links_for_peer (se_link se) peer (Some l) s of
         [] \<Rightarrow> unlink_peer peer '''' s
       | k # _ \<Rightarrow> (let s = s\<lparr>peer_links := AList.update peer k (peer_links s)\<rparr> in
           if active_link s = Some l \<and> \<not> link_handoff s then notify_link_established se k peer True False False s else s))"

definition closed_files :: "session_env \<Rightarrow> string \<Rightarrow> string \<Rightarrow> engine \<Rightarrow> engine" where
  "closed_files se l remote s = (
     if link_handoff s then s
     else let xfer_peer = dest_hash_for (maps s) (py_or (session_peer_hash s) (py_or (active_peer_hash s) remote)) in
       case (if xfer_peer = '''' then (None, s) else link_for_peer (se_link se) xfer_peer '''' s) of (alt, s) \<Rightarrow>
         (case alt of
            Some a \<Rightarrow> if has_active_transfer se s \<and> a \<noteq> l then migrate_pending_files l a s else flush_pending_files_failed l s
          | None \<Rightarrow> flush_pending_files_failed l s))"

definition next_session_link :: "session_env \<Rightarrow> string \<Rightarrow> engine \<Rightarrow> engine" where
  "next_session_link se l s = (let session_peer = dest_hash_for (maps s) (session_peer_hash s) in
     if session_peer = '''' \<or> is_user_disconnected (maps s) session_peer (user_disconnected s) then s
     else case link_for_peer (se_link se) session_peer '''' s of (None, s) \<Rightarrow> s
     | (Some k, s) \<Rightarrow> if k \<noteq> l then s\<lparr>active_link := Some k, active_peer_hash := session_peer, send_link := Some k\<rparr> else s)"

definition closed_active :: "session_env \<Rightarrow> string \<Rightarrow> engine \<Rightarrow> engine" where
  "closed_active se l s = (let
     lost_peer = dest_hash_for (maps s) (active_peer_hash s);
     lost = (lost_peer \<noteq> '''' \<and> \<not> is_user_disconnected (maps s) lost_peer (user_disconnected s));
     s = (if active_peer_hash s \<noteq> '''' \<and> lost then s\<lparr>session_peer_hash := active_peer_hash s\<rparr> else s);
     s = s\<lparr>active_link := None, active_peer_hash := ''''\<rparr>;
     s = (if lost then s\<lparr>last_link_lost_at := se_now se\<rparr> else s)
     in next_session_link se l s)"

definition link_closed :: "session_env \<Rightarrow> string \<Rightarrow> engine \<Rightarrow> engine" where
  "link_closed se l s = (case peer_for_link se l '''' s of (h, s) \<Rightarrow> let
     remote = dest_hash_for (maps s) h;
     s = s\<lparr>links := filter (\<lambda>k. k \<noteq> l) (links s), link_peer_hashes := AList.delete l (link_peer_hashes s)\<rparr>;
     s = closed_unlinks se l remote s;
     s = closed_files se l remote s;
     closing_active = (active_link s = Some l);
     s = (if closing_active \<and> \<not> link_handoff s then closed_active se l s else s);
     s = (if send_link s = Some l then s\<lparr>send_link := active_link s\<rparr> else s)
     in if \<not> link_handoff s then emit_link (LinkDown remote (closing_active \<and> active_link s \<noteq> None)) s else s)"

section \<open>Disconnecting\<close>

definition forget_session :: "string \<Rightarrow> engine \<Rightarrow> engine" where
  "forget_session peer s = (clear_session_peer s)\<lparr>reconnect_pending := False, last_link_lost_at := 0,
     user_disconnected := mark_user_disconnected (maps s) peer (user_disconnected s)\<rparr>"

definition drop_active :: "session_env \<Rightarrow> string \<Rightarrow> string \<Rightarrow> engine \<Rightarrow> engine" where
  "drop_active se peer transport s = (case active_link s of None \<Rightarrow> s
     | Some a \<Rightarrow> if (transport = '''' \<or> link_transport_matches (se_link se) a transport)
          \<and> active_peer_hash s \<noteq> '''' \<and> hashes_equivalent (maps s) (active_peer_hash s) peer
         then s\<lparr>active_link := None, active_peer_hash := '''', send_link := None\<rparr> else s)"

text \<open>Which links the loop of \<open>disconnect_peer\<close> tears down; without a peer, all of them.\<close>

definition link_of_peer :: "session_env \<Rightarrow> string \<Rightarrow> string \<Rightarrow> string \<Rightarrow> engine \<Rightarrow> bool \<times> engine" where
  "link_of_peer se peer transport l s = (case peer_hash_from_link_identity (se_link se) l s of (resolved, s) \<Rightarrow>
     let cached = orE (map_of (link_peer_hashes s) l);
         resolved = (if resolved \<noteq> '''' then resolved else if cached \<noteq> '''' then dest_hash_for (maps s) cached else '''')
     in (\<not> (peer \<noteq> '''' \<and> resolved \<noteq> '''' \<and> \<not> hashes_equivalent (maps s) resolved peer)
         \<and> \<not> (peer \<noteq> '''' \<and> resolved = '''')
         \<and> \<not> (transport \<noteq> '''' \<and> \<not> link_transport_matches (se_link se) l transport), s))"

definition disconnect_peer :: "session_env \<Rightarrow> string \<Rightarrow> bool \<Rightarrow> string \<Rightarrow> engine \<Rightarrow> bool \<times> engine" where
  "disconnect_peer se peer_hash user_initiated transport s = (let
     peer = dest_hash_for (maps s) peer_hash;
     transport = (if transport = '''' then '''' else normalize_transport transport);
     s = (if user_initiated \<and> peer \<noteq> '''' \<and> transport = '''' then forget_session peer s else s) in
     case tear_each se False (link_of_peer se peer transport) (links s) (0, s) of (n, s) \<Rightarrow> let
       s = (if peer \<noteq> '''' then unlink_peer peer transport s else s);
       s = (if user_initiated \<and> peer \<noteq> ''''
            then (let s = drop_active se peer transport s in
              if transport = '''' \<or> other_active_links_for_peer (se_link se) peer None s = [] then forget_session peer s else s)
            else s)
     in (0 < n, s))"

definition disconnect_all_peers :: "session_env \<Rightarrow> bool \<Rightarrow> engine \<Rightarrow> engine" where
  "disconnect_all_peers se clear_session s = (let
     s = snd (tear_each se False (\<lambda>l s. (True, s)) (links s) (0, s\<lparr>link_handoff := True\<rparr>));
     s = s\<lparr>peer_links := [], link_peer_hashes := [], active_link := None, active_peer_hash := '''', send_link := None\<rparr>;
     s = (if clear_session then clear_session_peer s else s)
     in s\<lparr>link_handoff := False\<rparr>)"

section \<open>Incoming\<close>

definition handoff_to_link :: "session_env \<Rightarrow> string \<Rightarrow> string \<Rightarrow> engine \<Rightarrow> engine" where
  "handoff_to_link se l peer_hash s = (let
     peer = dest_hash_for (maps s) peer_hash;
     old = active_link s;
     old_score = (case old of None \<Rightarrow> 0 | Some k \<Rightarrow> link_path_score (se_link se) k);
     s = s\<lparr>link_handoff := True, last_handoff := (old_score + 8 < link_path_score (se_link se) l)\<rparr>;
     s = cache_link_peer (se_link se) l peer (setup_link l s);
     s = (notify_link_established se l peer True False False s)\<lparr>send_link := Some l\<rparr>;
     s = (case old of None \<Rightarrow> s | Some k \<Rightarrow> migrate_pending_files k l s);
     s = (case old of None \<Rightarrow> s | Some k \<Rightarrow> if k \<noteq> l then td se k s else s);
     s = schedule_queue_drain peer l s
     in s\<lparr>link_handoff := False\<rparr>)"

definition incoming_peer :: "session_env \<Rightarrow> string \<Rightarrow> engine \<Rightarrow> string \<times> engine" where
  "incoming_peer se l s = (case peer_for_link se l '''' s of (h, s) \<Rightarrow>
     case resolve_incoming_link_peer se l h s of (peer_hash, s) \<Rightarrow>
     case (if is_hub_peer_hash peer_hash
           then (case peer_hash_from_link_identity (se_link se) l s of (i, s) \<Rightarrow> let identity_peer = dest_hash_for (maps s) i in
                   (if identity_peer \<noteq> '''' \<and> \<not> is_hub_peer_hash identity_peer then identity_peer else ''unknown'', s))
           else (peer_hash, s)) of (peer_hash, s) \<Rightarrow> (peer_hash, cache_link_peer (se_link se) l peer_hash s))"

text \<open>Is an incoming link a better way to the active peer than the active link?\<close>

definition prefers_incoming :: "session_env \<Rightarrow> string \<Rightarrow> string \<Rightarrow> string \<Rightarrow> engine \<Rightarrow> bool" where
  "prefers_incoming se l a peer_hash s = (let
     env = se_link se;
     old_score = link_path_score env a; new_score = link_path_score env l;
     old_healthy = link_interface_healthy env a;
     expected = expected_families (e_route env) (maps s) peer_hash;
     prefer_serial = (fam_of env l = ''serial'' \<and> (expected = {''serial''}
       \<or> (expected = {} \<and> (se_failover se \<or> \<not> physical_lan (e_route env)
            \<or> peer_has_path_on_family (e_route env) peer_hash ''serial''
            \<or> (fam_of env a \<in> {''udp'', ''lan''} \<and> \<not> old_healthy)))))
     in prefer_serial \<or> old_score + 8 < new_score \<or> (\<not> old_healthy \<and> old_score \<le> new_score))"

text \<open>Is the incoming link one of the active peer?  A link of an unknown party counts when its
  identity says so.\<close>

definition incoming_same_peer :: "session_env \<Rightarrow> string \<Rightarrow> string \<Rightarrow> engine \<Rightarrow> bool \<times> engine" where
  "incoming_same_peer se l peer_hash s = (
     if active_link s = None \<or> active_peer_hash s = '''' \<or> is_hub_peer_hash (active_peer_hash s) then (False, s)
     else if hashes_equivalent (maps s) peer_hash (active_peer_hash s) then (True, s)
     else if peer_hash = ''unknown'' then incoming_matches_active_session se l s
     else (False, s))"

text \<open>An incoming link beside the active link of the same peer.\<close>

definition incoming_duplicate :: "session_env \<Rightarrow> string \<Rightarrow> string \<Rightarrow> engine \<Rightarrow> engine" where
  "incoming_duplicate se l peer_hash s = (let
     peer = (if peer_hash = ''unknown'' then dest_hash_for (maps s) (active_peer_hash s) else peer_hash);
     s = (if peer_hash = ''unknown'' then cache_link_peer (se_link se) l peer s else s) in
     case active_link s of None \<Rightarrow> s
     | Some a \<Rightarrow>
         if l = a then td se l s
         else if has_active_transfer se s then td se l s
         else if prefers_incoming se l a peer s then handoff_to_link se l peer s
         else td se l s)"

definition incoming_accept :: "session_env \<Rightarrow> string \<Rightarrow> string \<Rightarrow> engine \<Rightarrow> engine" where
  "incoming_accept se l peer_hash s = (case link_for_peer (se_link se) peer_hash '''' s of (existing, s) \<Rightarrow>
     let s = (case existing of None \<Rightarrow> s | Some k \<Rightarrow> if k \<noteq> l then td se k s else s) in
     case (if peer_hash = '''' \<or> peer_hash = ''unknown''
           then (case peer_hash_from_link_identity (se_link se) l s of (resolved, s) \<Rightarrow>
                   if resolved \<noteq> '''' \<and> resolved \<noteq> ''unknown'' then (resolved, cache_link_peer (se_link se) l resolved s)
                   else (peer_hash, s))
           else (peer_hash, s)) of (peer_hash, s) \<Rightarrow> let
       s = setup_link l (s\<lparr>last_handoff := False\<rparr>);
       passive_only = is_user_disconnected (maps s) peer_hash (user_disconnected s);
       promote = (\<not> passive_only \<and> (active_link s = None \<or> hashes_equivalent (maps s) peer_hash (active_peer_hash s)));
       s = notify_link_established se l peer_hash promote (\<not> promote) passive_only s
     in if passive_only then s else schedule_queue_drain peer_hash l s)"

definition link_callback :: "session_env \<Rightarrow> string \<Rightarrow> engine \<Rightarrow> engine" where
  "link_callback se l s = (case incoming_peer se l s of (peer_hash, s) \<Rightarrow>
     if is_hub_peer_hash peer_hash then td se l s
     else if \<not> peer_allowed_by_scope se peer_hash l s then td se l s
     else let fam = fam_of (se_link se) l; expected = expected_families (e_route (se_link se)) (maps s) peer_hash in
       if expected \<noteq> {} \<and> is_lan_family fam \<and> expected \<inter> lan_set = {} then td se l s
       else case incoming_same_peer se l peer_hash s of (same, s) \<Rightarrow>
         if same then incoming_duplicate se l peer_hash s else incoming_accept se l peer_hash s)"

section \<open>Who is linked\<close>

fun linked_each :: "link_env \<Rightarrow> (string \<times> string) list \<Rightarrow> string list \<Rightarrow> engine \<Rightarrow> string list \<times> engine" where
  "linked_each env [] out s = (out, s)"
| "linked_each env ((key, l) # rest) out s = (let peer = peer_from_link_key key in
     if link_status env s l = ''closed'' \<or> \<not> link_interface_healthy env l \<or> peer = '''' then linked_each env rest out s
     else case peer_link_usable env peer '''' '''' s of ((usable, _), s) \<Rightarrow>
       let entry = (if CHR '':'' \<in> set key then py_lower key else peer @ '':'' @ transport_from_link env l) in
       linked_each env rest (if usable \<and> entry \<notin> set out then out @ [entry] else out) s)"

definition linked_peers :: "link_env \<Rightarrow> engine \<Rightarrow> string list \<times> engine" where
  "linked_peers env s = linked_each env (peer_links s) [] s"

definition hub_tcp_linked_peers :: "link_env \<Rightarrow> engine \<Rightarrow> string list" where
  "hub_tcp_linked_peers env s = (if r_role (e_route env) = ''off'' then []
     else fold (\<lambda>(key, l) out. let peer = peer_from_link_key key in
       if peer = '''' \<or> is_hub_peer_hash peer \<or> peer \<in> set out \<or> \<not> link_is_hub_transport env l then out else out @ [peer])
       (peer_links s) [])"

definition hub_message_acceptable :: "link_env \<Rightarrow> bool \<Rightarrow> string \<Rightarrow> bool" where
  "hub_message_acceptable env hub_group l = (if \<not> hub_group then True
     else if r_role (e_route env) = ''off'' then False else link_is_hub_transport env l)"

definition hub_send_targets :: "link_env \<Rightarrow> string \<Rightarrow> bool \<Rightarrow> engine \<Rightarrow> string list" where
  "hub_send_targets env hub_server_hash hub_server_mode s = (let tcp_peers = hub_tcp_linked_peers env s in
     if hub_server_mode then tcp_peers
     else if hub_server_hash \<noteq> ''''
     then (let peer = dest_hash_for (maps s) hub_server_hash in
       if peer \<noteq> '''' \<and> peer \<noteq> ''unknown'' \<and> peer \<in> set tcp_peers then [peer] else [])
     else take 1 tcp_peers)"

text \<open>The outgoing link of a file.\<close>

definition transfer_scored :: "link_env \<Rightarrow> string \<Rightarrow> engine \<Rightarrow> string list \<Rightarrow> string option" where
  "transfer_scored env peer s ls = (let expected = expected_families (e_route env) (maps s) peer;
       prefer = (if expected = {''serial''} then [''serial''] else [''tcp'', ''lan'', ''udp'', ''serial'']) in
     fst (fold (\<lambda>l (best, best_score).
       if \<not> link_interface_healthy env l \<or> \<not> acceptable env s l peer \<or> off_zone expected (fam_of env l) then (best, best_score)
       else let score = link_path_score env l + fam_rank prefer (fam_of env l) * 5 in
         if best_score < score then (Some l, score) else (best, best_score)) ls (None, -1)))"

definition best_transfer_link :: "link_env \<Rightarrow> string \<Rightarrow> engine \<Rightarrow> string option \<times> engine" where
  "best_transfer_link env peer_hash s = (let peer = default_peer peer_hash s in
     if peer = '''' \<or> peer = ''unknown'' then (None, s)
     else case transfer_scored env peer s (links_for_peer env peer s) of Some l \<Rightarrow> (Some l, s)
     | None \<Rightarrow> best_outgoing_link env peer s)"

definition outgoing_link :: "link_env \<Rightarrow> string \<Rightarrow> engine \<Rightarrow> string option \<times> engine" where
  "outgoing_link env peer_hash s = (
     case (if peer_hash = '''' then (None, s) else best_outgoing_link env peer_hash s) of (Some l, s) \<Rightarrow> (Some l, s)
     | (None, s) \<Rightarrow> (case (if active_peer_hash s = '''' then (None, s) else best_outgoing_link env (active_peer_hash s) s) of
         (Some l, s) \<Rightarrow> (Some l, s)
       | (None, s) \<Rightarrow> (if send_link s \<noteq> None then send_link s else active_link s, s)))"

end
