(* ===== verification/SessionLaws.thy ===== *)
theory SessionLaws
  imports Sessions LinkLaws
begin

text \<open>
  What the life of links keeps.  Reticulum's \<open>link.teardown()\<close> runs the closing callback,
  which may tear down further links; its contract is the locale \<open>teardown\<close>, and the closing
  callback itself (\<open>closing\<close>) is shown to satisfy it.  \<open>settles L s s'\<close> is what every
  operation on links keeps, \<open>L\<close> being the links it was handed: no link appears from nowhere,
  a closed link leaves the table of links, and what the user disconnected stays so.  It is
  composed along the code (\<open>settle_intro\<close>) as the queries are in \<open>LinkLaws\<close>.
\<close>

definition live :: "engine \<Rightarrow> string set" where
  "live s = set (links s) \<union> snd ` set (peer_links s)"

definition links_open :: "engine \<Rightarrow> bool" where
  "links_open s \<longleftrightarrow> set (links s) \<inter> gone s = {}"

definition settles :: "string set \<Rightarrow> engine \<Rightarrow> engine \<Rightarrow> bool" where
  "settles L s s' \<longleftrightarrow> set (links s') \<subseteq> set (links s) \<and> snd ` set (peer_links s') \<subseteq> live s \<union> L
     \<and> gone s \<subseteq> gone s' \<and> gone s' \<subseteq> gone s \<union> live s \<union> L
     \<and> set_option (active_link s') \<subseteq> set_option (active_link s) \<union> live s \<union> L
     \<and> user_disconnected s' = user_disconnected s
     \<and> (maps_ok (maps s) \<longrightarrow> maps_ok (maps s')) \<and> (links_open s \<longrightarrow> links_open s')"

lemma settles_refl [simp, intro]: "settles L s s"
  by (auto simp: settles_def live_def)

lemma settles_live: "settles L s t \<Longrightarrow> live t \<subseteq> live s \<union> L"
  by (auto simp: settles_def live_def)

lemma settlesD:
  assumes "settles L s t"
  shows "set (links t) \<subseteq> set (links s)" "snd ` set (peer_links t) \<subseteq> live s \<union> L" "gone s \<subseteq> gone t"
    "gone t \<subseteq> gone s \<union> live s \<union> L" "set_option (active_link t) \<subseteq> set_option (active_link s) \<union> live s \<union> L"
    "user_disconnected t = user_disconnected s" "maps_ok (maps s) \<Longrightarrow> maps_ok (maps t)" "links_open s \<Longrightarrow> links_open t"
  using assms unfolding settles_def by simp_all

lemma subset_chain: "A \<subseteq> B \<union> T \<union> L \<Longrightarrow> B \<subseteq> C \<union> S \<union> L \<Longrightarrow> T \<subseteq> S \<union> L \<Longrightarrow> A \<subseteq> C \<union> S \<union> L"
  by blast

lemma settles_trans:
  assumes st: "settles L s t" and tu: "settles L t u" shows "settles L s u"
proof -
  note s = settlesD [OF st] note t = settlesD [OF tu] note live = settles_live [OF st]
  show ?thesis unfolding settles_def
  proof (intro conjI)
    show "set (links u) \<subseteq> set (links s)" by (rule subset_trans [OF t(1) s(1)])
    show "snd ` set (peer_links u) \<subseteq> live s \<union> L" by (rule subset_trans [OF t(2)]) (use live in blast)
    show "gone s \<subseteq> gone u" by (rule subset_trans [OF s(3) t(3)])
    show "gone u \<subseteq> gone s \<union> live s \<union> L" by (rule subset_chain [OF t(4) s(4) live])
    show "set_option (active_link u) \<subseteq> set_option (active_link s) \<union> live s \<union> L"
      by (rule subset_chain [OF t(5) s(5) live])
    show "user_disconnected u = user_disconnected s" using s(6) t(6) by (rule trans [rotated])
  qed (use s(7,8) t(7,8) in blast)+
qed

lemma settles_mono: "settles L s t \<Longrightarrow> L \<subseteq> M \<Longrightarrow> settles M s t"
  unfolding settles_def by blast

text \<open>A link that is already in the tables need not be handed over.\<close>

lemma settles_absorb: "settles L s t \<Longrightarrow> L \<subseteq> live s \<union> M \<Longrightarrow> settles M s t"
  unfolding settles_def by blast

lemma settles_learns: "learns s s' \<Longrightarrow> settles L s s'"
  using learns_ok by (auto simp: learns_def settles_def live_def links_open_def)

text \<open>An update of fields that are not tracked.\<close>

lemma settles_frame:
  assumes "links s' = links s" "peer_links s' = peer_links s" "gone s' = gone s" "active_link s' = active_link s"
    "user_disconnected s' = user_disconnected s" "maps s' = maps s"
  shows "settles L s s'"
  using assms by (auto simp: settles_def live_def links_open_def)

text \<open>An update that only learns names, and whose link is whose.\<close>

definition jots :: "engine \<Rightarrow> engine \<Rightarrow> bool" where
  "jots s s' \<longleftrightarrow> s' = s\<lparr>maps := maps s', link_peer_hashes := link_peer_hashes s'\<rparr>
     \<and> (maps_ok (maps s) \<longrightarrow> maps_ok (maps s'))"

lemma jots_refl [simp]: "jots s s"
  by (simp add: jots_def)

lemma jots_update: "s' = s\<lparr>maps := m, link_peer_hashes := h\<rparr> \<Longrightarrow> (maps_ok (maps s) \<Longrightarrow> maps_ok m) \<Longrightarrow> jots s s'"
  by (simp add: jots_def)

lemma jots_trans: "jots s t \<Longrightarrow> jots t u \<Longrightarrow> jots s u"
proof (rule jots_update [where m = "maps u" and h = "link_peer_hashes u"])
  assume a: "jots s t" "jots t u"
  obtain m h where t: "t = s\<lparr>maps := m, link_peer_hashes := h\<rparr>" using a(1) unfolding jots_def by blast
  have "t\<lparr>maps := x, link_peer_hashes := y\<rparr> = s\<lparr>maps := x, link_peer_hashes := y\<rparr>" for x y by (simp add: t)
  then show "u = s\<lparr>maps := maps u, link_peer_hashes := link_peer_hashes u\<rparr>" using a(2) by (simp add: jots_def)
  show "maps_ok (maps s) \<Longrightarrow> maps_ok (maps u)" using a by (simp add: jots_def)
qed

lemma jots_learns: "learns s s' \<Longrightarrow> jots s s'"
  using learns_ok unfolding jots_def by (auto simp: learns_def)

lemma jots_fields:
  assumes "jots s t"
  shows "links t = links s" "peer_links t = peer_links s" "active_link t = active_link s" "gone t = gone s"
    "user_disconnected t = user_disconnected s" "live t = live s" "link_handoff t = link_handoff s"
    "active_peer_hash t = active_peer_hash s" "session_peer_hash t = session_peer_hash s" "send_link t = send_link s"
proof -
  have t: "t = s\<lparr>maps := maps t, link_peer_hashes := link_peer_hashes t\<rparr>" using assms by (simp add: jots_def)
  show "links t = links s" "peer_links t = peer_links s" "active_link t = active_link s" "gone t = gone s"
    "user_disconnected t = user_disconnected s" "live t = live s" "link_handoff t = link_handoff s"
    "active_peer_hash t = active_peer_hash s" "session_peer_hash t = session_peer_hash s" "send_link t = send_link s"
    by (subst t, simp add: live_def)+
qed

lemma settles_jots: "jots s s' \<Longrightarrow> settles L s s'"
  using jots_fields [of s s'] unfolding settles_def links_open_def by (auto simp: jots_def live_def)

named_theorems note_intro \<open>how steps that only note something are composed\<close>

interpretation noting: stepwise jots
  by unfold_locales (simp, rule jots_trans)

lemmas note_rules [note_intro] = jots_refl noting.return noting.bind noting.bindp noting.branch
  noting.branchp noting.optional noting.optionalp noting.answerp

named_theorems settle_intro \<open>how operations on links are composed\<close>

interpretation settling: stepwise "settles L" for L
  by unfold_locales (simp, rule settles_trans)

lemmas settle_rules [settle_intro] = settles_refl settling.return settling.bind settling.bindp
  settling.branch settling.branchp settling.optional settling.optionalp settling.answerp

section \<open>Operations without a teardown\<close>

lemma from_link_query [query_intro]: "learns s (snd (from_link env k s))"
  unfolding from_link_def by (intro query_intro)

lemma identity_for_hash_query [query_intro]: "learns s (snd (identity_for_hash env h s))"
  unfolding identity_for_hash_def by (auto simp: Let_def learns_one split: option.split)

lemma canonical_connect_query [query_intro]: "learns s (snd (canonical_connect_hash env h k s))"
  unfolding canonical_connect_hash_def Let_def by (intro query_intro)

lemma resolve_remote_query [query_intro]: "learns s (snd (resolve_remote_peer se l f s))"
  unfolding resolve_remote_peer_def Let_def
  by (intro query_intro) (auto simp: learns_one)

lemma incoming_matches_query [query_intro]: "learns s (snd (incoming_matches_active_session se l s))"
  unfolding incoming_matches_active_session_def Let_def by (intro query_intro)

lemma resolve_incoming_query [query_intro]: "learns s (snd (resolve_incoming_link_peer se l h s))"
  unfolding resolve_incoming_link_peer_def Let_def by (intro query_intro)

lemma incoming_same_query [query_intro]: "learns s (snd (incoming_same_peer se l h s))"
  unfolding incoming_same_peer_def by (intro query_intro)

lemmas note_queries [note_intro] = dest_hash_from_identity_query [THEN jots_learns]
  peer_hash_from_link_identity_query [THEN jots_learns] link_remote_query [THEN jots_learns]
  link_matches_query [THEN jots_learns] link_for_peer_query [THEN jots_learns]
  peer_link_active_query [THEN jots_learns] find_active_link_query [THEN jots_learns]
  canonical_connect_query [THEN jots_learns] resolve_remote_query [THEN jots_learns]
  incoming_matches_query [THEN jots_learns] resolve_incoming_query [THEN jots_learns]
  incoming_same_query [THEN jots_learns]

lemma cache_link_peer_jots [note_intro]: "jots s (cache_link_peer env l h s)"
proof -
  have "jots u (u\<lparr>link_peer_hashes := d\<rparr>)" for u d by (simp add: jots_def)
  then show ?thesis unfolding cache_link_peer_def by (intro note_intro)
qed

lemma by_cached_jots [note_intro]: "jots s (snd (by_cached se l c s))"
  unfolding by_cached_def by (intro note_intro)

lemma by_resolved_jots [note_intro]: "jots s (snd (by_resolved se l f s))"
  unfolding by_resolved_def by (intro note_intro)

lemma by_fallback_jots [note_intro]: "jots s (snd (by_fallback se l f s))"
  unfolding by_fallback_def by (intro note_intro)

lemma peer_for_link_jots [note_intro]: "jots s (snd (peer_for_link se l f s))"
  unfolding peer_for_link_def Let_def by (intro note_intro)

lemma incoming_peer_jots [note_intro]: "jots s (snd (incoming_peer se l s))"
  unfolding incoming_peer_def Let_def by (intro note_intro)

lemma established_peer_jots [note_intro]: "jots s (snd (established_peer se l h s))"
  unfolding established_peer_def by (intro note_intro)

lemmas settle_queries [settle_intro] = note_queries [THEN settles_jots] cache_link_peer_jots [THEN settles_jots]
  peer_for_link_jots [THEN settles_jots] incoming_peer_jots [THEN settles_jots]
  established_peer_jots [THEN settles_jots]


lemma values_update: "snd ` set (AList.update k v d) \<subseteq> insert v (snd ` set d)"
  by (auto dest!: set_update_subset [THEN subsetD])

lemma values_delete: "snd ` set (AList.delete k d) \<subseteq> snd ` set d"
  by (auto simp: AList.delete_eq)

lemma set_peer_links_settles:
  assumes "snd ` set d \<subseteq> insert l (snd ` set (peer_links s))" shows "settles {l} s (s\<lparr>peer_links := d\<rparr>)"
  using assms unfolding settles_def live_def links_open_def by auto

lemma drop_peer_links_settles:
  assumes "snd ` set d \<subseteq> snd ` set (peer_links s)" shows "settles L s (s\<lparr>peer_links := d\<rparr>)"
  using assms unfolding settles_def live_def links_open_def by auto

lemma register_peer_link_settles [settle_intro]: "l \<in> L \<Longrightarrow> settles L s (register_peer_link env l h t s)"
proof (rule settles_mono [of "{l}"])
  have put: "settles {l} u (if b then u\<lparr>peer_links := AList.update k l (peer_links u)\<rparr>
      \<lparr>peer_links := AList.delete p (peer_links (u\<lparr>peer_links := AList.update k l (peer_links u)\<rparr>))\<rparr>
      else u\<lparr>peer_links := AList.update k l (peer_links u)\<rparr>)" for u b k p
    using set_peer_links_settles [OF values_update [of k l "peer_links u"]]
      set_peer_links_settles [OF subset_trans [OF values_delete values_update [of k l "peer_links u"]]]
    by simp
  show "settles {l} s (register_peer_link env l h t s)"
    unfolding register_peer_link_def Let_def
    by (intro settle_intro settles_trans [OF put settles_jots [OF cache_link_peer_jots]])
qed simp

lemma unlink_peer_settles [settle_intro]: "settles L s (unlink_peer h t s)"
  unfolding unlink_peer_def Let_def
  by (intro settle_intro drop_peer_links_settles) (auto simp: dict_purge_def AList.delete_eq)

lemma frame_settles [settle_intro]:
  "settles L s (migrate_pending_files k l s)" "settles L s (flush_pending_files_failed l s)"
  "settles L s (schedule_queue_drain h l s)" "settles L s (clear_session_peer s)"
  by (rule settles_frame; simp add: migrate_pending_files_def flush_pending_files_failed_def
      schedule_queue_drain_def clear_session_peer_def Let_def)+

section \<open>Where links come from\<close>

lemma learns_fields:
  assumes "learns s t"
  shows "links t = links s" "peer_links t = peer_links s" "active_link t = active_link s" "gone t = gone s"
    "user_disconnected t = user_disconnected s" "live t = live s" "link_peer_hashes t = link_peer_hashes s"
    "active_peer_hash t = active_peer_hash s" "session_peer_hash t = session_peer_hash s"
  using assms by (auto simp: learns_def live_def)

lemma link_at_live: "link_at env k p s = (Some l, t) \<Longrightarrow> l \<in> live s"
  by (force simp: link_at_def live_def split: option.splits prod.splits if_splits dest: map_of_SomeD)

lemma scan_peer_links_in: "scan_peer_links env p ls s = (Some l, t) \<Longrightarrow> l \<in> snd ` set ls"
proof (induction ls arbitrary: s)
  case (Cons x ls)
  then show ?case by (cases x) (auto split: if_splits prod.splits)
qed simp

lemma scan_cached_links_in: "scan_cached_links env p ls s = (Some l, t) \<Longrightarrow> l \<in> set (links s)"
proof (induction ls arbitrary: s)
  case (Cons x ls)
  obtain a c where x: "x = (a, c)" by (cases x)
  show ?case
  proof (cases "hashes_equivalent (maps s) c p \<and> a \<in> set (links s)")
    case False
    with Cons.prems have "scan_cached_links env p ls s = (Some l, t)" by (simp add: x split: if_splits)
    then show ?thesis by (rule Cons.IH)
  next
    case True
    obtain ok u where m: "link_matches_peer env a p s = (ok, u)" by force
    have "links u = links s" using link_matches_query [of s env a p] m learns_fields(1) by fastforce
    with Cons.IH [of u] Cons.prems True m show ?thesis by (auto simp: x split: if_splits)
  qed
qed simp

lemma link_for_peer_live: "link_for_peer env h t s = (Some l, s') \<Longrightarrow> l \<in> live s"
proof -
  assume a: "link_for_peer env h t s = (Some l, s')"
  have general: "l \<in> live s" if r: "(case link_at env p p s of (Some l, s) \<Rightarrow> (Some l, s)
     | (None, s) \<Rightarrow> (case scan_peer_links env p (peer_links s) s of (Some l, s) \<Rightarrow> (Some l, s)
         | (None, s) \<Rightarrow> scan_cached_links env p (link_peer_hashes s) s)) = (Some l, s')" for p
  proof -
    obtain o1 u where u: "link_at env p p s = (o1, u)" by force
    have lu: "learns s u" using link_at_query [of s env p p] u by simp
    obtain o2 w where w: "scan_peer_links env p (peer_links u) u = (o2, w)" by force
    have "learns u w" using scan_peer_links_query [of u env p "peer_links u"] w by simp
    then have lw: "learns s w" by (rule learns_trans [OF lu])
    show ?thesis
    proof (cases o1)
      case (Some k) then show ?thesis using r u link_at_live [of env p p s k u] by simp
    next
      case None
      note n1 = None
      show ?thesis
      proof (cases o2)
        case (Some k)
        then show ?thesis using r u w n1 scan_peer_links_in [of env p "peer_links u" u k w] learns_fields(2) [OF lu]
          by (auto simp: live_def)
      next
        case None
        then have "scan_cached_links env p (link_peer_hashes w) w = (Some l, s')" using r u w n1 by simp
        from scan_cached_links_in [OF this] show ?thesis using learns_fields(1) [OF lw] by (simp add: live_def)
      qed
    qed
  qed
  show ?thesis using a general link_at_live unfolding link_for_peer_def Let_def
    by (auto split: if_splits prod.splits)
qed

lemma other_active_links: "set (other_active_links_for_peer env h e s) \<subseteq> set (links s)"
  by (auto simp: other_active_links_for_peer_def Let_def)

lemma fold_add_new: "set (fold add_new xs acc) \<subseteq> set acc \<union> set xs"
proof (induction xs arbitrary: acc)
  case (Cons x xs)
  have "set (add_new x acc) \<subseteq> insert x (set acc)" by (auto simp: add_new_def)
  with Cons.IH [of "add_new x acc"] show ?case by auto
qed simp

lemma links_for_peer_live: "set (links_for_peer env h s) \<subseteq> live s"
proof -
  let ?xs = "\<lambda>peer. other_active_links_for_peer env peer None s
        @ map snd (filter (\<lambda>(key, _). hashes_equivalent (maps s) (peer_from_link_key key) peer) (peer_links s))"
  have "set (?xs p) \<subseteq> live s" for p using other_active_links [of env p None s] by (auto simp: live_def)
  moreover have "set (fold add_new (?xs p) []) \<subseteq> set (?xs p)" for p using fold_add_new [of "?xs p" "[]"] by simp
  ultimately have "set (fold add_new (?xs p) []) \<subseteq> live s" for p by (rule subset_trans [rotated])
  then show ?thesis unfolding links_for_peer_def Let_def by simp
qed

section \<open>The contract of a teardown\<close>

text \<open>What the engine relies on when it calls \<open>link.teardown()\<close>: the link is closed afterwards,
  the callbacks it runs settle, and the active link is then one the engine knew before.\<close>

locale teardown =
  fixes se :: session_env
  assumes closes: "l \<in> gone (td se l s)"
    and td_settles: "settles {l} s (td se l s)"
    and td_active: "set_option (active_link (td se l s)) \<subseteq> set_option (active_link s) \<union> live s"
begin

lemma td_handed [settle_intro]: "l \<in> L \<Longrightarrow> settles L s (td se l s)"
  using td_settles by (rule settles_mono) simp

lemma tear_settles [settle_intro]: "l \<in> L \<Longrightarrow> settles L s (snd (tear se h l s))"
proof -
  assume l: "l \<in> L"
  have flag: "settles L u (u\<lparr>link_handoff := b\<rparr>)" for u b by (rule settles_frame) simp_all
  have "settles L s (td se l (s\<lparr>link_handoff := True\<rparr>))" by (rule settles_trans [OF flag td_handed [OF l]])
  then show ?thesis unfolding tear_def
    by (auto simp: td_handed [OF l] split: prod.split intro: settles_trans flag)
qed

lemma tear_each_settles:
  assumes "\<And>l s. settles L s (snd (goes l s))" "set ls \<subseteq> L"
  shows "settles L s (snd (tear_each se h goes ls (n, s)))"
  using assms(2)
proof (induction ls arbitrary: n s)
  case (Cons l ls)
  obtain b u where g: "goes l s = (b, u)" by force
  have su: "settles L s u" using assms(1) [of s l] g by simp
  show ?case
  proof (cases b)
    case False
    then show ?thesis using Cons g by (auto intro: settles_trans [OF su])
  next
    case True
    obtain ok v where t: "tear se h l u = (ok, v)" by force
    have "settles L u v" using tear_settles [of l L u h] Cons.prems t by simp
    then have "settles L s v" by (rule settles_trans [OF su])
    then show ?thesis using Cons True g t by (auto intro: settles_trans)
  qed
qed simp

lemma tear_known [settle_intro]:
  assumes "\<And>L l s. settles L s (snd (goes l s))" "set ls \<subseteq> live s"
  shows "settles L s (snd (tear_each se h goes ls (n, s)))"
  by (rule settles_absorb [of "set ls"]) (use assms tear_each_settles in auto)

lemma consolidate_settles [settle_intro]: "settles L s (snd (consolidate_peer_links se h k t s))"
  unfolding consolidate_peer_links_def Let_def
  by (intro settle_intro links_for_peer_live)

lemma links_live: "set (links s) \<subseteq> live s"
  by (simp add: live_def)

lemma teardown_stale_settles [settle_intro]: "settles L s (snd (teardown_stale_peer_links se h b s))"
  unfolding teardown_stale_peer_links_def Let_def by (intro settle_intro links_live)

lemma teardown_other_settles [settle_intro]: "settles L s (snd (teardown_other_peer_links se h b s))"
  unfolding teardown_other_peer_links_def Let_def by (intro settle_intro links_live)

lemma promote_link_settles [settle_intro]: "l \<in> L \<Longrightarrow> settles L s (promote_link se l p s)"
proof -
  assume l: "l \<in> L"
  define u where "u = snd (consolidate_peer_links se p (Some l) '''' s)"
  have su: "settles L s u" unfolding u_def by (rule consolidate_settles)
  let ?v = "u\<lparr>active_link := Some l, active_peer_hash := p, session_peer_hash := p, send_link := Some l\<rparr>"
  have "settles L u (?v\<lparr>pending_sends := P\<rparr>)" for P using l by (auto simp: settles_def live_def links_open_def)
  moreover have "settles L u ?v" using l by (auto simp: settles_def live_def links_open_def)
  ultimately have "settles L u (promote_link se l p s)"
    unfolding promote_link_def Let_def u_def [symmetric] using register_peer_link_settles [OF l] by simp
  then show ?thesis by (rule settles_trans [OF su])
qed

lemma notify_settles [settle_intro]: "l \<in> L \<Longrightarrow> settles L s (notify_link_established se l h pa bg pv s)"
proof -
  assume l: "l \<in> L"
  have stamp: "settles L u ((register_peer_link (se_link se) l p '''' u)\<lparr>established_at := x\<rparr>)" for u p x
    by (rule settles_trans [OF register_peer_link_settles [OF l]]) (rule settles_frame; simp)
  have emitted: "settles L u v \<Longrightarrow> settles L u (emit_link e v)" for u v e
    by (erule settles_trans) (rule settles_frame; simp)
  have inner: "settles L u (emit_link e (if pa then promote_link se l p
        ((register_peer_link (se_link se) l p '''' u)\<lparr>established_at := x\<rparr>)
      else (register_peer_link (se_link se) l p '''' u)\<lparr>established_at := x\<rparr>))" for u e p x
    by (rule emitted) (auto intro: stamp settles_trans [OF stamp promote_link_settles [OF l]])
  show ?thesis unfolding notify_link_established_def Let_def
    by (intro settle_intro inner)
qed

end

lemma next_session_link_settles [settle_intro]: "settles L s (next_session_link se l s)"
proof (cases "dest_hash_for (maps s) (session_peer_hash s) = ''''
    \<or> is_user_disconnected (maps s) (dest_hash_for (maps s) (session_peer_hash s)) (user_disconnected s)")
  case True
  then show ?thesis by (auto simp: next_session_link_def Let_def)
next
  case False
  let ?p = "dest_hash_for (maps s) (session_peer_hash s)"
  obtain o' u where u: "link_for_peer (se_link se) ?p '''' s = (o', u)" by force
  have su: "settles L s u" using settles_learns [OF link_for_peer_query [of s "se_link se" ?p "''''"]] u by simp
  show ?thesis
  proof (cases o')
    case None
    with False u su show ?thesis by (simp add: next_session_link_def Let_def)
  next
    case (Some k)
    have "k \<in> live s" using link_for_peer_live u Some by blast
    moreover have "learns s u" using link_for_peer_query [of s "se_link se" ?p "''''"] u by simp
    ultimately have k: "k \<in> live u" by (simp add: learns_fields)
    have "settles L u (u\<lparr>active_link := Some k, active_peer_hash := ?p, send_link := Some k\<rparr>)"
      using k by (auto simp: settles_def live_def links_open_def)
    with su have "settles L s (u\<lparr>active_link := Some k, active_peer_hash := ?p, send_link := Some k\<rparr>)" by (rule settles_trans)
    then show ?thesis using False u Some su by (simp add: next_session_link_def Let_def)
  qed
qed

lemma drops_active_settles: "links t = links s \<Longrightarrow> peer_links t = peer_links s \<Longrightarrow> gone t = gone s \<Longrightarrow>
    user_disconnected t = user_disconnected s \<Longrightarrow> maps t = maps s \<Longrightarrow> active_link t = None \<Longrightarrow> settles L s t"
  by (auto simp: settles_def live_def links_open_def)

lemma closed_active_settles [settle_intro]: "settles L s (closed_active se l s)"
  unfolding closed_active_def Let_def
  by (rule settles_trans [OF _ next_session_link_settles], rule drops_active_settles) simp_all

lemma closed_files_settles [settle_intro]: "settles L s (closed_files se l r s)"
  unfolding closed_files_def Let_def by (intro settle_intro)

context teardown begin

lemma closed_unlinks_settles [settle_intro]: "settles L s (closed_unlinks se l r s)"
proof -
  let ?peer = "dest_hash_for (maps s) r"
  show ?thesis
  proof (cases "other_active_links_for_peer (se_link se) ?peer (Some l) s")
    case Nil
    then show ?thesis by (simp add: closed_unlinks_def Let_def unlink_peer_settles)
  next
    case (Cons k ks)
    let ?u = "s\<lparr>peer_links := AList.update ?peer k (peer_links s)\<rparr>"
    have k: "k \<in> set (links s)"
      using other_active_links [of "se_link se" ?peer "Some l" s] Cons by simp
    have u: "settles {k} s ?u" by (rule set_peer_links_settles [OF values_update])
    have "settles {k} s (notify_link_established se k ?peer True False False ?u)"
      by (rule settles_trans [OF u notify_settles]) simp
    with u have "settles {k} s (closed_unlinks se l r s)" using Cons by (simp add: closed_unlinks_def Let_def)
    then show ?thesis by (rule settles_absorb) (use k in \<open>simp add: live_def\<close>)
  qed
qed

text \<open>The closing callback, run on a link that has just closed.\<close>

lemma link_closed_settles: "settles {l} s (link_closed se l (s\<lparr>gone := insert l (gone s)\<rparr>))"
  and link_closed_gone: "l \<in> gone (link_closed se l (s\<lparr>gone := insert l (gone s)\<rparr>))"
  and link_closed_active: "set_option (active_link (link_closed se l (s\<lparr>gone := insert l (gone s)\<rparr>)))
    \<subseteq> set_option (active_link s) \<union> live s"
proof -
  let ?s0 = "s\<lparr>gone := insert l (gone s)\<rparr>"
  obtain h s1 where p: "peer_for_link se l '''' ?s0 = (h, s1)" by force
  have j: "jots ?s0 s1" using peer_for_link_jots [of ?s0 se l "''''"] p by simp
  define r where "r = dest_hash_for (maps s1) h"
  define s2 where "s2 = s1\<lparr>links := filter (\<lambda>k. k \<noteq> l) (links s1), link_peer_hashes := AList.delete l (link_peer_hashes s1)\<rparr>"
  have ok: "maps_ok (maps s) \<Longrightarrow> maps_ok (maps s1)" using j by (simp add: jots_def)
  have s2: "settles {l} s s2"
    using jots_fields [OF j] ok by (auto simp: s2_def settles_def live_def links_open_def)
  define s4 where "s4 = closed_files se l r (closed_unlinks se l r s2)"
  have s4: "settles {} s2 s4" unfolding s4_def
    by (rule settles_trans [OF closed_unlinks_settles closed_files_settles])
  define s5 where "s5 = (if active_link s4 = Some l \<and> \<not> link_handoff s4 then closed_active se l s4 else s4)"
  have s5: "settles {} s2 s5" unfolding s5_def using s4 settles_trans [OF s4 closed_active_settles] by simp
  define s6 where "s6 = (if send_link s5 = Some l then s5\<lparr>send_link := active_link s5\<rparr> else s5)"
  have s6: "settles {} s2 s6" unfolding s6_def
    by (rule settles_trans [OF s5], intro settle_intro) (rule settles_frame; simp)
  have s7: "settles {} s2 (emit_link e s6)" for e by (rule settles_trans [OF s6]) (rule settles_frame; simp)
  have out: "settles {} s2 (link_closed se l ?s0)" (is "settles {} s2 ?t")
  proof -
    have "link_closed se l ?s0 = (if \<not> link_handoff s6
      then emit_link (LinkDown r (active_link s4 = Some l \<and> active_link s6 \<noteq> None)) s6 else s6)"
    unfolding link_closed_def p prod.case Let_def r_def [symmetric] s2_def [symmetric] s4_def [symmetric]
      s5_def [symmetric] s6_def [symmetric] by (rule refl)
    then show ?thesis using s6 s7 by simp
  qed
  have "live s2 \<subseteq> live s" "active_link s2 = active_link s" "l \<in> gone s2"
    using jots_fields [OF j] by (auto simp: s2_def live_def)
  with settlesD(3,5) [OF out] show "l \<in> gone ?t" "set_option (active_link ?t) \<subseteq> set_option (active_link s) \<union> live s"
    by auto
  show "settles {l} s ?t" by (rule settles_trans [OF s2 settles_mono [OF out]]) simp
qed

end

text \<open>Reticulum's teardown as the engine sees it: the link is closed, then the callback runs.
  Teardowns nested deeper than \<open>n\<close> only close.\<close>

primrec closing :: "nat \<Rightarrow> session_env \<Rightarrow> session_env" where
  "closing 0 se = se\<lparr>se_td := (\<lambda>l s. (True, s\<lparr>gone := insert l (gone s), links := filter (\<lambda>k. k \<noteq> l) (links s)\<rparr>))\<rparr>"
| "closing (Suc n) se = se\<lparr>se_td := (\<lambda>l s. (True, link_closed (closing n se) l (s\<lparr>gone := insert l (gone s)\<rparr>)))\<rparr>"

lemma closing_teardown: "teardown (closing n se)"
proof (induction n)
  case 0
  show ?case by unfold_locales (auto simp: settles_def live_def links_open_def)
next
  case (Suc n)
  show ?case by unfold_locales (simp_all add: teardown.link_closed_gone [OF Suc] teardown.link_closed_settles [OF Suc]
      teardown.link_closed_active [OF Suc])
qed

interpretation closing: teardown "closing n se" for n se
  by (rule closing_teardown)

section \<open>Disconnecting\<close>

lemma link_of_peer_query [query_intro]: "learns s (snd (link_of_peer se p t l s))"
  unfolding link_of_peer_def Let_def by (intro query_intro)

lemma link_of_peer_identity:
  assumes "maps_ok (maps s)" "link_identity (se_link se) l = p" "p \<noteq> ''''"
  shows "fst (link_of_peer se p '''' l s)"
proof -
  obtain h u where u: "peer_hash_from_link_identity (se_link se) l s = (h, u)" by force
  have h: "h = p" using peer_hash_link_identity [of "se_link se" l s] u assms(2) by simp
  have "learns s u" using peer_hash_from_link_identity_query [of s "se_link se" l] u by simp
  then have "maps_ok (maps u)" using assms(1) by (rule learns_ok)
  then have "dest_hash_for (maps u) p \<noteq> ''''" using assms(2,3) link_identity_norm by (simp add: dest_empty) metis
  then have "hashes_equivalent (maps u) p p" by (simp add: equiv_dest)
  then show ?thesis using assms(3) by (simp add: link_of_peer_def u h)
qed

lemma drop_active_settles: "settles L s (drop_active se p t s)"
  unfolding drop_active_def by (auto intro!: drops_active_settles split: option.split)

context teardown begin

lemma tear_closes: "l \<in> gone (snd (tear se h l s))"
  unfolding tear_def using closes [of l] by (auto split: prod.split) (metis snd_conv)+

lemma tear_each_closes:
  assumes goes: "\<And>l s. learns s (snd (goes l s))" "\<And>s. maps_ok (maps s) \<Longrightarrow> fst (goes l s)"
    and "l \<in> set ls" "maps_ok (maps s)"
  shows "l \<in> gone (snd (tear_each se h goes ls (n, s)))"
  using assms(3,4)
proof (induction ls arbitrary: n s)
  case (Cons k ls)
  have rest: "settles UNIV v (snd (tear_each se h goes ls (m, v)))" for m v
    by (rule tear_each_settles) (auto intro: settles_learns goes(1))
  obtain b u where g: "goes k s = (b, u)" by force
  have su: "learns s u" using goes(1) [of s k] g by simp
  have u: "maps_ok (maps u)" using su Cons.prems(2) by (rule learns_ok)
  obtain ok v where t: "tear se h k u = (ok, v)" by force
  have "settles UNIV u v" using tear_settles [of k UNIV u h] t by simp
  then have v: "maps_ok (maps v)" using u by (rule settlesD(7))
  show ?case
  proof (cases "l \<in> set ls")
    case True
    then show ?thesis using Cons.IH [OF True u] Cons.IH [OF True v] g t by (cases b) simp_all
  next
    case False
    then have "k = l" and b: b using Cons.prems goes(2) [of s] g by auto
    then have "l \<in> gone v" using tear_closes [of k h u] t by simp
    then show ?thesis using b g t settlesD(3) [OF rest] by auto
  qed
qed simp

lemma disconnect_tears: "settles {} s (snd (tear_each se False (link_of_peer se p t) (links s) (0, s)))"
  by (rule tear_known) (auto intro: settles_learns link_of_peer_query simp: links_live)

end

lemma forget_fields [simp]:
  "maps (forget_session p s) = maps s" "links (forget_session p s) = links s" "gone (forget_session p s) = gone s"
  "peer_links (forget_session p s) = peer_links s" "active_link (forget_session p s) = active_link s"
  "active_peer_hash (forget_session p s) = active_peer_hash s"
  by (simp_all add: forget_session_def clear_session_peer_def)

lemma drop_active_fields [simp]:
  "maps (drop_active se p t s) = maps s" "links (drop_active se p t s) = links s" "gone (drop_active se p t s) = gone s"
  "peer_links (drop_active se p t s) = peer_links s" "user_disconnected (drop_active se p t s) = user_disconnected s"
  by (simp_all add: drop_active_def split: option.split)

lemma unlink_peer_fields [simp]:
  "maps (unlink_peer p t s) = maps s" "links (unlink_peer p t s) = links s" "gone (unlink_peer p t s) = gone s"
  "user_disconnected (unlink_peer p t s) = user_disconnected s"
  by (simp_all add: unlink_peer_def Let_def)

text \<open>What is left of a peer the user has disconnected.\<close>

definition forgotten :: "string \<Rightarrow> engine \<Rightarrow> bool" where
  "forgotten p s \<longleftrightarrow> session_peer_hash s = '''' \<and> session_transport s = '''' \<and> \<not> reconnect_pending s \<and> last_link_lost_at s = 0
     \<and> is_user_disconnected (maps s) p (user_disconnected s)
     \<and> list_all (\<lambda>(key, _). \<not> hashes_equivalent (maps s) (peer_from_link_key key) (dest_hash_for (maps s) p)) (peer_links s)
     \<and> (active_link s = None \<or> active_peer_hash s = '''' \<or> \<not> hashes_equivalent (maps s) (active_peer_hash s) p)"

lemma forgets_peer:
  assumes "maps_ok (maps t)" "p \<in> user_disconnected t" "nhash p = p" "p \<noteq> ''''"
  shows "forgotten p (forget_session p (drop_active se p '''' (unlink_peer p '''' t)))"
proof -
  have ne: "dest_hash_for (maps t) p \<noteq> ''''" using assms by (simp add: dest_empty)
  define m where "m = maps t"
  have "hashes_equivalent m (dest_hash_for m p) p"
    using ne assms(1) by (simp add: m_def equiv_unfold dest_idem)
  moreover have "p \<in> mark_user_disconnected m p (user_disconnected t)"
    using assms(2) by (simp add: mark_user_disconnected_def Let_def)
  ultimately have "is_user_disconnected m p (mark_user_disconnected m p (user_disconnected t))"
    using ne unfolding is_user_disconnected_def Let_def m_def by blast
  moreover have "list_all (\<lambda>(key, _). \<not> hashes_equivalent m (peer_from_link_key key) (dest_hash_for m p))
      (peer_links (unlink_peer p '''' t))"
    using ne by (auto simp: unlink_peer_def Let_def list_all_iff m_def)
  moreover have "active_link (drop_active se p '''' u) = None \<or> active_peer_hash (drop_active se p '''' u) = ''''
      \<or> \<not> hashes_equivalent (maps u) (active_peer_hash (drop_active se p '''' u)) p" for u
    by (auto simp: drop_active_def split: option.split)
  from this [of "unlink_peer p '''' t"] have "active_link (drop_active se p '''' (unlink_peer p '''' t)) = None
      \<or> active_peer_hash (drop_active se p '''' (unlink_peer p '''' t)) = ''''
      \<or> \<not> hashes_equivalent m (active_peer_hash (drop_active se p '''' (unlink_peer p '''' t))) p" by (simp add: m_def)
  ultimately show ?thesis unfolding forgotten_def m_def
    by (simp add: forget_session_def clear_session_peer_def)
qed

context teardown begin

lemma disconnects_peer:
  assumes ok: "maps_ok (maps s)" and p: "dest_hash_for (maps s) h = p" "p \<noteq> ''''" "p \<noteq> ''unknown''"
    and d: "disconnect_peer se h True '''' s = (b, s')"
  shows "forgotten p s' \<and> set (links s') \<subseteq> set (links s) \<and> (links_open s \<longrightarrow> links_open s')
    \<and> (\<forall>l \<in> set (links s). if link_identity (se_link se) l = p then l \<in> gone s' else True)"
proof -
  define s0 where "s0 = forget_session p s"
  obtain n s1 where t: "tear_each se False (link_of_peer se p '''') (links s0) (0, s0) = (n, s1)" by force
  have st: "settles {} s0 s1" using disconnect_tears [of s0 p "''''"] t by simp
  have norm: "nhash p = p" using dest_normal [OF ok, of h] p(1) by simp
  have idem: "dest_hash_for (maps s) p = p" using dest_idem [OF ok, of h] p(1) by simp
  have "p \<in> user_disconnected s0"
    using p(2,3) idem by (simp add: s0_def forget_session_def mark_user_disconnected_def Let_def)
  then have marked: "p \<in> user_disconnected s1" using settlesD(6) [OF st] by simp
  have ok0: "maps_ok (maps s0)" using ok by (simp add: s0_def)
  have ok1: "maps_ok (maps s1)" using settlesD(7) [OF st ok0] .
  have s': "s' = forget_session p (drop_active se p '''' (unlink_peer p '''' s1))"
    using d p t by (simp add: disconnect_peer_def Let_def flip: s0_def)
  have "l \<in> gone s1" if "l \<in> set (links s)" "link_identity (se_link se) l = p" for l
  proof -
    have "l \<in> gone (snd (tear_each se False (link_of_peer se p '''') (links s0) (0, s0)))"
      by (rule tear_each_closes [OF link_of_peer_query]) (use that p(2) ok0 in \<open>auto intro: link_of_peer_identity simp: s0_def\<close>)
    then show ?thesis by (simp add: t)
  qed
  moreover have "forgotten p s'" unfolding s' by (rule forgets_peer [OF ok1 marked norm p(2)])
  moreover have "set (links s1) \<subseteq> set (links s0)" by (rule settlesD(1) [OF st])
  moreover have "links_open s0 \<Longrightarrow> links_open s1" by (rule settlesD(8) [OF st])
  ultimately show ?thesis unfolding s' by (simp add: s0_def links_open_def)
qed

end

text \<open>C8: When the user disconnects a peer, the engine forgets it whatever the closing callbacks do
  meanwhile: every link whose verified identity is the peer is closed, no link is filed under
  one of its names, it is not the active peer, there is no session and no pending reconnect,
  and the peer counts as disconnected by the user.\<close>

theorem disconnect_forgets:
  assumes "maps_ok (maps s)" "dest_hash_for (maps s) h = p" "p \<noteq> ''''" "p \<noteq> ''unknown''"
    and "disconnect_peer (closing n se) h True '''' s = (b, s')"
  shows "forgotten p s' \<and> set (links s') \<subseteq> set (links s) \<and> (links_open s \<longrightarrow> links_open s')
    \<and> (\<forall>l \<in> set (links s). if link_identity (se_link se) l = p then l \<in> gone s' else True)"
proof -
  have "se_link (closing n se) = se_link se" by (cases n) simp_all
  with closing.disconnects_peer [OF assms] show ?thesis by simp
qed

text \<open>An environment with one peer on the LAN, for examples.\<close>

definition lan_session_env :: session_env where
  "lan_session_env = \<lparr>se_link = lan_link_env, se_td = (\<lambda>_ s. (True, s)), se_resolver = (\<lambda>_ _ _ _. ''''),
     se_known_key = (\<lambda>_. ''''), se_scope = None, se_transfer = False, se_failover = False, se_now = 0\<rparr>"

lemma disconnect_forgets_witness:
  "\<exists>b s'. disconnect_peer (closing 2 lan_session_env) ''AB'' True '''' linked_engine = (b, s')
     \<and> forgotten ''ab'' s' \<and> ''l'' \<in> gone s'"
proof -
  obtain b s' where d: "disconnect_peer (closing 2 lan_session_env) ''AB'' True '''' linked_engine = (b, s')" by force
  have "maps_ok (maps linked_engine)" "dest_hash_for (maps linked_engine) ''AB'' = ''ab''"
    "''ab'' \<noteq> ''''" "''ab'' \<noteq> ''unknown''" by code_simp+
  from disconnect_forgets [OF this d]
  have f: "forgotten ''ab'' s'" "\<forall>l \<in> set (links linked_engine). if link_identity (se_link lan_session_env) l = ''ab'' then l \<in> gone s' else True"
    by blast+
  have "''l'' \<in> set (links linked_engine)" "link_identity (se_link lan_session_env) ''l'' = ''ab''" by code_simp+
  with f d show ?thesis by auto
qed

section \<open>Closed links leave the table\<close>

lemma fold_steps_jots:
  assumes "\<And>x y. jots (snd y) (snd (f x y))" shows "jots (snd y) (snd (fold f xs y))"
proof (induction xs arbitrary: y)
  case (Cons x xs)
  show ?case using jots_trans [OF assms Cons.IH] by simp
qed simp

lemma adopt_loop_jots: "jots s (snd (adopt_loop se p ls s))"
proof -
  have "jots (snd y) (snd (case y of (found, s) \<Rightarrow> if found \<noteq> None then (found, s)
     else if \<not> link_interface_healthy (se_link se) l \<or> \<not> acceptable (se_link se) s l p then (None, s)
     else case link_matches_peer (se_link se) l p s of (ok, s) \<Rightarrow> (if ok then Some l else None, s)))" for l y
    by (cases y) (simp only: prod.case snd_conv, intro note_intro)
  from fold_steps_jots [OF this, where y = "(None, s)" and xs = ls] show ?thesis by (simp add: adopt_loop_def)
qed

lemma register_cached_settles: "l \<in> L \<Longrightarrow> settles L s (register_peer_link env l h t (cache_link_peer env' l h' s))"
  by (rule settles_trans [OF settles_jots [OF cache_link_peer_jots] register_peer_link_settles])

text \<open>What every event keeps: closed links are not in the table of links, the address tables are
  canonical, and what the user disconnected stays disconnected.\<close>

definition keeps_links :: "engine \<Rightarrow> engine \<Rightarrow> bool" where
  "keeps_links s s' \<longleftrightarrow> (links_open s \<longrightarrow> links_open s') \<and> (maps_ok (maps s) \<longrightarrow> maps_ok (maps s'))
     \<and> user_disconnected s \<subseteq> user_disconnected s'"

lemma keeps_settled: "settles L s s' \<Longrightarrow> keeps_links s s'"
  by (simp add: keeps_links_def settles_def)

lemma links_keep_trans: "keeps_links s t \<Longrightarrow> keeps_links t u \<Longrightarrow> keeps_links s u"
  by (auto simp: keeps_links_def)

lemma links_keep_refl: "keeps_links s s"
  by (simp add: keeps_links_def)

interpretation keeping: stepwise keeps_links
  by unfold_locales (rule links_keep_refl, rule links_keep_trans)

lemma keeps_setup: "l \<notin> gone s \<Longrightarrow> keeps_links s (setup_link l s)"
  by (auto simp: keeps_links_def setup_link_def links_open_def)

lemma keeps_forget: "keeps_links s (forget_session p s)"
  by (auto simp: keeps_links_def links_open_def forget_session_def clear_session_peer_def mark_user_disconnected_def Let_def)

lemma keeps_frame: "links s' = links s \<Longrightarrow> gone s' = gone s \<Longrightarrow> maps s' = maps s \<Longrightarrow>
    user_disconnected s' = user_disconnected s \<Longrightarrow> keeps_links s s'"
  by (simp add: keeps_links_def links_open_def)

context teardown begin

lemma keeps_td: "keeps_links s (td se l s)"
  by (rule keeps_settled [OF td_settles])

lemma teardown_mismatched_keeps: "keeps_links s (snd (teardown_mismatched_links se h s))"
proof -
  have tears: "settles UNIV u (snd (tear_each se False (\<lambda>l s. case peer_hash_from_link_identity (se_link se) l s of (resolved, s) \<Rightarrow>
         if resolved = '''' \<or> hashes_equivalent (maps s) resolved p then (False, s)
         else case (case l_remote (e_info (se_link se) l) of None \<Rightarrow> ('''', s) | Some i \<Rightarrow> dest_hash_from_identity i s) of
           (dest, s) \<Rightarrow> if dest \<noteq> '''' \<and> hashes_equivalent (maps s) dest p
             then (False, register_peer_link (se_link se) l dest '''' (cache_link_peer (se_link se) l dest s))
             else (True, s)) (links u) (0, u)))" for u p
    by (rule tear_each_settles) (intro settle_intro register_cached_settles, simp_all)
  have "settles UNIV s (snd (teardown_mismatched_links se h s))"
    unfolding teardown_mismatched_links_def Let_def
    by (rule settling.branchp, simp, rule settling.bindp [OF tears]) (auto intro: settles_frame)
  then show ?thesis by (rule keeps_settled)
qed

lemma teardown_active_keeps: "keeps_links s (teardown_active_link se pp ho cs s)"
proof -
  define s1 where "s1 = s\<lparr>link_handoff := ho\<rparr>"
  define s2 where "s2 = (case active_link s1 of None \<Rightarrow> s1 | Some l \<Rightarrow> td se l s1)"
  have "keeps_links s s1" by (rule keeps_frame) (simp_all add: s1_def)
  moreover have "keeps_links s1 s2" unfolding s2_def by (cases "active_link s1") (simp_all add: links_keep_refl keeps_td)
  moreover have "keeps_links s2 (teardown_active_link se pp ho cs s)"
    by (rule keeps_frame) (simp_all add: teardown_active_link_def clear_session_peer_def Let_def flip: s1_def s2_def)
  ultimately show ?thesis by (blast intro: links_keep_trans)
qed

lemma notify_registered: "l \<in> L \<Longrightarrow>
    settles L s (notify_link_established se l h a b c (register_peer_link env l h' t s))"
  by (rule settles_trans [OF register_peer_link_settles notify_settles])

lemma adopt_healthy_keeps: "keeps_links s (snd (adopt_healthy_peer_link se h ps s))"
proof -
  have "settles UNIV s (snd (adopt_healthy_peer_link se h ps s))"
    unfolding adopt_healthy_peer_link_def Let_def
    by (intro settle_intro notify_registered settles_jots [OF adopt_loop_jots] UNIV_I)
  then show ?thesis by (rule keeps_settled)
qed

lemma disconnect_keeps: "keeps_links s (snd (disconnect_peer se h ui t s))"
proof -
  define p where "p = dest_hash_for (maps s) h"
  define t' where "t' = (if t = '''' then '''' else normalize_transport t)"
  define s0 where "s0 = (if ui \<and> p \<noteq> '''' \<and> t' = '''' then forget_session p s else s)"
  obtain n s1 where s1: "tear_each se False (link_of_peer se p t') (links s0) (0, s0) = (n, s1)" by force
  define s2 where "s2 = (if p \<noteq> '''' then unlink_peer p t' s1 else s1)"
  have a: "keeps_links s s0" by (simp add: s0_def keeps_forget links_keep_refl)
  have b: "keeps_links s0 s1" using keeps_settled [OF disconnect_tears [of s0 p t']] s1 by simp
  have c: "keeps_links s1 s2" unfolding s2_def using keeps_settled [OF unlink_peer_settles] links_keep_refl by simp
  have last: "keeps_links s2 (if ui \<and> p \<noteq> '''' then (let s = drop_active se p t' s2 in
              if t' = '''' \<or> other_active_links_for_peer (se_link se) p None s = [] then forget_session p s else s)
            else s2)"
    using keeps_settled [OF drop_active_settles] links_keep_trans [OF keeps_settled [OF drop_active_settles] keeps_forget] links_keep_refl
    by (simp add: Let_def)
  have eq: "snd (disconnect_peer se h ui t s) = (if ui \<and> p \<noteq> '''' then (let s = drop_active se p t' s2 in
              if t' = '''' \<or> other_active_links_for_peer (se_link se) p None s = [] then forget_session p s else s)
            else s2)"
    unfolding disconnect_peer_def Let_def p_def [symmetric] t'_def [symmetric] s0_def [symmetric] s1 prod.case
      s2_def [symmetric] by (rule snd_conv)
  show ?thesis unfolding eq by (rule links_keep_trans [OF links_keep_trans [OF a links_keep_trans [OF b c]] last])
qed

lemma disconnect_all_keeps: "keeps_links s (disconnect_all_peers se cs s)"
proof -
  define s0 where "s0 = s\<lparr>link_handoff := True\<rparr>"
  have a: "keeps_links s s0" by (rule keeps_frame) (simp_all add: s0_def)
  define s1 where "s1 = snd (tear_each se False (\<lambda>l s. (True, s)) (links s) (0, s0))"
  have b: "keeps_links s0 s1" unfolding s1_def
    by (rule keeps_settled [OF tear_known]) (simp_all add: s0_def live_def)
  have "keeps_links s1 (disconnect_all_peers se cs s)"
    by (rule keeps_frame) (simp_all add: disconnect_all_peers_def clear_session_peer_def Let_def flip: s0_def s1_def)
  then show ?thesis by (rule links_keep_trans [OF links_keep_trans [OF a b]])
qed

end

section \<open>Incoming links\<close>

lemma keeps_jots: "jots s s' \<Longrightarrow> keeps_links s s'"
  by (rule keeps_settled [OF settles_jots])

lemma setup_fields [simp]:
  "maps (setup_link l s) = maps s" "gone (setup_link l s) = gone s" "active_link (setup_link l s) = active_link s"
  "user_disconnected (setup_link l s) = user_disconnected s" "peer_links (setup_link l s) = peer_links s"
  "active_peer_hash (setup_link l s) = active_peer_hash s"
  by (simp_all add: setup_link_def)

text \<open>A link that is not promoted is only filed.\<close>

lemma background_notify:
  "active_link (notify_link_established se l h False bg pv s) = active_link s"
proof -
  have reg: "active_link (register_peer_link env k p t u) = active_link u" for env k p t u
  proof -
    have c: "active_link (cache_link_peer env k q v) = active_link v" for q v
      using jots_fields(3) [OF cache_link_peer_jots] .
    have m: "active_link w = active_link u" if "link_remote_peer_hash env k u = (r, w)" for r w
      using jots_fields(3) [OF jots_learns [OF link_remote_query [of u env k]]] that by simp
    show ?thesis by (auto simp: register_peer_link_def Let_def c m split: prod.split)
  qed
  have e: "active_link u = active_link s" if "established_peer se l h s = (p, u)" for p u
    using jots_fields(3) [OF established_peer_jots [of s se l h]] that by simp
  show ?thesis by (auto simp: notify_link_established_def Let_def reg e split: prod.split)
qed

lemma schedule_fields [simp]:
  "active_link (schedule_queue_drain p l s) = active_link s" "gone (schedule_queue_drain p l s) = gone s"
  by (simp_all add: schedule_queue_drain_def Let_def)

text \<open>The start of \<open>incoming_accept\<close>: an old link of the peer goes, the peer is looked up.\<close>

definition accept_start :: "session_env \<Rightarrow> string \<Rightarrow> string \<Rightarrow> engine \<Rightarrow> string \<times> engine" where
  "accept_start se l p s = (case link_for_peer (se_link se) p '''' s of (existing, s) \<Rightarrow>
     let s = (case existing of None \<Rightarrow> s | Some k \<Rightarrow> if k \<noteq> l then td se k s else s) in
     if p = '''' \<or> p = ''unknown''
     then (case peer_hash_from_link_identity (se_link se) l s of (resolved, s) \<Rightarrow>
             if resolved \<noteq> '''' \<and> resolved \<noteq> ''unknown'' then (resolved, cache_link_peer (se_link se) l resolved s)
             else (p, s))
     else (p, s))"

lemma incoming_accept_parts: "incoming_accept se l p s = (case accept_start se l p s of (q, t) \<Rightarrow> let
       u = setup_link l (t\<lparr>last_handoff := False\<rparr>);
       passive_only = is_user_disconnected (maps u) q (user_disconnected u);
       promote = (\<not> passive_only \<and> (active_link u = None \<or> hashes_equivalent (maps u) q (active_peer_hash u)));
       v = notify_link_established se l q promote (\<not> promote) passive_only u
     in if passive_only then v else schedule_queue_drain q l v)"
  unfolding incoming_accept_def accept_start_def Let_def case_prod_beta by simp

context teardown begin

lemma accept_start_settles: "settles {} s (snd (accept_start se l p s))"
proof -
  obtain o' s1 where o: "link_for_peer (se_link se) p '''' s = (o', s1)" by force
  have q: "learns s s1" using link_for_peer_query [of s "se_link se" p "''''"] o by simp
  define s2 where "s2 = (case o' of None \<Rightarrow> s1 | Some k \<Rightarrow> if k \<noteq> l then td se k s1 else s1)"
  have "settles {} s1 s2"
  proof (cases o')
    case (Some k)
    then have "k \<in> live s1" using link_for_peer_live o learns_fields(6) [OF q] by simp
    then have "settles {} s1 (td se k s1)" by (intro settles_absorb [OF td_settles]) simp
    then show ?thesis using Some by (simp add: s2_def)
  qed (simp add: s2_def)
  then have "settles {} s s2" by (rule settles_trans [OF settles_learns [OF q]])
  moreover have "settles {} s2 (snd (if p = '''' \<or> p = ''unknown''
     then (case peer_hash_from_link_identity (se_link se) l s2 of (resolved, s) \<Rightarrow>
             if resolved \<noteq> '''' \<and> resolved \<noteq> ''unknown'' then (resolved, cache_link_peer (se_link se) l resolved s)
             else (p, s))
     else (p, s2)))" by (intro settle_intro)
  ultimately show ?thesis unfolding accept_start_def o Let_def prod.case s2_def [symmetric] by (rule settles_trans)
qed

lemma incoming_accept_keeps:
  assumes "l \<notin> gone s \<union> live s" shows "keeps_links s (incoming_accept se l p s)"
proof -
  obtain q t where a: "accept_start se l p s = (q, t)" by force
  have st: "settles {} s t" using accept_start_settles [of s l p] a by simp
  then have "l \<notin> gone t" using settlesD(4) assms by blast
  then have "keeps_links (t\<lparr>last_handoff := False\<rparr>) (setup_link l (t\<lparr>last_handoff := False\<rparr>))" by (intro keeps_setup) simp
  moreover have "keeps_links t (t\<lparr>last_handoff := False\<rparr>)" by (rule keeps_frame) simp_all
  moreover note keeps_settled [OF st]
  ultimately have su: "keeps_links s (setup_link l (t\<lparr>last_handoff := False\<rparr>))" by (blast intro: links_keep_trans)
  have "keeps_links u (notify_link_established se l q pr bg pv u)" for u pr bg pv
    by (rule keeps_settled [OF notify_settles [of l UNIV]]) simp
  moreover have "keeps_links u (schedule_queue_drain q l (notify_link_established se l q pr bg pv u))" for u pr bg pv
    by (rule keeps_settled [OF settles_trans [OF notify_settles [of l UNIV] frame_settles(3)]]) simp
  ultimately have "keeps_links u (if pv then notify_link_established se l q pr bg pv u
      else schedule_queue_drain q l (notify_link_established se l q pr bg pv u))" for u pr bg pv by simp
  then show ?thesis unfolding incoming_accept_parts a prod.case Let_def by (rule links_keep_trans [OF su])
qed

lemma handoff_keeps:
  assumes "l \<notin> gone s" shows "keeps_links s (handoff_to_link se l h s)"
proof -
  let ?p = "dest_hash_for (maps s) h"
  define s1 where "s1 = s\<lparr>link_handoff := True,
    last_handoff := ((case active_link s of None \<Rightarrow> 0 | Some k \<Rightarrow> link_path_score (se_link se) k) + 8 < link_path_score (se_link se) l)\<rparr>"
  define s2 where "s2 = notify_link_established se l ?p True False False
    (cache_link_peer (se_link se) l ?p (setup_link l s1))"
  define s3 where "s3 = s2\<lparr>send_link := Some l\<rparr>"
  define s4 where "s4 = (case active_link s of None \<Rightarrow> s3 | Some k \<Rightarrow> migrate_pending_files k l s3)"
  define s5 where "s5 = (case active_link s of None \<Rightarrow> s4 | Some k \<Rightarrow> if k \<noteq> l then td se k s4 else s4)"
  have "keeps_links s s1" by (rule keeps_frame) (simp_all add: s1_def)
  moreover have "keeps_links s1 (setup_link l s1)" by (rule keeps_setup) (use assms in \<open>simp add: s1_def\<close>)
  moreover have "keeps_links (setup_link l s1) s2" unfolding s2_def
    by (rule keeps_settled [OF settles_trans [OF settles_jots [OF cache_link_peer_jots] notify_settles [of l UNIV]]]) simp
  moreover have "keeps_links s2 s3" by (rule keeps_frame) (simp_all add: s3_def)
  moreover have "keeps_links s3 s4" unfolding s4_def
    by (cases "active_link s") (simp_all add: links_keep_refl keeps_settled [OF frame_settles(1)])
  moreover have "keeps_links s4 s5" unfolding s5_def
    by (cases "active_link s") (simp_all add: links_keep_refl keeps_td)
  moreover have "keeps_links s5 ((schedule_queue_drain ?p l s5)\<lparr>link_handoff := False\<rparr>)"
    by (rule keeps_frame) (simp_all add: schedule_queue_drain_def Let_def)
  ultimately have "keeps_links s ((schedule_queue_drain ?p l s5)\<lparr>link_handoff := False\<rparr>)" by (blast intro: links_keep_trans)
  then show ?thesis
    unfolding handoff_to_link_def Let_def s5_def s4_def s3_def s2_def s1_def .
qed

lemma incoming_duplicate_keeps:
  assumes "l \<notin> gone s" shows "keeps_links s (incoming_duplicate se l p s)"
proof -
  define q where "q = (if p = ''unknown'' then dest_hash_for (maps s) (active_peer_hash s) else p)"
  define t where "t = (if p = ''unknown'' then cache_link_peer (se_link se) l q s else s)"
  have st: "jots s t" unfolding t_def by (simp add: cache_link_peer_jots)
  have "l \<notin> gone t" using assms jots_fields(4) [OF st] by simp
  note handed = handoff_keeps [OF this]
  have "keeps_links t (incoming_duplicate se l p s)"
    unfolding incoming_duplicate_def Let_def q_def [symmetric] t_def [symmetric]
    by (intro keeping.optional keeping.branch links_keep_refl keeps_td handed)
  then show ?thesis by (rule links_keep_trans [OF keeps_jots [OF st]])
qed

lemma link_callback_keeps:
  assumes fresh: "l \<notin> gone s \<union> live s" shows "keeps_links s (link_callback se l s)"
proof -
  obtain p t where i: "incoming_peer se l s = (p, t)" by force
  have st: "jots s t" using incoming_peer_jots [of s se l] i by simp
  obtain b u where m: "incoming_same_peer se l p t = (b, u)" by force
  have su: "jots s u" using jots_trans [OF st] jots_learns [OF incoming_same_query [of t se l p]] m by simp
  have fresh': "l \<notin> gone u \<union> live u" using fresh jots_fields [OF su] by simp
  have "keeps_links u (if b then incoming_duplicate se l p u else incoming_accept se l p u)"
    using fresh' by (intro keeping.branch incoming_duplicate_keeps incoming_accept_keeps) simp_all
  then have main: "keeps_links s (if b then incoming_duplicate se l p u else incoming_accept se l p u)"
    by (rule links_keep_trans [OF keeps_jots [OF su]])
  have torn: "keeps_links s (td se l t)" by (rule links_keep_trans [OF keeps_jots [OF st] keeps_td])
  show ?thesis unfolding link_callback_def i m Let_def prod.case
    by (rule keeping.branch [OF torn keeping.branch [OF torn keeping.branch [OF torn main]]])
qed

end

section \<open>The events of a session\<close>

text \<open>A link opens with a name that was not used before (Reticulum's link ids are hashes of the
  request); between two events Reticulum's view of the links may have changed, so each event has an
  environment of its own.\<close>

datatype link_op =
    Incoming string | Outgoing string | Established string string bool bool bool | Closes string
  | Disconnect string bool string | DisconnectAll bool | TearActive bool bool bool
  | TearStale string bool | TearOthers string bool | TearMismatched string | Adopt string "bool option"

fun link_op_of :: "session_env \<Rightarrow> link_op \<Rightarrow> engine \<Rightarrow> engine" where
  "link_op_of se (Incoming l) s = link_callback se l s"
| "link_op_of se (Outgoing l) s = setup_link l s"
| "link_op_of se (Established l h pa bg pv) s = notify_link_established se l h pa bg pv s"
| "link_op_of se (Closes l) s = td se l s"
| "link_op_of se (Disconnect h ui t) s = snd (disconnect_peer se h ui t s)"
| "link_op_of se (DisconnectAll cs) s = disconnect_all_peers se cs s"
| "link_op_of se (TearActive pp ho cs) s = teardown_active_link se pp ho cs s"
| "link_op_of se (TearStale h ho) s = snd (teardown_stale_peer_links se h ho s)"
| "link_op_of se (TearOthers h ho) s = snd (teardown_other_peer_links se h ho s)"
| "link_op_of se (TearMismatched h) s = snd (teardown_mismatched_links se h s)"
| "link_op_of se (Adopt h ps) s = snd (adopt_healthy_peer_link se h ps s)"

definition fresh_for :: "engine \<Rightarrow> link_op \<Rightarrow> bool" where
  "fresh_for s op = (case op of Incoming l \<Rightarrow> l \<notin> gone s \<union> live s | Outgoing l \<Rightarrow> l \<notin> gone s \<union> live s | _ \<Rightarrow> True)"

inductive link_steps :: "engine \<Rightarrow> engine \<Rightarrow> bool" where
  link_start: "link_steps s s"
| link_step: "link_steps s t \<Longrightarrow> fresh_for t op \<Longrightarrow> link_steps s (link_op_of (closing n se) op t)"

context teardown begin

lemma link_op_keeps: "fresh_for s op \<Longrightarrow> keeps_links s (link_op_of se op s)"
proof (cases op)
  case (Established l h pa bg pv)
  then show ?thesis using keeps_settled [OF notify_settles [of l UNIV]] by simp
next
  case (TearStale h ho)
  then show ?thesis using keeps_settled [OF teardown_stale_settles] by simp
next
  case (TearOthers h ho)
  then show ?thesis using keeps_settled [OF teardown_other_settles] by simp
qed (simp_all add: fresh_for_def keeps_setup link_callback_keeps keeps_td disconnect_keeps disconnect_all_keeps
    teardown_active_keeps teardown_mismatched_keeps adopt_healthy_keeps)

end

lemma link_steps_keep: "link_steps s t \<Longrightarrow> keeps_links s t"
proof (induction rule: link_steps.induct)
  case (link_step s t op n se)
  show ?case by (rule links_keep_trans [OF link_step.IH closing.link_op_keeps [OF link_step.hyps(2)]])
qed (rule links_keep_refl)

text \<open>C9: Whatever happens to links, in any order and with whatever Reticulum reports in between, a
  closed link is never left in the table of links, the address tables stay canonical, and no
  peer the user disconnected is quietly taken back.\<close>

theorem closed_links_leave:
  assumes "link_steps s t" "links_open s" "maps_ok (maps s)"
  shows "set (links t) \<inter> gone t = {} \<and> maps_ok (maps t) \<and> user_disconnected s \<subseteq> user_disconnected t"
  using link_steps_keep [OF assms(1)] assms(2,3) by (simp add: keeps_links_def links_open_def)

text \<open>A link comes in, the peer is disconnected.\<close>

lemma closed_links_leave_witness:
  "set (links (link_op_of (closing 2 lan_session_env) (Disconnect ''ab'' True '''')
      (link_op_of (closing 2 lan_session_env) (Incoming ''m'') linked_engine))) \<inter>
    gone (link_op_of (closing 2 lan_session_env) (Disconnect ''ab'' True '''')
      (link_op_of (closing 2 lan_session_env) (Incoming ''m'') linked_engine)) = {}"
proof -
  have "fresh_for linked_engine (Incoming ''m'')" by (simp add: fresh_for_def live_def linked_engine_def)
  then have "link_steps linked_engine (link_op_of (closing 2 lan_session_env) (Incoming ''m'') linked_engine)"
    by (rule link_step [OF link_start])
  then have "link_steps linked_engine (link_op_of (closing 2 lan_session_env) (Disconnect ''ab'' True '''')
      (link_op_of (closing 2 lan_session_env) (Incoming ''m'') linked_engine))"
    by (rule link_step) (simp add: fresh_for_def)
  moreover have "links_open linked_engine" "maps_ok (maps linked_engine)" by code_simp+
  ultimately show ?thesis by (rule closed_links_leave [THEN conjunct1])
qed

section \<open>A disconnected peer stays out\<close>

lemma marked_disconnected:
  assumes "maps_ok m" "p \<in> S" "nhash p = p" "p \<noteq> ''''" shows "is_user_disconnected m p S"
proof -
  have ne: "dest_hash_for m p \<noteq> ''''" using assms by (simp add: dest_empty)
  moreover have "hashes_equivalent m (dest_hash_for m p) p"
    using ne assms(1) by (simp add: equiv_unfold dest_idem)
  ultimately show ?thesis using assms(2) unfolding is_user_disconnected_def Let_def by blast
qed

context teardown begin

lemma accept_passive:
  assumes ok: "maps_ok (maps s)" and p: "p \<in> user_disconnected s" "nhash p = p" "p \<noteq> ''''" "p \<noteq> ''unknown''"
    and fresh: "l \<notin> live s" "active_link s \<noteq> Some l"
  shows "active_link (incoming_accept se l p s) \<noteq> Some l"
proof -
  obtain q t where a: "accept_start se l p s = (q, t)" by force
  have q: "q = p" using a p(3,4) by (auto simp: accept_start_def Let_def split: prod.splits)
  have st: "settles {} s t" using accept_start_settles [of s l p] a by simp
  define u where "u = setup_link l (t\<lparr>last_handoff := False\<rparr>)"
  have u: "active_link u = active_link t" "user_disconnected u = user_disconnected t" "maps u = maps t"
    by (simp_all add: u_def)
  have "is_user_disconnected (maps u) q (user_disconnected u)" unfolding q u
    by (rule marked_disconnected) (use settlesD(6,7) [OF st] ok p in simp_all)
  then have "incoming_accept se l p s = notify_link_established se l q False True True u"
    unfolding incoming_accept_parts a prod.case Let_def u_def [symmetric] by simp
  then have "active_link (incoming_accept se l p s) = active_link t" by (simp add: background_notify u)
  moreover have "active_link t \<noteq> Some l"
    using settlesD(5) [OF st] fresh by (cases "active_link t"; cases "active_link s") auto
  ultimately show ?thesis by simp
qed

lemma disconnected_not_active:
  assumes ok: "maps_ok (maps s)" and fresh: "l \<notin> live s" "active_link s \<noteq> Some l"
    and i: "incoming_peer se l s = (p, t)" and same: "incoming_same_peer se l p t = (False, u)"
    and p: "p \<in> user_disconnected s" "nhash p = p" "p \<noteq> ''''" "p \<noteq> ''unknown''"
  shows "active_link (link_callback se l s) \<noteq> Some l"
proof -
  have st: "jots s t" using incoming_peer_jots [of s se l] i by simp
  have su: "jots s u" using jots_trans [OF st] jots_learns [OF incoming_same_query [of t se l p]] same by simp
  have torn: "active_link (td se l t) \<noteq> Some l"
    using fresh jots_fields [OF st] td_active [of l t] by (cases "active_link s") auto
  have "maps_ok (maps u)" using su ok by (simp add: jots_def)
  then have acc: "active_link (incoming_accept se l p u) \<noteq> Some l"
    using jots_fields [OF su] fresh p by (intro accept_passive) simp_all
  show ?thesis unfolding link_callback_def i Let_def prod.case
    using torn acc same by simp
qed

end

text \<open>C10: A link that comes in from a peer the user has disconnected never becomes the active one,
  whatever links are torn down on the way: messages are not sent over it until the user
  connects again.  (Its peer is not the active one, which \<open>disconnect_forgets\<close> ensures.)\<close>

theorem disconnected_stays_out:
  assumes "maps_ok (maps s)" "l \<notin> live s" "active_link s \<noteq> Some l"
    and "incoming_peer (closing n se) l s = (p, t)" "incoming_same_peer (closing n se) l p t = (False, u)"
    and "p \<in> user_disconnected s" "nhash p = p" "p \<noteq> ''''" "p \<noteq> ''unknown''"
  shows "active_link (link_callback (closing n se) l s) \<noteq> Some l"
  by (rule closing.disconnected_not_active [OF assms])

text \<open>The engine of the example after the user disconnected the peer.\<close>

definition left_engine :: engine where
  "left_engine = linked_engine\<lparr>links := [], link_peer_hashes := [], peer_links := [], active_link := None, active_peer_hash := '''',
     send_link := None, session_peer_hash := '''', session_transport := '''', user_disconnected := {''ab''}, gone := {''l''}\<rparr>"

lemma disconnected_stays_out_witness:
  "active_link (link_callback (closing (Suc 0) lan_session_env) ''m'' left_engine) \<noteq> Some ''m''"
proof -
  define t where "t = left_engine\<lparr>maps := register_peer_mapping ''ab'' ''cd'' no_maps, link_peer_hashes := [(''m'', ''ab'')]\<rparr>"
  define s1 where "s1 = left_engine\<lparr>maps := register_peer_mapping ''ab'' ''cd'' no_maps\<rparr>"
  have e: "se_link (closing (Suc 0) lan_session_env) = lan_link_env" by (simp add: lan_session_env_def)
  have h: "peer_hash_from_link_identity lan_link_env ''m'' left_engine = (''ab'', s1)"
    "peer_hash_from_link_identity lan_link_env ''m'' t = (''ab'', t)" unfolding s1_def t_def by code_simp+
  have k: "known_party lan_link_env ''ab''" "\<not> is_hub_peer_hash ''ab''" by code_simp+
  have c: "cache_link_peer lan_link_env ''m'' ''ab'' s1 = t" "cache_link_peer lan_link_env ''m'' ''ab'' t = t"
    unfolding s1_def t_def by code_simp+
  have t: "incoming_peer (closing (Suc 0) lan_session_env) ''m'' left_engine = (''ab'', t)"
    by (simp add: incoming_peer_def peer_for_link_def resolve_incoming_link_peer_def e h k c del: closing.simps)
  have "active_link t = None" by (simp add: t_def left_engine_def)
  then have u: "incoming_same_peer (closing (Suc 0) lan_session_env) ''m'' ''ab'' t = (False, t)"
    by (simp add: incoming_same_peer_def)
  have ok: "maps_ok (maps left_engine)" "''m'' \<notin> live left_engine" "active_link left_engine \<noteq> Some ''m''"
    and p: "''ab'' \<in> user_disconnected left_engine" "nhash ''ab'' = ''ab''" by code_simp+
  show ?thesis by (rule disconnected_stays_out [OF ok t u p]) simp_all
qed

section \<open>A closed link that is still chosen\<close>

text \<open>USB and LAN links to one peer, whose zone is not known.\<close>

definition dual_env :: link_env where
  "dual_env = lan_link_env\<lparr>e_route := lan_peer_env\<lparr>r_meta := (\<lambda>_. None),
       r_rns := (r_rns lan_peer_env)\<lparr>interfaces := [(usb_if, []), (udp_if, [])]\<rparr>\<rparr>,
     e_info := (\<lambda>l. if l = ''u'' then (e_info lan_link_env l)\<lparr>l_iface := Some usb_if\<rparr> else e_info lan_link_env l)\<rparr>"

definition dual_session :: session_env where
  "dual_session = lan_session_env\<lparr>se_link := dual_env\<rparr>"

text \<open>The user connected over USB while the LAN link was up.\<close>

definition both_linked :: engine where
  "both_linked = linked_engine\<lparr>maps := register_peer_mapping ''ab'' ''cd'' no_maps, links := [''l'', ''u''],
     link_peer_hashes := [(''l'', ''ab''), (''u'', ''ab'')], peer_links := [(''ab:lan'', ''l''), (''ab:serial'', ''u'')],
     active_link := Some ''u'', send_link := Some ''u'', session_transport := ''serial''\<rparr>"

text \<open>After the USB link is gone.\<close>

definition usb_lost :: engine where
  "usb_lost = both_linked\<lparr>gone := {''u''}, links := [''l''], link_peer_hashes := [(''l'', ''ab'')],
     active_link := Some ''l'', send_link := Some ''l'',
     events := [LinkUp ''ab'' ''l'' False True False, LinkDown ''ab'' False]\<rparr>"

lemma usb_link_closed: "link_closed dual_session ''u'' (both_linked\<lparr>gone := {''u''}\<rparr>) = usb_lost"
proof -
  define s1 where "s1 = both_linked\<lparr>gone := {''u''}\<rparr>"
  define s2 where "s2 = s1\<lparr>links := [''l''], link_peer_hashes := [(''l'', ''ab'')]\<rparr>"
  define s3 where "s3 = s2\<lparr>peer_links := [(''ab:lan'', ''l''), (''ab:serial'', ''u''), (''ab'', ''l'')]\<rparr>"
  define s4 where "s4 = s3\<lparr>peer_links := [(''ab:lan'', ''l''), (''ab:serial'', ''u'')]\<rparr>"
  define s5 where "s5 = s4\<lparr>active_link := Some ''l'', send_link := Some ''l'', events := [LinkUp ''ab'' ''l'' False True False]\<rparr>"
  note defs = s5_def s4_def s3_def s2_def s1_def
  have e: "se_link dual_session = dual_env" by (simp add: dual_session_def)
  have p: "peer_for_link dual_session ''u'' '''' s1 = (''ab'', s1)" unfolding defs by code_simp
  have d: "dest_hash_for (maps both_linked) ''ab'' = ''ab''" by code_simp
  have o: "other_active_links_for_peer dual_env ''ab'' (Some ''u'') s2 = [''l'']" unfolding defs by code_simp
  have est: "established_peer dual_session ''l'' ''ab'' s3 = (''ab'', s3)" unfolding defs by code_simp
  have r: "register_peer_link dual_env ''l'' ''ab'' '''' s3 = s4" unfolding defs by code_simp
  have ls: "links_for_peer dual_env ''ab'' s4 = [''l'', ''u'']" "dest_hash_for (maps s4) ''ab'' = ''ab''" unfolding defs by code_simp+
  have down: "link_status dual_env s4 ''u'' = ''closed''" by (simp add: link_status_def defs)
  have c: "consolidate_peer_links dual_session ''ab'' (Some ''l'') '''' s4 = (0, s4)"
    by (simp add: consolidate_peer_links_def e ls down)
  have "session_peer_hash s4 = ''ab''" by (simp add: defs both_linked_def linked_engine_def)
  then have a: "adopts_session dual_session ''ab'' s4" by (simp add: adopts_session_def ls equiv_dest)
  have h: "\<not> is_hub_peer_hash ''ab''" by code_simp
  have n: "notify_link_established dual_session ''l'' ''ab'' True False False s3 = s5"
  proof -
    have "s4\<lparr>established_at := se_now dual_session\<rparr> = s4" unfolding defs by (simp add: dual_session_def lan_session_env_def both_linked_def linked_engine_def)
    then have st: "(register_peer_link dual_env ''l'' ''ab'' '''' s3)\<lparr>established_at := se_now dual_session\<rparr> = s4" by (simp only: r)
    have pr: "promote_link dual_session ''l'' ''ab'' s4 = s5\<lparr>events := []\<rparr>"
    proof -
      have "hashes_equivalent (maps s4) ''ab'' (active_peer_hash s4)" unfolding defs by code_simp
      then show ?thesis by (simp add: promote_link_def c a e) (simp add: defs both_linked_def linked_engine_def)
    qed
    have "notify_link_established dual_session ''l'' ''ab'' True False False s3
        = emit_link (LinkUp ''ab'' ''l'' False True False) (promote_link dual_session ''l'' ''ab'' s4)"
      unfolding notify_link_established_def est prod.case Let_def e by (simp add: h st)
    then show ?thesis unfolding pr by (simp add: defs both_linked_def linked_engine_def)
  qed
  have k: "link_for_peer dual_env ''ab'' '''' s5 = (Some ''l'', s5)" unfolding defs by code_simp
  have x: "dest_hash_for (maps s5) (py_or (session_peer_hash s5) (py_or (active_peer_hash s5) ''ab'')) = ''ab''"
    "pending_files s5 = []" "\<not> se_transfer dual_session" unfolding defs by code_simp+
  have f: "closed_files dual_session ''u'' ''ab'' s5 = s5"
    by (simp add: closed_files_def e x k has_active_transfer_def flush_pending_files_failed_def)
  have u: "closed_unlinks dual_session ''u'' ''ab'' s2 = s5"
  proof -
    have "s2\<lparr>peer_links := AList.update ''ab'' ''l'' (peer_links s2)\<rparr> = s3" unfolding defs by code_simp
    moreover have "active_link s3 = Some ''u''" "\<not> link_handoff s3" "dest_hash_for (maps s2) ''ab'' = ''ab''" unfolding defs by code_simp+
    ultimately show ?thesis by (simp add: closed_unlinks_def e o n)
  qed
  have s2: "s1\<lparr>links := filter (\<lambda>k. k \<noteq> ''u'') (links s1), link_peer_hashes := AList.delete ''u'' (link_peer_hashes s1)\<rparr> = s2"
    unfolding defs by code_simp
  have fin: "active_link s5 = Some ''l''" "send_link s5 = Some ''l''" "\<not> link_handoff s5" unfolding defs by code_simp+
  have d1: "dest_hash_for (maps s1) ''ab'' = ''ab''" unfolding defs by code_simp
  show ?thesis
    unfolding s1_def [symmetric] link_closed_def p prod.case Let_def d1 s2 u f using fin
    by (simp add: defs usb_lost_def both_linked_def linked_engine_def)
qed


end
