(* ===== verification/Outbox.thy ===== *)
theory Outbox
  imports PeerHashes
begin

text \<open>
  The queue of messages that wait for delivery (\<open>core/messaging.py\<close>).  \<open>self.message_queue\<close> is
  a list object: \<open>enqueue\<close> appends to it, everything else binds the attribute to a new list,
  and \<open>drain_queue\<close> iterates over the list that was bound when it began while it builds the
  next one.  Drains run in timer threads without a lock, so lists live in a store here, by
  address, and a drain is a thread with a position in one of them.  A text stays queued
  until its receipt; the time it was last sent is kept in the entry, which the lists share
  (\<open>ob_sent_at\<close>, by object).  Writing \<open>queue.json\<close> is left out.
\<close>

section \<open>State\<close>

record qentry =
  q_oid :: nat                        \<comment> \<open>object identity\<close>
  q_type :: string
  q_content :: string
  q_target :: string                  \<comment> \<open>empty: any peer\<close>
  q_path :: string
  q_id :: string

record drain =
  d_peer :: string
  d_files :: bool                     \<comment> \<open>\<open>include_files\<close>\<close>
  d_now :: real
  d_list :: nat                       \<comment> \<open>the list object of the loop\<close>
  d_pos :: nat
  d_remaining :: "qentry list"
  d_confirmed :: "string set"
  d_sent :: nat
  d_flight :: "(qentry \<times> bool) option" \<comment> \<open>the entry being sent, and whether its packet left\<close>

record outbox =
  ob_cur :: nat                       \<comment> \<open>the list object bound to \<open>self.message_queue\<close>\<close>
  ob_lists :: "nat \<Rightarrow> qentry list"
  ob_next :: nat                      \<comment> \<open>the next free address\<close>
  ob_next_oid :: nat
  ob_sent_at :: "nat \<Rightarrow> real option"
  ob_callbacks :: "string \<Rightarrow> nat option" \<comment> \<open>\<open>_receipt_callbacks\<close>: the drain that sent the message\<close>
  ob_drains :: "nat \<Rightarrow> drain option"
  ob_next_tid :: nat

definition empty_outbox :: outbox where
  "empty_outbox = \<lparr>ob_cur = 0, ob_lists = (\<lambda>_. []), ob_next = 1, ob_next_oid = 0, ob_sent_at = (\<lambda>_. None),
     ob_callbacks = (\<lambda>_. None), ob_drains = (\<lambda>_. None), ob_next_tid = 0\<rparr>"

definition the_queue :: "outbox \<Rightarrow> qentry list" where
  "the_queue s = ob_lists s (ob_cur s)"

text \<open>\<open>self.message_queue = xs\<close>, a new object.\<close>

definition rebind :: "qentry list \<Rightarrow> outbox \<Rightarrow> outbox" where
  "rebind xs s = s\<lparr>ob_cur := ob_next s, ob_lists := (ob_lists s)(ob_next s := xs), ob_next := Suc (ob_next s)\<rparr>"

section \<open>Operations\<close>

definition queue_receipt_timeout_s :: real where
  "queue_receipt_timeout_s = 30"

definition enqueue :: "string \<Rightarrow> string \<Rightarrow> string \<Rightarrow> string \<Rightarrow> string \<Rightarrow> string \<Rightarrow> outbox \<Rightarrow> outbox" where
  "enqueue fresh msg_type content target_hash file_path msg_id s = (let msg_id = py_or msg_id (take 12 fresh) in
     if list_ex (\<lambda>e. q_id e = msg_id) (the_queue s) then s
     else let entry = \<lparr>q_oid = ob_next_oid s, q_type = msg_type, q_content = content, q_target = target_hash,
                       q_path = file_path, q_id = msg_id\<rparr>
       in s\<lparr>ob_lists := (ob_lists s)(ob_cur s := the_queue s @ [entry]), ob_next_oid := Suc (ob_next_oid s)\<rparr>)"

definition queue_matches_target :: "peer_maps \<Rightarrow> qentry \<Rightarrow> string \<Rightarrow> bool" where
  "queue_matches_target m e target_hash = (
     if q_target e = '''' then target_hash = ''''
     else if target_hash = '''' then False
     else if is_hub_peer_hash (q_target e) \<noteq> is_hub_peer_hash target_hash then False
     else hashes_equivalent m (q_target e) target_hash)"

definition remove_queue_entry :: "string \<Rightarrow> outbox \<Rightarrow> bool \<times> outbox" where
  "remove_queue_entry msg_id s = (if msg_id = '''' then (False, s)
     else let kept = filter (\<lambda>e. q_id e \<noteq> msg_id) (the_queue s) in
       (length kept < length (the_queue s), rebind kept s))"

definition clear_queue :: "peer_maps \<Rightarrow> string \<Rightarrow> outbox \<Rightarrow> outbox" where
  "clear_queue m target_hash s = (if target_hash = '''' then rebind [] s
     else rebind (filter (\<lambda>e. \<not> queue_matches_target m e target_hash) (the_queue s)) s)"

definition prune_stale_queue :: "string list \<Rightarrow> outbox \<Rightarrow> nat \<times> outbox" where
  "prune_stale_queue sent_msg_ids s = (if sent_msg_ids = [] then (0, s)
     else let kept = filter (\<lambda>e. q_id e \<notin> set sent_msg_ids) (the_queue s) in
       (length (the_queue s) - length kept, rebind kept s))"

definition queue_size :: "outbox \<Rightarrow> nat" where
  "queue_size s = length (the_queue s)"

definition queue_size_for :: "peer_maps \<Rightarrow> string \<Rightarrow> outbox \<Rightarrow> nat" where
  "queue_size_for m target_hash s = (if target_hash = '''' then length (the_queue s)
     else length (filter (\<lambda>e. queue_matches_target m e target_hash) (the_queue s)))"

section \<open>Receipts\<close>

text \<open>\<open>on_receipt\<close>, the callback a drain gives \<open>send_message\<close>; a drain that has ended is no
  longer there to see its set of confirmed ids.\<close>

definition on_receipt :: "nat \<Rightarrow> string \<Rightarrow> string \<Rightarrow> outbox \<Rightarrow> outbox" where
  "on_receipt tid msg_id status s = (if status \<notin> {''received'', ''read''} then s
     else let s = s\<lparr>ob_drains := (ob_drains s)(tid :=
                map_option (\<lambda>d. d\<lparr>d_confirmed := insert msg_id (d_confirmed d)\<rparr>) (ob_drains s tid))\<rparr>
       in snd (remove_queue_entry msg_id s))"

definition run_callback :: "string \<Rightarrow> string \<Rightarrow> outbox \<Rightarrow> outbox" where
  "run_callback msg_id status s = (case ob_callbacks s msg_id of None \<Rightarrow> s
     | Some tid \<Rightarrow> on_receipt tid msg_id status (s\<lparr>ob_callbacks := (ob_callbacks s)(msg_id := None)\<rparr>))"

text \<open>The packets \<open>__receipt\<close> and \<open>__read_receipt\<close> in \<open>_packet_callback\<close>.\<close>

definition receipt_packet :: "string \<Rightarrow> string \<Rightarrow> outbox \<Rightarrow> outbox" where
  "receipt_packet msg_id status s = run_callback msg_id status (snd (remove_queue_entry msg_id s))"

definition read_receipt_packet :: "string \<Rightarrow> outbox \<Rightarrow> outbox" where
  "read_receipt_packet msg_id s = run_callback msg_id ''read'' s"

section \<open>Draining\<close>

text \<open>What \<open>drain_queue\<close> does with an entry: put it back, drop it, or send it.\<close>

datatype visit = Keep | Drop | SendText | SendFile

definition entry_path :: "qentry \<Rightarrow> string" where
  "entry_path e = py_or (q_path e) (q_content e)"

definition visit_of :: "peer_maps \<Rightarrow> (string \<Rightarrow> bool) \<Rightarrow> (nat \<Rightarrow> real option) \<Rightarrow> drain \<Rightarrow> qentry \<Rightarrow> visit" where
  "visit_of m path_exists sent_at d e = (
     if \<not> queue_matches_target m e (d_peer d) then Keep
     else if q_type e \<in> {''text'', ''emoji''} then
       (case sent_at (q_oid e) of
          Some t \<Rightarrow> if d_now d - t < queue_receipt_timeout_s then Keep else SendText
        | None \<Rightarrow> SendText)
     else if q_type e \<in> {''file'', ''image'', ''video''} then
       (if \<not> d_files d then Keep
        else if entry_path e \<noteq> '''' \<and> path_exists (entry_path e) then SendFile else Drop)
     else Drop)"

definition new_drain :: "string \<Rightarrow> bool \<Rightarrow> real \<Rightarrow> outbox \<Rightarrow> drain" where
  "new_drain peer include_files now s = \<lparr>d_peer = peer, d_files = include_files, d_now = now, d_list = ob_cur s,
     d_pos = 0, d_remaining = [], d_confirmed = {}, d_sent = 0, d_flight = None\<rparr>"

definition put_drain :: "nat \<Rightarrow> drain \<Rightarrow> outbox \<Rightarrow> outbox" where
  "put_drain tid d s = s\<lparr>ob_drains := (ob_drains s)(tid := Some d)\<rparr>"

definition start_drain :: "string \<Rightarrow> bool \<Rightarrow> real \<Rightarrow> outbox \<Rightarrow> outbox" where
  "start_drain peer include_files now s =
     put_drain (ob_next_tid s) (new_drain peer include_files now s) (s\<lparr>ob_next_tid := Suc (ob_next_tid s)\<rparr>)"

definition next_entry :: "outbox \<Rightarrow> drain \<Rightarrow> qentry option" where
  "next_entry s d = (let xs = ob_lists s (d_list d) in if d_pos d < length xs then Some (xs ! d_pos d) else None)"

text \<open>The head of the loop up to the send; the stale time of an entry is taken out first.\<close>

definition begin_visit :: "peer_maps \<Rightarrow> (string \<Rightarrow> bool) \<Rightarrow> nat \<Rightarrow> drain \<Rightarrow> qentry \<Rightarrow> outbox \<Rightarrow> outbox" where
  "begin_visit m path_exists tid d e s = (let d' = d\<lparr>d_pos := Suc (d_pos d)\<rparr> in
     case visit_of m path_exists (ob_sent_at s) d e of
       Keep \<Rightarrow> put_drain tid (d'\<lparr>d_remaining := d_remaining d @ [e]\<rparr>) s
     | Drop \<Rightarrow> put_drain tid d' s
     | SendText \<Rightarrow> put_drain tid (d'\<lparr>d_flight := Some (e, False)\<rparr>) (s\<lparr>ob_sent_at := (ob_sent_at s)(q_oid e := None)\<rparr>)
     | SendFile \<Rightarrow> put_drain tid (d'\<lparr>d_flight := Some (e, False)\<rparr>) s)"

text \<open>Reticulum took the packet of a text: \<open>send_message\<close> registers the callback.\<close>

definition packet_left :: "nat \<Rightarrow> drain \<Rightarrow> qentry \<Rightarrow> outbox \<Rightarrow> outbox" where
  "packet_left tid d e s = put_drain tid (d\<lparr>d_flight := Some (e, True)\<rparr>)
     (s\<lparr>ob_callbacks := (ob_callbacks s)(q_id e := Some tid)\<rparr>)"

text \<open>The result of the send is in.\<close>

definition settle_text :: "real \<Rightarrow> nat \<Rightarrow> drain \<Rightarrow> qentry \<Rightarrow> bool \<Rightarrow> outbox \<Rightarrow> outbox" where
  "settle_text clock tid d e result s = (let d' = d\<lparr>d_flight := None\<rparr> in
     if result
     then put_drain tid (d'\<lparr>d_sent := Suc (d_sent d),
            d_remaining := (if q_id e \<in> d_confirmed d then d_remaining d else d_remaining d @ [e])\<rparr>)
          (s\<lparr>ob_sent_at := (ob_sent_at s)(q_oid e := Some clock)\<rparr>)
     else put_drain tid (d'\<lparr>d_remaining := d_remaining d @ [e]\<rparr>) s)"

definition settle_file :: "nat \<Rightarrow> drain \<Rightarrow> qentry \<Rightarrow> bool \<Rightarrow> outbox \<Rightarrow> outbox" where
  "settle_file tid d e result s = (let d' = d\<lparr>d_flight := None\<rparr> in
     if result then put_drain tid (d'\<lparr>d_sent := Suc (d_sent d)\<rparr>) s
     else put_drain tid (d'\<lparr>d_remaining := d_remaining d @ [e]\<rparr>) s)"

definition finish_drain :: "nat \<Rightarrow> drain \<Rightarrow> outbox \<Rightarrow> outbox" where
  "finish_drain tid d s = rebind (d_remaining d) (s\<lparr>ob_drains := (ob_drains s)(tid := None)\<rparr>)"

section \<open>A drain that nothing interrupts\<close>

abbreviation is_text :: "qentry \<Rightarrow> bool" where
  "is_text e \<equiv> q_type e \<in> {''text'', ''emoji''}"

text \<open>The end of a visit whose send is under way; \<open>accepts\<close> is the result of the send, by
  message id, and \<open>clock\<close> the time it came.\<close>

definition settle :: "(string \<Rightarrow> bool) \<Rightarrow> (string \<Rightarrow> real) \<Rightarrow> nat \<Rightarrow> drain \<Rightarrow> qentry \<Rightarrow> outbox \<Rightarrow> outbox" where
  "settle accepts clock tid d e s = (
     if is_text e
     then (if accepts (q_id e)
           then settle_text (clock (q_id e)) tid (d\<lparr>d_flight := Some (e, True)\<rparr>) e True (packet_left tid d e s)
           else settle_text (clock (q_id e)) tid d e False s)
     else settle_file tid d e (accepts (q_id e)) s)"

definition drain_entry :: "peer_maps \<Rightarrow> (string \<Rightarrow> bool) \<Rightarrow> (string \<Rightarrow> bool) \<Rightarrow> (string \<Rightarrow> real) \<Rightarrow> nat \<Rightarrow> outbox \<Rightarrow> outbox" where
  "drain_entry m path_exists accepts clock tid s = (case ob_drains s tid of None \<Rightarrow> s
   | Some d \<Rightarrow> (case next_entry s d of None \<Rightarrow> s
     | Some e \<Rightarrow> (let s = begin_visit m path_exists tid d e s in
         case ob_drains s tid of None \<Rightarrow> s
         | Some d \<Rightarrow> (case d_flight d of None \<Rightarrow> s | Some _ \<Rightarrow> settle accepts clock tid d e s))))"

text \<open>\<open>link_found\<close> says whether \<open>_queue_send_link\<close> found a link.\<close>

definition drain_queue :: "peer_maps \<Rightarrow> bool \<Rightarrow> (string \<Rightarrow> bool) \<Rightarrow> (string \<Rightarrow> bool) \<Rightarrow> (string \<Rightarrow> real) \<Rightarrow> string \<Rightarrow> bool \<Rightarrow> real
    \<Rightarrow> outbox \<Rightarrow> nat \<times> outbox" where
  "drain_queue m link_found path_exists accepts clock target_hash include_files now s = (
     let peer = dest_hash_for m target_hash; tid = ob_next_tid s in
     if peer = '''' \<or> is_hub_peer_hash peer \<or> \<not> link_found then (0, s)
     else let s = (drain_entry m path_exists accepts clock tid ^^ length (the_queue s)) (start_drain peer include_files now s) in
       case ob_drains s tid of None \<Rightarrow> (0, s) | Some d \<Rightarrow> (d_sent d, finish_drain tid d s))"

section \<open>Whole operations\<close>

text \<open>The calls that change the outbox, when none of them overlaps a drain.\<close>

datatype out_op =
    Enqueue string string string string string string
  | Receipt string string
  | ReadReceipt string
  | Clear peer_maps string
  | Prune "string list"
  | Drain peer_maps bool "string \<Rightarrow> bool" "string \<Rightarrow> bool" "string \<Rightarrow> real" string bool real

fun out_step :: "out_op \<Rightarrow> outbox \<Rightarrow> outbox" where
  "out_step (Enqueue fresh t c target path i) s = enqueue fresh t c target path i s"
| "out_step (Receipt i status) s = receipt_packet i status s"
| "out_step (ReadReceipt i) s = read_receipt_packet i s"
| "out_step (Clear m target) s = clear_queue m target s"
| "out_step (Prune ids) s = snd (prune_stale_queue ids s)"
| "out_step (Drain m found px acc clock target files now) s = snd (drain_queue m found px acc clock target files now s)"

end
