(* ===== verification/OutboxLaws.thy ===== *)
theory OutboxLaws
  imports Outbox
begin

text \<open>
  What the outbox promises when its operations do not overlap: it implements a list of
  pending messages with the time each was last sent (\<open>spec\<close>), one lemma per operation.
\<close>

section \<open>The loop of a drain\<close>

text \<open>Which entries a drain leaves in the queue, and which texts it sends.\<close>

definition stays :: "peer_maps \<Rightarrow> (string \<Rightarrow> bool) \<Rightarrow> (string \<Rightarrow> bool) \<Rightarrow> string \<Rightarrow> bool \<Rightarrow> qentry \<Rightarrow> bool" where
  "stays m path_exists accepts peer files e \<longleftrightarrow> \<not> queue_matches_target m e peer \<or> is_text e
     \<or> (q_type e \<in> {''file'', ''image'', ''video''}
        \<and> (\<not> files \<or> (entry_path e \<noteq> '''' \<and> path_exists (entry_path e) \<and> \<not> accepts (q_id e))))"

definition due :: "real \<Rightarrow> real option \<Rightarrow> bool" where
  "due now time = (case time of None \<Rightarrow> True | Some t \<Rightarrow> \<not> now - t < queue_receipt_timeout_s)"

definition sends_text :: "peer_maps \<Rightarrow> string \<Rightarrow> real \<Rightarrow> (nat \<Rightarrow> real option) \<Rightarrow> qentry \<Rightarrow> bool" where
  "sends_text m peer now sent_at e \<longleftrightarrow> queue_matches_target m e peer \<and> is_text e \<and> due now (sent_at (q_oid e))"

definition sends_file :: "peer_maps \<Rightarrow> (string \<Rightarrow> bool) \<Rightarrow> string \<Rightarrow> bool \<Rightarrow> qentry \<Rightarrow> bool" where
  "sends_file m path_exists peer files e \<longleftrightarrow> queue_matches_target m e peer \<and> q_type e \<in> {''file'', ''image'', ''video''}
     \<and> files \<and> entry_path e \<noteq> '''' \<and> path_exists (entry_path e)"

lemma visit_cases:
  "visit_of m px sa d e = (
     if sends_text m (d_peer d) (d_now d) sa e then SendText
     else if sends_file m px (d_peer d) (d_files d) e then SendFile
     else if stays m px acc (d_peer d) (d_files d) e then Keep else Drop)"
  by (auto simp: visit_of_def sends_text_def sends_file_def stays_def due_def split: option.splits)

definition after_visit :: "(string \<Rightarrow> bool) \<Rightarrow> (string \<Rightarrow> real) \<Rightarrow> qentry \<Rightarrow> bool \<Rightarrow> (nat \<Rightarrow> real option) \<Rightarrow> (nat \<Rightarrow> real option)" where
  "after_visit acc clock e sends sa = (if sends then sa(q_oid e := if acc (q_id e) then Some (clock (q_id e)) else None) else sa)"

lemma drain_entry_step:
  assumes d: "ob_drains s tid = Some d" and n: "next_entry s d = Some e" and c: "d_confirmed d = {}" "d_flight d = None"
  shows "drain_entry m px acc clock tid s = s\<lparr>ob_drains := (ob_drains s)(tid := Some (d\<lparr>d_pos := Suc (d_pos d),
         d_remaining := d_remaining d @ (if stays m px acc (d_peer d) (d_files d) e then [e] else []),
         d_sent := d_sent d + (if (sends_text m (d_peer d) (d_now d) (ob_sent_at s) e \<or> sends_file m px (d_peer d) (d_files d) e)
                                  \<and> acc (q_id e) then 1 else 0)\<rparr>)),
       ob_sent_at := after_visit acc clock e (sends_text m (d_peer d) (d_now d) (ob_sent_at s) e) (ob_sent_at s),
       ob_callbacks := (if sends_text m (d_peer d) (d_now d) (ob_sent_at s) e \<and> acc (q_id e)
                        then (ob_callbacks s)(q_id e := Some tid) else ob_callbacks s)\<rparr>"
proof -
  have tx: "sends_text m (d_peer d) (d_now d) (ob_sent_at s) e \<Longrightarrow> is_text e \<and> stays m px acc (d_peer d) (d_files d) e"
    by (auto simp: sends_text_def stays_def)
  have fl: "sends_file m px (d_peer d) (d_files d) e \<Longrightarrow> \<not> is_text e
      \<and> (stays m px acc (d_peer d) (d_files d) e \<longleftrightarrow> \<not> acc (q_id e)) \<and> \<not> sends_text m (d_peer d) (d_now d) (ob_sent_at s) e"
    by (auto simp: sends_file_def stays_def sends_text_def)
  note defs = drain_entry_def begin_visit_def put_drain_def settle_def settle_text_def settle_file_def
    packet_left_def after_visit_def
  note v = visit_cases [of m px "ob_sent_at s" d e acc]
  consider "sends_text m (d_peer d) (d_now d) (ob_sent_at s) e"
    | "\<not> sends_text m (d_peer d) (d_now d) (ob_sent_at s) e" "sends_file m px (d_peer d) (d_files d) e"
    | "\<not> sends_text m (d_peer d) (d_now d) (ob_sent_at s) e" "\<not> sends_file m px (d_peer d) (d_files d) e" by blast
  then show ?thesis
  proof cases
    case 1
    with v have "visit_of m px (ob_sent_at s) d e = SendText" by simp
    then show ?thesis using 1 tx [OF 1] d n c
      by (cases d) (auto simp: defs Let_def fun_eq_iff intro!: outbox.equality)
  next
    case 2
    with v have "visit_of m px (ob_sent_at s) d e = SendFile" by simp
    then show ?thesis using 2 fl [OF 2(2)] d n c
      by (cases d) (auto simp: defs Let_def fun_eq_iff intro!: outbox.equality)
  next
    case 3
    with v have "visit_of m px (ob_sent_at s) d e = (if stays m px acc (d_peer d) (d_files d) e then Keep else Drop)" by simp
    then show ?thesis using 3 d n c
      by (cases d) (auto simp: defs Let_def fun_eq_iff intro!: outbox.equality)
  qed
qed

text \<open>A whole drain: the entries that stay, the texts sent and when, the callbacks.\<close>

definition sent_times :: "(string \<Rightarrow> bool) \<Rightarrow> (string \<Rightarrow> real) \<Rightarrow> (qentry \<Rightarrow> bool) \<Rightarrow> qentry list \<Rightarrow> (nat \<Rightarrow> real option) \<Rightarrow> (nat \<Rightarrow> real option)" where
  "sent_times acc clock sends xs sa = fold (\<lambda>e. after_visit acc clock e (sends e)) xs sa"

definition called_back :: "(string \<Rightarrow> bool) \<Rightarrow> (qentry \<Rightarrow> bool) \<Rightarrow> nat \<Rightarrow> qentry list \<Rightarrow> (string \<Rightarrow> nat option) \<Rightarrow> (string \<Rightarrow> nat option)" where
  "called_back acc sends tid xs cb = fold (\<lambda>e cb. if sends e \<and> acc (q_id e) then cb(q_id e := Some tid) else cb) xs cb"

lemma sent_times_other: "oid \<notin> q_oid ` set xs \<Longrightarrow> sent_times acc clock sends xs sa oid = sa oid"
  unfolding sent_times_def by (induction xs arbitrary: sa) (auto simp: after_visit_def)

lemma sent_times_at:
  assumes "distinct (map q_oid xs)" "e \<in> set xs"
  shows "sent_times acc clock sends xs sa (q_oid e) =
    (if sends e then if acc (q_id e) then Some (clock (q_id e)) else None else sa (q_oid e))"
  using assms
proof (induction xs arbitrary: sa)
  case (Cons x xs)
  have rest: "sent_times acc clock sends (x # xs) sa = sent_times acc clock sends xs (after_visit acc clock x (sends x) sa)" for sa
    by (simp add: sent_times_def)
  show ?case
  proof (cases "e = x")
    case True
    then have "q_oid e \<notin> q_oid ` set xs" using Cons.prems by simp
    then show ?thesis unfolding rest using True by (simp add: sent_times_other after_visit_def)
  next
    case False
    then have m: "e \<in> set xs" using Cons.prems by simp
    then have "q_oid e \<in> q_oid ` set xs" by (rule imageI)
    then have "q_oid e \<noteq> q_oid x" using Cons.prems(1) by auto
    with m show ?thesis unfolding rest using Cons by (simp add: after_visit_def)
  qed
qed simp

lemma called_back_iff: "called_back acc sends tid xs cb i = (if \<exists>e \<in> set xs. q_id e = i \<and> sends e \<and> acc i then Some tid else cb i)"
proof (induction xs arbitrary: cb)
  case (Cons x xs)
  have step: "called_back acc sends tid (x # xs) cb
      = called_back acc sends tid xs (if sends x \<and> acc (q_id x) then cb(q_id x := Some tid) else cb)"
    by (simp add: called_back_def)
  define B where "B \<longleftrightarrow> (\<exists>e \<in> set xs. q_id e = i \<and> sends e \<and> acc i)"
  have "(\<exists>e \<in> set (x # xs). q_id e = i \<and> sends e \<and> acc i) \<longleftrightarrow> q_id x = i \<and> sends x \<and> acc i \<or> B"
    unfolding B_def by auto
  then show ?case unfolding step Cons.IH B_def [symmetric] by (cases B; cases "q_id x = i") auto
qed (simp add: called_back_def)

lemma drain_loop:
  fixes m px acc clock d s
  defines "q \<equiv> ob_lists s (d_list d)"
    and "st \<equiv> stays m px acc (d_peer d) (d_files d)"
    and "sends \<equiv> sends_text m (d_peer d) (d_now d) (ob_sent_at s)"
  assumes d: "ob_drains s tid = Some d" and fresh: "d_pos d = 0" "d_remaining d = []" "d_confirmed d = {}" "d_flight d = None" "d_sent d = 0"
    and oids: "distinct (map q_oid q)" and k: "k \<le> length q"
  shows "(drain_entry m px acc clock tid ^^ k) s = s\<lparr>
     ob_drains := (ob_drains s)(tid := Some (d\<lparr>d_pos := k, d_remaining := filter st (take k q),
        d_sent := length (filter (\<lambda>e. (sends e \<or> sends_file m px (d_peer d) (d_files d) e) \<and> acc (q_id e)) (take k q))\<rparr>)),
     ob_sent_at := sent_times acc clock sends (take k q) (ob_sent_at s),
     ob_callbacks := called_back acc sends tid (take k q) (ob_callbacks s)\<rparr>"
  using k
proof (induction k)
  case 0
  then show ?case using d fresh by (cases d) (auto simp: sent_times_def called_back_def fun_eq_iff intro!: outbox.equality)
next
  case (Suc k)
  define e where "e = q ! k"
  have tk: "take (Suc k) q = take k q @ [e]" using Suc.prems by (simp add: e_def take_Suc_conv_app_nth)
  have "distinct (map q_oid (take (Suc k) q))" using oids by (simp flip: take_map)
  then have "q_oid e \<notin> q_oid ` set (take k q)" unfolding tk by simp
  then have same: "sent_times acc clock sends (take k q) (ob_sent_at s) (q_oid e) = ob_sent_at s (q_oid e)"
    by (rule sent_times_other)
  let ?t = "(drain_entry m px acc clock tid ^^ k) s"
  have sends_e: "sends_text m (d_peer d) (d_now d) (sent_times acc clock sends (take k q) (ob_sent_at s)) e = sends e"
    by (simp only: sends_text_def same) (simp only: sends_def sends_text_def)
  define d' where "d' = d\<lparr>d_pos := k, d_remaining := filter st (take k q),
        d_sent := length (filter (\<lambda>e. (sends e \<or> sends_file m px (d_peer d) (d_files d) e) \<and> acc (q_id e)) (take k q))\<rparr>"
  have d': "ob_drains ?t tid = Some d'" "d_peer d' = d_peer d" "d_files d' = d_files d" "d_now d' = d_now d"
    "d_confirmed d' = {}" "d_flight d' = None" "ob_sent_at ?t = sent_times acc clock sends (take k q) (ob_sent_at s)"
    "ob_callbacks ?t = called_back acc sends tid (take k q) (ob_callbacks s)"
    "ob_lists ?t = ob_lists s" "ob_drains ?t = (ob_drains s)(tid := Some d')"
    using Suc fresh by (simp_all add: d'_def fun_upd_def)
  have n: "next_entry ?t d' = Some e" using Suc.prems d' by (simp add: next_entry_def e_def q_def d'_def)
  have "(drain_entry m px acc clock tid ^^ Suc k) s = drain_entry m px acc clock tid ?t" by simp
  note run = trans [OF this drain_entry_step [OF d'(1) n d'(5,6), of m px acc clock]]
  have other: "ob_cur ?t = ob_cur s" "ob_next ?t = ob_next s" "ob_next_oid ?t = ob_next_oid s" "ob_next_tid ?t = ob_next_tid s"
    using Suc by simp_all
  have times: "after_visit acc clock e (sends e) (sent_times acc clock sends (take k q) (ob_sent_at s))
      = sent_times acc clock sends (take (Suc k) q) (ob_sent_at s)" unfolding tk by (simp add: sent_times_def)
  have calls: "(if sends e \<and> acc (q_id e) then (ob_callbacks ?t)(q_id e := Some tid) else ob_callbacks ?t)
      = called_back acc sends tid (take (Suc k) q) (ob_callbacks s)"
    unfolding d' tk by (simp add: called_back_def)
  have drained: "d'\<lparr>d_pos := Suc (d_pos d'), d_remaining := d_remaining d' @ (if st e then [e] else []),
        d_sent := d_sent d' + (if (sends e \<or> sends_file m px (d_peer d) (d_files d) e) \<and> acc (q_id e) then 1 else 0)\<rparr>
      = d\<lparr>d_pos := Suc k, d_remaining := filter st (take (Suc k) q),
        d_sent := length (filter (\<lambda>e. (sends e \<or> sends_file m px (d_peer d) (d_files d) e) \<and> acc (q_id e)) (take (Suc k) q))\<rparr>"
    unfolding tk by (simp add: d'_def)
  show ?case unfolding run
    by (rule outbox.equality)
       (simp_all add: d' other sends_e times calls drained st_def [symmetric] split del: if_split, simp add: fun_upd_def)
qed

section \<open>The specification\<close>

text \<open>A list of pending messages, when each was last sent, and the ids that wait for a receipt.\<close>

record spec =
  sp_pending :: "qentry list"
  sp_sent :: "string \<Rightarrow> real option"
  sp_calls :: "string set"

definition plain :: "qentry \<Rightarrow> qentry" where
  "plain e = e\<lparr>q_oid := 0\<rparr>"

definition keep_only :: "qentry list \<Rightarrow> spec \<Rightarrow> spec" where
  "keep_only xs a = a\<lparr>sp_pending := xs, sp_sent := (\<lambda>i. if i \<in> q_id ` set xs then sp_sent a i else None)\<rparr>"

definition confirm :: "string \<Rightarrow> spec \<Rightarrow> spec" where
  "confirm i a = (if i = '''' then a else keep_only (filter (\<lambda>e. q_id e \<noteq> i) (sp_pending a)) a)"

definition spec_sends :: "peer_maps \<Rightarrow> string \<Rightarrow> real \<Rightarrow> spec \<Rightarrow> string \<Rightarrow> bool" where
  "spec_sends m peer now a i \<longleftrightarrow>
     list_ex (\<lambda>e. q_id e = i \<and> queue_matches_target m e peer \<and> is_text e \<and> due now (sp_sent a i)) (sp_pending a)"

definition spec_drain :: "peer_maps \<Rightarrow> (string \<Rightarrow> bool) \<Rightarrow> (string \<Rightarrow> bool) \<Rightarrow> (string \<Rightarrow> real) \<Rightarrow> string \<Rightarrow> bool \<Rightarrow> real \<Rightarrow> spec \<Rightarrow> spec" where
  "spec_drain m px acc clock peer files now a = keep_only (filter (stays m px acc peer files) (sp_pending a)) (a\<lparr>
     sp_sent := (\<lambda>i. if spec_sends m peer now a i then if acc i then Some (clock i) else None else sp_sent a i),
     sp_calls := sp_calls a \<union> {i. spec_sends m peer now a i \<and> acc i}\<rparr>)"

fun spec_step :: "out_op \<Rightarrow> spec \<Rightarrow> spec" where
  "spec_step (Enqueue fresh t c target path i) a = (let i = py_or i (take 12 fresh) in
     if list_ex (\<lambda>e. q_id e = i) (sp_pending a) then a
     else a\<lparr>sp_pending := sp_pending a
              @ [\<lparr>q_oid = 0, q_type = t, q_content = c, q_target = target, q_path = path, q_id = i\<rparr>]\<rparr>)"
| "spec_step (Receipt i status) a = (confirm i a)\<lparr>sp_calls := sp_calls a - {i}\<rparr>"
| "spec_step (ReadReceipt i) a = (if i \<in> sp_calls a then (confirm i a)\<lparr>sp_calls := sp_calls a - {i}\<rparr> else a)"
| "spec_step (Clear m target) a =
     keep_only (if target = '''' then [] else filter (\<lambda>e. \<not> queue_matches_target m e target) (sp_pending a)) a"
| "spec_step (Prune ids) a = (if ids = [] then a else keep_only (filter (\<lambda>e. q_id e \<notin> set ids) (sp_pending a)) a)"
| "spec_step (Drain m found px acc clock target files now) a = (let peer = dest_hash_for m target in
     if peer = '''' \<or> is_hub_peer_hash peer \<or> \<not> found then a else spec_drain m px acc clock peer files now a)"

section \<open>The outbox implements it\<close>

definition sent_of :: "(nat \<Rightarrow> real option) \<Rightarrow> qentry list \<Rightarrow> string \<Rightarrow> real option" where
  "sent_of sa xs i = (case find (\<lambda>e. q_id e = i) xs of None \<Rightarrow> None | Some e \<Rightarrow> sa (q_oid e))"

definition pending_of :: "outbox \<Rightarrow> spec" where
  "pending_of s = \<lparr>sp_pending = map plain (the_queue s), sp_sent = sent_of (ob_sent_at s) (the_queue s),
     sp_calls = {i. ob_callbacks s i \<noteq> None}\<rparr>"

definition out_ok :: "outbox \<Rightarrow> bool" where
  "out_ok s \<longleftrightarrow> distinct (map q_id (the_queue s)) \<and> distinct (map q_oid (the_queue s))
     \<and> (\<forall>e \<in> set (the_queue s). q_oid e < ob_next_oid s) \<and> (\<forall>n \<ge> ob_next_oid s. ob_sent_at s n = None)
     \<and> (\<forall>tid. ob_drains s tid = None)"

lemma plain_sel [simp]: "q_id (plain e) = q_id e" "q_type (plain e) = q_type e" "q_target (plain e) = q_target e"
  "q_path (plain e) = q_path e" "q_content (plain e) = q_content e" "q_oid (plain e) = 0"
  by (simp_all add: plain_def)

lemma plain_cong [simp]: "queue_matches_target m (plain e) t = queue_matches_target m e t"
  "entry_path (plain e) = entry_path e" "stays m px acc t files (plain e) = stays m px acc t files e"
  by (simp_all add: queue_matches_target_def entry_path_def stays_def)

lemma filter_plain: "(\<And>e. P (plain e) = P e) \<Longrightarrow> filter P (map plain xs) = map plain (filter P xs)"
  by (simp add: filter_map comp_def)

lemma plain_new: "plain \<lparr>q_oid = n, q_type = t, q_content = c, q_target = g, q_path = p, q_id = i\<rparr>
    = \<lparr>q_oid = 0, q_type = t, q_content = c, q_target = g, q_path = p, q_id = i\<rparr>"
  by (simp add: plain_def)

lemma the_queue_simps [simp]: "the_queue (rebind xs s) = xs" "the_queue (s\<lparr>ob_sent_at := f\<rparr>) = the_queue s"
  "the_queue (s\<lparr>ob_callbacks := cb\<rparr>) = the_queue s" "the_queue (s\<lparr>ob_drains := ds\<rparr>) = the_queue s"
  "the_queue (s\<lparr>ob_next_tid := n\<rparr>) = the_queue s"
  by (simp_all add: the_queue_def rebind_def)

lemma rebind_simps [simp]: "ob_sent_at (rebind xs s) = ob_sent_at s" "ob_callbacks (rebind xs s) = ob_callbacks s"
  "ob_drains (rebind xs s) = ob_drains s" "ob_next_oid (rebind xs s) = ob_next_oid s" "ob_next_tid (rebind xs s) = ob_next_tid s"
  by (simp_all add: rebind_def)

lemma sent_of_mem:
  assumes "distinct (map q_id xs)" "e \<in> set xs"
  shows "sent_of sa xs (q_id e) = sa (q_oid e)"
  using assms
proof (induction xs)
  case (Cons x xs)
  show ?case
  proof (cases "e = x")
    case False
    then have m: "e \<in> set xs" using Cons.prems by simp
    then have "q_id e \<in> q_id ` set xs" by (rule imageI)
    then have "q_id e \<noteq> q_id x" using Cons.prems(1) by auto
    then show ?thesis using Cons m by (simp add: sent_of_def)
  qed (simp add: sent_of_def)
qed simp

lemma sent_of_none: "i \<notin> q_id ` set xs \<Longrightarrow> sent_of sa xs i = None"
  by (induction xs) (auto simp: sent_of_def)

lemma sent_of_filter:
  assumes "distinct (map q_id xs)"
  shows "sent_of sa (filter P xs) = (\<lambda>i. if i \<in> q_id ` set (filter P xs) then sent_of sa xs i else None)"
proof
  fix i
  show "sent_of sa (filter P xs) i = (if i \<in> q_id ` set (filter P xs) then sent_of sa xs i else None)"
  proof (cases "i \<in> q_id ` set (filter P xs)")
    case True
    then obtain e where e: "e \<in> set (filter P xs)" "i = q_id e" by blast
    have "distinct (map q_id (filter P xs))" using assms by (rule distinct_map_filter)
    from sent_of_mem [OF this e(1)] sent_of_mem [OF assms, of e] e show ?thesis using True by simp
  qed (simp add: sent_of_none)
qed

lemma keep_filter:
  assumes "distinct (map q_id (the_queue s))"
  shows "pending_of (rebind (filter P (the_queue s)) s) = keep_only (map plain (filter P (the_queue s))) (pending_of s)"
  by (rule spec.equality) (simp_all add: pending_of_def keep_only_def sent_of_filter [OF assms] image_image fun_eq_iff)

lemma keep_ok: "out_ok s \<Longrightarrow> out_ok (rebind (filter P (the_queue s)) s)"
  by (auto simp: out_ok_def distinct_map_filter)

lemma remove_refines:
  assumes "out_ok s"
  shows "pending_of (snd (remove_queue_entry i s)) = confirm i (pending_of s)" "out_ok (snd (remove_queue_entry i s))"
  using keep_filter [of s] keep_ok [OF assms] assms
  by (auto simp: remove_queue_entry_def confirm_def out_ok_def Let_def pending_of_def filter_plain)

lemma confirm_calls: "confirm i (a\<lparr>sp_calls := C\<rparr>) = (confirm i a)\<lparr>sp_calls := C\<rparr>"
  by (rule spec.equality) (simp_all add: confirm_def keep_only_def fun_eq_iff)

lemma confirm_twice [simp]: "confirm i (confirm i a) = confirm i a"
  by (rule spec.equality) (auto simp: confirm_def keep_only_def fun_eq_iff)

lemma callback_refines:
  assumes ok: "out_ok s" and status: "status \<in> {''received'', ''read''} \<or> confirm i (pending_of s) = pending_of s"
  shows "pending_of (run_callback i status s) = (if i \<in> sp_calls (pending_of s)
      then (confirm i (pending_of s))\<lparr>sp_calls := sp_calls (pending_of s) - {i}\<rparr> else pending_of s)"
    and "out_ok (run_callback i status s)"
proof -
  let ?t = "s\<lparr>ob_callbacks := (ob_callbacks s)(i := None)\<rparr>"
  have t: "pending_of ?t = (pending_of s)\<lparr>sp_calls := sp_calls (pending_of s) - {i}\<rparr>" "out_ok ?t"
    using ok by (auto simp: pending_of_def out_ok_def)
  have run: "run_callback i status s = (if ob_callbacks s i = None then s
      else if status \<in> {''received'', ''read''} then snd (remove_queue_entry i ?t) else ?t)"
  proof (cases "ob_callbacks s i")
    case (Some tid)
    have "ob_drains s tid = None" using ok by (simp add: out_ok_def)
    then have "?t\<lparr>ob_drains := (ob_drains s)(tid := None)\<rparr> = ?t" by (intro outbox.equality) (simp_all add: fun_upd_idem)
    then show ?thesis using Some \<open>ob_drains s tid = None\<close> by (simp add: run_callback_def on_receipt_def Let_def)
  qed (simp add: run_callback_def)
  have calls: "i \<in> sp_calls (pending_of s) \<longleftrightarrow> ob_callbacks s i \<noteq> None" by (simp add: pending_of_def)
  show "pending_of (run_callback i status s) = (if i \<in> sp_calls (pending_of s)
      then (confirm i (pending_of s))\<lparr>sp_calls := sp_calls (pending_of s) - {i}\<rparr> else pending_of s)"
  proof (cases "ob_callbacks s i = None \<or> status \<in> {''received'', ''read''}")
    case True
    then show ?thesis unfolding run calls by (auto simp: remove_refines(1) [OF t(2)] t(1) confirm_calls)
  next
    case False
    then have "confirm i (pending_of s) = pending_of s" using status by blast
    with False show ?thesis unfolding run calls by (auto simp: t(1))
  qed
  show "out_ok (run_callback i status s)"
    unfolding run using ok t(2) remove_refines(2) [OF t(2)] by simp
qed

lemma find_append: "find P (xs @ ys) = (case find P xs of None \<Rightarrow> find P ys | Some x \<Rightarrow> Some x)"
  by (induction xs) auto

lemma enqueue_refines:
  assumes ok: "out_ok s"
  shows "pending_of (enqueue fresh t c target path i s) = spec_step (Enqueue fresh t c target path i) (pending_of s)"
    and "out_ok (enqueue fresh t c target path i s)"
proof -
  define j where "j = py_or i (take 12 fresh)"
  define e where "e = \<lparr>q_oid = ob_next_oid s, q_type = t, q_content = c, q_target = target, q_path = path, q_id = j\<rparr>"
  have ex: "list_ex (\<lambda>e. q_id e = j) (map plain (the_queue s)) = list_ex (\<lambda>e. q_id e = j) (the_queue s)"
    by (simp add: list_ex_iff)
  have new: "enqueue fresh t c target path i s = (if list_ex (\<lambda>e. q_id e = j) (the_queue s) then s
      else s\<lparr>ob_lists := (ob_lists s)(ob_cur s := the_queue s @ [e]), ob_next_oid := Suc (ob_next_oid s)\<rparr>)"
    by (simp add: enqueue_def j_def e_def Let_def)
  have fresh: "sent_of (ob_sent_at s) (the_queue s @ [e]) = sent_of (ob_sent_at s) (the_queue s)"
  proof
    fix k
    have "ob_sent_at s (q_oid e) = None" using ok by (simp add: out_ok_def e_def)
    then show "sent_of (ob_sent_at s) (the_queue s @ [e]) k = sent_of (ob_sent_at s) (the_queue s) k"
      by (simp add: sent_of_def find_append split: option.split)
  qed
  show "pending_of (enqueue fresh t c target path i s) = spec_step (Enqueue fresh t c target path i) (pending_of s)"
  proof (cases "list_ex (\<lambda>e. q_id e = j) (the_queue s)")
    case True
    then show ?thesis unfolding new using ex by (simp add: pending_of_def Let_def j_def [symmetric])
  next
    case False
    let ?s = "s\<lparr>ob_lists := (ob_lists s)(ob_cur s := the_queue s @ [e]), ob_next_oid := Suc (ob_next_oid s)\<rparr>"
    have "the_queue ?s = the_queue s @ [e]" by (simp add: the_queue_def)
    moreover have "plain e = \<lparr>q_oid = 0, q_type = t, q_content = c, q_target = target, q_path = path, q_id = j\<rparr>"
      by (simp add: e_def plain_def)
    ultimately show ?thesis unfolding new using False fresh ex by (simp add: pending_of_def Let_def j_def [symmetric])
  qed
  show "out_ok (enqueue fresh t c target path i s)"
    unfolding new using ok by (auto simp: out_ok_def the_queue_def e_def list_ex_iff dest: less_not_refl2)
qed

text \<open>The outbox after a drain that nothing interrupted.\<close>

lemma drain_queue_result:
  fixes m px acc clock files now s
  defines "q \<equiv> the_queue s"
  assumes ok: "out_ok s" and go: "dest_hash_for m target = peer" "peer \<noteq> ''''" "\<not> is_hub_peer_hash peer"
  defines "st \<equiv> stays m px acc peer files" and "sends \<equiv> sends_text m peer now (ob_sent_at s)" and "tid \<equiv> ob_next_tid s"
  obtains s' where
    "drain_queue m True px acc clock target files now s
       = (length (filter (\<lambda>e. (sends e \<or> sends_file m px peer files e) \<and> acc (q_id e)) q), s')"
    "the_queue s' = filter st q" "ob_sent_at s' = sent_times acc clock sends q (ob_sent_at s)"
    "ob_callbacks s' = called_back acc sends tid q (ob_callbacks s)" "ob_drains s' = ob_drains s"
    "ob_next_oid s' = ob_next_oid s"
proof -
  define d where "d = new_drain peer files now s"
  define s1 where "s1 = start_drain peer files now s"
  have s1: "ob_drains s1 tid = Some d" "ob_lists s1 = ob_lists s" "ob_sent_at s1 = ob_sent_at s" "ob_callbacks s1 = ob_callbacks s"
    "(ob_drains s1)(tid := None) = ob_drains s" "ob_next_oid s1 = ob_next_oid s"
    using ok by (auto simp: s1_def start_drain_def put_drain_def tid_def d_def out_ok_def fun_eq_iff)
  have d: "d_pos d = 0" "d_remaining d = []" "d_confirmed d = {}" "d_flight d = None" "d_sent d = 0"
    "d_peer d = peer" "d_files d = files" "d_now d = now" "ob_lists s (d_list d) = the_queue s"
    by (simp_all add: d_def new_drain_def the_queue_def)
  have oids: "distinct (map q_oid (ob_lists s1 (d_list d)))" using ok by (simp add: d s1 out_ok_def)
  note loop = drain_loop [OF s1(1) d(1-5) oids order_refl, of m px acc clock]
  show thesis
  proof (rule that)
    show "drain_queue m True px acc clock target files now s
       = (length (filter (\<lambda>e. (sends e \<or> sends_file m px peer files e) \<and> acc (q_id e)) q),
          snd (drain_queue m True px acc clock target files now s))"
      using go loop by (simp add: drain_queue_def Let_def d s1 q_def s1_def [symmetric] tid_def [symmetric] sends_def)
  qed (use go loop in \<open>simp_all add: drain_queue_def Let_def d s1 q_def s1_def [symmetric] tid_def [symmetric]
         sends_def st_def finish_drain_def put_drain_def\<close>)
qed

text \<open>What the specification says is sent is what the drain sends.\<close>

lemma spec_sends_iff:
  assumes ids: "distinct (map q_id (the_queue s))" and e: "e \<in> set (the_queue s)"
  shows "spec_sends m peer now (pending_of s) (q_id e) \<longleftrightarrow> sends_text m peer now (ob_sent_at s) e"
proof -
  have only: "x = e" if "x \<in> set (the_queue s)" "q_id x = q_id e" for x
    using ids e that by (auto simp: distinct_map dest: inj_onD)
  show ?thesis
    using e only sent_of_mem [OF ids e] by (auto simp: spec_sends_def sends_text_def pending_of_def list_ex_iff)
qed

lemma spec_sends_pending: "spec_sends m peer now (pending_of s) i \<Longrightarrow> i \<in> q_id ` set (the_queue s)"
  by (auto simp: spec_sends_def pending_of_def list_ex_iff)

lemma drain_refines:
  assumes ok: "out_ok s"
  shows "pending_of (snd (drain_queue m found px acc clock target files now s))
      = spec_step (Drain m found px acc clock target files now) (pending_of s)" (is ?sim)
    and "out_ok (snd (drain_queue m found px acc clock target files now s))" (is ?inv)
proof -
  let ?peer = "dest_hash_for m target" and ?q = "the_queue s"
  have ids: "distinct (map q_id ?q)" and oids: "distinct (map q_oid ?q)" using ok by (simp_all add: out_ok_def)
  show ?sim ?inv
  proof (atomize (full), cases "?peer = '''' \<or> is_hub_peer_hash ?peer \<or> \<not> found")
    case True
    then show "?sim \<and> ?inv" using ok by (auto simp: drain_queue_def Let_def)
  next
    case False
    let ?st = "stays m px acc ?peer files" and ?sends = "sends_text m ?peer now (ob_sent_at s)"
    have go: "?peer \<noteq> ''''" "\<not> is_hub_peer_hash ?peer" "found" using False by auto
    obtain s' where run: "drain_queue m True px acc clock target files now s
        = (length (filter (\<lambda>e. (?sends e \<or> sends_file m px ?peer files e) \<and> acc (q_id e)) ?q), s')"
      and r: "snd (drain_queue m True px acc clock target files now s) = s'" "the_queue s' = filter ?st ?q"
      "ob_sent_at s' = sent_times acc clock ?sends ?q (ob_sent_at s)"
      "ob_callbacks s' = called_back acc ?sends (ob_next_tid s) ?q (ob_callbacks s)" "ob_drains s' = ob_drains s"
      "ob_next_oid s' = ob_next_oid s"
      by (rule drain_queue_result [OF ok refl go(1,2), of px acc clock files now]) auto
    have sent: "sent_of (ob_sent_at s') ?q i = (if spec_sends m ?peer now (pending_of s) i
        then if acc i then Some (clock i) else None else sent_of (ob_sent_at s) ?q i)" for i
    proof (cases "i \<in> q_id ` set ?q")
      case True
      then obtain e where e: "e \<in> set ?q" "i = q_id e" by blast
      show ?thesis unfolding e(2) sent_of_mem [OF ids e(1)] spec_sends_iff [OF ids e(1)] r(3) sent_times_at [OF oids e(1)] ..
    qed (auto simp: sent_of_none dest: spec_sends_pending)
    have calls: "{i. ob_callbacks s' i \<noteq> None} = {i. ob_callbacks s i \<noteq> None} \<union> {i. spec_sends m ?peer now (pending_of s) i \<and> acc i}"
    proof -
      have "(\<exists>e \<in> set ?q. q_id e = i \<and> ?sends e \<and> acc i) \<longleftrightarrow> spec_sends m ?peer now (pending_of s) i \<and> acc i" for i
      proof
        assume "\<exists>e \<in> set ?q. q_id e = i \<and> ?sends e \<and> acc i"
        then obtain e where e: "e \<in> set ?q" "q_id e = i" "?sends e" "acc i" by blast
        then show "spec_sends m ?peer now (pending_of s) i \<and> acc i" using spec_sends_iff [OF ids e(1), of m ?peer now] by simp
      next
        assume i: "spec_sends m ?peer now (pending_of s) i \<and> acc i"
        then obtain e where e: "e \<in> set ?q" "i = q_id e" using spec_sends_pending by blast
        then show "\<exists>e \<in> set ?q. q_id e = i \<and> ?sends e \<and> acc i"
          using i spec_sends_iff [OF ids e(1), of m ?peer now] by blast
      qed
      then show ?thesis unfolding r(4) by (auto simp: called_back_iff)
    qed
    define a where "a = pending_of s"
    have a: "sp_pending a = map plain ?q" "sp_sent a = sent_of (ob_sent_at s) ?q" "sp_calls a = {i. ob_callbacks s i \<noteq> None}"
      by (simp_all add: a_def pending_of_def)
    have p: "filter ?st (sp_pending a) = map plain (filter ?st ?q)" unfolding a(1) by (rule filter_plain) simp
    have "sp_sent (pending_of s') = sp_sent (spec_drain m px acc clock ?peer files now a)"
      unfolding spec_drain_def keep_only_def p pending_of_def [of s'] r(2)
      by (simp only: spec.simps sent_of_filter [OF ids] sent a_def [symmetric] a(2) list.set_map image_image plain_sel)
         (simp add: fun_eq_iff)
    moreover have "sp_calls (pending_of s') = sp_calls (spec_drain m px acc clock ?peer files now a)"
      unfolding spec_drain_def keep_only_def pending_of_def [of s'] by (simp only: spec.simps calls a_def [symmetric]) (simp add: a(3))
    moreover have "sp_pending (pending_of s') = sp_pending (spec_drain m px acc clock ?peer files now a)"
      unfolding spec_drain_def keep_only_def p pending_of_def [of s'] r(2) by simp
    ultimately have "pending_of s' = spec_drain m px acc clock ?peer files now (pending_of s)"
      unfolding a_def by (intro spec.equality) simp_all
    moreover have "out_ok s'"
    proof -
      have "sent_times acc clock ?sends ?q (ob_sent_at s) n = None" if "ob_next_oid s \<le> n" for n
      proof -
        have "n \<notin> q_oid ` set ?q" using ok that by (force simp: out_ok_def)
        then show ?thesis using ok that by (simp add: sent_times_other out_ok_def)
      qed
      then show ?thesis using ok by (auto simp: out_ok_def r distinct_map_filter)
    qed
    ultimately show "?sim \<and> ?inv" using False r(1) by (simp add: Let_def)
  qed
qed

interpretation outbox: simulation out_step "\<lambda>_. True" out_ok spec_step pending_of
proof
  fix e s assume ok: "out_ok s"
  show "out_ok (out_step e s)"
  proof (cases e)
    case (Receipt i status)
    then show ?thesis
      using callback_refines(2) [OF remove_refines(2) [OF ok]] remove_refines(1) [OF ok]
      by (simp add: receipt_packet_def)
  next
    case (ReadReceipt i)
    then show ?thesis using callback_refines(2) [OF ok] by (simp add: read_receipt_packet_def)
  next
    case (Clear m target)
    then show ?thesis using keep_ok [OF ok, of "\<lambda>_. False"] keep_ok [OF ok] by (simp add: clear_queue_def)
  next
    case (Prune ids)
    then show ?thesis using keep_ok [OF ok] ok by (simp add: prune_stale_queue_def Let_def)
  qed (simp_all add: enqueue_refines [OF ok] drain_refines [OF ok])
  have ids: "distinct (map q_id (the_queue s))" using ok by (simp add: out_ok_def)
  have pend: "sp_pending (pending_of s) = map plain (the_queue s)" by (simp add: pending_of_def)
  show "pending_of (out_step e s) = spec_step e (pending_of s)"
  proof (cases e)
    case (Receipt i status)
    have c: "sp_calls (confirm i (pending_of s)) = sp_calls (pending_of s)" by (simp add: confirm_def keep_only_def)
    have id: "a\<lparr>sp_calls := sp_calls a - {i}\<rparr> = a" if "i \<notin> sp_calls a" for a :: spec
      using that by (intro spec.equality) auto
    show ?thesis unfolding Receipt
      using callback_refines(1) [OF remove_refines(2) [OF ok], of status i i] remove_refines(1) [OF ok, of i] c id
      by (simp add: receipt_packet_def)
  next
    case (ReadReceipt i)
    then show ?thesis using callback_refines(1) [OF ok] by (simp add: read_receipt_packet_def)
  next
    case (Clear m target)
    then show ?thesis
      using keep_filter [OF ids, of "\<lambda>_. False"] keep_filter [OF ids] by (simp add: clear_queue_def pend filter_plain)
  next
    case (Prune ids')
    then show ?thesis using keep_filter [OF ids] by (simp add: prune_stale_queue_def Let_def pend filter_plain)
  qed (simp_all only: out_step.simps enqueue_refines [OF ok] drain_refines [OF ok])
qed

section \<open>Properties\<close>

definition nothing_pending :: spec where
  "nothing_pending = \<lparr>sp_pending = [], sp_sent = (\<lambda>_. None), sp_calls = {}\<rparr>"

lemma empty_ok: "out_ok empty_outbox" and empty_pending: "pending_of empty_outbox = nothing_pending"
  by (auto simp: out_ok_def empty_outbox_def the_queue_def pending_of_def nothing_pending_def sent_of_def)

text \<open>C5: As long as its operations do not overlap, the outbox (list objects, shared entries,
  callbacks of drains) is the list of pending messages with their last sending times: every
  run gives what the specification gives, and no two queued messages share an id.\<close>

theorem outbox_refines:
  "pending_of (fold out_step ops empty_outbox) = fold spec_step ops nothing_pending
   \<and> distinct (map q_id (the_queue (fold out_step ops empty_outbox)))"
  using outbox.run_simulates [OF _ empty_ok, of ops] outbox.run_inv [OF _ empty_ok, of ops]
  by (simp add: empty_pending out_ok_def)

text \<open>The operations that leave a queued message alone.\<close>

fun leaves :: "qentry \<Rightarrow> out_op \<Rightarrow> bool" where
  "leaves e (Receipt i status) \<longleftrightarrow> i \<noteq> q_id e"
| "leaves e (ReadReceipt i) \<longleftrightarrow> i \<noteq> q_id e"
| "leaves e (Clear m target) \<longleftrightarrow> target \<noteq> '''' \<and> \<not> queue_matches_target m e target"
| "leaves e (Prune ids) \<longleftrightarrow> q_id e \<notin> set ids"
| "leaves e _ \<longleftrightarrow> True"

lemma spec_keeps_text:
  assumes "e \<in> set (sp_pending a)" "is_text e" "leaves e op"
  shows "e \<in> set (sp_pending (spec_step op a))"
  using assms by (cases op) (auto simp: Let_def confirm_def keep_only_def spec_drain_def stays_def)

lemma spec_run_keeps_text:
  "e \<in> set (sp_pending a) \<Longrightarrow> is_text e \<Longrightarrow> list_all (leaves e) ops \<Longrightarrow> e \<in> set (sp_pending (fold spec_step ops a))"
proof (induction ops arbitrary: a)
  case (Cons op ops)
  have "e \<in> set (sp_pending (spec_step op a))" using Cons.prems by (intro spec_keeps_text) simp_all
  then show ?case using Cons by simp
qed simp



end
