(* ===== verification/OutboxSteps.thy ===== *)
theory OutboxSteps
  imports Outbox
begin

text \<open>
  The outbox as its threads see it: drains run in timer threads and the retry loop, receipts
  come from Reticulum's thread, messages are queued and cleared from the web server.  None
  of them takes a lock, so a step of one may come between any two steps of another.  The
  theory gives the step relation, what holds in every reachable state, and two runs that
  lose an update: \<open>drain_queue\<close> ends by binding the list it built, whatever has been bound
  in the meantime.
\<close>

section \<open>Steps\<close>

datatype out_event =
    Queue string string string string string string
  | Confirm string string
  | ReadConfirm string
  | ClearFor peer_maps string
  | PruneIds "string list"
  | StartDrain string bool real
  | Visit nat
  | PacketLeaves nat
  | TextResult nat bool real
  | FileResult nat bool
  | FinishDrain nat

inductive out_steps_to :: "peer_maps \<Rightarrow> (string \<Rightarrow> bool) \<Rightarrow> outbox \<Rightarrow> out_event \<Rightarrow> outbox \<Rightarrow> bool" for m px where
  queue: "out_steps_to m px s (Queue fresh t c target path i) (enqueue fresh t c target path i s)"
| confirm: "out_steps_to m px s (Confirm i status) (receipt_packet i status s)"
| read_confirm: "out_steps_to m px s (ReadConfirm i) (read_receipt_packet i s)"
| clear: "out_steps_to m px s (ClearFor m' target) (clear_queue m' target s)"
| prune: "out_steps_to m px s (PruneIds ids) (snd (prune_stale_queue ids s))"
| start: "out_steps_to m px s (StartDrain peer files now) (start_drain peer files now s)"
| visit: "ob_drains s tid = Some d \<Longrightarrow> d_flight d = None \<Longrightarrow> next_entry s d = Some e \<Longrightarrow>
    out_steps_to m px s (Visit tid) (begin_visit m px tid d e s)"
| packet_leaves: "ob_drains s tid = Some d \<Longrightarrow> d_flight d = Some (e, False) \<Longrightarrow> is_text e \<Longrightarrow>
    out_steps_to m px s (PacketLeaves tid) (packet_left tid d e s)"
| text_result: "ob_drains s tid = Some d \<Longrightarrow> d_flight d = Some (e, left) \<Longrightarrow> is_text e \<Longrightarrow>
    out_steps_to m px s (TextResult tid left clock) (settle_text clock tid d e left s)"
| file_result: "ob_drains s tid = Some d \<Longrightarrow> d_flight d = Some (e, left) \<Longrightarrow> \<not> is_text e \<Longrightarrow>
    out_steps_to m px s (FileResult tid result) (settle_file tid d e result s)"
| finish: "ob_drains s tid = Some d \<Longrightarrow> d_flight d = None \<Longrightarrow> next_entry s d = None \<Longrightarrow>
    out_steps_to m px s (FinishDrain tid) (finish_drain tid d s)"

inductive_cases visitE: "out_steps_to m px s (Visit tid) s'"
inductive_cases finishE: "out_steps_to m px s (FinishDrain tid) s'"

inductive out_run :: "peer_maps \<Rightarrow> (string \<Rightarrow> bool) \<Rightarrow> outbox \<Rightarrow> out_event list \<Rightarrow> outbox \<Rightarrow> bool" for m px where
  none: "out_run m px s [] s"
| step: "out_steps_to m px s ev s' \<Longrightarrow> out_run m px s' evs s'' \<Longrightarrow> out_run m px s (ev # evs) s''"

inductive_simps out_run_simps [simp]: "out_run m px s [] s'" "out_run m px s (ev # evs) s'"

text \<open>The same relation as a function, to compute runs with.\<close>

fun out_next :: "peer_maps \<Rightarrow> (string \<Rightarrow> bool) \<Rightarrow> out_event \<Rightarrow> outbox \<Rightarrow> outbox option" where
  "out_next m px (Queue fresh t c target path i) s = Some (enqueue fresh t c target path i s)"
| "out_next m px (Confirm i status) s = Some (receipt_packet i status s)"
| "out_next m px (ReadConfirm i) s = Some (read_receipt_packet i s)"
| "out_next m px (ClearFor m' target) s = Some (clear_queue m' target s)"
| "out_next m px (PruneIds ids) s = Some (snd (prune_stale_queue ids s))"
| "out_next m px (StartDrain peer files now) s = Some (start_drain peer files now s)"
| "out_next m px (Visit tid) s = (case ob_drains s tid of None \<Rightarrow> None
   | Some d \<Rightarrow> if d_flight d = None then map_option (\<lambda>e. begin_visit m px tid d e s) (next_entry s d) else None)"
| "out_next m px (PacketLeaves tid) s = (case ob_drains s tid of None \<Rightarrow> None
   | Some d \<Rightarrow> (case d_flight d of Some (e, False) \<Rightarrow> if is_text e then Some (packet_left tid d e s) else None | _ \<Rightarrow> None))"
| "out_next m px (TextResult tid result clock) s = (case ob_drains s tid of None \<Rightarrow> None
   | Some d \<Rightarrow> (case d_flight d of Some (e, left) \<Rightarrow>
       if is_text e \<and> result = left then Some (settle_text clock tid d e left s) else None | None \<Rightarrow> None))"
| "out_next m px (FileResult tid result) s = (case ob_drains s tid of None \<Rightarrow> None
   | Some d \<Rightarrow> (case d_flight d of Some (e, left) \<Rightarrow> if is_text e then None else Some (settle_file tid d e result s) | None \<Rightarrow> None))"
| "out_next m px (FinishDrain tid) s = (case ob_drains s tid of None \<Rightarrow> None
   | Some d \<Rightarrow> if d_flight d = None \<and> next_entry s d = None then Some (finish_drain tid d s) else None)"

lemma step_next: "out_steps_to m px s ev s' \<longleftrightarrow> out_next m px ev s = Some s'"
proof
  assume "out_steps_to m px s ev s'"
  then show "out_next m px ev s = Some s'" by cases (auto split: bool.splits)
next
  assume "out_next m px ev s = Some s'"
  then show "out_steps_to m px s ev s'"
    by (cases ev) (auto split: option.splits bool.splits if_splits intro: out_steps_to.intros)
qed

fun out_exec :: "peer_maps \<Rightarrow> (string \<Rightarrow> bool) \<Rightarrow> out_event list \<Rightarrow> outbox \<Rightarrow> outbox option" where
  "out_exec m px [] s = Some s"
| "out_exec m px (ev # evs) s = (case out_next m px ev s of None \<Rightarrow> None | Some s' \<Rightarrow> out_exec m px evs s')"

lemma run_exec: "out_run m px s evs s' \<longleftrightarrow> out_exec m px evs s = Some s'"
  by (induction evs arbitrary: s) (auto simp: step_next split: option.split)

section \<open>What holds in every reachable state\<close>

definition in_flight :: "drain \<Rightarrow> qentry list" where
  "in_flight d = (case d_flight d of None \<Rightarrow> [] | Some (e, _) \<Rightarrow> [e])"

text \<open>What a drain holds comes from the part of its list that it has passed, each id once, and
  what it is sending is queued for its peer.\<close>

definition drain_ok :: "peer_maps \<Rightarrow> (nat \<Rightarrow> qentry list) \<Rightarrow> drain \<Rightarrow> bool" where
  "drain_ok m ls d \<longleftrightarrow> d_pos d \<le> length (ls (d_list d))
     \<and> distinct (map q_id (d_remaining d @ in_flight d))
     \<and> set (d_remaining d @ in_flight d) \<subseteq> set (take (d_pos d) (ls (d_list d)))
     \<and> (\<forall>e \<in> set (in_flight d). queue_matches_target m e (d_peer d))"

definition threads_ok :: "peer_maps \<Rightarrow> (qentry \<Rightarrow> bool) \<Rightarrow> outbox \<Rightarrow> bool" where
  "threads_ok m P s \<longleftrightarrow> ob_cur s < ob_next s
     \<and> (\<forall>a. distinct (map q_id (ob_lists s a)) \<and> (\<forall>e \<in> set (ob_lists s a). P e))
     \<and> (\<forall>tid d. ob_drains s tid = Some d \<longrightarrow> d_list d < ob_next s \<and> drain_ok m (ob_lists s) d)"

text \<open>The entry a \<open>Queue\<close> event asks for, up to its object.\<close>

definition asked_for :: "out_event list \<Rightarrow> qentry \<Rightarrow> bool" where
  "asked_for evs e \<longleftrightarrow> (\<exists>fresh i. Queue fresh (q_type e) (q_content e) (q_target e) (q_path e) i \<in> set evs
     \<and> q_id e = py_or i (take 12 fresh))"

named_theorems threads_intro \<open>steps that keep the threads of the outbox well-formed\<close>

lemma threads_sent_at [threads_intro]: "threads_ok m P s \<Longrightarrow> threads_ok m P (s\<lparr>ob_sent_at := f\<rparr>)"
  and threads_callbacks [threads_intro]: "threads_ok m P s \<Longrightarrow> threads_ok m P (s\<lparr>ob_callbacks := cb\<rparr>)"
  and threads_tid [threads_intro]: "threads_ok m P s \<Longrightarrow> threads_ok m P (s\<lparr>ob_next_tid := n\<rparr>)"
  by (simp_all add: threads_ok_def)

lemma threads_put [threads_intro]:
  "threads_ok m P s \<Longrightarrow> d_list d < ob_next s \<Longrightarrow> drain_ok m (ob_lists s) d \<Longrightarrow> threads_ok m P (put_drain tid d s)"
  by (simp add: threads_ok_def put_drain_def)

lemma threads_drop [threads_intro]: "threads_ok m P s \<Longrightarrow> threads_ok m P (s\<lparr>ob_drains := (ob_drains s)(tid := None)\<rparr>)"
  by (simp add: threads_ok_def)

lemma threads_rebind [threads_intro]:
  assumes "threads_ok m P s" "distinct (map q_id xs)" "\<forall>e \<in> set xs. P e"
  shows "threads_ok m P (rebind xs s)"
  unfolding threads_ok_def
proof (intro conjI allI impI)
  show "ob_cur (rebind xs s) < ob_next (rebind xs s)" by (simp add: rebind_def)
  show "distinct (map q_id (ob_lists (rebind xs s) a))" for a using assms by (simp add: rebind_def threads_ok_def)
  show "\<forall>e \<in> set (ob_lists (rebind xs s) a). P e" for a using assms by (simp add: rebind_def threads_ok_def)
  fix tid d assume "ob_drains (rebind xs s) tid = Some d"
  then have d: "d_list d < ob_next s" "drain_ok m (ob_lists s) d" using assms(1) by (auto simp: rebind_def threads_ok_def)
  then show "d_list d < ob_next (rebind xs s)" by (simp add: rebind_def)
  have "ob_lists (rebind xs s) (d_list d) = ob_lists s (d_list d)" using d(1) by (simp add: rebind_def)
  with d(2) show "drain_ok m (ob_lists (rebind xs s)) d" by (simp add: drain_ok_def)
qed

lemma threads_queue: "threads_ok m P s \<Longrightarrow> distinct (map q_id (the_queue s)) \<and> (\<forall>e \<in> set (the_queue s). P e)"
  by (simp add: threads_ok_def the_queue_def)

lemma threads_filter [threads_intro]: "threads_ok m P s \<Longrightarrow> threads_ok m P (rebind (filter Q (the_queue s)) s)"
  using threads_queue [of m P s] by (intro threads_rebind) (auto simp: distinct_map_filter)

lemma threads_remove [threads_intro]: "threads_ok m P s \<Longrightarrow> threads_ok m P (snd (remove_queue_entry i s))"
  by (simp add: remove_queue_entry_def Let_def threads_filter)

lemma drain_ok_confirmed [simp]: "drain_ok m ls (d\<lparr>d_confirmed := C\<rparr>) = drain_ok m ls d"
  by (simp add: drain_ok_def in_flight_def)

lemma threads_confirmed:
  assumes "threads_ok m P s"
  shows "threads_ok m P (s\<lparr>ob_drains := (ob_drains s)(tid := map_option (\<lambda>d. d\<lparr>d_confirmed := C d\<rparr>) (ob_drains s tid))\<rparr>)"
  using assms by (auto simp: threads_ok_def)

lemma threads_callback [threads_intro]: "threads_ok m P s \<Longrightarrow> threads_ok m P (run_callback i status s)"
proof (cases "ob_callbacks s i")
  case (Some tid)
  assume "threads_ok m P s"
  then have c: "threads_ok m P (s\<lparr>ob_callbacks := (ob_callbacks s)(i := None)\<rparr>)" by (rule threads_callbacks)
  from threads_remove [OF threads_confirmed [OF c, of tid "\<lambda>d. insert i (d_confirmed d)"]] c Some
  show ?thesis by (simp add: run_callback_def on_receipt_def Let_def)
qed (simp add: run_callback_def)

lemma threads_enqueue:
  assumes ok: "threads_ok m P s" and P: "\<And>e. asked_for [Queue fresh t c target path i] e \<Longrightarrow> P e"
  shows "threads_ok m P (enqueue fresh t c target path i s)"
proof -
  define e where "e = \<lparr>q_oid = ob_next_oid s, q_type = t, q_content = c, q_target = target, q_path = path,
    q_id = py_or i (take 12 fresh)\<rparr>"
  define ls where "ls = (ob_lists s)(ob_cur s := the_queue s @ [e])"
  have Pe: "P e" by (rule P) (auto simp: asked_for_def e_def)
  show ?thesis
  proof (cases "list_ex (\<lambda>x. q_id x = q_id e) (the_queue s)")
    case True
    then show ?thesis using ok by (simp add: enqueue_def Let_def e_def)
  next
    case False
    then have "enqueue fresh t c target path i s = s\<lparr>ob_lists := ls, ob_next_oid := Suc (ob_next_oid s)\<rparr>"
      by (simp add: enqueue_def Let_def e_def ls_def)
    moreover have "distinct (map q_id (ls a)) \<and> (\<forall>e \<in> set (ls a). P e)" for a
      using ok False Pe by (auto simp: threads_ok_def ls_def the_queue_def list_ex_iff)
    moreover have "drain_ok m ls d" if "drain_ok m (ob_lists s) d" for d
      using that by (auto simp: drain_ok_def ls_def the_queue_def)
    ultimately show ?thesis using ok by (simp add: threads_ok_def)
  qed
qed

text \<open>Visits: the next entry is new to what the drain holds.\<close>

lemma passed_next:
  assumes ok: "threads_ok m P s" and d: "ob_drains s tid = Some d" and n: "next_entry s d = Some e"
  shows "d_pos d < length (ob_lists s (d_list d))" "e \<in> set (take (Suc (d_pos d)) (ob_lists s (d_list d)))"
    "q_id e \<notin> q_id ` set (take (d_pos d) (ob_lists s (d_list d)))"
proof -
  let ?L = "ob_lists s (d_list d)"
  have p: "d_pos d < length ?L" "e = ?L ! d_pos d" using n by (auto simp: next_entry_def Let_def split: if_splits)
  have tk: "take (Suc (d_pos d)) ?L = take (d_pos d) ?L @ [e]" using p by (simp add: take_Suc_conv_app_nth)
  have "distinct (map q_id ?L)" using ok by (simp add: threads_ok_def)
  then have "distinct (map q_id (take (Suc (d_pos d)) ?L))" by (simp flip: take_map)
  then show "q_id e \<notin> q_id ` set (take (d_pos d) ?L)" unfolding tk by simp
  show "d_pos d < length ?L" by (rule p(1))
  show "e \<in> set (take (Suc (d_pos d)) ?L)" unfolding tk by simp
qed

lemma drain_ok_next:
  assumes ok: "threads_ok m P s" and d: "ob_drains s tid = Some d" "d_flight d = None" and n: "next_entry s d = Some e"
  shows "drain_ok m (ob_lists s) (d\<lparr>d_pos := Suc (d_pos d)\<rparr>)"
    "drain_ok m (ob_lists s) (d\<lparr>d_pos := Suc (d_pos d), d_remaining := d_remaining d @ [e]\<rparr>)"
    "queue_matches_target m e (d_peer d) \<Longrightarrow> drain_ok m (ob_lists s) (d\<lparr>d_pos := Suc (d_pos d), d_flight := Some (e, False)\<rparr>)"
proof -
  let ?L = "ob_lists s (d_list d)"
  note nx = passed_next [OF ok d(1) n]
  have h: "distinct (map q_id (d_remaining d))" "set (d_remaining d) \<subseteq> set (take (d_pos d) ?L)"
    using ok d by (auto simp: threads_ok_def drain_ok_def)
  have sub: "set (take (d_pos d) ?L) \<subseteq> set (take (Suc (d_pos d)) ?L)" by (rule set_take_subset_set_take) simp
  have new: "q_id e \<notin> q_id ` set (d_remaining d)" using h(2) nx(3) by blast
  have h': "set (d_remaining d) \<subseteq> set (take (Suc (d_pos d)) ?L)" using h(2) sub by (rule order_trans)
  show "drain_ok m (ob_lists s) (d\<lparr>d_pos := Suc (d_pos d)\<rparr>)"
    using h(1) h' nx d(2) by (simp add: drain_ok_def in_flight_def)
  show "drain_ok m (ob_lists s) (d\<lparr>d_pos := Suc (d_pos d), d_remaining := d_remaining d @ [e]\<rparr>)"
    using h(1) h' nx new d(2) by (simp add: drain_ok_def in_flight_def)
  show "drain_ok m (ob_lists s) (d\<lparr>d_pos := Suc (d_pos d), d_flight := Some (e, False)\<rparr>)"
    if "queue_matches_target m e (d_peer d)"
    using h(1) h' nx new that by (simp add: drain_ok_def in_flight_def)
qed

lemma drain_ok_settle:
  assumes "drain_ok m ls d" "d_flight d = Some (e, left)"
  shows "drain_ok m ls (d\<lparr>d_flight := Some (e, b)\<rparr>)" "drain_ok m ls (d\<lparr>d_flight := None, d_sent := n\<rparr>)"
    "drain_ok m ls (d\<lparr>d_flight := None, d_sent := n, d_remaining := d_remaining d @ [e]\<rparr>)"
    "drain_ok m ls (d\<lparr>d_flight := None, d_remaining := d_remaining d @ [e]\<rparr>)"
  using assms by (auto simp: drain_ok_def in_flight_def)

lemma threads_step:
  assumes step: "out_steps_to m px s ev s'" and ok: "threads_ok m P s" and P: "\<And>e. asked_for [ev] e \<Longrightarrow> P e"
  shows "threads_ok m P s'"
  using step
proof cases
  case (queue fresh t c target path i)
  then show ?thesis using ok P by (simp add: threads_enqueue)
next
  case (clear m' target)
  then show ?thesis using ok by (auto simp: clear_queue_def intro: threads_filter threads_rebind)
next
  case (prune ids)
  then show ?thesis using ok by (auto simp: prune_stale_queue_def Let_def intro: threads_filter)
next
  case (start peer files now)
  have "d_list (new_drain peer files now s) < ob_next s" "drain_ok m (ob_lists s) (new_drain peer files now s)"
    using ok by (simp_all add: threads_ok_def new_drain_def drain_ok_def in_flight_def)
  then show ?thesis using start ok by (auto simp: start_drain_def intro!: threads_put threads_tid)
next
  case (visit tid d e)
  have "d_list d < ob_next s" using ok visit by (simp add: threads_ok_def)
  moreover have "queue_matches_target m e (d_peer d)" if "visit_of m px (ob_sent_at s) d e \<in> {SendText, SendFile}"
    using that by (auto simp: visit_of_def split: if_splits)
  ultimately show ?thesis
    using visit ok drain_ok_next [OF ok visit(3,4,5)]
    by (auto simp: begin_visit_def Let_def split: visit.split intro!: threads_put threads_sent_at)
next
  case (packet_leaves tid d e)
  have "d_list d < ob_next s" "drain_ok m (ob_lists s) d" using ok packet_leaves by (auto simp: threads_ok_def)
  then show ?thesis using packet_leaves ok drain_ok_settle(1)
    by (auto simp: packet_left_def intro!: threads_put threads_callbacks)
next
  case (text_result tid d e left clock)
  have "d_list d < ob_next s" "drain_ok m (ob_lists s) d" using ok text_result by (auto simp: threads_ok_def)
  then show ?thesis using text_result ok drain_ok_settle(2-4)
    by (auto simp: settle_text_def Let_def intro!: threads_put threads_sent_at)
next
  case (file_result tid d e left result)
  have "d_list d < ob_next s" "drain_ok m (ob_lists s) d" using ok file_result by (auto simp: threads_ok_def)
  then show ?thesis using file_result ok drain_ok_settle(2-4)
    by (auto simp: settle_file_def Let_def intro!: threads_put)
next
  case (finish tid d)
  have d: "drain_ok m (ob_lists s) d" using ok finish by (auto simp: threads_ok_def)
  have "set (d_remaining d) \<subseteq> set (ob_lists s (d_list d))" using d set_take_subset by (fastforce simp: drain_ok_def)
  then have P': "\<forall>e \<in> set (d_remaining d). P e" using ok by (auto simp: threads_ok_def)
  have "distinct (map q_id (d_remaining d))" using d by (simp add: drain_ok_def)
  from threads_rebind [OF threads_drop [OF ok] this P'] show ?thesis using finish by (simp add: finish_drain_def)
qed (use ok in \<open>simp_all add: receipt_packet_def read_receipt_packet_def threads_callback threads_remove\<close>)

lemma threads_run:
  assumes "out_run m px s evs s'" "threads_ok m P s" "\<And>e. asked_for evs e \<Longrightarrow> P e"
  shows "threads_ok m P s'"
  using assms
proof (induction rule: out_run.induct)
  case (step s ev s' evs s'')
  have "threads_ok m P s'"
    using step.hyps(1) step.prems by (rule threads_step) (auto simp: asked_for_def intro!: step.prems(2))
  moreover have "\<And>e. asked_for evs e \<Longrightarrow> P e" using step.prems(2) by (auto simp: asked_for_def)
  ultimately show ?case by (rule step.IH)
qed

lemma empty_threads: "threads_ok m P empty_outbox"
  by (simp add: threads_ok_def empty_outbox_def)

text \<open>C21: However drains, receipts and requests interleave, no two queued messages have the same
  id and every queued message is one that was asked for, with its text, target and id
  unchanged.\<close>

theorem queue_sound:
  assumes "out_run m px empty_outbox evs s"
  shows "distinct (map q_id (the_queue s)) \<and> list_all (asked_for evs) (the_queue s)"
  using threads_queue [OF threads_run [OF assms empty_threads]] by (auto simp: list_all_iff)

text \<open>A drain only ever sends messages that are queued for its peer, whatever the other
  threads do to the queue meanwhile.\<close>

theorem drain_sends_own:
  assumes "out_run m px empty_outbox evs s" "ob_drains s tid = Some d" "d_flight d = Some (e, left)"
  shows "queue_matches_target m e (d_peer d) \<and> asked_for evs e"
proof -
  have ok: "threads_ok m (asked_for evs) s" by (rule threads_run [OF assms(1) empty_threads])
  then have d: "drain_ok m (ob_lists s) d" using assms(2) by (auto simp: threads_ok_def)
  then have "e \<in> set (ob_lists s (d_list d))"
    using assms(3) by (auto simp: drain_ok_def in_flight_def dest: in_set_takeD)
  with ok d assms(3) show ?thesis by (auto simp: threads_ok_def drain_ok_def in_flight_def)
qed

definition one_queued :: "out_event list" where
  "one_queued = [Queue ''f'' ''text'' ''hi'' ''p'' '''' ''m1'', StartDrain ''p'' True 4, Visit 0]"

lemma queue_sound_witness:
  "\<exists>s. out_run no_maps (\<lambda>_. False) empty_outbox one_queued s \<and> map q_id (the_queue s) = [''m1'']
     \<and> list_all (asked_for one_queued) (the_queue s)"
proof -
  have "map_option (\<lambda>s. map q_id (the_queue s)) (out_exec no_maps (\<lambda>_. False) one_queued empty_outbox) = Some [''m1'']"
    by code_simp
  then obtain s where s: "out_run no_maps (\<lambda>_. False) empty_outbox one_queued s" "map q_id (the_queue s) = [''m1'']"
    by (auto simp: run_exec)
  with queue_sound [OF s(1)] show ?thesis by (intro exI [of _ s]) simp
qed

lemma drain_sends_own_witness:
  "\<exists>s d e. out_run no_maps (\<lambda>_. False) empty_outbox one_queued s \<and> ob_drains s 0 = Some d \<and> d_flight d = Some (e, False)
     \<and> queue_matches_target no_maps e (d_peer d)"
proof -
  have "map_option (\<lambda>s. map_option (\<lambda>d. map_option snd (d_flight d)) (ob_drains s 0))
      (out_exec no_maps (\<lambda>_. False) one_queued empty_outbox) = Some (Some (Some False))" by code_simp
  then obtain s d x where r: "out_exec no_maps (\<lambda>_. False) one_queued empty_outbox = Some s" "ob_drains s 0 = Some d"
    "d_flight d = Some x" "snd x = False"
    by (auto simp del: out_exec.simps)
  have run: "out_run no_maps (\<lambda>_. False) empty_outbox one_queued s" using r(1) by (simp add: run_exec)
  have f: "d_flight d = Some (fst x, False)" using r(3,4) by (cases x) simp
  from drain_sends_own [OF run r(2) f] run r(2) f show ?thesis by (intro exI [of _ s] exI [of _ d] exI [of _ "fst x"]) simp
qed

section \<open>Lost updates\<close>

text \<open>Two texts for two peers.  The first is sent; its receipt comes before the send has
  returned and binds a new list; the second is appended to that list; the drain ends and
  binds the list it built.\<close>

definition sent_first :: "out_event list" where
  "sent_first = [Queue ''f'' ''text'' ''hi'' ''p'' '''' ''m1'', StartDrain ''p'' True 4, Visit 0, PacketLeaves 0,
     Confirm ''m1'' ''received'', Queue ''f'' ''text'' ''yo'' ''q'' '''' ''m2'']"

definition send_returns :: "out_event list" where
  "send_returns = [TextResult 0 True 5, FinishDrain 0]"

lemma out_run_append: "out_run m px s (xs @ ys) s'' \<longleftrightarrow> (\<exists>s'. out_run m px s xs s' \<and> out_run m px s' ys s'')"
  by (induction xs arbitrary: s) auto

text \<open>C29: A message that was queued can be lost: it was never sent, confirmed or cleared, and is
  in the queue until a drain for another peer ends.\<close>

theorem queued_message_lost:
  "\<exists>s s'. out_run no_maps (\<lambda>_. False) empty_outbox sent_first s \<and> map q_id (the_queue s) = [''m2'']
     \<and> out_run no_maps (\<lambda>_. False) s send_returns s' \<and> the_queue s' = []"
proof -
  have 1: "map_option (\<lambda>s. map q_id (the_queue s)) (out_exec no_maps (\<lambda>_. False) sent_first empty_outbox) = Some [''m2'']"
    by code_simp
  have 2: "map_option the_queue (out_exec no_maps (\<lambda>_. False) (sent_first @ send_returns) empty_outbox) = Some []"
    by code_simp
  from 2 obtain s' where r: "out_run no_maps (\<lambda>_. False) empty_outbox (sent_first @ send_returns) s'" "the_queue s' = []"
    by (auto simp: run_exec)
  then obtain s where s: "out_run no_maps (\<lambda>_. False) empty_outbox sent_first s" "out_run no_maps (\<lambda>_. False) s send_returns s'"
    by (auto simp: out_run_append)
  then have "map q_id (the_queue s) = [''m2'']" using 1 by (simp add: run_exec)
  with s r show ?thesis by (intro exI [of _ s] exI [of _ s'] conjI)
qed

text \<open>In the same way a message comes back although its receipt has arrived: it was already in
  the list the drain builds.  The next drain but thirty seconds sends it again.\<close>

lemma confirmed_message_returns:
  "\<exists>s. out_run no_maps (\<lambda>_. False) empty_outbox
     [Queue ''f'' ''text'' ''hi'' ''p'' '''' ''m1'', Queue ''f'' ''text'' ''yo'' ''p'' '''' ''m2'',
      StartDrain ''p'' True 4, Visit 0, PacketLeaves 0, TextResult 0 True 5,
      Visit 0, PacketLeaves 0, Confirm ''m1'' ''received'', TextResult 0 True 6, FinishDrain 0,
      StartDrain ''p'' True 40, Visit 1] s
   \<and> map_option (\<lambda>d. map_option (\<lambda>(e, _). q_id e) (d_flight d)) (ob_drains s 1) = Some (Some ''m1'')"
proof -
  have "map_option (\<lambda>s. map_option (\<lambda>d. map_option (\<lambda>(e, _). q_id e) (d_flight d)) (ob_drains s 1))
    (out_exec no_maps (\<lambda>_. False)
     [Queue ''f'' ''text'' ''hi'' ''p'' '''' ''m1'', Queue ''f'' ''text'' ''yo'' ''p'' '''' ''m2'',
      StartDrain ''p'' True 4, Visit 0, PacketLeaves 0, TextResult 0 True 5,
      Visit 0, PacketLeaves 0, Confirm ''m1'' ''received'', TextResult 0 True 6, FinishDrain 0,
      StartDrain ''p'' True 40, Visit 1] empty_outbox) = Some (Some (Some ''m1''))" by code_simp
  then show ?thesis unfolding run_exec by (auto simp del: out_exec.simps)
qed

end
