(* ===== verification/Identities.thy ===== *)
theory Identities
  imports PyPrelude
begin

text \<open>
  The two identities of a node (\<open>core/identity.py\<close>): \<open>DualIdentityManager\<close> keeps one for the
  LAN and one for USB, each in a file of the configuration directory, and takes over the
  single file of older versions.  An identity is Reticulum's: reading and writing its file,
  its hash and its destination are a record of functions, new identities are arguments.  The
  calls that create the directory succeed.
\<close>

datatype id_file = LanFile | SerialFile | LegacyFile

instantiation id_file :: enum
begin

definition "enum_id_file = [LanFile, SerialFile, LegacyFile]"
definition "enum_all_id_file P \<longleftrightarrow> P LanFile \<and> P SerialFile \<and> P LegacyFile"
definition "enum_ex_id_file P \<longleftrightarrow> P LanFile \<or> P SerialFile \<or> P LegacyFile"

instance
proof
  have all: "(UNIV :: id_file set) = {LanFile, SerialFile, LegacyFile}" using id_file.exhaust by blast
  then show "(UNIV :: id_file set) = set enum_class.enum" by (simp add: enum_id_file_def)
  show "distinct (enum_class.enum :: id_file list)" by (simp add: enum_id_file_def)
  fix P :: "id_file \<Rightarrow> bool"
  show "enum_class.enum_all P \<longleftrightarrow> Ball UNIV P" unfolding all by (simp add: enum_all_id_file_def)
  show "enum_class.enum_ex P \<longleftrightarrow> Bex UNIV P" unfolding all by (simp add: enum_ex_id_file_def)
qed

end

text \<open>Reticulum: \<open>Identity.from_file\<close> on the bytes of a file, \<open>to_file\<close>, \<open>hexrep(hash)\<close>, and
  \<open>message_dest_hash_for_identity\<close> (none when it raises).\<close>

record 'i id_api =
  from_bytes :: "string \<Rightarrow> 'i option"
  to_bytes :: "'i \<Rightarrow> string"
  id_hexrep :: "'i \<Rightarrow> string"
  id_dest :: "'i \<Rightarrow> string option"

record 'i id_manager =
  id_files :: "id_file \<Rightarrow> string option"
  identity_lan :: "'i option"
  identity_serial :: "'i option"

definition new_manager :: "(id_file \<Rightarrow> string option) \<Rightarrow> 'i id_manager" where
  "new_manager files = \<lparr>id_files = files, identity_lan = None, identity_serial = None\<rparr>"

definition migrate_legacy :: "'i id_manager \<Rightarrow> 'i id_manager" where
  "migrate_legacy s = (if id_files s LanFile \<noteq> None then s
     else case id_files s LegacyFile of None \<Rightarrow> s
     | Some bytes \<Rightarrow> s\<lparr>id_files := (id_files s)(LanFile := Some bytes)\<rparr>)"

definition load_file :: "'i id_api \<Rightarrow> id_file \<Rightarrow> 'i id_manager \<Rightarrow> 'i option" where
  "load_file api f s = (case id_files s f of None \<Rightarrow> None | Some bytes \<Rightarrow> from_bytes api bytes)"

definition save_file :: "'i id_api \<Rightarrow> 'i \<Rightarrow> id_file \<Rightarrow> 'i id_manager \<Rightarrow> 'i id_manager" where
  "save_file api i f s = s\<lparr>id_files := (id_files s)(f := Some (to_bytes api i))\<rparr>"

text \<open>The identity of a file, or a new one, which is saved.\<close>

definition load_or_new :: "'i id_api \<Rightarrow> id_file \<Rightarrow> 'i \<Rightarrow> 'i id_manager \<Rightarrow> 'i \<times> 'i id_manager" where
  "load_or_new api f new s = (case load_file api f s of Some i \<Rightarrow> (i, s) | None \<Rightarrow> (new, save_file api new f s))"

definition load_or_create :: "'i id_api \<Rightarrow> 'i \<Rightarrow> 'i \<Rightarrow> bool \<Rightarrow> 'i id_manager \<Rightarrow> 'i id_manager" where
  "load_or_create api new_lan new_serial serial_enabled s = (
     case load_or_new api LanFile new_lan (migrate_legacy s) of (lan, s) \<Rightarrow>
       let s = s\<lparr>identity_lan := Some lan\<rparr> in
       if serial_enabled
       then (case load_or_new api SerialFile new_serial s of (serial, s) \<Rightarrow> s\<lparr>identity_serial := Some serial\<rparr>)
       else s\<lparr>identity_serial := load_file api SerialFile s\<rparr>)"

definition is_serial_role :: "string \<Rightarrow> bool" where
  "is_serial_role role \<longleftrightarrow> py_lower (py_strip (py_or role ''lan'')) = ''serial''"

definition get_identity :: "string \<Rightarrow> 'i id_manager \<Rightarrow> 'i option" where
  "get_identity role s = (if is_serial_role role then identity_serial s else identity_lan s)"

definition get_hex_hash :: "'i id_api \<Rightarrow> string \<Rightarrow> 'i id_manager \<Rightarrow> string option" where
  "get_hex_hash api role s = map_option (id_hexrep api) (get_identity role s)"

definition get_connect_hash :: "'i id_api \<Rightarrow> string \<Rightarrow> 'i id_manager \<Rightarrow> string" where
  "get_connect_hash api role s = (case get_identity role s of None \<Rightarrow> ''''
     | Some i \<Rightarrow> orE (id_dest api i))"

definition regenerate :: "'i id_api \<Rightarrow> 'i \<Rightarrow> string \<Rightarrow> 'i id_manager \<Rightarrow> 'i id_manager" where
  "regenerate api new role s = (
     if is_serial_role role then
       (let s = s\<lparr>id_files := (id_files s)(SerialFile := None)\<rparr>; s = s\<lparr>identity_serial := Some new\<rparr> in save_file api new SerialFile s)
     else
       (let s = s\<lparr>id_files := (id_files s)(LanFile := None)\<rparr>; s = s\<lparr>identity_lan := Some new\<rparr> in save_file api new LanFile s))"

record id_entry =
  ie_connect :: string
  ie_identity :: "string option"

record id_payload =
  ip_lan :: id_entry
  ip_serial :: "id_entry option"
  ip_hash :: string
  ip_identity_hash :: string

definition identity_payload :: "'i id_api \<Rightarrow> 'i id_manager \<Rightarrow> id_payload" where
  "identity_payload api s = (let
     lan = \<lparr>ie_connect = get_connect_hash api ''lan'' s, ie_identity = get_hex_hash api ''lan'' s\<rparr>;
     serial = (if identity_serial s = None then None
       else Some \<lparr>ie_connect = get_connect_hash api ''serial'' s, ie_identity = get_hex_hash api ''serial'' s\<rparr>)
     in \<lparr>ip_lan = lan, ip_serial = serial, ip_hash = ie_connect lan, ip_identity_hash = orE (ie_identity lan)\<rparr>)"

section \<open>Identities survive a restart\<close>

text \<open>What is saved can be read: Reticulum's \<open>from_file\<close> after \<open>to_file\<close>.\<close>

definition readable :: "'i id_api \<Rightarrow> bool" where
  "readable api \<longleftrightarrow> (\<forall>i. from_bytes api (to_bytes api i) = Some i)"

text \<open>The memory agrees with the files.\<close>

definition in_sync :: "'i id_api \<Rightarrow> 'i id_manager \<Rightarrow> bool" where
  "in_sync api s \<longleftrightarrow> identity_lan s \<noteq> None \<and> load_file api LanFile s = identity_lan s
     \<and> load_file api SerialFile s = identity_serial s"

lemma load_or_new_loads:
  assumes "readable api" "load_or_new api f new s = (i, t)"
  shows "load_file api f t = Some i" "g \<noteq> f \<Longrightarrow> load_file api g t = load_file api g s"
  using assms by (auto simp: load_or_new_def load_file_def save_file_def readable_def split: option.splits)

lemma load_or_new_same: "load_file api f s = Some i \<Longrightarrow> load_or_new api f new s = (i, s)"
  by (simp add: load_or_new_def)

lemma memory_frame [simp]:
  "load_file api f (s\<lparr>identity_lan := x\<rparr>) = load_file api f s" "load_file api f (s\<lparr>identity_serial := x\<rparr>) = load_file api f s"
  by (simp_all add: load_file_def)

lemma load_in_sync:
  assumes api: "readable api" shows "in_sync api (load_or_create api n m e s)"
proof -
  obtain i t where i: "load_or_new api LanFile n (migrate_legacy s) = (i, t)" by force
  note lan = load_or_new_loads [OF api i]
  show ?thesis
  proof (cases e)
    case False
    then show ?thesis using lan by (simp add: load_or_create_def i in_sync_def)
  next
    case True
    obtain j u where j: "load_or_new api SerialFile m (t\<lparr>identity_lan := Some i\<rparr>) = (j, u)" by force
    have "identity_lan u = Some i" using j by (auto simp: load_or_new_def save_file_def split: option.splits)
    then show ?thesis using True lan load_or_new_loads [OF api j]
      by (simp add: load_or_create_def i j in_sync_def)
  qed
qed

lemma reload:
  assumes sync: "in_sync api s" and some: "\<not> e \<or> identity_serial s \<noteq> None"
  shows "load_or_create api n m e (new_manager (id_files s)) = s"
proof -
  obtain i where i: "identity_lan s = Some i" "load_file api LanFile s = Some i" using sync by (auto simp: in_sync_def)
  then have "id_files s LanFile \<noteq> None" by (auto simp: load_file_def split: option.splits)
  then have m: "migrate_legacy (new_manager (id_files s)) = new_manager (id_files s)"
    by (simp add: migrate_legacy_def new_manager_def)
  have l: "load_file api f (new_manager (id_files s)) = load_file api f s" for f by (simp add: load_file_def new_manager_def)
  have s: "load_file api SerialFile s = identity_serial s" using sync by (simp add: in_sync_def)
  have eq: "(new_manager (id_files s))\<lparr>identity_lan := Some i, identity_serial := identity_serial s\<rparr> = s"
    using i(1) by (intro id_manager.equality) (simp_all add: new_manager_def)
  show ?thesis
  proof (cases e)
    case False
    then show ?thesis using eq by (simp add: load_or_create_def load_or_new_def l m i s)
  next
    case True
    then obtain j where "identity_serial s = Some j" using some by auto
    then show ?thesis using True eq s by (simp add: load_or_create_def load_or_new_def l m i)
  qed
qed

lemma regenerate_in_sync:
  assumes "readable api" "in_sync api s" shows "in_sync api (regenerate api new role s)"
  using assms by (auto simp: regenerate_def in_sync_def readable_def save_file_def load_file_def Let_def)

datatype 'i id_op = Load 'i 'i bool | Regenerate 'i string

fun id_op_of :: "'i id_api \<Rightarrow> 'i id_op \<Rightarrow> 'i id_manager \<Rightarrow> 'i id_manager" where
  "id_op_of api (Load n m e) s = load_or_create api n m e s"
| "id_op_of api (Regenerate new role) s = regenerate api new role s"

lemma run_in_sync:
  "readable api \<Longrightarrow> in_sync api s \<Longrightarrow> in_sync api (fold (id_op_of api) ops s)"
proof (induction ops arbitrary: s)
  case (Cons op ops)
  then show ?case by (cases op) (auto intro: load_in_sync regenerate_in_sync)
qed simp


text \<open>Regenerating one identity leaves the other one and its file alone, and an identity of an
  older version is kept: the first start takes it over.\<close>

lemma regenerate_other:
  "\<not> is_serial_role role \<Longrightarrow> identity_serial (regenerate api new role s) = identity_serial s
     \<and> id_files (regenerate api new role s) SerialFile = id_files s SerialFile"
  "is_serial_role role \<Longrightarrow> identity_lan (regenerate api new role s) = identity_lan s
     \<and> id_files (regenerate api new role s) LanFile = id_files s LanFile"
  by (simp_all add: regenerate_def save_file_def Let_def)

lemma legacy_kept:
  assumes "id_files s LanFile = None" "id_files s LegacyFile = Some bytes" "from_bytes api bytes = Some i"
  shows "identity_lan (load_or_create api n m e s) = Some i
    \<and> id_files (load_or_create api n m e s) LanFile = Some bytes"
proof -
  have "load_file api LanFile (migrate_legacy s) = Some i" using assms by (simp add: migrate_legacy_def load_file_def)
  then show ?thesis using assms
    by (auto simp: load_or_create_def load_or_new_def migrate_legacy_def save_file_def Let_def split: option.split)
qed

definition demo_ids :: "string id_api" where
  "demo_ids = \<lparr>from_bytes = Some, to_bytes = (\<lambda>i. i), id_hexrep = (\<lambda>i. i), id_dest = Some\<rparr>"


end
