(* ===== verification/FileServe.thy ===== *)
theory FileServe
  imports SafePaths
begin

text \<open>
  Files over HTTP: the URL the daemon gives for a received or sent file and the request that
  fetches it (\<open>_file_url\<close>, \<open>handle_serve_file\<close> in \<open>rnsd/service.py\<close>), and the chunked,
  ranged response (\<open>utils/file_serve.py\<close>).  Strings stand for their UTF-8 bytes, on which
  \<open>quote\<close> and \<open>unquote\<close> work.  The HTTP library decodes the path once before the handler
  sees it.  The configured directories are absolute, as \<open>_normalize_received_dir\<close> stores them.
\<close>

section \<open>Quoting\<close>

definition hex_up :: "nat \<Rightarrow> char" where
  "hex_up n = (if n < 10 then char_of (48 + n) else char_of (55 + n))"

definition unreserved :: "char \<Rightarrow> bool" where
  "unreserved c = (let n = (of_char c :: nat) in (65 \<le> n \<and> n \<le> 90) \<or> (97 \<le> n \<and> n \<le> 122) \<or> (48 \<le> n \<and> n \<le> 57)
     \<or> c \<in> {CHR ''_'', CHR ''.'', CHR ''-'', CHR ''~''})"

definition quote :: "string \<Rightarrow> string" where
  "quote s = concat (map (\<lambda>c. if unreserved c then [c]
     else [CHR ''%'', hex_up ((of_char c :: nat) div 16), hex_up ((of_char c :: nat) mod 16)]) s)"

text \<open>The two digits after a percent sign, when they are hexadecimal.\<close>

fun escaped :: "string \<Rightarrow> (char \<times> string) option" where
  "escaped (a # b # r) = (case (hex_digit a, hex_digit b) of
       (Some x, Some y) \<Rightarrow> Some (char_of (16 * x + y), r) | _ \<Rightarrow> None)"
| "escaped _ = None"

lemma escaped_shorter: "escaped s = Some (c, r) \<Longrightarrow> length r < length s"
  by (induction s rule: escaped.induct) (auto split: option.splits)

text \<open>Unquoting ends: what follows an escape is shorter.\<close>

lemma escape_shorter [termination_simp]:
  "(if c = CHR ''%'' then escaped s else None) = Some (d, r) \<Longrightarrow> length r < Suc (length s)"
  using escaped_shorter by (fastforce split: if_splits)

fun unquote :: "string \<Rightarrow> string" where
  "unquote [] = []"
| "unquote (c # cs) = (case (if c = CHR ''%'' then escaped cs else None) of
       None \<Rightarrow> c # unquote cs | Some (d, r) \<Rightarrow> d # unquote r)"

section \<open>URLs of files\<close>

record serve_dirs =
  sd_config :: string
  sd_received :: "string option"    \<comment> \<open>\<open>received_dir\<close> of the settings\<close>

definition received_dir :: "serve_dirs \<Rightarrow> string" where
  "received_dir d = normpath (case sd_received d of Some r \<Rightarrow> r | None \<Rightarrow> path_join (sd_config d) [''received''])"

definition sent_dir :: "serve_dirs \<Rightarrow> string" where
  "sent_dir d = normpath (path_join (sd_config d) [''sent''])"

definition encode_file_rel :: "string \<Rightarrow> string" where
  "encode_file_rel rel = slash_join (map quote (py_split slash (fwd_slashes rel)))"

text \<open>\<open>os.path.relpath\<close> of absolute paths.\<close>

fun drop_common :: "string list \<Rightarrow> string list \<Rightarrow> string list \<times> string list" where
  "drop_common (a # as) (b # bs) = (if a = b then drop_common as bs else (a # as, b # bs))"
| "drop_common as bs = (as, bs)"

definition relpath :: "string \<Rightarrow> string \<Rightarrow> string" where
  "relpath p start = (case drop_common (norm_comps p) (norm_comps start) of (rest, ups) \<Rightarrow>
     let parts = map (\<lambda>_. ''..'') ups @ rest in if parts = [] then ''.'' else slash_join parts)"

abbreviation below :: "string \<Rightarrow> string \<Rightarrow> bool" where
  "below dir p \<equiv> prefix (dir @ ''/'') p"

definition file_url :: "(string \<Rightarrow> bool) \<Rightarrow> serve_dirs \<Rightarrow> string \<Rightarrow> string" where
  "file_url is_file d filepath = (if filepath = '''' then ''''
     else let full = normpath filepath in
       if \<not> is_file full then ''''
       else let received = received_dir d; sent = sent_dir d; dflt = normpath (path_join (sd_config d) [''received'']) in
         if below received full \<or> full = received then ''/api/file/received/'' @ encode_file_rel (relpath full received)
         else if below sent full \<or> full = sent then ''/api/file/sent/'' @ encode_file_rel (relpath full sent)
         else if below dflt full then ''/api/file/received/'' @ encode_file_rel (relpath full dflt)
         else '''')"

text \<open>The path a request names, when it is allowed (\<open>None\<close> is the answer 403).\<close>

definition unquote_parts :: "string \<Rightarrow> string" where
  "unquote_parts s = slash_join (map unquote (py_split slash s))"

definition serve_path :: "serve_dirs \<Rightarrow> string \<Rightarrow> string option" where
  "serve_path d match = (let
     filepath = unquote match; received = received_dir d; sent = sent_dir d;
     full = (if prefix ''received/'' filepath then normpath (path_join received [unquote_parts (drop 9 filepath)])
       else if prefix ''sent/'' filepath then normpath (path_join sent [unquote_parts (drop 5 filepath)])
       else normpath (path_join (sd_config d) [unquote_parts filepath]))
     in if below received full \<or> full = received \<or> below sent full \<or> full = sent then Some full else None)"

datatype served = Forbidden | NotFound | Serve string

definition handle_serve_file :: "(string \<Rightarrow> bool) \<Rightarrow> serve_dirs \<Rightarrow> string \<Rightarrow> served" where
  "handle_serve_file is_file d match = (case serve_path d match of None \<Rightarrow> Forbidden
     | Some full \<Rightarrow> if is_file full then Serve full else NotFound)"

section \<open>Ranges and chunks\<close>

text \<open>\<open>spec.split("-", 1)\<close> of a text with a hyphen, and the two bounds of the range.\<close>

definition split_hyphen :: "string \<Rightarrow> string \<times> string" where
  "split_hyphen s = (takeWhile (\<lambda>c. c \<noteq> CHR ''-'') s, tl (dropWhile (\<lambda>c. c \<noteq> CHR ''-'') s))"

definition range_bounds :: "string \<Rightarrow> int \<Rightarrow> int \<times> int" where
  "range_bounds spec nbytes = (case split_hyphen spec of (left, right) \<Rightarrow>
     case (if left = '''' then Some 0 else map_option (max 0) (py_int left)) of
       None \<Rightarrow> (0, nbytes - 1)
     | Some start \<Rightarrow> (case (if right = '''' then Some (nbytes - 1) else map_option (min (nbytes - 1)) (py_int right)) of
           None \<Rightarrow> (0, nbytes - 1) | Some end' \<Rightarrow> (start, end')))"

datatype reply = NotSatisfiable | Reply int int int    \<comment> \<open>status, first byte, length\<close>

definition range_reply :: "string \<Rightarrow> int \<Rightarrow> reply" where
  "range_reply range_hdr nbytes = (let
     ranged = prefix ''bytes='' range_hdr; spec = py_strip (drop 6 range_hdr);
     (start, end') = (if ranged \<and> CHR ''-'' \<in> set spec then range_bounds spec nbytes else (0, nbytes - 1)) in
     if ranged \<and> (end' < start \<or> nbytes \<le> start) then NotSatisfiable
     else Reply (if (start \<noteq> 0 \<or> end' \<noteq> nbytes - 1) \<and> range_hdr \<noteq> '''' then 206 else 200) start (max 0 (end' - start + 1)))"

text \<open>The loop that writes the body; \<open>src\<close> is what is left of the file.\<close>

function write_chunks :: "nat \<Rightarrow> string \<Rightarrow> nat \<Rightarrow> string list" where
  "write_chunks chunk_size src remaining = (if remaining = 0 then []
     else let chunk = take (min chunk_size remaining) src in
       if chunk = [] then [] else chunk # write_chunks chunk_size (drop (length chunk) src) (remaining - length chunk))"
  by pat_completeness auto
termination
  by (relation "measure (\<lambda>(c, src, remaining). remaining)") (auto simp: Let_def)

declare write_chunks.simps [simp del]

definition stream_file :: "nat \<Rightarrow> string \<Rightarrow> string \<Rightarrow> (int \<times> string list) option" where
  "stream_file chunk_size range_hdr contents = (case range_reply range_hdr (int (length contents)) of
     NotSatisfiable \<Rightarrow> None
   | Reply status start len \<Rightarrow> Some (status, write_chunks chunk_size (drop (nat start) contents) (nat len)))"

section \<open>Quoting and unquoting\<close>

lemma hex_up_digit: "n < 16 \<Longrightarrow> hex_digit (hex_up n) = Some n"
  by (auto simp: hex_up_def hex_digit_def Let_def)

lemma unquote_quote_append: "unquote (quote p @ s) = p @ unquote s"
proof (induction p)
  case (Cons c p)
  show ?case
  proof (cases "unreserved c")
    case True
    then have "c \<noteq> CHR ''%''" by (auto simp: unreserved_def)
    with True Cons show ?thesis by (simp add: quote_def)
  next
    case False
    have "(of_char c :: nat) div 16 < 16" by (rule less_mult_imp_div_less) simp
    moreover have "(of_char c :: nat) mod 16 < 16" by simp
    ultimately have "hex_digit (hex_up ((of_char c :: nat) div 16)) = Some (of_char c div 16)"
      "hex_digit (hex_up ((of_char c :: nat) mod 16)) = Some (of_char c mod 16)"
      by (simp_all only: hex_up_digit)
    then have "escaped (hex_up ((of_char c :: nat) div 16) # hex_up ((of_char c :: nat) mod 16) # r) = Some (c, r)" for r
      by simp
    with False Cons show ?thesis by (simp add: quote_def)
  qed
qed (simp add: quote_def)

lemma unquote_quote: "unquote (quote p) = p"
  using unquote_quote_append [of p "[]"] by simp

lemma unquote_plain: "CHR ''%'' \<notin> set s \<Longrightarrow> unquote s = s"
  by (induction s) auto

lemma unquote_slash: "unquote (CHR ''/'' # s) = CHR ''/'' # unquote s"
  by simp

lemma unquote_joined: "unquote (slash_join (map quote ps)) = slash_join ps"
  by (induction ps rule: slash_join.induct) (simp_all add: unquote_quote unquote_quote_append)

section \<open>What is served\<close>

lemma prefix_comps:
  assumes cs: "\<forall>c \<in> set cs. good_part c" "cs \<noteq> []" and ds: "\<forall>c \<in> set ds. good_part c"
    and p: "prefix (abs_path n cs @ ''/'') (abs_path m ds)"
  shows "n = m \<and> (\<exists>es. ds = cs @ es)"
proof -
  obtain r where r: "abs_path m ds = abs_path n cs @ ''/'' @ r" using p by (auto simp: prefix_def)
  have dne: "ds \<noteq> []"
  proof
    assume "ds = []"
    then have "set (abs_path m ds) \<subseteq> {slash}" by (auto simp: abs_path_def)
    moreover have "set (slash_join cs) \<subseteq> set (abs_path m ds)" unfolding r by (auto simp: abs_path_def)
    moreover have "hd (slash_join cs) \<in> set (slash_join cs)" "hd (slash_join cs) \<noteq> slash"
      using slash_join_hd [OF cs] by simp_all
    ultimately show False by blast
  qed
  have "py_split slash (abs_path m ds) = replicate m [] @ ds"
    using ds dne by (simp add: abs_path_def split_replicate split_slash_join good_part_def)
  moreover have "py_split slash (abs_path n cs @ ''/'' @ r) = replicate n [] @ cs @ py_split slash r"
    using cs split_append [of slash "abs_path n cs" r]
    by (simp add: abs_path_def split_replicate split_slash_join good_part_def)
  ultimately have eq: "replicate m [] @ ds = replicate n [] @ cs @ py_split slash r" using r by simp
  have lead: "length (takeWhile (\<lambda>x. x = []) (replicate k [] @ xs)) = k" if "xs \<noteq> []" "hd xs \<noteq> []" for k and xs :: "string list"
    using that by (induction k) (auto simp: neq_Nil_conv)
  have hds: "hd ds \<noteq> []" "hd (cs @ py_split slash r) \<noteq> []"
    using cs ds dne by (auto simp: good_part_def neq_Nil_conv)
  have "m = length (takeWhile (\<lambda>x. x = []) (replicate m [] @ ds))" using lead [OF dne hds(1)] by simp
  also have "\<dots> = n" unfolding eq using cs(2) hds(2) by (intro lead) simp_all
  finally have "m = n" .
  with eq show ?thesis by auto
qed

lemma join_starts: "starts_slash base \<Longrightarrow> starts_slash (path_join base [rel])"
  by (auto simp: path_join_def starts_slash_def prefix_def)

lemma normpath_starts: "starts_slash p \<Longrightarrow> starts_slash (normpath p)"
  using normpath_is_abs [of p] by (auto simp: abs_path_def starts_slash_def numeral_2_eq_2)

text \<open>A directory of the configuration: absolute and not the root.\<close>

definition proper_dir :: "string \<Rightarrow> bool" where
  "proper_dir dir \<longleftrightarrow> (\<exists>n cs. (n = 1 \<or> n = 2) \<and> cs \<noteq> [] \<and> (\<forall>c \<in> set cs. good_part c) \<and> dir = abs_path n cs)"

lemma proper_starts: "proper_dir dir \<Longrightarrow> starts_slash dir"
  using initial_abs(2) by (auto simp: proper_dir_def)

definition inside :: "string \<Rightarrow> string \<Rightarrow> bool" where
  "inside dir p \<longleftrightarrow> norm_comps p = norm_comps dir @ drop (length (norm_comps dir)) (norm_comps p)
     \<and> list_all good_part (norm_comps p) \<and> normpath p = p"

lemma comps_abs:
  assumes "n = 1 \<or> n = 2" "\<forall>p \<in> set cs. good_part p" "cs \<noteq> []"
  shows "norm_comps (abs_path n cs) = cs"
proof -
  have "py_split slash (abs_path n cs) = replicate n [] @ cs"
    using assms(2,3) by (simp add: abs_path_def split_replicate split_slash_join good_part_def)
  then have "norm_comps (abs_path n cs) = fold (norm_comp True) cs (fold (norm_comp True) (replicate n []) [])"
    unfolding norm_comps_def using initial_abs(2) [OF assms] by (simp only: fold_append comp_apply)
  then show ?thesis using norm_good [OF assms(2)] by (simp only: norm_blank) simp
qed

lemma below_inside:
  assumes dir: "proper_dir dir" and q: "starts_slash q" and b: "below dir (normpath q) \<or> normpath q = dir"
  shows "inside dir (normpath q)"
proof -
  obtain n cs where n: "n = 1 \<or> n = 2" and cs: "cs \<noteq> []" "\<forall>c \<in> set cs. good_part c" and d: "dir = abs_path n cs"
    using dir by (auto simp: proper_dir_def)
  have dcomps: "norm_comps dir = cs" unfolding d by (rule comps_abs [OF n cs(2,1)])
  define m where "m = initial_slashes q"
  define ds where "ds = norm_comps q"
  have p: "normpath q = abs_path m ds" and m: "m = 1 \<or> m = 2"
    using normpath_is_abs [OF q] by (auto simp: m_def ds_def)
  have ds: "\<forall>c \<in> set ds. good_part c" unfolding ds_def by (rule norm_comps_good [OF q])
  show ?thesis
  proof (cases "normpath q = dir")
    case True
    then show ?thesis using cs dcomps normpath_abs [OF n cs(2,1)] by (simp add: inside_def d list_all_iff)
  next
    case False
    with b have "prefix (abs_path n cs @ ''/'') (abs_path m ds)" unfolding d p by simp
    from prefix_comps [OF cs(2,1) ds this] obtain es where es: "ds = cs @ es" by blast
    then have dne: "ds \<noteq> []" using cs(1) by simp
    show ?thesis unfolding inside_def p comps_abs [OF m ds dne] normpath_abs [OF m ds dne] dcomps
      using es ds by (simp add: list_all_iff)
  qed
qed

text \<open>C11: Whatever path a request names, however it is quoted, the file that is served lies in the
  directory of received or of sent files: its normalised components extend those of the
  directory, with no \<open>..\<close> among them.\<close>

theorem served_inside:
  assumes "handle_serve_file is_file d match = Serve p"
    and "starts_slash (sd_config d)" "proper_dir (received_dir d)" "proper_dir (sent_dir d)"
  shows "is_file p \<and> (inside (received_dir d) p \<or> inside (sent_dir d) p)"
proof -
  have s: "serve_path d match = Some p" "is_file p"
    using assms(1) by (auto simp: handle_serve_file_def split: option.splits if_splits)
  define filepath where "filepath = unquote match"
  obtain base rel where base: "starts_slash base" and p: "p = normpath (path_join base [rel])"
    and ok: "below (received_dir d) p \<or> p = received_dir d \<or> below (sent_dir d) p \<or> p = sent_dir d"
    using s(1) assms(2) proper_starts [OF assms(3)] proper_starts [OF assms(4)]
    by (auto simp: serve_path_def Let_def split: if_splits)
  have "starts_slash (path_join base [rel])" by (rule join_starts [OF base])
  with ok s(2) below_inside [OF assms(3)] below_inside [OF assms(4)] show ?thesis unfolding p by blast
qed

lemma served_inside_witness:
  "inside ''/c/received'' ''/c/received/a/b.png'' \<or> inside ''/c/sent'' ''/c/received/a/b.png''"
proof -
  define d where "d = \<lparr>sd_config = ''/c'', sd_received = None\<rparr>"
  have dirs: "received_dir d = ''/c/received''" "sent_dir d = ''/c/sent''" "starts_slash (sd_config d)" unfolding d_def by code_simp+
  have "proper_dir ''/c/received''" unfolding proper_dir_def
    by (intro exI [of _ 1] exI [of _ "[''c'', ''received'']"]) (simp add: good_part_def abs_path_def)
  moreover have "proper_dir ''/c/sent''" unfolding proper_dir_def
    by (intro exI [of _ 1] exI [of _ "[''c'', ''sent'']"]) (simp add: good_part_def abs_path_def)
  moreover have "handle_serve_file (\<lambda>_. True) d ''received/x/../a/b.png'' = Serve ''/c/received/a/b.png''" unfolding d_def by code_simp
  ultimately show ?thesis using served_inside [of "\<lambda>_. True" d] dirs by metis
qed

text \<open>A path that climbs out of its directory is refused, quoted or not.\<close>

lemma traversal_refused:
  "handle_serve_file (\<lambda>_. True) \<lparr>sd_config = ''/c'', sd_received = None\<rparr> ''received/../identities/identity_lan'' = Forbidden
   \<and> handle_serve_file (\<lambda>_. True) \<lparr>sd_config = ''/c'', sd_received = None\<rparr> ''received/%252e%252e/settings.json'' = Forbidden"
  by code_simp

section \<open>The URL of a file\<close>

lemma drop_common_prefix: "drop_common (cs @ es) cs = (es, [])"
  by (induction cs) (cases es, simp_all)

lemma percent_free: "\<forall>p \<in> set ps. CHR ''%'' \<notin> set p \<Longrightarrow> CHR ''%'' \<notin> set (slash_join ps)"
  by (induction ps rule: slash_join.induct) auto

lemma backslash_free: "\<forall>p \<in> set ps. CHR 0x5C \<notin> set p \<Longrightarrow> fwd_slashes (slash_join ps) = slash_join ps"
proof -
  assume "\<forall>p \<in> set ps. CHR 0x5C \<notin> set p"
  then have "CHR 0x5C \<notin> set (slash_join ps)" by (induction ps rule: slash_join.induct) auto
  then show ?thesis by (auto simp: fwd_slashes_def intro!: map_idI)
qed

text \<open>What the HTTP library hands to the handler: the decoded rest of the path.\<close>

definition route_match :: "string \<Rightarrow> string" where
  "route_match url = unquote (drop 10 url)"

lemma join_extra:
  assumes "cs \<noteq> []" "\<forall>c \<in> set cs. good_part c" "\<forall>c \<in> set es. good_part c" "es \<noteq> []"
  shows "path_join (abs_path n cs) [slash_join es] = abs_path n (cs @ es)"
proof -
  have ne: "abs_path n cs \<noteq> ''''" and l: "last (abs_path n cs) \<noteq> slash"
    using slash_join_hd [OF assms(2,1)] slash_join_last [OF assms(2,1)] by (simp_all add: abs_path_def)
  have e: "\<not> ends_slash (abs_path n cs)" using l by (auto simp: ends_slash_def suffix_def)
  have "\<not> starts_slash (slash_join es)" using slash_join_hd [OF assms(3,4)] by (auto simp: starts_slash_def prefix_def)
  with ne e assms(1,4) show ?thesis by (simp add: path_join_def abs_path_def slash_join_append)
qed

lemma url_of_received:
  assumes n: "n = 1 \<or> n = 2" and cs: "cs \<noteq> []" "\<forall>c \<in> set cs. good_part c" and r: "received_dir d = abs_path n cs"
    and es: "es \<noteq> []" "\<forall>c \<in> set es. good_part c" "\<forall>c \<in> set es. CHR 0x5C \<notin> set c"
    and f: "is_file (abs_path n (cs @ es))"
  shows "file_url is_file d (abs_path n (cs @ es)) = ''/api/file/received/'' @ slash_join (map quote es)"
proof -
  have all: "\<forall>c \<in> set (cs @ es). good_part c" "cs @ es \<noteq> []" using cs es by auto
  have "relpath (abs_path n (cs @ es)) (abs_path n cs) = slash_join es"
    using es(1) by (simp add: relpath_def comps_abs [OF n all] comps_abs [OF n cs(2,1)] drop_common_prefix)
  moreover have "below (abs_path n cs) (abs_path n (cs @ es))" using cs es by (simp add: abs_path_def slash_join_append)
  moreover have "encode_file_rel (slash_join es) = slash_join (map quote es)"
    using es by (simp add: encode_file_rel_def backslash_free split_slash_join good_part_def)
  moreover have "abs_path n (cs @ es) \<noteq> ''''" using n by (auto simp: abs_path_def)
  ultimately show ?thesis using f by (simp add: file_url_def r normpath_abs [OF n all] Let_def)
qed

text \<open>The URL the history gives for a received file fetches exactly that file, if its name has no
  percent sign (and no backslash).\<close>

theorem url_serves_file:
  assumes "received_dir d = abs_path n cs" "n = 1 \<or> n = 2" "cs \<noteq> []" "\<forall>c \<in> set cs. good_part c"
    and "es \<noteq> []" "\<forall>c \<in> set es. good_part c \<and> CHR ''%'' \<notin> set c \<and> CHR 0x5C \<notin> set c"
    and "is_file (abs_path n (cs @ es))"
  shows "handle_serve_file is_file d (route_match (file_url is_file d (abs_path n (cs @ es)))) = Serve (abs_path n (cs @ es))"
proof -
  let ?full = "abs_path n (cs @ es)"
  have es: "\<forall>c \<in> set es. good_part c" "\<forall>c \<in> set es. CHR ''%'' \<notin> set c" "\<forall>c \<in> set es. CHR 0x5C \<notin> set c"
    using assms(6) by blast+
  have all: "\<forall>c \<in> set (cs @ es). good_part c" "cs @ es \<noteq> []" using assms(3,4) es(1) by auto
  have "file_url is_file d ?full = ''/api/file/received/'' @ slash_join (map quote es)"
    by (rule url_of_received) (use assms es in auto)
  then have m: "route_match (file_url is_file d ?full) = ''received/'' @ slash_join es"
    by (simp add: route_match_def unquote_joined)
  have "CHR ''%'' \<notin> set (''received/'' @ slash_join es)" using percent_free [OF es(2)] by simp
  then have u: "unquote (''received/'' @ slash_join es) = ''received/'' @ slash_join es" by (rule unquote_plain)
  have "map unquote es = es" using es(2) by (simp add: map_idI unquote_plain)
  then have parts: "unquote_parts (slash_join es) = slash_join es"
    using es(1) assms(5) by (simp add: unquote_parts_def split_slash_join good_part_def)
  have "normpath (path_join (received_dir d) [slash_join es]) = ?full"
    unfolding assms(1) join_extra [OF assms(3,4) es(1) assms(5)] by (rule normpath_abs [OF assms(2) all])
  moreover have "below (abs_path n cs) ?full" using assms(3,5) by (simp add: abs_path_def slash_join_append)
  ultimately have "serve_path d (''received/'' @ slash_join es) = Some ?full"
    unfolding serve_path_def Let_def u by (simp add: parts assms(1))
  with assms(7) show ?thesis unfolding m handle_serve_file_def by simp
qed

lemma url_serves_file_witness:
  "handle_serve_file (\<lambda>p. p = ''/c/received/a b/ca.png'') \<lparr>sd_config = ''/c'', sd_received = None\<rparr>
     (route_match (file_url (\<lambda>p. p = ''/c/received/a b/ca.png'') \<lparr>sd_config = ''/c'', sd_received = None\<rparr> ''/c/received/a b/ca.png''))
   = Serve ''/c/received/a b/ca.png''"
proof -
  have f: "abs_path 1 ([''c'', ''received''] @ [''a b'', ''ca.png'']) = ''/c/received/a b/ca.png''" by (simp add: abs_path_def)
  have "received_dir \<lparr>sd_config = ''/c'', sd_received = None\<rparr> = abs_path 1 [''c'', ''received'']" by code_simp
  from url_serves_file [OF this, of "[''a b'', ''ca.png'']" "\<lambda>p. p = ''/c/received/a b/ca.png''"]
  show ?thesis unfolding f by (simp add: good_part_def)
qed

text \<open>With a percent sign it need not: the handler decodes what the library has decoded, twice, so the
  URL of \<open>a%41\<close> asks for \<open>aA\<close>.\<close>

lemma percent_name_lost:
  "let d = \<lparr>sd_config = ''/c'', sd_received = None\<rparr>; is_file = (\<lambda>p. p = ''/c/received/a%41'') in
     file_url is_file d ''/c/received/a%41'' = ''/api/file/received/a%2541''
     \<and> handle_serve_file is_file d (route_match ''/api/file/received/a%2541'') = NotFound"
  by code_simp

section \<open>Ranges and chunks\<close>

lemma write_chunks_end: "r = 0 \<or> c = 0 \<or> src = [] \<Longrightarrow> write_chunks c src r = []"
  by (subst write_chunks.simps) (auto simp: Let_def)

lemma drop_min: "drop (min (length src) k) src = drop k src"
  by (cases "length src \<le> k") (simp_all add: min_def)

lemma write_chunks_step: "0 < r \<Longrightarrow> 0 < c \<Longrightarrow> src \<noteq> [] \<Longrightarrow> write_chunks c src r
    = take (min c r) src # write_chunks c (drop (min c r) src) (r - min (length src) (min c r))"
proof -
  assume a: "0 < r" "0 < c" "src \<noteq> []"
  then have ne: "take (min c r) src \<noteq> []" "r \<noteq> 0" by (simp_all add: min_def)
  have "write_chunks c src r = take (min c r) src
      # write_chunks c (drop (length (take (min c r) src)) src) (r - length (take (min c r) src))"
    by (subst write_chunks.simps) (simp only: ne Let_def if_False)
  then show ?thesis by (simp only: length_take drop_min)
qed

text \<open>An induction over the reads of the loop.\<close>

lemma chunk_induct [consumes 1, case_names End Step]:
  assumes c: "0 < c" and "\<And>src r. r = 0 \<or> src = [] \<Longrightarrow> P src r"
    and step: "\<And>src r. 0 < r \<Longrightarrow> src \<noteq> [] \<Longrightarrow> P (drop (min c r) src) (r - min (length src) (min c r)) \<Longrightarrow> P src r"
  shows "P src r"
proof (induction r arbitrary: src rule: less_induct)
  case (less r)
  show ?case
  proof (cases "r = 0 \<or> src = []")
    case False
    have "P (drop (min c r) src) (r - min (length src) (min c r))" by (rule less) (use False c in simp)
    with False show ?thesis by (intro step [of r src]) simp_all
  qed (rule assms(2))
qed

lemma write_chunks_concat:
  assumes c: "0 < c" shows "concat (write_chunks c src r) = take r src"
  using c
proof (induction src r rule: chunk_induct)
  case (Step src r)
  let ?k = "min (length src) (min c r)"
  have "take r src = take (?k + (r - ?k)) src" by simp
  also have "\<dots> = take ?k src @ take (r - ?k) (drop ?k src)" by (rule take_add)
  also have "take ?k src = take (min c r) src" by (simp add: min_def)
  finally show ?case using Step write_chunks_step [OF Step.hyps(1) c Step.hyps(2)] by (simp only: drop_min concat.simps)
qed (auto simp: write_chunks_end)

lemma write_chunks_sizes:
  assumes c: "0 < c" shows "list_all (\<lambda>x. x \<noteq> [] \<and> length x \<le> c) (write_chunks c src r)"
  using c
proof (induction src r rule: chunk_induct)
  case (Step src r)
  then show ?case using write_chunks_step [OF Step.hyps(1) c Step.hyps(2)] c by simp
qed (auto simp: write_chunks_end)

lemma write_chunks_number:
  assumes c: "0 < c" shows "r \<le> length src \<Longrightarrow> length (write_chunks c src r) = (r + c - 1) div c"
  using c
proof (induction src r rule: chunk_induct)
  case (Step src r)
  have k: "min (length src) (min c r) = min c r" using Step.prems by simp
  have "r - min c r \<le> length (drop (min c r) src)" using Step.prems by simp
  with Step.IH have "length (write_chunks c (drop (min c r) src) (r - min c r)) = (r - min c r + c - 1) div c" unfolding k .
  then have "length (write_chunks c src r) = Suc ((r - min c r + c - 1) div c)"
    using write_chunks_step [OF Step.hyps(1) c Step.hyps(2)] unfolding k by simp
  also have "\<dots> = (r + c - 1) div c"
  proof (cases "r \<le> c")
    case True
    have "(r + c - 1) div c = 1" using True Step.hyps(1) c by (intro div_nat_eqI) auto
    with True c show ?thesis by (simp add: min_absorb2)
  next
    case False
    then have "r + c - 1 = c + (r - 1)" by simp
    then have "(r + c - 1) div c = (r - 1) div c + 1" using c by (simp only: div_add_self1)
    with False show ?thesis by simp
  qed
  finally show ?case .
qed (use c in \<open>auto simp: write_chunks_end intro!: div_less [symmetric]\<close>)

lemma reply_bounds:
  assumes "range_reply hdr n = Reply st a len" "0 \<le> n"
  shows "0 \<le> a \<and> 0 \<le> len \<and> a + len \<le> n \<and> (st = 206 \<or> st = 200 \<and> a = 0 \<and> len = n)"
proof -
  obtain x y where xy: "(if prefix ''bytes='' hdr \<and> CHR ''-'' \<in> set (py_strip (drop 6 hdr))
      then range_bounds (py_strip (drop 6 hdr)) n else (0, n - 1)) = (x, y)" by force
  have "0 \<le> x \<and> y \<le> n - 1" using xy
    by (auto simp: range_bounds_def split: if_splits prod.splits option.splits)
  moreover have "\<not> prefix ''bytes='' hdr \<Longrightarrow> x = 0 \<and> y = n - 1" using xy by auto
  moreover have "hdr = '''' \<Longrightarrow> x = 0 \<and> y = n - 1" using xy by auto
  ultimately show ?thesis using assms unfolding range_reply_def Let_def xy
    by (auto split: if_splits)
qed



text \<open>A suffix range (\<open>bytes=-3\<close>, the last three bytes) is read as a range from the start.\<close>

lemma suffix_range_misread:
  "map_option (concat \<circ> snd) (stream_file 100 ''bytes=-3'' ''0123456789'') = Some ''0123''"
  by code_simp

end
