(* ===== verification/History.thy ===== *)
theory History
  imports ContactStore FileServe Outbox Messages
begin

text \<open>
  The message history of the daemon (\<open>rnsd/service.py\<close>): the rows it keeps and writes to
  \<open>history.json\<close>, what it shows of them for a peer, and the operations that add, settle,
  clear and expire rows.  A row is a dict; a text field that is absent or \<open>None\<close> is the
  empty string.  Its fields are texts, except the time stamp, which is whatever the sender
  put into its message (arrays apart).  What the functions read besides the history is a
  record: the addressing tables of the message engine once it has started, our hashes, the
  contacts, the peers that discovery lists, the settings.  Writing the file succeeds.
\<close>

section \<open>Rows\<close>

datatype stamp = Num real | Text string | NoStamp

text \<open>\<open>now - m.get("timestamp", 0)\<close>, and the comparison of two stamps; \<open>None\<close> is a \<open>TypeError\<close>.\<close>

definition age_of :: "real \<Rightarrow> stamp \<Rightarrow> real option" where
  "age_of now t = (case t of Num r \<Rightarrow> Some (now - r) | _ \<Rightarrow> None)"

definition stamp_later :: "stamp \<Rightarrow> stamp \<Rightarrow> bool option" where
  "stamp_later a b = (case (a, b) of (Num x, Num y) \<Rightarrow> Some (y < x)
     | (Text x, Text y) \<Rightarrow> Some (y < x) | _ \<Rightarrow> None)"

record hrow =
  h_type :: string
  h_content :: string
  h_sender :: string
  h_peer :: string
  h_chat_peer :: string
  h_time :: stamp
  h_file_name :: string
  h_file_size :: json
  h_msg_id :: string
  h_hub_group :: bool
  h_status :: string
  h_outgoing :: "bool option"
  h_sender_name :: string
  h_file_url :: string

record history =
  hs_log :: "hrow list"       \<comment> \<open>\<open>message_history\<close>\<close>
  hs_disk :: "hrow list"      \<comment> \<open>\<open>history.json\<close>\<close>
  hs_active :: string         \<comment> \<open>\<open>active_peer\<close>\<close>

record daemon =
  he_maps :: "peer_maps option"        \<comment> \<open>\<open>self.messaging\<close>, once it has started\<close>
  he_my_dest :: string                 \<comment> \<open>its \<open>my_dest_hash\<close>\<close>
  he_active_hash :: string             \<comment> \<open>its \<open>active_peer_hash\<close>\<close>
  he_session_hash :: string            \<comment> \<open>its \<open>_session_peer_hash\<close>\<close>
  he_canonical :: "string \<Rightarrow> string"   \<comment> \<open>its \<open>canonical_connect_hash\<close>\<close>
  he_connect :: string                 \<comment> \<open>\<open>identity_mgr.get_connect_hash()\<close>\<close>
  he_hex :: string                     \<comment> \<open>\<open>identity_mgr.get_hex_hash()\<close>\<close>
  he_dest :: string                    \<comment> \<open>\<open>destination_hash\<close>\<close>
  he_contacts :: cstore
  he_peers :: "peer list"              \<comment> \<open>\<open>discovery.get_peers()\<close>\<close>
  he_viewing :: string                 \<comment> \<open>\<open>_ui_state["viewing_peer"]\<close>\<close>
  he_name :: string                    \<comment> \<open>\<open>name\<close>, \<open>history_retention\<close>, \<open>hub_role\<close> of the settings\<close>
  he_retention :: string
  he_hub_role :: string
  he_dirs :: serve_dirs
  he_is_file :: "string \<Rightarrow> bool"
  he_in_scope :: "string \<Rightarrow> bool"      \<comment> \<open>\<open>_peer_in_discovery_scope\<close>\<close>
  he_serial_path :: "string \<Rightarrow> bool"   \<comment> \<open>\<open>_sender_has_serial_path\<close>\<close>
  he_now :: real

section \<open>Naming peers\<close>

definition clean_hash :: "string \<Rightarrow> string" where
  "clean_hash h = py_strip (nocolon (py_remove (CHR ''>'') (py_remove (CHR ''<'') h)))"

definition peer_dest_hash :: "daemon \<Rightarrow> string \<Rightarrow> string" where
  "peer_dest_hash d any_hash = (if any_hash = hub_group_peer then hub_group_peer
     else case he_maps d of Some m \<Rightarrow> dest_hash_for m any_hash | None \<Rightarrow> py_lower (clean_hash any_hash))"

definition my_sender_hash :: "daemon \<Rightarrow> string" where
  "my_sender_hash d = (if he_maps d \<noteq> None \<and> he_my_dest d \<noteq> '''' then nhash (he_my_dest d)
     else if he_connect d \<noteq> '''' then he_connect d else nhash (clean_hash (he_dest d)))"

definition is_own_hash :: "daemon \<Rightarrow> string \<Rightarrow> bool" where
  "is_own_hash d h = (let clean = nhash h in
     if clean = '''' then False
     else let my_connect = nhash (py_or (if he_maps d \<noteq> None then he_my_dest d else '''')
                             (py_or (he_connect d) (clean_hash (he_dest d))));
              my_ident = nhash (he_hex d)
       in clean = my_connect \<or> clean = my_ident)"

definition peers_equivalent :: "daemon \<Rightarrow> string \<Rightarrow> string \<Rightarrow> bool" where
  "peers_equivalent d a b = (case he_maps d of Some m \<Rightarrow> hashes_equivalent m a b | None \<Rightarrow> nhash a = nhash b)"

definition usable_peer :: "daemon \<Rightarrow> string \<Rightarrow> string option" where
  "usable_peer d h = (if h = '''' \<or> is_hub_peer_hash h then None
     else let resolved = peer_dest_hash d h in
       if resolved \<noteq> '''' \<and> resolved \<noteq> ''unknown'' \<and> \<not> is_hub_peer_hash resolved then Some resolved else None)"

text \<open>\<open>_session_chat_peer()\<close>; the engine's own session only counts once it has started.\<close>

definition session_chat_peer :: "daemon \<Rightarrow> history \<Rightarrow> string" where
  "session_chat_peer d s = (case usable_peer d (he_viewing d) of Some p \<Rightarrow> p | None \<Rightarrow>
     (case (if he_maps d = None then None else usable_peer d (he_active_hash d)) of Some p \<Rightarrow> p | None \<Rightarrow>
       (case usable_peer d (hs_active s) of Some p \<Rightarrow> p | None \<Rightarrow> '''')))"

definition queue_target_hash :: "daemon \<Rightarrow> history \<Rightarrow> string" where
  "queue_target_hash d s = (if he_viewing d \<noteq> '''' then peer_dest_hash d (he_viewing d)
     else py_or (session_chat_peer d s) (py_or (peer_dest_hash d (hs_active s)) (he_session_hash d)))"

definition contact_name_for :: "daemon \<Rightarrow> string \<Rightarrow> string" where
  "contact_name_for d peer_hash = (
     case find (\<lambda>c. peers_equivalent d (orE (c_hash c)) peer_hash) (fst (list_contacts (he_contacts d))) of
       Some c \<Rightarrow> orE (c_name c)
     | None \<Rightarrow>
       (case find (\<lambda>p. peers_equivalent d (orE (p_hash p)) peer_hash
                    \<and> stripE (p_name p) \<noteq> '''' \<and> stripE (p_name p) \<noteq> take 8 peer_hash) (he_peers d) of
          Some p \<Rightarrow> stripE (p_name p)
        | None \<Rightarrow> if he_name d \<noteq> '''' \<and> peers_equivalent d peer_hash (my_sender_hash d) then he_name d else ''''))"

definition peer_display_name :: "daemon \<Rightarrow> string \<Rightarrow> string" where
  "peer_display_name d peer_hash = (if peer_hash = '''' \<or> peer_hash = ''system'' then ''''
     else let name = contact_name_for d peer_hash in
       if name \<noteq> '''' then name else take 8 (peer_dest_hash d peer_hash))"

section \<open>Showing a row\<close>

text \<open>\<open>os.path.splitext(name)[1].lower()\<close>: leading dots do not start an extension.\<close>

definition splitext_ext :: "string \<Rightarrow> string" where
  "splitext_ext s = (let b = rev (takeWhile (\<lambda>c. c \<noteq> slash) (rev s)); e = rev (takeWhile (\<lambda>c. c \<noteq> CHR ''.'') (rev b)) in
     if list_ex (\<lambda>c. c \<noteq> CHR ''.'') (take (length b - length e - 1) b) then CHR ''.'' # e else '''')"

definition image_extensions :: "string list" where
  "image_extensions = [''.png'', ''.jpg'', ''.jpeg'', ''.gif'', ''.bmp'', ''.webp'']"

definition video_extensions :: "string list" where
  "video_extensions = [''.mp4'', ''.webm'', ''.mkv'', ''.mov'', ''.avi'', ''.m4v'', ''.ogv'', ''.mpeg'', ''.mpg'']"

definition media_type_for_filename :: "string \<Rightarrow> string" where
  "media_type_for_filename filename = (let ext = py_lower (splitext_ext filename) in
     if ext \<in> set image_extensions then ''image'' else if ext \<in> set video_extensions then ''video'' else ''file'')"

text \<open>The five steps of \<open>_enrich_message\<close>: whose row it is, whose conversation, what kind of
  medium, the URL of a file, the name of the sender.\<close>

definition mark_outgoing :: "daemon \<Rightarrow> bool option \<Rightarrow> hrow \<Rightarrow> hrow" where
  "mark_outgoing d outgoing m = (case outgoing of Some b \<Rightarrow> m\<lparr>h_outgoing := Some b\<rparr>
     | None \<Rightarrow> if h_outgoing m = None
         then (let sender = peer_dest_hash d (h_sender m) in m\<lparr>h_outgoing := Some (sender \<noteq> '''' \<and> sender = my_sender_hash d)\<rparr>)
         else m)"

definition place_row :: "daemon \<Rightarrow> string \<Rightarrow> hrow \<Rightarrow> hrow" where
  "place_row d active m = (let peer = py_or (h_chat_peer m) (h_peer m);
     peer = (if peer = '''' then (if h_outgoing m = Some True then active else h_sender m) else peer)
     in m\<lparr>h_chat_peer := peer_dest_hash d peer\<rparr>)"

definition infer_type :: "hrow \<Rightarrow> hrow" where
  "infer_type m = (if h_file_name m \<noteq> '''' \<and> h_type m = ''file''
     then (let inferred = media_type_for_filename (h_file_name m) in if inferred \<noteq> ''file'' then m\<lparr>h_type := inferred\<rparr> else m)
     else m)"

definition add_url :: "daemon \<Rightarrow> hrow \<Rightarrow> hrow" where
  "add_url d m = (if h_content m \<noteq> '''' \<and> h_type m \<in> {''image'', ''video'', ''file''}
     then (let url = file_url (he_is_file d) (he_dirs d) (h_content m) in if url \<noteq> '''' then m\<lparr>h_file_url := url\<rparr> else m)
     else m)"

definition add_sender_name :: "daemon \<Rightarrow> hrow \<Rightarrow> hrow" where
  "add_sender_name d m = (let sender = h_sender m in
     if sender \<noteq> '''' \<and> sender \<noteq> ''system''
     then (let name = peer_display_name d sender in if name \<noteq> '''' then m\<lparr>h_sender_name := name\<rparr> else m) else m)"

definition enrich_message :: "daemon \<Rightarrow> string \<Rightarrow> bool option \<Rightarrow> hrow \<Rightarrow> hrow" where
  "enrich_message d active outgoing m =
     add_sender_name d (add_url d (infer_type (place_row d active (mark_outgoing d outgoing m))))"

text \<open>\<open>_is_session_system_message\<close> of a text and of a row.\<close>

definition session_text :: "string \<Rightarrow> bool" where
  "session_text content \<longleftrightarrow> prefix ''Link established with '' content \<or> substr ''Link closed'' content
     \<or> prefix ''Connected to '' content"

definition session_row :: "hrow \<Rightarrow> bool" where
  "session_row m = (if h_type m \<noteq> ''system'' \<and> h_sender m \<noteq> ''system'' then False else session_text (h_content m))"

section \<open>The file\<close>

definition row_peer :: "hrow \<Rightarrow> string" where
  "row_peer m = py_or (h_chat_peer m) (h_peer m)"

definition should_persist :: "daemon \<Rightarrow> string \<Rightarrow> bool" where
  "should_persist d peer_hash = (let peer = peer_dest_hash d peer_hash in \<not> (peer = '''' \<or> peer = ''unknown''))"

definition persisted_rows :: "daemon \<Rightarrow> hrow list \<Rightarrow> hrow list" where
  "persisted_rows d rows = filter (\<lambda>m. should_persist d (peer_dest_hash d (row_peer m))) rows"

definition history_limit :: nat where
  "history_limit = 1000"

definition save_history :: "daemon \<Rightarrow> history \<Rightarrow> history" where
  "save_history d s = s\<lparr>hs_disk := last_n history_limit (persisted_rows d (hs_log s))\<rparr>"

definition load_history :: "daemon \<Rightarrow> history \<Rightarrow> hrow list" where
  "load_history d s = persisted_rows d (hs_disk s)"

text \<open>The part of \<open>__init__\<close> that reads the history, before the message engine is there.\<close>

definition start_history :: "daemon \<Rightarrow> hrow list \<Rightarrow> history" where
  "start_history d disk = (let d = d\<lparr>he_maps := None\<rparr>; s = \<lparr>hs_log = [], hs_disk = disk, hs_active = ''''\<rparr>;
     s = s\<lparr>hs_log := load_history d s\<rparr> in save_history d s)"

definition keep_rows :: "(hrow \<Rightarrow> bool) \<Rightarrow> history \<Rightarrow> history" where
  "keep_rows keep s = s\<lparr>hs_log := filter keep (hs_log s)\<rparr>"

section \<open>Session messages\<close>

text \<open>\<open>_prune_stale_session_system_messages\<close>, with the \<open>TypeError\<close> of a stamp that is no number.\<close>

fun prune_scan :: "real \<Rightarrow> hrow list \<Rightarrow> hrow list option" where
  "prune_scan now [] = Some []"
| "prune_scan now (m # ms) = (
     if \<not> session_row m then map_option (Cons m) (prune_scan now ms)
     else if substr ''Link closed'' (h_content m)
     then (case age_of now (h_time m) of None \<Rightarrow> None
           | Some age \<Rightarrow> map_option (if age < 600 then Cons m else id) (prune_scan now ms))
     else prune_scan now ms)"

definition prune_session_messages :: "daemon \<Rightarrow> history \<Rightarrow> history option" where
  "prune_session_messages d s = map_option (\<lambda>kept.
     if length kept \<noteq> length (hs_log s) then save_history d (s\<lparr>hs_log := kept\<rparr>) else s) (prune_scan (he_now d) (hs_log s))"

text \<open>\<open>content.split("with ", 1)[-1]\<close>: what follows the first \<open>with\<close>.\<close>

fun after_with :: "string \<Rightarrow> string option" where
  "after_with [] = None"
| "after_with (c # s) = (if prefix ''with '' (c # s) then Some (drop 5 (c # s)) else after_with s)"

fun session_scan :: "daemon \<Rightarrow> stamp \<Rightarrow> hrow list \<Rightarrow> string option \<Rightarrow> string option option" where
  "session_scan d t [] peer = Some peer"
| "session_scan d t (m # ms) peer = (case stamp_later (h_time m) t of
       None \<Rightarrow> None
     | Some True \<Rightarrow> Some peer
     | Some False \<Rightarrow>
         if h_type m \<noteq> ''system'' then session_scan d t ms peer
         else if prefix ''Link established with '' (h_content m)
         then session_scan d t ms (Some (peer_dest_hash d
                (if h_chat_peer m \<noteq> '''' then h_chat_peer m
                 else py_strip (case after_with (h_content m) of Some r \<Rightarrow> r | None \<Rightarrow> h_content m))))
         else if substr ''Link closed'' (h_content m) then session_scan d t ms None
         else session_scan d t ms peer)"

definition session_peer_at :: "daemon \<Rightarrow> hrow list \<Rightarrow> stamp \<Rightarrow> string option option" where
  "session_peer_at d rows t = session_scan d t rows None"

section \<open>The history of a peer\<close>

text \<open>\<open>xs[-limit:]\<close>\<close>

definition last_rows :: "int \<Rightarrow> 'a list \<Rightarrow> 'a list" where
  "last_rows limit xs = (if 0 < limit then last_n (nat limit) xs else drop (nat (- limit)) xs)"

definition history_peer_aliases :: "daemon \<Rightarrow> string \<Rightarrow> string list" where
  "history_peer_aliases d peer_hash = (let peer = peer_dest_hash d peer_hash in
     if peer = '''' then []
     else [peer]
       @ (case he_maps d of None \<Rightarrow> [] | Some m \<Rightarrow> filter (\<lambda>h. h \<noteq> '''') (map (peer_dest_hash d) (peer_aliases_for m peer)))
       @ (case fst (find_contact_by_hash (he_contacts d) (Some peer)) of None \<Rightarrow> [] | Some c \<Rightarrow> contact_hashes c))"

definition history_matches_peer :: "daemon \<Rightarrow> string \<Rightarrow> string list \<Rightarrow> bool" where
  "history_matches_peer d entry_peer aliases = (
     if entry_peer = '''' \<or> aliases = [] then False
     else let clean = peer_dest_hash d entry_peer in
       if clean = '''' then False
       else clean \<in> set aliases \<or> list_ex (peers_equivalent d clean) aliases)"

text \<open>What the loop of \<open>_history_for_peer\<close> appends for one row of the log (\<open>None\<close>: \<open>TypeError\<close>).\<close>

definition row_for_peer :: "daemon \<Rightarrow> history \<Rightarrow> string \<Rightarrow> string list \<Rightarrow> hrow \<Rightarrow> hrow list option" where
  "row_for_peer d s peer aliases m = (if session_row m then Some []
     else let cp = peer_dest_hash d (row_peer m) in
       if cp \<noteq> '''' \<and> history_matches_peer d cp aliases then Some [enrich_message d (hs_active s) None m]
       else let sender = peer_dest_hash d (h_sender m) in
         if sender \<noteq> '''' \<and> history_matches_peer d sender aliases \<and> h_sender m \<noteq> ''system''
         then Some [enrich_message d (hs_active s) None m]
         else if h_outgoing m \<noteq> Some True \<and> h_sender m \<noteq> ''system'' \<and> (is_own_hash d cp \<or> is_own_hash d sender)
         then (case session_peer_at d (hs_log s) (h_time m) of
                 None \<Rightarrow> None
               | Some session_peer \<Rightarrow>
                   if orE session_peer \<noteq> '''' \<and> peers_equivalent d (orE session_peer) peer
                   then (let repaired = m\<lparr>h_chat_peer := peer, h_peer := peer\<rparr>;
                             repaired = (if is_own_hash d sender then repaired\<lparr>h_sender := peer\<rparr> else repaired)
                         in Some [enrich_message d (hs_active s) (Some False) repaired])
                   else Some [])
         else Some [])"

fun rows_for_peer :: "daemon \<Rightarrow> history \<Rightarrow> string \<Rightarrow> string list \<Rightarrow> hrow list \<Rightarrow> hrow list option" where
  "rows_for_peer d s peer aliases [] = Some []"
| "rows_for_peer d s peer aliases (m # ms) = (case row_for_peer d s peer aliases m of None \<Rightarrow> None
     | Some xs \<Rightarrow> map_option (append xs) (rows_for_peer d s peer aliases ms))"

definition history_for_peer :: "daemon \<Rightarrow> string \<Rightarrow> int \<Rightarrow> history \<Rightarrow> hrow list option" where
  "history_for_peer d peer_hash limit s = (let peer = peer_dest_hash d peer_hash in
     if peer = hub_group_peer
     then Some (last_rows limit (map (enrich_message d (hs_active s) None)
            (filter (\<lambda>m. h_hub_group m \<or> peer_dest_hash d (row_peer m) = hub_group_peer) (hs_log s))))
     else if peer = '''' then Some (last_rows limit (hs_log s))
     else map_option (last_rows limit) (rows_for_peer d s peer (history_peer_aliases d peer) (hs_log s)))"

section \<open>Retention and requests\<close>

definition retention_seconds :: "string \<Rightarrow> real option" where
  "retention_seconds retention = map_of [(''1d'', 86400), (''1w'', 604800), (''1m'', 2592000),
     (''6m'', 15552000), (''12m'', 31536000)] retention"

text \<open>One stamp that is no number and the list comprehension raises.\<close>

definition apply_retention :: "daemon \<Rightarrow> history \<Rightarrow> history option" where
  "apply_retention d s = (if he_retention d = ''never'' then Some s
     else case retention_seconds (he_retention d) of
       None \<Rightarrow> Some s
     | Some seconds \<Rightarrow>
         if list_ex (\<lambda>m. age_of (he_now d) (h_time m) = None) (hs_log s) then None
         else Some (keep_rows (\<lambda>m. case age_of (he_now d) (h_time m) of Some age \<Rightarrow> age < seconds | None \<Rightarrow> False) s))"

text \<open>\<open>handle_history\<close>: the rows of the answer; \<open>None\<close> is an internal server error.\<close>

definition handle_history :: "daemon \<Rightarrow> string \<Rightarrow> int \<Rightarrow> history \<Rightarrow> (hrow list \<times> history) option" where
  "handle_history d peer limit s = (case apply_retention d s of
       None \<Rightarrow> None
     | Some s \<Rightarrow>
         if peer \<noteq> '''' then map_option (\<lambda>rows. (rows, s)) (history_for_peer d peer limit s)
         else Some (map (enrich_message d (hs_active s) None) (filter (\<lambda>m. \<not> session_row m) (last_rows limit (hs_log s))), s))"

definition remove_history_message :: "daemon \<Rightarrow> string \<Rightarrow> history \<Rightarrow> bool \<times> history" where
  "remove_history_message d msg_id s = (let clean = py_strip msg_id in
     if clean = '''' then (False, s)
     else let t = keep_rows (\<lambda>m. h_msg_id m \<noteq> clean) s in
       if length (hs_log t) = length (hs_log s) then (False, t) else (True, save_history d t))"

text \<open>\<open>handle_delete_message\<close> answers with a status.\<close>

definition handle_delete_message :: "daemon \<Rightarrow> string \<Rightarrow> history \<Rightarrow> nat \<times> history" where
  "handle_delete_message d msg_id s = (if msg_id = '''' then (400, s)
     else let t = keep_rows (\<lambda>m. h_msg_id m \<noteq> msg_id) s in
       if length (hs_log t) = length (hs_log s) then (404, t) else (200, save_history d t))"

definition clear_aliases :: "daemon \<Rightarrow> string \<Rightarrow> string list \<Rightarrow> string list" where
  "clear_aliases d peer_hash extra = history_peer_aliases d peer_hash
     @ filter (\<lambda>h. h \<noteq> '''') (map (peer_dest_hash d) extra)"

definition clear_history_for_peer :: "daemon \<Rightarrow> string \<Rightarrow> string list \<Rightarrow> history \<Rightarrow> nat \<times> history" where
  "clear_history_for_peer d peer_hash extra s = (let aliases = clear_aliases d peer_hash extra in
     if aliases = [] then (0, s)
     else let t = save_history d (keep_rows (\<lambda>m. \<not> history_matches_peer d (row_peer m) aliases) s)
       in (length (hs_log s) - length (hs_log t), t))"

definition handle_history_clear :: "daemon \<Rightarrow> string \<Rightarrow> string list \<Rightarrow> history \<Rightarrow> history" where
  "handle_history_clear d peer extra s = (if peer \<noteq> '''' then snd (clear_history_for_peer d peer extra s)
     else save_history d (s\<lparr>hs_log := []\<rparr>))"

definition is_saved_contact :: "daemon \<Rightarrow> string \<Rightarrow> bool" where
  "is_saved_contact d peer_hash = (fst (find_contact_by_hash (he_contacts d) (Some peer_hash)) \<noteq> None)"

section \<open>Messages\<close>

text \<open>The fields of an incoming \<open>ChatMessage\<close> the daemon reads; its texts are texts.\<close>

record chat_msg =
  cm_type :: string
  cm_content :: string
  cm_time :: stamp
  cm_file_name :: string
  cm_file_size :: json
  cm_msg_id :: string
  cm_hub_group :: bool

definition new_row :: "chat_msg \<Rightarrow> string \<Rightarrow> string \<Rightarrow> string \<Rightarrow> hrow" where
  "new_row c sender chat_peer status = \<lparr>h_type = cm_type c, h_content = cm_content c, h_sender = sender,
     h_peer = chat_peer, h_chat_peer = chat_peer, h_time = cm_time c, h_file_name = cm_file_name c,
     h_file_size = cm_file_size c, h_msg_id = cm_msg_id c, h_hub_group = cm_hub_group c, h_status = status,
     h_outgoing = None, h_sender_name = '''', h_file_url = ''''\<rparr>"

text \<open>Whose conversation an incoming message belongs to and who sent it; \<open>None\<close> when it is dropped.\<close>

definition message_parties :: "daemon \<Rightarrow> string \<Rightarrow> bool \<Rightarrow> string \<Rightarrow> (string \<times> string) option" where
  "message_parties d active hub_group sender_hash = (let
     known = (sender_hash \<noteq> '''' \<and> sender_hash \<noteq> ''system'');
     name = (if he_maps d \<noteq> None then py_or (he_canonical d sender_hash) (peer_dest_hash d sender_hash)
             else peer_dest_hash d sender_hash)
     in if hub_group
        then (if he_hub_role d = ''off'' then None
              else Some (hub_group_peer, if known then name else ''system''))
        else if known \<and> \<not> is_hub_peer_hash sender_hash \<and> \<not> he_in_scope d sender_hash \<and> \<not> he_serial_path d sender_hash
        then None
        else if known then Some (name, name)
        else Some (peer_dest_hash d active, ''system''))"

definition on_message :: "daemon \<Rightarrow> chat_msg \<Rightarrow> string \<Rightarrow> history \<Rightarrow> history" where
  "on_message d c sender_hash s = (case message_parties d (hs_active s) (cm_hub_group c) sender_hash of
       None \<Rightarrow> s
     | Some (chat_peer, sender) \<Rightarrow>
         let status = (if sender_hash \<noteq> '''' \<and> sender_hash \<noteq> ''system'' then ''received'' else '''');
             entry = enrich_message d (hs_active s) (Some False) (new_row c sender chat_peer status)
         in if session_text (cm_content c) then s
            else save_history d (s\<lparr>hs_log := hs_log s @ [entry]\<rparr>))"

text \<open>\<open>_on_queue_sent\<close>: the first row with the id of the message becomes sent, or a row is added.\<close>

definition settle_row :: "chat_msg \<Rightarrow> hrow \<Rightarrow> hrow" where
  "settle_row c m = (let
     m = m\<lparr>h_status := ''sent'', h_time := cm_time c\<rparr>;
     m = (if cm_file_name c \<noteq> '''' then m\<lparr>h_file_name := cm_file_name c\<rparr> else m)
     in if json_truthy (cm_file_size c) then m\<lparr>h_file_size := cm_file_size c\<rparr> else m)"

fun update_first :: "('a \<Rightarrow> bool) \<Rightarrow> ('a \<Rightarrow> 'a) \<Rightarrow> 'a list \<Rightarrow> 'a list option" where
  "update_first p f [] = None"
| "update_first p f (x # xs) = (if p x then Some (f x # xs) else map_option (Cons x) (update_first p f xs))"

definition on_queue_sent :: "daemon \<Rightarrow> chat_msg \<Rightarrow> string \<Rightarrow> history \<Rightarrow> history" where
  "on_queue_sent d c target_hash s = (let
     my_hash = my_sender_hash d;
     chat_peer = (if target_hash \<noteq> '''' then peer_dest_hash d target_hash
                  else py_or (session_chat_peer d s) (peer_dest_hash d (hs_active s)))
     in case update_first (\<lambda>m. h_msg_id m = cm_msg_id c) (settle_row c) (hs_log s) of
          Some rows \<Rightarrow> save_history d (s\<lparr>hs_log := rows\<rparr>)
        | None \<Rightarrow> save_history d (s\<lparr>hs_log := hs_log s @ [enrich_message d (hs_active s) (Some True)
                    ((new_row c my_hash chat_peer ''sent'')\<lparr>h_hub_group := False\<rparr>)]\<rparr>))"

section \<open>The queue\<close>

definition handle_queue_clear :: "daemon \<Rightarrow> string \<Rightarrow> outbox \<Rightarrow> history \<Rightarrow> nat \<times> outbox \<times> history" where
  "handle_queue_clear d peer q s = (case he_maps d of
       None \<Rightarrow> (0, q, s)
     | Some m \<Rightarrow> let
         q' = clear_queue m (if peer \<noteq> '''' then peer_dest_hash d peer else '''') q;
         cleared = queue_size q - queue_size q'
         in (cleared, q', if cleared \<noteq> 0 then save_history d (keep_rows (\<lambda>m. h_status m \<noteq> ''queued'') s) else s))"

definition clear_queue_for_peer :: "daemon \<Rightarrow> string \<Rightarrow> outbox \<Rightarrow> nat \<times> outbox" where
  "clear_queue_for_peer d peer_hash q = (case he_maps d of None \<Rightarrow> (0, q)
     | Some m \<Rightarrow> let q' = clear_queue m (peer_dest_hash d peer_hash) q in (queue_size q - queue_size q', q'))"

definition purge_ephemeral_peer :: "daemon \<Rightarrow> string \<Rightarrow> outbox \<Rightarrow> history \<Rightarrow> nat \<times> outbox \<times> history" where
  "purge_ephemeral_peer d peer_hash q s = (let peer = peer_dest_hash d peer_hash in
     if peer = '''' \<or> is_saved_contact d peer then (0, q, s)
     else case clear_history_for_peer d peer [] s of (removed, s) \<Rightarrow> (removed, snd (clear_queue_for_peer d peer q), s))"

text \<open>The end of start-up, and a start-up with the retention \<open>on_restart\<close>.\<close>

definition startup_history :: "daemon \<Rightarrow> history \<Rightarrow> history option" where
  "startup_history d s = map_option (\<lambda>s. if he_retention d = ''on_restart'' then save_history d (s\<lparr>hs_log := []\<rparr>) else s)
     (prune_session_messages d s)"

end
