(* ===== verification/HistoryLaws.thy ===== *)
theory HistoryLaws
  imports History
begin

text \<open>
  What the history promises: a message that was accepted is shown to its peer, what the
  user deletes stays deleted across restarts, the file gives back what memory holds, a
  queued message has one row; and where it fails.
\<close>

section \<open>Names\<close>

definition daemon_ok :: "daemon \<Rightarrow> bool" where
  "daemon_ok d \<longleftrightarrow> (\<forall>m. he_maps d = Some m \<longrightarrow> maps_ok m)"

lemma clean_normal: "py_lower (clean_hash h) = nhash h"
  by (simp add: clean_hash_def normalize_hash_def)

lemma peer_dest_idem: "daemon_ok d \<Longrightarrow> peer_dest_hash d (peer_dest_hash d h) = peer_dest_hash d h"
  by (auto simp: peer_dest_hash_def daemon_ok_def dest_idem clean_normal split: option.splits)

lemma peer_dest_empty: "daemon_ok d \<Longrightarrow> peer_dest_hash d h = '''' \<longleftrightarrow> nhash h = ''''"
proof -
  have "nhash hub_group_peer \<noteq> ''''" "hub_group_peer \<noteq> ''''" by code_simp+
  then show "daemon_ok d \<Longrightarrow> ?thesis"
    by (auto simp: peer_dest_hash_def daemon_ok_def dest_empty clean_normal split: option.splits)
qed

text \<open>A row filed under a name of the peer is among the peer's rows.\<close>

lemma own_alias:
  assumes "daemon_ok d" "peer_dest_hash d e = peer_dest_hash d p" "peer_dest_hash d p \<noteq> ''''"
  shows "history_matches_peer d e (history_peer_aliases d p)"
proof -
  have "e \<noteq> ''''"
  proof
    assume "e = ''''"
    then have "peer_dest_hash d e = ''''" using peer_dest_empty [OF assms(1)] by simp
    with assms(2,3) show False by simp
  qed
  then show ?thesis using assms(2,3) by (auto simp: history_matches_peer_def history_peer_aliases_def Let_def)
qed

section \<open>Enriching\<close>

lemma mark_fields [simp]:
  "h_content (mark_outgoing d b m) = h_content m" "h_sender (mark_outgoing d b m) = h_sender m"
  "h_peer (mark_outgoing d b m) = h_peer m" "h_time (mark_outgoing d b m) = h_time m"
  "h_msg_id (mark_outgoing d b m) = h_msg_id m" "h_status (mark_outgoing d b m) = h_status m"
  "h_hub_group (mark_outgoing d b m) = h_hub_group m" "h_chat_peer (mark_outgoing d b m) = h_chat_peer m"
  "h_outgoing (mark_outgoing d (Some x) m) = Some x"
  "h_outgoing m = Some x \<Longrightarrow> h_outgoing (mark_outgoing d None m) = Some x"
  by (simp_all add: mark_outgoing_def Let_def split: option.split)

lemma place_fields [simp]:
  "h_content (place_row d a m) = h_content m" "h_sender (place_row d a m) = h_sender m"
  "h_peer (place_row d a m) = h_peer m" "h_time (place_row d a m) = h_time m"
  "h_msg_id (place_row d a m) = h_msg_id m" "h_status (place_row d a m) = h_status m"
  "h_hub_group (place_row d a m) = h_hub_group m" "h_outgoing (place_row d a m) = h_outgoing m"
  "h_chat_peer m \<noteq> '''' \<Longrightarrow> h_chat_peer (place_row d a m) = peer_dest_hash d (h_chat_peer m)"
  by (simp_all add: place_row_def Let_def)

lemma infer_fields [simp]:
  "h_content (infer_type m) = h_content m" "h_sender (infer_type m) = h_sender m"
  "h_peer (infer_type m) = h_peer m" "h_time (infer_type m) = h_time m"
  "h_msg_id (infer_type m) = h_msg_id m" "h_status (infer_type m) = h_status m"
  "h_hub_group (infer_type m) = h_hub_group m" "h_outgoing (infer_type m) = h_outgoing m"
  "h_chat_peer (infer_type m) = h_chat_peer m"
  by (simp_all add: infer_type_def Let_def)

lemma url_fields [simp]:
  "h_content (add_url d m) = h_content m" "h_sender (add_url d m) = h_sender m"
  "h_peer (add_url d m) = h_peer m" "h_time (add_url d m) = h_time m"
  "h_msg_id (add_url d m) = h_msg_id m" "h_status (add_url d m) = h_status m"
  "h_hub_group (add_url d m) = h_hub_group m" "h_outgoing (add_url d m) = h_outgoing m"
  "h_chat_peer (add_url d m) = h_chat_peer m"
  by (simp_all add: add_url_def Let_def)

lemma sender_fields [simp]:
  "h_content (add_sender_name d m) = h_content m" "h_sender (add_sender_name d m) = h_sender m"
  "h_peer (add_sender_name d m) = h_peer m" "h_time (add_sender_name d m) = h_time m"
  "h_msg_id (add_sender_name d m) = h_msg_id m" "h_status (add_sender_name d m) = h_status m"
  "h_hub_group (add_sender_name d m) = h_hub_group m" "h_outgoing (add_sender_name d m) = h_outgoing m"
  "h_chat_peer (add_sender_name d m) = h_chat_peer m"
  by (simp_all add: add_sender_name_def Let_def)

lemma enrich_fields [simp]:
  "h_content (enrich_message d a b m) = h_content m" "h_sender (enrich_message d a b m) = h_sender m"
  "h_peer (enrich_message d a b m) = h_peer m" "h_time (enrich_message d a b m) = h_time m"
  "h_msg_id (enrich_message d a b m) = h_msg_id m" "h_status (enrich_message d a b m) = h_status m"
  "h_hub_group (enrich_message d a b m) = h_hub_group m"
  "h_outgoing (enrich_message d a (Some x) m) = Some x"
  "h_outgoing m = Some x \<Longrightarrow> h_outgoing (enrich_message d a None m) = Some x"
  "h_chat_peer m \<noteq> '''' \<Longrightarrow> h_chat_peer (enrich_message d a b m) = peer_dest_hash d (h_chat_peer m)"
  by (simp_all add: enrich_message_def)

lemma new_row_fields [simp]:
  "h_type (new_row c x p st) = cm_type c" "h_content (new_row c x p st) = cm_content c" "h_sender (new_row c x p st) = x"
  "h_peer (new_row c x p st) = p" "h_chat_peer (new_row c x p st) = p" "h_time (new_row c x p st) = cm_time c"
  "h_msg_id (new_row c x p st) = cm_msg_id c" "h_status (new_row c x p st) = st" "h_hub_group (new_row c x p st) = cm_hub_group c"
  by (simp_all add: new_row_def)

lemma session_row_text: "\<not> session_text (h_content m) \<Longrightarrow> \<not> session_row m"
  by (simp add: session_row_def)

section \<open>Saving\<close>

lemma save_simps [simp]:
  "hs_log (save_history d s) = hs_log s" "hs_active (save_history d s) = hs_active s"
  "hs_disk (save_history d s) = last_n history_limit (persisted_rows d (hs_log s))"
  by (simp_all add: save_history_def)

lemma keep_simps [simp]: "hs_log (keep_rows p s) = filter p (hs_log s)" "hs_active (keep_rows p s) = hs_active s"
  "hs_disk (keep_rows p s) = hs_disk s"
  by (simp_all add: keep_rows_def)

section \<open>Showing a received message\<close>

lemma row_for_peer_cong:
  assumes "hs_active s = hs_active t" "session_peer_at d (hs_log s) (h_time m) = session_peer_at d (hs_log t) (h_time m)"
  shows "row_for_peer d s p al m = row_for_peer d t p al m"
  unfolding row_for_peer_def assms ..

lemma rows_for_peer_cong:
  assumes "\<And>m. m \<in> set ms \<Longrightarrow> row_for_peer d s p al m = row_for_peer d t p al m"
  shows "rows_for_peer d s p al ms = rows_for_peer d t p al ms"
  using assms by (induction ms) (auto split: option.split)

lemma rows_for_peer_snoc:
  "rows_for_peer d s p al ms = Some rows \<Longrightarrow> row_for_peer d s p al m = Some new
   \<Longrightarrow> rows_for_peer d s p al (ms @ [m]) = Some (rows @ new)"
  by (induction ms arbitrary: rows) (auto split: option.splits)

lemma scan_snoc:
  assumes "\<not> session_text (h_content m)" "h_time m = Num r" "t = Num r'"
  shows "session_scan d t (ms @ [m]) peer = session_scan d t ms peer"
  using assms
  by (induction ms arbitrary: peer) (auto simp: stamp_later_def session_text_def split: option.split bool.split)

definition timed :: "history \<Rightarrow> bool" where
  "timed s \<longleftrightarrow> list_all (\<lambda>m. \<exists>r. h_time m = Num r) (hs_log s)"

lemma rows_after_append:
  assumes "timed s" "\<not> session_text (h_content m)" "h_time m = Num r"
  shows "rows_for_peer d (save_history d (s\<lparr>hs_log := hs_log s @ [m]\<rparr>)) p al (hs_log s) = rows_for_peer d s p al (hs_log s)"
proof (rule rows_for_peer_cong, rule row_for_peer_cong)
  fix x assume "x \<in> set (hs_log s)"
  then obtain r' where "h_time x = Num r'" using assms(1) by (auto simp: timed_def list_all_iff)
  with scan_snoc [OF assms(2,3)]
  show "session_peer_at d (hs_log (save_history d (s\<lparr>hs_log := hs_log s @ [m]\<rparr>))) (h_time x) = session_peer_at d (hs_log s) (h_time x)"
    by (simp add: session_peer_at_def)
qed simp

text \<open>The name under which a message of a known sender is filed.\<close>

definition sender_name :: "daemon \<Rightarrow> string \<Rightarrow> string" where
  "sender_name d h = (if he_maps d \<noteq> None then py_or (he_canonical d h) (peer_dest_hash d h) else peer_dest_hash d h)"

definition accepts_from :: "daemon \<Rightarrow> string \<Rightarrow> bool" where
  "accepts_from d h \<longleftrightarrow> h \<noteq> '''' \<and> h \<noteq> ''system'' \<and> (is_hub_peer_hash h \<or> he_in_scope d h \<or> he_serial_path d h)"

lemma accepted_parties:
  "accepts_from d h \<Longrightarrow> message_parties d a False h = Some (sender_name d h, sender_name d h)"
  by (auto simp: accepts_from_def message_parties_def sender_name_def Let_def)

definition received_row :: "daemon \<Rightarrow> history \<Rightarrow> chat_msg \<Rightarrow> string \<Rightarrow> hrow" where
  "received_row d s c h = enrich_message d (hs_active s) (Some False) (new_row c (sender_name d h) (sender_name d h) ''received'')"

lemma on_message_accepted:
  assumes "accepts_from d h" "\<not> cm_hub_group c" "\<not> session_text (cm_content c)"
  shows "on_message d c h s = save_history d (s\<lparr>hs_log := hs_log s @ [received_row d s c h]\<rparr>)"
  using assms accepted_parties [OF assms(1)] unfolding on_message_def received_row_def
  by (simp add: accepts_from_def)



definition demo_daemon :: daemon where
  "demo_daemon = \<lparr>he_maps = Some no_maps, he_my_dest = ''cc'', he_active_hash = '''', he_session_hash = '''',
     he_canonical = (\<lambda>h. h), he_connect = ''cc'', he_hex = ''ee'', he_dest = ''cc'', he_contacts = empty_store,
     he_peers = [], he_viewing = '''', he_name = '''', he_retention = ''1d'', he_hub_role = ''off'',
     he_dirs = \<lparr>sd_config = ''/c'', sd_received = None\<rparr>, he_is_file = (\<lambda>_. False), he_in_scope = (\<lambda>_. True),
     he_serial_path = (\<lambda>_. False), he_now = 100\<rparr>"

definition hello :: "stamp \<Rightarrow> chat_msg" where
  "hello t = \<lparr>cm_type = ''text'', cm_content = ''hello'', cm_time = t, cm_file_name = '''', cm_file_size = JNull,
     cm_msg_id = ''m1'', cm_hub_group = False\<rparr>"

definition no_history :: history where
  "no_history = \<lparr>hs_log = [], hs_disk = [], hs_active = ''''\<rparr>"

lemma demo_ok: "daemon_ok demo_daemon"
  by (simp add: daemon_ok_def demo_daemon_def no_maps_ok)


section \<open>The file\<close>

text \<open>No hash is registered under the name the program uses for an unknown peer.\<close>

definition names_known :: "daemon \<Rightarrow> bool" where
  "names_known d \<longleftrightarrow> (\<forall>m. he_maps d = Some m \<longrightarrow> (\<forall>(i, x) \<in> set (identity_to_dest m). i \<noteq> ''unknown'' \<and> x \<noteq> ''unknown''))"

definition placed :: "hrow \<Rightarrow> bool" where
  "placed m \<longleftrightarrow> nhash (row_peer m) \<noteq> '''' \<and> nhash (row_peer m) \<noteq> ''unknown''"

lemma peer_dest_unknown:
  assumes "names_known d" shows "peer_dest_hash d h = ''unknown'' \<longleftrightarrow> nhash h = ''unknown''"
proof -
  have h: "hub_group_peer \<noteq> ''unknown''" "nhash hub_group_peer \<noteq> ''unknown''" by code_simp+
  show ?thesis
  proof (cases "he_maps d")
    case None
    with h show ?thesis by (auto simp: peer_dest_hash_def clean_normal)
  next
    case (Some m)
    have "dest_hash_for m h = ''unknown'' \<longleftrightarrow> nhash h = ''unknown''"
    proof (cases "map_of (identity_to_dest m) (nhash h)")
      case None
      then show ?thesis by (simp add: dest_hash_for_def Let_def)
    next
      case (Some x)
      then have "nhash h \<noteq> ''unknown''" "x \<noteq> ''unknown''"
        using assms \<open>he_maps d = Some m\<close> by (auto simp: names_known_def dest: map_of_SomeD)
      with Some show ?thesis by (simp add: dest_hash_for_def Let_def)
    qed
    with Some h show ?thesis by (auto simp: peer_dest_hash_def)
  qed
qed

lemma persisted_placed:
  assumes "daemon_ok d" "names_known d" shows "persisted_rows d rows = filter placed rows"
  using peer_dest_empty [OF assms(1)] peer_dest_unknown [OF assms(2)] peer_dest_idem [OF assms(1)]
  by (auto simp: persisted_rows_def should_persist_def placed_def Let_def intro!: filter_cong)

lemma last_n_filter: "list_all p xs \<Longrightarrow> filter p (last_n n xs) = last_n n xs"
  by (auto simp: last_n_def list_all_iff dest: in_set_dropD intro!: filter_True)

lemma last_n_short: "length xs \<le> n \<Longrightarrow> last_n n xs = xs"
  by (simp add: last_n_def)

text \<open>C28: The history file gives back what was saved: after a restart memory and file hold the last
  thousand rows that belong to a known peer, in order, whatever the engine had learned about
  names in the meantime.\<close>

theorem restart_restores:
  fixes s :: history
  assumes "daemon_ok d" "names_known d"
  defines "kept \<equiv> last_n 1000 (filter placed (hs_log s))"
  shows "hs_log (start_history d' (hs_disk (save_history d s))) = kept
    \<and> hs_disk (start_history d' (hs_disk (save_history d s))) = kept"
proof -
  have d': "daemon_ok (d'\<lparr>he_maps := None\<rparr>)" "names_known (d'\<lparr>he_maps := None\<rparr>)"
    by (simp_all add: daemon_ok_def names_known_def)
  have disk: "hs_disk (save_history d s) = kept"
    by (simp add: persisted_placed [OF assms(1,2)] kept_def history_limit_def)
  have all: "list_all placed kept" using set_last_n by (fastforce simp: kept_def list_all_iff)
  then have "filter placed kept = kept" by (intro filter_True) (simp add: list_all_iff)
  moreover have "length kept \<le> 1000" by (simp add: kept_def)
  ultimately show ?thesis unfolding disk start_history_def Let_def
    by (simp add: load_history_def persisted_placed [OF d'] last_n_short history_limit_def)
qed

lemma restart_restores_witness:
  "map h_msg_id (hs_log (start_history demo_daemon (hs_disk (save_history demo_daemon
     (on_message demo_daemon (hello (Num 7)) ''aa'' no_history))))) = [''m1'']"
proof -
  have k: "names_known demo_daemon" by (simp add: names_known_def demo_daemon_def no_maps_def)
  have "accepts_from demo_daemon ''aa''" "\<not> cm_hub_group (hello (Num 7))" "\<not> session_text (cm_content (hello (Num 7)))"
    by (simp add: accepts_from_def demo_daemon_def) (simp add: hello_def, code_simp)
  note run = on_message_accepted [OF this, of no_history]
  have "peer_dest_hash demo_daemon ''aa'' = ''aa''"
    by (simp add: peer_dest_hash_def demo_daemon_def) code_simp
  moreover have "sender_name demo_daemon ''aa'' = ''aa''" by (simp add: sender_name_def demo_daemon_def)
  ultimately have "h_chat_peer (received_row demo_daemon no_history (hello (Num 7)) ''aa'') = ''aa''"
    by (simp add: received_row_def)
  moreover have "nhash ''aa'' = ''aa''" by code_simp
  ultimately have p: "placed (received_row demo_daemon no_history (hello (Num 7)) ''aa'')" by (simp add: placed_def row_peer_def)
  have l: "hs_log (on_message demo_daemon (hello (Num 7)) ''aa'' no_history)
      = [received_row demo_daemon no_history (hello (Num 7)) ''aa'']" unfolding run by (simp add: no_history_def)
  have "h_msg_id (received_row demo_daemon no_history (hello (Num 7)) ''aa'') = ''m1''"
    by (simp add: received_row_def hello_def)
  with p show ?thesis unfolding restart_restores [OF demo_ok k, THEN conjunct1] l by (simp add: last_n_short)
qed


section \<open>A stamp that is no number\<close>

definition unreadable :: "history \<Rightarrow> bool" where
  "unreadable s \<longleftrightarrow> list_ex (\<lambda>m. \<forall>r. h_time m \<noteq> Num r) (hs_log s)"

lemma age_None: "age_of now t = None \<longleftrightarrow> (\<forall>r. t \<noteq> Num r)"
  by (cases t) (simp_all add: age_of_def)

lemma on_message_rows: "\<exists>new. hs_log (on_message d c h s) = hs_log s @ new \<and> list_all (\<lambda>m. h_msg_id m = cm_msg_id c) new"
  by (auto simp: on_message_def Let_def split: option.split)

lemma messages_unreadable:
  "unreadable s \<Longrightarrow> unreadable (fold (\<lambda>(d, c, h). on_message d c h) later s)"
proof (induction later arbitrary: s)
  case (Cons x later)
  obtain d c h where x: "x = (d, c, h)" by (cases x)
  obtain new where "hs_log (on_message d c h s) = hs_log s @ new" using on_message_rows by blast
  with Cons.prems have "unreadable (on_message d c h s)" by (simp add: unreadable_def)
  from Cons.IH [OF this] show ?case by (simp add: x)
qed simp

lemma unreadable_fails:
  "unreadable s \<Longrightarrow> retention_seconds (he_retention d) \<noteq> None \<Longrightarrow> handle_history d peer limit s = None"
  by (auto simp: handle_history_def apply_retention_def age_None unreadable_def retention_seconds_def split: option.split)

text \<open>C34: One accepted message whose time stamp is not a number takes the whole history away: as soon as
  the user has chosen a retention period, every request for any history fails, and no later
  message changes that.\<close>

theorem one_stamp_blocks_history:
  assumes "accepts_from d h" "\<not> cm_hub_group c" "\<not> session_text (cm_content c)" "\<And>r. cm_time c \<noteq> Num r"
    and "retention_seconds (he_retention d') \<noteq> None"
  shows "handle_history d' peer limit (fold (\<lambda>(d, c, h). on_message d c h) later (on_message d c h s)) = None"
proof -
  have "unreadable (on_message d c h s)"
    unfolding on_message_accepted [OF assms(1-3)] using assms(4) by (simp add: unreadable_def received_row_def)
  from messages_unreadable [OF this] show ?thesis by (rule unreadable_fails [OF _ assms(5)])
qed

lemma one_stamp_blocks_history_witness:
  "handle_history demo_daemon ''bb'' 500 (on_message demo_daemon (hello (Num 9)) ''bb''
     (on_message demo_daemon (hello (Text ''now'')) ''aa'' no_history)) = None"
proof -
  have "accepts_from demo_daemon ''aa''" "\<not> cm_hub_group (hello (Text ''now''))" "\<not> session_text (cm_content (hello (Text ''now'')))"
    by (simp add: accepts_from_def demo_daemon_def) (simp add: hello_def, code_simp)
  moreover have "cm_time (hello (Text ''now'')) \<noteq> Num r" for r by (simp add: hello_def)
  moreover have "retention_seconds (he_retention demo_daemon) \<noteq> None" by (simp add: demo_daemon_def retention_seconds_def)
  ultimately show ?thesis
    using one_stamp_blocks_history [of demo_daemon "''aa''" "hello (Text ''now'')" demo_daemon "''bb''" 500 "[(demo_daemon, hello (Num 9), ''bb'')]" no_history]
    by simp
qed

section \<open>Deleting\<close>

datatype hop =
    Receive chat_msg string
  | Settled chat_msg string
  | Ask string int
  | Delete string
  | Revoke string
  | ClearPeer string "string list"
  | ClearQueue string outbox
  | PurgePeer string outbox
  | Prune
  | Activate string
  | Restart

text \<open>One event, with what the daemon is at that time; a request that fails changes nothing.\<close>

fun history_step :: "daemon \<times> hop \<Rightarrow> history \<Rightarrow> history" where
  "history_step (d, Receive c h) s = on_message d c h s"
| "history_step (d, Settled c h) s = on_queue_sent d c h s"
| "history_step (d, Ask peer limit) s = (case handle_history d peer limit s of None \<Rightarrow> s | Some (_, t) \<Rightarrow> t)"
| "history_step (d, Delete i) s = snd (handle_delete_message d i s)"
| "history_step (d, Revoke i) s = snd (remove_history_message d i s)"
| "history_step (d, ClearPeer peer extra) s = handle_history_clear d peer extra s"
| "history_step (d, ClearQueue peer q) s = snd (snd (handle_queue_clear d peer q s))"
| "history_step (d, PurgePeer peer q) s = snd (snd (purge_ephemeral_peer d peer q s))"
| "history_step (d, Prune) s = (case prune_session_messages d s of None \<Rightarrow> s | Some t \<Rightarrow> t)"
| "history_step (d, Activate p) s = s\<lparr>hs_active := p\<rparr>"
| "history_step (d, Restart) s = (case startup_history d (start_history d (hs_disk s)) of
     None \<Rightarrow> start_history d (hs_disk s) | Some t \<Rightarrow> t)"

fun carries :: "string \<Rightarrow> hop \<Rightarrow> bool" where
  "carries i (Receive c h) = (cm_msg_id c = i)"
| "carries i (Settled c h) = (cm_msg_id c = i)"
| "carries i _ = False"

definition gone_row :: "string \<Rightarrow> history \<Rightarrow> bool" where
  "gone_row i s \<longleftrightarrow> (\<forall>m \<in> set (hs_log s) \<union> set (hs_disk s). h_msg_id m \<noteq> i)"

lemma gone_save: "(\<forall>m \<in> set (hs_log s). h_msg_id m \<noteq> i) \<Longrightarrow> gone_row i (save_history d s)"
  using set_last_n by (fastforce simp: gone_row_def persisted_rows_def)

lemma gone_keep: "gone_row i s \<Longrightarrow> gone_row i (keep_rows p s)"
  by (auto simp: gone_row_def)

lemma gone_save_keep: "gone_row i s \<Longrightarrow> gone_row i (save_history d (keep_rows p s))"
  by (rule gone_save) (auto simp: gone_row_def)

lemma gone_log: "gone_row i s \<Longrightarrow> m \<in> set (hs_log s) \<Longrightarrow> h_msg_id m \<noteq> i"
  by (simp add: gone_row_def)

lemmas gone_intros = gone_save_keep gone_keep gone_save

lemma update_first_ids:
  "update_first (\<lambda>m. h_msg_id m = i) f xs = Some ys \<Longrightarrow> (\<And>m. h_msg_id (f m) = h_msg_id m)
   \<Longrightarrow> map h_msg_id ys = map h_msg_id xs"
  by (induction xs arbitrary: ys) (auto split: if_splits)

lemma settle_id [simp]: "h_msg_id (settle_row c m) = h_msg_id m"
  by (simp add: settle_row_def Let_def)

lemma update_first_None: "update_first p f xs = None \<longleftrightarrow> (\<forall>x \<in> set xs. \<not> p x)"
  by (induction xs) auto

text \<open>The ids of the history after a message was reported sent.\<close>

lemma sent_ids:
  "map h_msg_id (hs_log (on_queue_sent d c h s)) = (let ids = map h_msg_id (hs_log s) in
     if cm_msg_id c \<in> set ids then ids else ids @ [cm_msg_id c])"
proof (cases "update_first (\<lambda>m. h_msg_id m = cm_msg_id c) (settle_row c) (hs_log s)")
  case None
  then have "cm_msg_id c \<notin> set (map h_msg_id (hs_log s))" by (auto simp: update_first_None)
  with None show ?thesis by (simp add: on_queue_sent_def Let_def)
next
  case (Some rows)
  then have "update_first (\<lambda>m. h_msg_id m = cm_msg_id c) (settle_row c) (hs_log s) \<noteq> None" by simp
  then have "cm_msg_id c \<in> set (map h_msg_id (hs_log s))" unfolding update_first_None by force
  moreover have "map h_msg_id rows = map h_msg_id (hs_log s)" by (rule update_first_ids [OF Some]) simp
  ultimately show ?thesis using Some by (simp add: on_queue_sent_def Let_def)
qed

lemma gone_ids: "(\<forall>m \<in> set (hs_log s). h_msg_id m \<noteq> i) \<longleftrightarrow> i \<notin> set (map h_msg_id (hs_log s))"
  by auto

lemma prune_scan_subset: "prune_scan now ms = Some kept \<Longrightarrow> set kept \<subseteq> set ms"
  by (induction ms arbitrary: kept) (fastforce split: if_splits option.splits)+

lemma gone_prune: "prune_session_messages d s = Some t \<Longrightarrow> gone_row i s \<Longrightarrow> gone_row i t"
  using prune_scan_subset
  by (fastforce simp: prune_session_messages_def intro!: gone_save dest: gone_log split: if_splits)

lemma gone_start: "gone_row i s \<Longrightarrow> gone_row i (start_history d (hs_disk s))"
  unfolding start_history_def Let_def
  by (rule gone_save) (auto simp: load_history_def persisted_rows_def gone_row_def)

lemma gone_step:
  assumes "\<not> carries i op" "gone_row i s" shows "gone_row i (history_step (d, op) s)"
proof (cases op)
  case (Receive c h)
  obtain new where "hs_log (on_message d c h s) = hs_log s @ new" "list_all (\<lambda>m. h_msg_id m = cm_msg_id c) new"
    using on_message_rows by blast
  then have "\<forall>m \<in> set (hs_log (on_message d c h s)). h_msg_id m \<noteq> i"
    using assms Receive by (auto simp: list_all_iff gone_row_def)
  then show ?thesis using assms(2) Receive
    by (auto simp: on_message_def Let_def intro!: gone_save split: option.split)
next
  case (Settled c h)
  have "\<forall>m \<in> set (hs_log (on_queue_sent d c h s)). h_msg_id m \<noteq> i"
    using assms Settled unfolding gone_ids sent_ids by (auto simp: gone_row_def Let_def)
  then show ?thesis using Settled
    by (auto simp: on_queue_sent_def Let_def intro!: gone_save split: option.splits)
next
  case (Ask peer limit)
  then show ?thesis using assms(2)
    by (auto simp: handle_history_def apply_retention_def intro: gone_keep split: option.split if_splits)
next
  case (Delete j)
  then show ?thesis using assms(2) by (auto simp: handle_delete_message_def Let_def intro: gone_intros)
next
  case (Revoke j)
  then show ?thesis using assms(2) by (auto simp: remove_history_message_def Let_def intro: gone_intros)
next
  case (ClearPeer peer extra)
  then show ?thesis using assms(2)
    by (auto simp: handle_history_clear_def clear_history_for_peer_def Let_def intro: gone_intros)
next
  case (ClearQueue peer q)
  then show ?thesis using assms(2) by (auto simp: handle_queue_clear_def Let_def intro: gone_intros split: option.split)
next
  case (PurgePeer peer q)
  then show ?thesis using assms(2)
    by (auto simp: purge_ephemeral_peer_def clear_history_for_peer_def Let_def intro: gone_intros)
next
  case Prune
  then show ?thesis using assms(2) gone_prune by (auto split: option.split)
next
  case (Activate p)
  then show ?thesis using assms(2) by (simp add: gone_row_def)
next
  case Restart
  have "gone_row i (start_history d (hs_disk s))" by (rule gone_start [OF assms(2)])
  then show ?thesis using Restart
    by (auto simp: startup_history_def intro!: gone_save dest: gone_prune split: option.splits)
qed

interpretation deletion: step_system history_step "\<lambda>(_, op). \<not> carries i op" "gone_row i" for i
  by unfold_locales (auto intro: gone_step)


lemma row_for_peer_id: "row_for_peer d s p al m = Some xs \<Longrightarrow> r \<in> set xs \<Longrightarrow> h_msg_id r = h_msg_id m"
  by (auto simp: row_for_peer_def Let_def split: if_splits option.splits)

lemma rows_for_peer_ids:
  "rows_for_peer d s p al ms = Some rows \<Longrightarrow> r \<in> set rows \<Longrightarrow> \<exists>m \<in> set ms. h_msg_id r = h_msg_id m"
  by (induction ms arbitrary: rows) (auto split: option.splits dest: row_for_peer_id)

lemma last_rows_subset: "r \<in> set (last_rows limit xs) \<Longrightarrow> r \<in> set xs"
  by (auto simp: last_rows_def last_n_def dest: in_set_dropD split: if_splits)

lemma history_for_peer_ids:
  assumes "history_for_peer d peer limit s = Some rows" "r \<in> set rows"
  shows "\<exists>m \<in> set (hs_log s). h_msg_id r = h_msg_id m"
  using assms rows_for_peer_ids last_rows_subset
  by (fastforce simp: history_for_peer_def Let_def split: if_splits)

lemma answer_ids:
  assumes "handle_history d peer limit s = Some (rows, t)" "r \<in> set rows"
  shows "\<exists>m \<in> set (hs_log s). h_msg_id r = h_msg_id m"
proof -
  obtain u where u: "apply_retention d s = Some u" using assms by (auto simp: handle_history_def split: option.splits)
  then have sub: "set (hs_log u) \<subseteq> set (hs_log s)"
    by (auto simp: apply_retention_def split: if_splits option.splits)
  have "\<exists>m \<in> set (hs_log u). h_msg_id r = h_msg_id m"
  proof (cases "peer = ''''")
    case True
    then obtain x where "x \<in> set (last_rows limit (hs_log u))" "h_msg_id r = h_msg_id x"
      using assms u by (auto simp: handle_history_def)
    then show ?thesis using last_rows_subset by metis
  next
    case False
    then have "history_for_peer d peer limit u = Some rows" using assms(1) u by (auto simp: handle_history_def)
    then show ?thesis by (rule history_for_peer_ids [OF _ assms(2)])
  qed
  with sub show ?thesis by blast
qed

text \<open>C15: A message the user deleted stays deleted: whatever happens afterwards, restarts from the file
  included, no answer to a history request contains it, unless a message with its id arrives
  or is reported sent.\<close>

theorem deleted_stays_deleted:
  assumes "handle_delete_message d i s = (200, t)" and "\<forall>(e, op) \<in> set events. \<not> carries i op"
    and "handle_history d' peer limit (fold history_step events t) = Some (rows, u)"
  shows "\<forall>r \<in> set rows. h_msg_id r \<noteq> i"
proof -
  have "t = save_history d (keep_rows (\<lambda>m. h_msg_id m \<noteq> i) s)"
    using assms(1) by (simp add: handle_delete_message_def Let_def split: if_splits)
  then have "gone_row i t" by (simp only:) (rule gone_save, simp)
  then have gone: "gone_row i (fold history_step events t)" by (rule deletion.run_inv [OF assms(2)])
  show ?thesis
  proof
    fix r assume "r \<in> set rows"
    from answer_ids [OF assms(3) this] obtain m where m: "m \<in> set (hs_log (fold history_step events t))" "h_msg_id r = h_msg_id m" ..
    from gone_log [OF gone m(1)] show "h_msg_id r \<noteq> i" unfolding m(2) .
  qed
qed

section \<open>Sending from the queue\<close>

lemma sent_count:
  assumes "count_list (map h_msg_id (hs_log s)) i \<le> 1"
  shows "count_list (map h_msg_id (hs_log (on_queue_sent d c h s))) i
    = (if cm_msg_id c = i then 1 else count_list (map h_msg_id (hs_log s)) i)"
proof (cases "cm_msg_id c \<in> set (map h_msg_id (hs_log s))")
  case True
  then have "cm_msg_id c = i \<Longrightarrow> count_list (map h_msg_id (hs_log s)) i \<noteq> 0" unfolding count_list_0_iff by simp
  with assms True show ?thesis unfolding sent_ids Let_def by auto
next
  case False
  then have "cm_msg_id c = i \<Longrightarrow> count_list (map h_msg_id (hs_log s)) i = 0" unfolding count_list_0_iff by simp
  with False show ?thesis unfolding sent_ids Let_def by auto
qed

text \<open>However often drains report messages of the queue as sent, each of them has one row in the
  history: the row it was queued with, or a new one when the user had cleared it.\<close>

theorem one_row_per_message:
  assumes "count_list (map h_msg_id (hs_log s)) i \<le> 1" and "i \<in> (\<lambda>(d, c, h). cm_msg_id c) ` set reports"
  shows "count_list (map h_msg_id (hs_log (fold (\<lambda>(d, c, h). on_queue_sent d c h) reports s))) i = 1"
proof -
  have "count_list (map h_msg_id (hs_log (fold (\<lambda>(d, c, h). on_queue_sent d c h) reports s))) i
      = (if i \<in> (\<lambda>(d, c, h). cm_msg_id c) ` set reports then 1 else count_list (map h_msg_id (hs_log s)) i)"
    using assms(1)
  proof (induction reports arbitrary: s)
    case (Cons r reports)
    obtain d c h where r: "r = (d, c, h)" by (cases r)
    have le: "count_list (map h_msg_id (hs_log (on_queue_sent d c h s))) i \<le> 1"
      using sent_count [OF Cons.prems] Cons.prems by simp
    show ?case using Cons.IH [OF le] sent_count [OF Cons.prems] by (auto simp: r)
  qed simp
  with assms(2) show ?thesis by simp
qed

text \<open>The row that settles is the first one with the id, in its place.\<close>

lemma queued_row_settles:
  assumes "hs_log s = before @ m # after" "h_msg_id m = cm_msg_id c" "\<forall>x \<in> set before. h_msg_id x \<noteq> cm_msg_id c"
  shows "hs_log (on_queue_sent d c h s) = before @ settle_row c m # after \<and> h_status (settle_row c m) = ''sent''"
proof -
  have "update_first (\<lambda>m. h_msg_id m = cm_msg_id c) (settle_row c) (before @ m # after) = Some (before @ settle_row c m # after)"
    using assms(2,3) by (induction before) auto
  then show ?thesis by (simp add: on_queue_sent_def assms(1) settle_row_def Let_def)
qed

section \<open>Clearing the queue\<close>

lemma the_queue_clear:
  "target \<noteq> '''' \<Longrightarrow> the_queue (clear_queue m target q) = filter (\<lambda>e. \<not> queue_matches_target m e target) (the_queue q)"
  by (simp add: clear_queue_def the_queue_def rebind_def)

text \<open>Clearing the queue of one peer takes the rows of all queued messages out of the history: the
  messages to other peers stay queued, to be sent later, and are no longer shown.\<close>

theorem queue_clear_hides_others:
  assumes "handle_queue_clear d peer q s = (n, q', t)" and "he_maps d = Some m"
    and "peer \<noteq> ''''" "peer_dest_hash d peer \<noteq> ''''"
    and "e \<in> set (the_queue q)" "queue_matches_target m e (peer_dest_hash d peer)"
    and "other \<in> set (the_queue q)" "\<not> queue_matches_target m other (peer_dest_hash d peer)"
  shows "other \<in> set (the_queue q') \<and> (\<forall>r \<in> set (hs_log t). h_status r \<noteq> ''queued'')"
proof -
  let ?kept = "filter (\<lambda>e. \<not> queue_matches_target m e (peer_dest_hash d peer)) (the_queue q)"
  have "length ?kept < length (the_queue q)" by (rule length_filter_less [OF assms(5)]) (use assms(6) in simp)
  then have "queue_size q - queue_size (clear_queue m (peer_dest_hash d peer) q) \<noteq> 0"
    by (simp add: queue_size_def the_queue_clear [OF assms(4)])
  then show ?thesis using assms(1,7,8) the_queue_clear [OF assms(4), of m q]
    by (auto simp: handle_queue_clear_def assms(2,3) Let_def)
qed


section \<open>Examples\<close>

definition two_rows :: history where
  "two_rows = \<lparr>hs_log = [new_row (hello (Num 7)) ''aa'' ''aa'' ''queued'', new_row ((hello (Num 8))\<lparr>cm_msg_id := ''m2''\<rparr>) ''aa'' ''bb'' ''queued''],
     hs_disk = [], hs_active = ''''\<rparr>"

lemma deleted_stays_deleted_witness:
  "\<exists>rows u. handle_history (demo_daemon\<lparr>he_retention := ''never''\<rparr>) '''' 500
       (fold history_step [(demo_daemon, Restart)] (snd (handle_delete_message demo_daemon ''m1'' two_rows))) = Some (rows, u)
     \<and> map h_msg_id rows = [''m2''] \<and> (\<forall>r \<in> set rows. h_msg_id r \<noteq> ''m1'')"
proof -
  let ?t = "snd (handle_delete_message demo_daemon ''m1'' two_rows)"
  have "fst (handle_delete_message demo_daemon ''m1'' two_rows) = 200" by code_simp
  then have t: "handle_delete_message demo_daemon ''m1'' two_rows = (200, ?t)" by (metis prod.collapse)
  have "map_option (map h_msg_id \<circ> fst) (handle_history (demo_daemon\<lparr>he_retention := ''never''\<rparr>) '''' 500
      (fold history_step [(demo_daemon, Restart)] ?t)) = Some [''m2'']" by code_simp
  then obtain rows u where r: "handle_history (demo_daemon\<lparr>he_retention := ''never''\<rparr>) '''' 500
      (fold history_step [(demo_daemon, Restart)] ?t) = Some (rows, u)" "map h_msg_id rows = [''m2'']" by auto
  from deleted_stays_deleted [OF t _ r(1)] r show ?thesis by auto
qed

lemma one_row_per_message_witness:
  "count_list (map h_msg_id (hs_log (on_queue_sent demo_daemon (hello (Num 9)) ''aa''
     (on_queue_sent demo_daemon (hello (Num 9)) ''aa'' two_rows)))) ''m1'' = 1"
proof -
  have "count_list (map h_msg_id (hs_log two_rows)) ''m1'' \<le> 1" by code_simp
  from one_row_per_message [OF this, of "[(demo_daemon, hello (Num 9), ''aa''), (demo_daemon, hello (Num 9), ''aa'')]"]
  show ?thesis by (simp add: hello_def)
qed

definition two_queued :: outbox where
  "two_queued = enqueue '''' ''text'' ''hello'' ''bb'' '''' ''m2'' (enqueue '''' ''text'' ''hello'' ''aa'' '''' ''m1'' empty_outbox)"

lemma queue_clear_hides_others_witness:
  "let (n, q', t) = handle_queue_clear demo_daemon ''aa'' two_queued two_rows in
     map q_id (the_queue q') = [''m2''] \<and> hs_log t = []"
proof -
  obtain n q' t where run: "handle_queue_clear demo_daemon ''aa'' two_queued two_rows = (n, q', t)" by (metis prod_cases3)
  define e where "e = hd (the_queue two_queued)"
  define other where "other = last (the_queue two_queued)"
  have q: "the_queue two_queued = [e, other]" "queue_matches_target no_maps e ''aa''" "\<not> queue_matches_target no_maps other ''aa''"
    unfolding e_def other_def by code_simp+
  have aa: "peer_dest_hash demo_daemon ''aa'' = ''aa''" by code_simp
  have "he_maps demo_daemon = Some no_maps" by (simp add: demo_daemon_def)
  note hides = queue_clear_hides_others [OF run this, of e other]
  have hidden: "\<forall>r \<in> set (hs_log t). h_status r \<noteq> ''queued''" using hides q by (simp add: aa)
  have "map q_id (the_queue (fst (snd (handle_queue_clear demo_daemon ''aa'' two_queued two_rows)))) = [''m2'']" by code_simp
  moreover have "list_all (\<lambda>r. h_status r = ''queued'') (hs_log t)"
  proof -
    have "list_all (\<lambda>r. h_status r = ''queued'') (hs_log (snd (snd (handle_queue_clear demo_daemon ''aa'' two_queued two_rows))))" by code_simp
    then show ?thesis by (simp add: run)
  qed
  ultimately show ?thesis using hidden by (cases "hs_log t") (auto simp: run)
qed

end
