(* ===== verification/Incoming.thy ===== *)
theory Incoming
  imports HistoryLaws Sessions
begin

text \<open>
  What comes in on a link (\<open>core/messaging.py\<close>): \<open>_packet_callback\<close> with its types of
  message, the announcements of files and the resources that carry them
  (\<open>_resource_concluded\<close>), the cancelling of a transfer by the peer.  Here the message
  engine, the queue and the daemon's history meet: a receipt empties the queue, a message
  goes to the history (\<open>_on_message\<close>) and is answered with a receipt.  A packet is what its
  decoding gives; \<open>loads\<close> is \<open>json.loads\<close> on the text inside one.  The received directory is
  a map from paths to contents.  Progress bars and log lines are left out.
\<close>

section \<open>State\<close>

datatype in_event =
    MediaFrom string                    \<comment> \<open>\<open>on_media_packet\<close>\<close>
  | CallFrom string string              \<comment> \<open>\<open>on_call_signaling\<close>\<close>
  | OfferFrom string chat_msg           \<comment> \<open>a download is started\<close>
  | ReceiptSent string string           \<comment> \<open>on a link, for an id\<close>
  | CancelOutgoing string string        \<comment> \<open>\<open>cancel_transfer\<close>, \<open>on_transfer_revoked\<close>\<close>
  | ReceiptSeen string string           \<comment> \<open>a receipt callback of the daemon: id, status\<close>

record inbox =
  in_engine :: engine
  in_outbox :: outbox
  in_history :: history
  in_pending :: "string \<Rightarrow> chat_msg list"     \<comment> \<open>\<open>_pending_files\<close>, whose names the engine holds\<close>
  in_cancelled :: "string set"
  in_outgoing :: "string set"               \<comment> \<open>the ids of our transfers and of the messages we sent\<close>
  in_callbacks :: "string set"              \<comment> \<open>\<open>_receipt_callbacks\<close> of the daemon, by id\<close>
  in_files :: "string \<Rightarrow> string option"     \<comment> \<open>the received directory, by path\<close>
  in_events :: "in_event list"

record in_env =
  ie_session :: session_env
  ie_daemon :: daemon
  ie_loads :: "string \<Rightarrow> json option"
  ie_dir :: string                          \<comment> \<open>\<open>receive_dir\<close>\<close>
  ie_fresh :: string                        \<comment> \<open>\<open>file_<time>\<close>\<close>
  ie_uuid :: string                         \<comment> \<open>the id of a message the engine makes\<close>

abbreviation le :: "in_env \<Rightarrow> link_env" where
  "le env \<equiv> se_link (ie_session env)"

abbreviation event_in :: "in_event \<Rightarrow> inbox \<Rightarrow> inbox" where
  "event_in e st \<equiv> st\<lparr>in_events := in_events st @ [e]\<rparr>"

text \<open>The queue of announced files of a link; the engine's table has their names.\<close>

definition set_pending :: "string \<Rightarrow> chat_msg list \<Rightarrow> inbox \<Rightarrow> inbox" where
  "set_pending l q st = st\<lparr>in_pending := (in_pending st)(l := q),
     in_engine := (in_engine st)\<lparr>pending_files := AList.update l (map cm_file_name q) (pending_files (in_engine st))\<rparr>\<rparr>"

text \<open>\<open>self.dest_hash_for(self._peer_for_link(link))\<close>\<close>

definition remote_of :: "in_env \<Rightarrow> string \<Rightarrow> inbox \<Rightarrow> string \<times> inbox" where
  "remote_of env l st = (case peer_for_link (ie_session env) l '''' (in_engine st) of
     (p, e) \<Rightarrow> (dest_hash_for (maps e) p, st\<lparr>in_engine := e\<rparr>))"

section \<open>Messages to the daemon\<close>

text \<open>The daemon as it sees the engine.\<close>

definition daemon_with :: "in_env \<Rightarrow> string \<Rightarrow> engine \<Rightarrow> daemon" where
  "daemon_with env canon e = (ie_daemon env)\<lparr>he_maps := Some (maps e), he_my_dest := my_dest_hash (e_me (le env)),
     he_active_hash := active_peer_hash e, he_session_hash := session_peer_hash e, he_canonical := (\<lambda>_. canon)\<rparr>"

text \<open>\<open>on_message\<close>; what the engine learns while it resolves the sender is kept.\<close>

definition resolved_sender :: "in_env \<Rightarrow> chat_msg \<Rightarrow> string \<Rightarrow> inbox \<Rightarrow> string \<times> engine" where
  "resolved_sender env c sender st = (let known = (sender \<noteq> '''' \<and> sender \<noteq> ''system'');
     taken = (message_parties (ie_daemon env) (hs_active (in_history st)) (cm_hub_group c) sender \<noteq> None)
     in if known \<and> taken then canonical_connect_hash (le env) sender None (in_engine st) else ('''', in_engine st))"

definition deliver :: "in_env \<Rightarrow> chat_msg \<Rightarrow> string \<Rightarrow> inbox \<Rightarrow> inbox" where
  "deliver env c sender st = (case resolved_sender env c sender st of (canon, e) \<Rightarrow>
     st\<lparr>in_engine := e, in_history := on_message (daemon_with env canon e) c sender (in_history st)\<rparr>)"

definition system_msg :: "in_env \<Rightarrow> string \<Rightarrow> chat_msg" where
  "system_msg env content = \<lparr>cm_type = ''system'', cm_content = content, cm_time = Num (he_now (ie_daemon env)),
     cm_file_name = '''', cm_file_size = JNull, cm_msg_id = ie_uuid env, cm_hub_group = False\<rparr>"

definition parse_failed :: "in_env \<Rightarrow> string \<Rightarrow> inbox \<Rightarrow> inbox" where
  "parse_failed env err st = deliver env (system_msg env (''Failed to parse message: '' @ err)) '''' st"

section \<open>Receipts\<close>

definition loads_dict :: "in_env \<Rightarrow> string \<Rightarrow> (string \<times> json) list option" where
  "loads_dict env content = (case ie_loads env content of Some (JObj o') \<Rightarrow> Some o' | _ \<Rightarrow> None)"

text \<open>\<open>_receipt_callbacks.pop(msg_id)\<close> and the callback: a drain's (in the outbox) or the daemon's.\<close>

definition seen :: "string \<Rightarrow> string \<Rightarrow> inbox \<Rightarrow> inbox" where
  "seen i status st = (if i \<in> in_callbacks st then event_in (ReceiptSeen i status) (st\<lparr>in_callbacks := in_callbacks st - {i}\<rparr>) else st)"

text \<open>The branch of \<open>__receipt\<close>.  An id that is a number, or true, matches no entry but still binds a new list.\<close>

definition on_receipt_packet :: "in_env \<Rightarrow> chat_msg \<Rightarrow> inbox \<Rightarrow> inbox" where
  "on_receipt_packet env c st = (case loads_dict env (cm_content c) of
       None \<Rightarrow> st
     | Some receipt \<Rightarrow> (case jget receipt ''msg_id'' of
           JStr i \<Rightarrow> (let status = (case jget_or receipt ''status'' (JStr ''received'') of JStr t \<Rightarrow> t | _ \<Rightarrow> '''');
               e = in_engine st;
               st = st\<lparr>in_engine := e\<lparr>pending_sends := pending_sends e - {i}\<rparr>\<rparr>
               in seen i status (st\<lparr>in_outbox := receipt_packet i status (in_outbox st)\<rparr>))
         | JArr _ \<Rightarrow> st
         | JObj _ \<Rightarrow> st
         | v \<Rightarrow> if json_truthy v then st\<lparr>in_outbox := rebind (the_queue (in_outbox st)) (in_outbox st)\<rparr> else st))"

definition on_read_receipt_packet :: "in_env \<Rightarrow> chat_msg \<Rightarrow> inbox \<Rightarrow> inbox" where
  "on_read_receipt_packet env c st = (case loads_dict env (cm_content c) of
       None \<Rightarrow> st
     | Some receipt \<Rightarrow> (case jget receipt ''msg_id'' of
           JStr i \<Rightarrow> seen i ''read'' (st\<lparr>in_outbox := read_receipt_packet i (in_outbox st)\<rparr>)
         | _ \<Rightarrow> st))"

section \<open>Cancelling\<close>

definition jtruthy_text :: "(string \<times> json) list \<Rightarrow> string \<Rightarrow> string" where
  "jtruthy_text d key = (case jget d key of JStr t \<Rightarrow> t | _ \<Rightarrow> '''')"

text \<open>\<open>_cancel_incoming_resources\<close>: the announced files that match are dropped and marked.\<close>

definition cancel_match :: "string \<Rightarrow> string \<Rightarrow> chat_msg \<Rightarrow> bool" where
  "cancel_match tid fname c \<longleftrightarrow> (tid \<noteq> '''' \<and> cm_msg_id c = tid) \<or> (fname \<noteq> '''' \<and> cm_file_name c = fname)"

definition cancel_incoming :: "string \<Rightarrow> string \<Rightarrow> string \<Rightarrow> inbox \<Rightarrow> inbox" where
  "cancel_incoming l tid fname st = (let q = in_pending st l;
     ids = map (\<lambda>c. py_or (cm_msg_id c) tid) (filter (cancel_match tid fname) q)
     in set_pending l (filter (\<lambda>c. \<not> cancel_match tid fname c) q)
          (st\<lparr>in_cancelled := in_cancelled st \<union> set (filter (\<lambda>i. i \<noteq> '''') ids)\<rparr>))"

definition json_type_name :: "json \<Rightarrow> string" where
  "json_type_name v = (case v of JNull \<Rightarrow> ''NoneType'' | JBool _ \<Rightarrow> ''bool'' | JInt _ \<Rightarrow> ''int'' | JFloat _ \<Rightarrow> ''float''
     | JStr _ \<Rightarrow> ''str'' | JArr _ \<Rightarrow> ''list'' | JObj _ \<Rightarrow> ''dict'')"

abbreviation quoted :: "string \<Rightarrow> string" where
  "quoted s \<equiv> CHR 0x27 # s @ [CHR 0x27]"

text \<open>The content is a dict, or no JSON at all (then as if it were empty); on other JSON \<open>.get\<close> raises
  and the packet counts as one that could not be parsed.\<close>

definition cancel_payload :: "in_env \<Rightarrow> string \<Rightarrow> (string + (string \<times> json) list)" where
  "cancel_payload env content = (if content = '''' then Inr [] else case ie_loads env content of
       None \<Rightarrow> Inr []
     | Some (JObj o') \<Rightarrow> Inr o'
     | Some v \<Rightarrow> Inl (quoted (json_type_name v) @ '' object has no attribute '' @ quoted ''get''))"

definition on_cancel_packet :: "in_env \<Rightarrow> string \<Rightarrow> chat_msg \<Rightarrow> inbox \<Rightarrow> inbox" where
  "on_cancel_packet env l c st = (case cancel_payload env (cm_content c) of
     Inl err \<Rightarrow> parse_failed env err st
   | Inr payload \<Rightarrow> let
     tid = py_or (jtruthy_text payload ''transfer_id'') (py_or (jtruthy_text payload ''msg_id'') (cm_msg_id c));
     fname = jtruthy_text payload ''file_name'';
     st = (if tid \<noteq> '''' then st\<lparr>in_cancelled := insert tid (in_cancelled st)\<rparr> else st);
     st = cancel_incoming l tid fname st
     in if tid \<in> in_outgoing st then event_in (CancelOutgoing tid fname) st else st)"

section \<open>Packets\<close>

datatype in_packet = Media | Garbled string | Chat chat_msg

definition file_types :: "string list" where
  "file_types = [''file'', ''image'', ''video'', ''longtext'']"

text \<open>An accepted message that is neither a receipt nor an offer nor a cancellation.\<close>

definition on_chat :: "in_env \<Rightarrow> string \<Rightarrow> chat_msg \<Rightarrow> string \<Rightarrow> inbox \<Rightarrow> inbox" where
  "on_chat env l c remote st = (
     if cm_type c = ''__call'' then (if remote \<noteq> '''' then event_in (CallFrom remote (cm_content c)) st else st)
     else let st = (if cm_type c \<in> set file_types then set_pending l (in_pending st l @ [c]) st else deliver env c remote st)
       in if cm_type c = ''text'' \<or> cm_type c = ''emoji'' then event_in (ReceiptSent l (cm_msg_id c)) st else st)"

definition packet_callback :: "in_env \<Rightarrow> string \<Rightarrow> in_packet \<Rightarrow> inbox \<Rightarrow> inbox" where
  "packet_callback env l p st = (case p of
     Media \<Rightarrow> (case remote_of env l st of (remote, st) \<Rightarrow> if remote \<noteq> '''' then event_in (MediaFrom remote) st else st)
   | Garbled err \<Rightarrow> parse_failed env err st
   | Chat c \<Rightarrow> (case remote_of env l st of (remote, st) \<Rightarrow>
       if remote \<noteq> '''' \<and> \<not> peer_allowed_by_scope (ie_session env) remote l (in_engine st) then st
       else if cm_type c = ''__receipt'' then on_receipt_packet env c st
       else if cm_type c = ''__read_receipt'' then on_read_receipt_packet env c st
       else if cm_type c = ''__lan_http_offer'' then event_in (OfferFrom remote c) st
       else if cm_type c = ''__transfer_cancel'' then on_cancel_packet env l c st
       else if \<not> hub_message_acceptable (le env) (cm_hub_group c) l then st
       else on_chat env l c remote st))"

section \<open>Files\<close>

text \<open>What a resource brought: its contents, nothing, or a failure.\<close>

datatype resource_end = Contents string | NoContents | TransferFailed

text \<open>\<open>_dequeue_pending_file\<close>, when nothing was announced in time: a name of the resource or a fresh one.\<close>

definition unannounced :: "in_env \<Rightarrow> string \<Rightarrow> chat_msg" where
  "unannounced env res_name = (let fname = basename res_name in
     \<lparr>cm_type = (if fname \<noteq> '''' then media_type_for_filename fname else ''file''), cm_content = '''',
      cm_time = Num (he_now (ie_daemon env)), cm_file_name = py_or fname (ie_fresh env), cm_file_size = JNull,
      cm_msg_id = ie_uuid env, cm_hub_group = False\<rparr>)"

definition dequeue_pending_file :: "in_env \<Rightarrow> string \<Rightarrow> string \<Rightarrow> inbox \<Rightarrow> chat_msg \<times> inbox" where
  "dequeue_pending_file env l res_name st = (case in_pending st l of
     c # q \<Rightarrow> (c, set_pending l q st) | [] \<Rightarrow> (unannounced env res_name, st))"

text \<open>Where a file is saved.\<close>

definition save_path_of :: "in_env \<Rightarrow> chat_msg \<Rightarrow> string option" where
  "save_path_of env c = safe_path_under (ie_dir env)
     [safe_basename (Some (py_or (cm_file_name c) (ie_fresh env))) (ie_fresh env)]"

text \<open>A long text is read back from its file, which is removed.\<close>

definition store_received :: "chat_msg \<Rightarrow> string \<Rightarrow> string \<Rightarrow> inbox \<Rightarrow> chat_msg \<times> inbox" where
  "store_received c path data st = (let st = st\<lparr>in_files := (in_files st)(path := Some data)\<rparr> in
     if cm_type c = ''longtext''
     then (c\<lparr>cm_type := ''text'', cm_content := data\<rparr>, st\<lparr>in_files := (in_files st)(path := None)\<rparr>)
     else (c\<lparr>cm_content := path\<rparr>, st))"

definition resource_concluded :: "in_env \<Rightarrow> string \<Rightarrow> string \<Rightarrow> resource_end \<Rightarrow> inbox \<Rightarrow> inbox" where
  "resource_concluded env l res_name r st = (case dequeue_pending_file env l res_name st of (c, st) \<Rightarrow>
     if cm_msg_id c \<noteq> '''' \<and> cm_msg_id c \<in> in_cancelled st then st
     else case r of
       Contents data \<Rightarrow> (case save_path_of env c of
           None \<Rightarrow> st
         | Some path \<Rightarrow> (case store_received c path data st of (c, st) \<Rightarrow>
             case remote_of env l st of (remote, st) \<Rightarrow>
               event_in (ReceiptSent l (cm_msg_id c)) (deliver env c remote st)))
     | NoContents \<Rightarrow> st
     | TransferFailed \<Rightarrow> (case remote_of env l st of (remote, st) \<Rightarrow>
         deliver env (system_msg env (''File transfer failed: '' @ cm_file_name c)) remote st))"

end
