(* ===== verification/IncomingLaws.thy ===== *)
theory IncomingLaws
  imports Incoming SessionLaws
begin

text \<open>
  What holds of everything that comes in on a link: it is filed under the identity that
  Reticulum verified on that link, files stay in the received directory, a text that is
  confirmed is stored; and where this fails.
\<close>

section \<open>Frames\<close>

text \<open>What the steps leave of the history and of the files.\<close>

lemma history_frames [simp]:
  "in_history (set_pending l q st) = in_history st" "in_history (seen i status st) = in_history st"
  "in_history (on_receipt_packet env c st) = in_history st" "in_history (on_read_receipt_packet env c st) = in_history st"
  "in_history (cancel_incoming l i f st) = in_history st"
  by (auto simp: set_pending_def seen_def on_receipt_packet_def on_read_receipt_packet_def cancel_incoming_def Let_def
      split: option.split json.split)

lemma files_frames [simp]:
  "in_files (set_pending l q st) = in_files st" "in_files (seen i status st) = in_files st"
  "in_files (on_receipt_packet env c st) = in_files st" "in_files (on_read_receipt_packet env c st) = in_files st"
  "in_files (cancel_incoming l i f st) = in_files st"
  by (auto simp: set_pending_def seen_def on_receipt_packet_def on_read_receipt_packet_def cancel_incoming_def Let_def
      split: option.split json.split)

lemma remote_frames:
  assumes "remote_of env l st = (p, t)"
  shows "in_history t = in_history st" "in_files t = in_files st" "in_events t = in_events st"
    "in_cancelled t = in_cancelled st" "in_pending t = in_pending st"
  using assms by (auto simp: remote_of_def split: prod.splits)

lemma deliver_frames [simp]:
  "in_files (deliver env c h st) = in_files st" "in_events (deliver env c h st) = in_events st"
  "in_pending (deliver env c h st) = in_pending st"
  by (simp_all add: deliver_def split: prod.split)

lemma deliver_run: "\<exists>canon e. deliver env c h st = st\<lparr>in_engine := e, in_history := on_message (daemon_with env canon e) c h (in_history st)\<rparr>"
  by (cases "resolved_sender env c h st") (auto simp: deliver_def)

lemma on_cancel_files [simp]: "in_files (on_cancel_packet env l c st) = in_files st"
  by (simp add: on_cancel_packet_def parse_failed_def Let_def split: sum.split)

lemma on_chat_files [simp]: "in_files (on_chat env l c r st) = in_files st"
  by (simp add: on_chat_def Let_def)

lemma packet_files: "in_files (packet_callback env l p st) = in_files st"
proof -
  obtain r t where r: "remote_of env l st = (r, t)" by force
  note f = remote_frames(2) [OF r]
  show ?thesis by (cases p) (simp_all add: packet_callback_def parse_failed_def r f)
qed

section \<open>Who is on the link\<close>

text \<open>The hash of a peer whose identity Reticulum has verified on a link.\<close>

definition verified :: "link_env \<Rightarrow> string \<Rightarrow> string \<Rightarrow> bool" where
  "verified env l p \<longleftrightarrow> (\<exists>dest ident. l_remote (e_info env l) = Some (dest, ident) \<and> p = nhash dest
     \<and> nhash ident \<noteq> '''' \<and> nhash ident \<noteq> p \<and> known_party env p \<and> p \<noteq> ''system'')"

definition registered :: "peer_maps \<Rightarrow> string \<Rightarrow> bool" where
  "registered m p \<longleftrightarrow> map_of (dest_to_identity m) p \<noteq> None \<and> nhash p = p \<and> p \<noteq> ''''"

lemma registered_dest_hash: "registered m p \<Longrightarrow> dest_hash_for m p = p"
  by (simp add: registered_def dest_hash_for_def)

lemma canonical_registered:
  assumes "registered (maps s) p" "known_party env p"
  shows "canonical_connect_hash env p k s = (p, s)"
  using assms registered_dest_hash [OF assms(1)]
  by (simp add: canonical_connect_hash_def registered_def)

lemma peer_for_verified:
  assumes "verified (se_link se) l p" "peer_for_link se l f s = (h, e)"
  shows "h = p \<and> registered (maps e) p"
proof -
  obtain dest ident where r: "l_remote (e_info (se_link se) l) = Some (dest, ident)" "p = nhash dest"
    and i: "nhash ident \<noteq> ''''" "nhash ident \<noteq> p" and k: "known_party (se_link se) p"
    using assms(1) by (auto simp: verified_def)
  define s1 where "s1 = s\<lparr>maps := register_peer_mapping p (nhash ident) (maps s)\<rparr>"
  have p: "p \<noteq> ''''" "nhash p = p" "ident \<noteq> ''''" "\<not> is_self_hash (e_me (se_link se)) p"
    using k r(2) i(1) by (auto simp: known_party_def)
  have "peer_hash_from_link_identity (se_link se) l s = (p, s1)"
    using r i p by (simp add: peer_hash_from_link_identity_def dest_hash_from_identity_def message_dest_hash_for_identity_def
        s1_def Let_def)
  moreover have reg: "registered (maps s1) p" using i p
    by (simp add: s1_def registered_def register_peer_mapping_def Let_def)
  ultimately have "(h, e) = (p, cache_link_peer (se_link se) l p s1)" using assms(2) k by (auto simp: peer_for_link_def)
  moreover have "maps (cache_link_peer (se_link se) l p s1) = maps s1"
    using canonical_registered [OF reg k] by (simp add: cache_link_peer_def)
  ultimately show ?thesis using reg by simp
qed

lemma remote_verified:
  assumes "verified (le env) l p" "remote_of env l st = (r, t)"
  shows "r = p" "registered (maps (in_engine t)) p"
  using assms peer_for_verified [of "ie_session env" l p "''''" "in_engine st"] registered_dest_hash
  by (auto simp: remote_of_def split: prod.splits)

section \<open>What is delivered\<close>

text \<open>The rows a delivery adds: of the daemon itself, or of the peer it came from.\<close>

definition speaks :: "string \<Rightarrow> hrow \<Rightarrow> bool" where
  "speaks p r \<longleftrightarrow> h_sender r = ''system'' \<or> (h_sender r = p \<and> h_chat_peer r \<in> {p, hub_group_peer})"

definition adds_rows :: "string \<Rightarrow> inbox \<Rightarrow> inbox \<Rightarrow> bool" where
  "adds_rows p st st' \<longleftrightarrow> (\<exists>new. hs_log (in_history st') = hs_log (in_history st) @ new \<and> list_all (speaks p) new)"

lemma adds_none: "in_history st' = in_history st \<Longrightarrow> adds_rows p st st'"
  by (simp add: adds_rows_def)

lemma on_message_speaks:
  assumes "\<And>chat_peer sender. message_parties d (hs_active s) (cm_hub_group c) h = Some (chat_peer, sender) \<Longrightarrow>
      sender = ''system'' \<or> (sender = p \<and> chat_peer \<in> {p, hub_group_peer} \<and> peer_dest_hash d p = p)"
    and "p \<noteq> ''''"
  shows "\<exists>new. hs_log (on_message d c h s) = hs_log s @ new \<and> list_all (speaks p) new"
proof (cases "message_parties d (hs_active s) (cm_hub_group c) h")
  case None
  then show ?thesis by (simp add: on_message_def)
next
  case (Some x)
  then obtain cp sender where x: "message_parties d (hs_active s) (cm_hub_group c) h = Some (cp, sender)" by (cases x) auto
  have hub: "hub_group_peer \<noteq> ''''" "peer_dest_hash d hub_group_peer = hub_group_peer"
    by (code_simp, simp add: peer_dest_hash_def)
  show ?thesis
  proof (cases "session_text (cm_content c)")
    case True
    then show ?thesis by (simp add: on_message_def x Let_def)
  next
    case False
    have "speaks p (enrich_message d a (Some False) (new_row c sender cp status))" for a status
    proof (cases "sender = ''system''")
      case True
      then show ?thesis by (simp add: speaks_def)
    next
      case False
      then have "sender = p" "cp \<in> {p, hub_group_peer}" "peer_dest_hash d p = p" using assms(1) [OF x] by auto
      then show ?thesis using hub assms(2) by (auto simp: speaks_def)
    qed
    then show ?thesis using False by (simp add: on_message_def x Let_def)
  qed
qed

lemma deliver_speaks:
  assumes "registered (maps (in_engine st)) p" "known_party (le env) p" "p \<noteq> ''system''"
  shows "adds_rows p st (deliver env c p st)"
proof -
  let ?e = "in_engine st"
  have p: "p \<noteq> ''''" "dest_hash_for (maps ?e) p = p"
    using assms(1) registered_dest_hash [OF assms(1)] by (simp_all add: registered_def)
  note canon = canonical_registered [OF assms(1,2)]
  define taken where "taken = (message_parties (ie_daemon env) (hs_active (in_history st)) (cm_hub_group c) p \<noteq> None)"
  define can where "can = (if taken then p else '''')"
  have run: "deliver env c p st = st\<lparr>in_history := on_message (daemon_with env can ?e) c p (in_history st)\<rparr>"
    using p assms(3) canon by (simp add: deliver_def resolved_sender_def can_def taken_def Let_def)
  have dest: "peer_dest_hash (daemon_with env can ?e) p = p"
    using p(2) by (auto simp: peer_dest_hash_def daemon_with_def)
  have "sender = p \<and> cp \<in> {p, hub_group_peer}"
    if "message_parties (daemon_with env can ?e) a hub p = Some (cp, sender)" for a hub cp sender
    using that p assms(3) dest
    by (auto simp: message_parties_def can_def daemon_with_def Let_def split: if_splits)
  then have "\<exists>new. hs_log (on_message (daemon_with env can ?e) c p (in_history st)) = hs_log (in_history st) @ new
      \<and> list_all (speaks p) new"
    using dest p(1) by (intro on_message_speaks) auto
  then show ?thesis by (simp add: run adds_rows_def)
qed

lemma deliver_system: "p \<noteq> '''' \<Longrightarrow> adds_rows p st (deliver env c '''' st)"
proof -
  assume p: "p \<noteq> ''''"
  have "sender = ''system''"
    if "message_parties d a hub '''' = Some (cp, sender)" for d a hub cp sender
    using that by (auto simp: message_parties_def Let_def split: if_splits)
  then have "\<exists>new. hs_log (on_message d c '''' s) = hs_log s @ new \<and> list_all (speaks p) new" for d s
    using p by (intro on_message_speaks) auto
  then show ?thesis using deliver_run [of env c "''''" st] by (auto simp: adds_rows_def)
qed


section \<open>Nobody speaks for another\<close>

datatype in_event_of = Packet string in_packet | Resource string string resource_end

fun link_of :: "in_event_of \<Rightarrow> string" where
  "link_of (Packet l p) = l"
| "link_of (Resource l n r) = l"

fun in_step :: "in_env \<Rightarrow> in_event_of \<Rightarrow> inbox \<Rightarrow> inbox" where
  "in_step env (Packet l p) st = packet_callback env l p st"
| "in_step env (Resource l n r) st = resource_concluded env l n r st"

lemma adds_via: "in_history st = in_history t \<Longrightarrow> adds_rows p st u \<longleftrightarrow> adds_rows p t u"
  "in_history u = in_history v \<Longrightarrow> adds_rows p st u \<longleftrightarrow> adds_rows p st v"
  by (simp_all add: adds_rows_def)

lemma deliver_remote:
  assumes "verified (le env) l p" "remote_of env l st = (r, t)"
  shows "r = p" "adds_rows p st (deliver env c r t)"
proof -
  show r: "r = p" by (rule remote_verified(1) [OF assms])
  have "known_party (le env) p" "p \<noteq> ''system''" using assms(1) by (auto simp: verified_def)
  then show "adds_rows p st (deliver env c r t)"
    unfolding adds_via(1) [OF remote_frames(1) [OF assms(2), symmetric]] r
    by (rule deliver_speaks [OF remote_verified(2) [OF assms]])
qed

lemma packet_speaks:
  assumes v: "verified (le env) l p" shows "adds_rows p st (packet_callback env l k st)"
proof -
  obtain r t where r: "remote_of env l st = (r, t)" by force
  note h = remote_frames(1) [OF r] and d = deliver_remote [OF v r]
  have ne: "p \<noteq> ''''" using v by (auto simp: verified_def known_party_def)
  have failed: "adds_rows p st (parse_failed env err u)" if "in_history u = in_history st" for err u
    using deliver_system [OF ne, of u env] that unfolding parse_failed_def adds_rows_def by simp
  have none: "adds_rows p st u" if "in_history u = in_history st" for u by (rule adds_none [OF that])
  have cancel: "adds_rows p st (on_cancel_packet env l c t)" for c
  proof (cases "cancel_payload env (cm_content c)")
    case (Inl err)
    then show ?thesis using failed [OF h] by (simp add: on_cancel_packet_def)
  next
    case (Inr payload)
    then show ?thesis by (intro none) (simp add: on_cancel_packet_def h Let_def)
  qed
  have chat: "adds_rows p st (on_chat env l c r t)" for c
  proof -
    have "adds_rows p st (event_in e (deliver env c r t))" for e using d(2) by (simp add: adds_rows_def)
    with d(2) show ?thesis by (auto simp: on_chat_def h Let_def intro!: none)
  qed
  have still: "adds_rows p st t" "\<And>e. adds_rows p st (event_in e t)" "\<And>c. adds_rows p st (on_receipt_packet env c t)"
    "\<And>c. adds_rows p st (on_read_receipt_packet env c t)"
    by (rule none, simp add: h)+
  have "r \<noteq> ''''" using d(1) ne by simp
  then show ?thesis by (cases k) (simp_all add: packet_callback_def r cancel chat failed still)
qed

lemma resource_speaks:
  assumes v: "verified (le env) l p" shows "adds_rows p st (resource_concluded env l n k st)"
proof -
  obtain c u where u: "dequeue_pending_file env l n st = (c, u)" by force
  have hu: "in_history u = in_history st" using u by (auto simp: dequeue_pending_file_def split: list.splits)
  have none: "adds_rows p st w" if "in_history w = in_history st" for w by (rule adds_none [OF that])
  have del: "adds_rows p st (case remote_of env l w of (r, t) \<Rightarrow> deliver env c' r t)" if "in_history w = in_history st" for c' w
  proof -
    obtain r t where r: "remote_of env l w = (r, t)" by force
    from deliver_remote(2) [OF v r] that show ?thesis by (simp add: r adds_rows_def)
  qed
  have saved: "adds_rows p st (case store_received c path data u of (c, w) \<Rightarrow> case remote_of env l w of (r, t) \<Rightarrow>
      event_in (ReceiptSent l (cm_msg_id c)) (deliver env c r t))" for path data
  proof -
    obtain c' w where w: "store_received c path data u = (c', w)" by force
    then have "in_history w = in_history st" by (auto simp: store_received_def hu Let_def split: if_splits)
    from del [OF this, of c'] obtain r t where "remote_of env l w = (r, t)" "adds_rows p st (deliver env c' r t)"
      by (cases "remote_of env l w") simp
    then show ?thesis by (simp add: w adds_rows_def)
  qed
  show ?thesis using saved del none hu
    by (auto simp: resource_concluded_def u split: resource_end.split option.split)
qed



section \<open>Texts and their receipts\<close>

lemma deliver_stored:
  assumes "accepts_from (ie_daemon env) h" "\<not> cm_hub_group c" "\<not> session_text (cm_content c)"
  shows "\<exists>row. hs_log (in_history (deliver env c h st)) = hs_log (in_history st) @ [row]
    \<and> h_content row = cm_content c \<and> h_msg_id row = cm_msg_id c \<and> h_time row = cm_time c"
proof -
  obtain canon e where run: "deliver env c h st = st\<lparr>in_engine := e, in_history := on_message (daemon_with env canon e) c h (in_history st)\<rparr>"
    using deliver_run by blast
  have "accepts_from (daemon_with env canon e) h" using assms(1) by (simp add: accepts_from_def daemon_with_def)
  from on_message_accepted [OF this assms(2,3)] show ?thesis by (simp add: run received_row_def)
qed

lemma packet_text:
  assumes "remote_of env l st = (remote, t)" "remote \<noteq> '''' \<Longrightarrow> peer_allowed_by_scope (ie_session env) remote l (in_engine t)"
    and "cm_type c \<in> {''text'', ''emoji''}" "\<not> cm_hub_group c"
  shows "packet_callback env l (Chat c) st = event_in (ReceiptSent l (cm_msg_id c)) (deliver env c remote t)"
proof -
  have "cm_type c \<notin> {''__call'', ''__receipt'', ''__read_receipt'', ''__lan_http_offer'', ''__transfer_cancel''}"
    "cm_type c \<notin> set file_types" "cm_type c = ''text'' \<or> cm_type c = ''emoji''"
    using assms(3) by (auto simp: file_types_def)
  moreover have "\<not> (remote \<noteq> '''' \<and> \<not> peer_allowed_by_scope (ie_session env) remote l (in_engine t))" using assms(2) by blast
  ultimately show ?thesis using assms(4)
    unfolding packet_callback_def in_packet.case assms(1) prod.case on_chat_def hub_message_acceptable_def
    by (simp only: if_False if_True insert_iff empty_iff simp_thms Let_def)
      (auto simp: Let_def)
qed

text \<open>C13: A text from a peer that both the engine and the daemon accept is stored and confirmed: one row
  with its text, id and time is added to the history, and one receipt with its id goes back
  on the link.  (Unless it reads like a notice of the daemon, see below.)\<close>

theorem text_stored_and_confirmed:
  assumes "remote_of env l st = (remote, t)" "peer_allowed_by_scope (ie_session env) remote l (in_engine t)"
    and "cm_type c \<in> {''text'', ''emoji''}" "\<not> cm_hub_group c"
    and "accepts_from (ie_daemon env) remote" "\<not> session_text (cm_content c)"
  shows "\<exists>row. hs_log (in_history (packet_callback env l (Chat c) st)) = hs_log (in_history st) @ [row]
    \<and> h_content row = cm_content c \<and> h_msg_id row = cm_msg_id c \<and> h_time row = cm_time c
    \<and> in_events (packet_callback env l (Chat c) st) = in_events st @ [ReceiptSent l (cm_msg_id c)]"
  using deliver_stored [OF assms(5,4,6), of t] remote_frames [OF assms(1)]
  by (simp add: packet_text [OF assms(1) _ assms(3,4)] assms(2))

text \<open>C33: A text that contains \<open>Link closed\<close>, or begins like one of the daemon's notices, is confirmed to
  its sender and dropped: the receipt goes out, the history and the file stay as they were.\<close>

theorem text_confirmed_but_dropped:
  assumes "remote_of env l st = (remote, t)" "peer_allowed_by_scope (ie_session env) remote l (in_engine t)"
    and "cm_type c \<in> {''text'', ''emoji''}" "\<not> cm_hub_group c" "session_text (cm_content c)"
  shows "in_history (packet_callback env l (Chat c) st) = in_history st
    \<and> in_events (packet_callback env l (Chat c) st) = in_events st @ [ReceiptSent l (cm_msg_id c)]"
proof -
  have "on_message d c h s = s" for d h s using assms(5) by (simp add: on_message_def Let_def split: option.split)
  then have "in_history (deliver env c remote t) = in_history t" using deliver_run [of env c remote t] by auto
  then show ?thesis using remote_frames [OF assms(1)]
    by (simp add: packet_text [OF assms(1) _ assms(3,4)] assms(2))
qed

section \<open>Files\<close>

text \<open>The received directory is absolute and not the root.\<close>

definition dir_ok :: "in_env \<Rightarrow> bool" where
  "dir_ok env \<longleftrightarrow> proper_dir (ie_dir env) \<and> good_part (ie_fresh env)"

definition in_dir :: "string \<Rightarrow> string \<Rightarrow> bool" where
  "in_dir dir p \<longleftrightarrow> (\<exists>n cs name. dir = abs_path n cs \<and> p = abs_path n (cs @ [name]) \<and> good_part name)"

lemma basename_good: "good_part dflt \<Longrightarrow> good_part (safe_basename f dflt)"
proof -
  assume d: "good_part dflt"
  have "slash \<notin> set (basename p)" for p
    unfolding basename_def by (rule split_no_sep [of _ slash p]) simp
  with d show ?thesis by (auto simp: safe_basename_def good_part_def Let_def)
qed

lemma save_path_in_dir:
  assumes "dir_ok env" shows "\<exists>p. save_path_of env c = Some p \<and> in_dir (ie_dir env) p"
proof -
  let ?name = "safe_basename (Some (py_or (cm_file_name c) (ie_fresh env))) (ie_fresh env)"
  obtain n cs where n: "n = 1 \<or> n = 2" and cs: "cs \<noteq> []" "\<forall>c \<in> set cs. good_part c" and d: "ie_dir env = abs_path n cs"
    using assms by (auto simp: dir_ok_def proper_dir_def)
  have good: "good_part ?name" using assms by (intro basename_good) (simp add: dir_ok_def)
  then have all: "\<forall>c \<in> set (cs @ [?name]). good_part c" "cs @ [?name] \<noteq> []" using cs by simp_all
  have "normpath (path_join (abs_path n cs) [?name]) = abs_path n (cs @ [?name])"
    using join_abs [OF cs(2,1), of "[?name]" n] good normpath_abs [OF n all] by simp
  moreover have "below (abs_path n cs) (abs_path n (cs @ [?name]))"
    using cs by (simp add: abs_path_def slash_join_append)
  ultimately have "save_path_of env c = Some (abs_path n (cs @ [?name]))"
    using normpath_abs [OF n cs(2,1)] by (simp add: save_path_of_def safe_path_under_def d)
  with good d show ?thesis by (auto simp: in_dir_def)
qed

lemma resource_files:
  assumes "dir_ok env" "\<not> in_dir (ie_dir env) p"
  shows "in_files (resource_concluded env l n k st) p = in_files st p"
proof -
  obtain c u where u: "dequeue_pending_file env l n st = (c, u)" by force
  have fu: "in_files u = in_files st" using u by (auto simp: dequeue_pending_file_def split: list.splits)
  obtain path where path: "save_path_of env c = Some path" "path \<noteq> p" using save_path_in_dir [OF assms(1), of c] assms(2) by auto
  have store: "in_files w p = in_files st p" if "store_received c path data u = (c', w)" for c' w data
    using that path fu by (auto simp: store_received_def Let_def split: if_splits)
  have rem: "in_files (snd (remote_of env l w)) = in_files w" for w
    using remote_frames(2) [of env l w] by (cases "remote_of env l w") simp
  show ?thesis using store path rem fu
    by (cases k) (auto simp: resource_concluded_def u split: prod.splits dest!: remote_frames(2))
qed

definition kept_outside :: "string \<Rightarrow> (string \<Rightarrow> string option) \<Rightarrow> inbox \<Rightarrow> bool" where
  "kept_outside dir fs st \<longleftrightarrow> (\<forall>p. in_files st p \<noteq> fs p \<longrightarrow> in_dir dir p)"

interpretation received: step_system "\<lambda>(env, e). in_step env e" "\<lambda>(env, e). dir_ok env \<and> ie_dir env = dir"
  "kept_outside dir fs" for dir fs
proof (unfold_locales, clarify)
  fix env e s assume ok: "dir_ok env" "dir = ie_dir env" and inv: "kept_outside (ie_dir env) fs s"
  have "in_files (in_step env e s) p = in_files s p" if "\<not> in_dir (ie_dir env) p" for p
    using packet_files resource_files [OF ok(1) that] by (cases e) simp_all
  then show "kept_outside (ie_dir env) fs (in_step env e s)"
    using inv unfolding kept_outside_def by metis
qed

text \<open>C12: Files stay in their directory: through any sequence of packets and files on any links, with
  whatever names, only paths directly in the received directory are written or removed.\<close>

theorem received_files_confined:
  assumes "\<forall>(env, e) \<in> set arrivals. dir_ok env \<and> ie_dir env = dir"
    and "in_files (fold (\<lambda>(env, e). in_step env e) arrivals st) p \<noteq> in_files st p"
  shows "in_dir dir p"
proof -
  have "kept_outside dir (in_files st) (fold (\<lambda>(env, e). in_step env e) arrivals st)"
    by (rule received.run_inv [OF assms(1)]) (simp add: kept_outside_def)
  with assms(2) show ?thesis by (simp add: kept_outside_def)
qed


lemma resource_saved:
  assumes "in_pending st l = c # q" "cm_msg_id c \<notin> in_cancelled st" "save_path_of env c = Some path"
  shows "in_files (resource_concluded env l n (Contents data) st) path = (if cm_type c = ''longtext'' then None else Some data)"
    and "\<exists>new. hs_log (in_history (resource_concluded env l n (Contents data) st)) = hs_log (in_history st) @ new"
proof -
  let ?u = "set_pending l q st"
  obtain c' w where w: "store_received c path data ?u = (c', w)" by force
  obtain r t where r: "remote_of env l w = (r, t)" by force
  have run: "resource_concluded env l n (Contents data) st = event_in (ReceiptSent l (cm_msg_id c')) (deliver env c' r t)"
  proof -
    have "dequeue_pending_file env l n st = (c, ?u)" using assms(1) by (simp add: dequeue_pending_file_def)
    moreover have "in_cancelled ?u = in_cancelled st" by (simp add: set_pending_def)
    ultimately show ?thesis using assms(2,3) by (simp add: resource_concluded_def w r)
  qed
  have "in_files w path = (if cm_type c = ''longtext'' then None else Some data)" "in_history w = in_history st"
    using w by (auto simp: store_received_def Let_def split: if_splits)
  then have t: "in_files t path = (if cm_type c = ''longtext'' then None else Some data)" "in_history t = in_history st"
    using remote_frames [OF r] by simp_all
  show "in_files (resource_concluded env l n (Contents data) st) path = (if cm_type c = ''longtext'' then None else Some data)"
    using t by (simp add: run)
  obtain canon e where "deliver env c' r t = t\<lparr>in_engine := e, in_history := on_message (daemon_with env canon e) c' r (in_history t)\<rparr>"
    using deliver_run by blast
  then show "\<exists>new. hs_log (in_history (resource_concluded env l n (Contents data) st)) = hs_log (in_history st) @ new"
    using on_message_rows t(2) by (fastforce simp: run)
qed


section \<open>Examples\<close>

definition lan_in_env :: in_env where
  "lan_in_env = \<lparr>ie_session = lan_session_env, ie_daemon = demo_daemon, ie_loads = (\<lambda>_. None), ie_dir = ''/r'',
     ie_fresh = ''file_1'', ie_uuid = ''u1''\<rparr>"

definition fresh_inbox :: inbox where
  "fresh_inbox = \<lparr>in_engine = linked_engine, in_outbox = empty_outbox, in_history = no_history, in_pending = (\<lambda>_. []),
     in_cancelled = {}, in_outgoing = {}, in_callbacks = {}, in_files = (\<lambda>_. None), in_events = []\<rparr>"

lemma lan_simps:
  "le lan_in_env = lan_link_env" "ie_session lan_in_env = lan_session_env" "ie_daemon lan_in_env = demo_daemon"
  "se_scope lan_session_env = None" "se_link lan_session_env = lan_link_env"
  by (simp_all add: lan_in_env_def lan_session_env_def)

lemma lan_verified: "verified (le lan_in_env) ''l'' ''ab''"
proof -
  have "nhash ''ab'' = ''ab''" "nhash ''cd'' = ''cd''" "known_party lan_link_env ''ab''" by code_simp+
  moreover have "l_remote (e_info lan_link_env ''l'') = Some (''ab'', ''cd'')" by (simp add: lan_link_env_def)
  ultimately show ?thesis unfolding verified_def lan_simps by force
qed


definition closed_text :: chat_msg where
  "closed_text = (hello (Num 7))\<lparr>cm_content := ''Link closed again?''\<rparr>"

lemma lan_accepts: "remote_of lan_in_env ''l'' fresh_inbox = (''ab'', t) \<Longrightarrow>
    peer_allowed_by_scope (ie_session lan_in_env) ''ab'' ''l'' (in_engine t)"
proof -
  have "fst (remote_of lan_in_env ''l'' fresh_inbox) = ''ab''
    \<and> peer_allowed_by_scope (ie_session lan_in_env) ''ab'' ''l'' (in_engine (snd (remote_of lan_in_env ''l'' fresh_inbox)))"
    by code_simp
  then show "remote_of lan_in_env ''l'' fresh_inbox = (''ab'', t) \<Longrightarrow> ?thesis" by simp
qed

lemma lan_remote: "\<exists>t. remote_of lan_in_env ''l'' fresh_inbox = (''ab'', t)"
  using remote_verified(1) [OF lan_verified] by (metis surj_pair)

lemma lan_daemon: "accepts_from (ie_daemon lan_in_env) ''ab''"
  by (simp add: accepts_from_def demo_daemon_def lan_simps)

lemma text_stored_and_confirmed_witness:
  "\<exists>row. hs_log (in_history (packet_callback lan_in_env ''l'' (Chat (hello (Num 7))) fresh_inbox)) = [row] \<and> h_content row = ''hello''"
proof -
  obtain t where t: "remote_of lan_in_env ''l'' fresh_inbox = (''ab'', t)" using lan_remote by blast
  have "\<not> session_text (cm_content (hello (Num 7)))" by code_simp
  from text_stored_and_confirmed [OF t lan_accepts [OF t] _ _ lan_daemon this]
  show ?thesis by (auto simp: hello_def fresh_inbox_def no_history_def)
qed

lemma text_confirmed_but_dropped_witness:
  "in_history (packet_callback lan_in_env ''l'' (Chat closed_text) fresh_inbox) = no_history"
proof -
  obtain t where t: "remote_of lan_in_env ''l'' fresh_inbox = (''ab'', t)" using lan_remote by blast
  have "session_text (cm_content closed_text)" by code_simp
  from text_confirmed_but_dropped [OF t lan_accepts [OF t] _ _ this]
  show ?thesis by (simp add: closed_text_def hello_def fresh_inbox_def)
qed

text \<open>A photo from an earlier peer, and one of the same name announced on this link.\<close>

definition photo :: "string \<Rightarrow> chat_msg" where
  "photo i = \<lparr>cm_type = ''image'', cm_content = '''', cm_time = Num 8, cm_file_name = ''../p.png'', cm_file_size = JInt 3,
     cm_msg_id = i, cm_hub_group = False\<rparr>"

definition one_photo :: inbox where
  "one_photo = fresh_inbox\<lparr>in_history := no_history\<lparr>hs_log := [(new_row (photo ''p1'') ''99'' ''99'' ''received'')\<lparr>h_content := ''/r/p.png''\<rparr>]\<rparr>,
     in_files := (\<lambda>p. if p = ''/r/p.png'' then Some ''old'' else None), in_pending := (\<lambda>l. [photo ''p2''])\<rparr>"

lemma lan_save: "save_path_of lan_in_env (photo i) = Some ''/r/p.png''"
proof -
  have "save_path_of lan_in_env (photo i) = save_path_of lan_in_env (photo '''')" by (simp add: save_path_of_def photo_def)
  also have "\<dots> = Some ''/r/p.png''" by code_simp
  finally show ?thesis .
qed


lemma received_files_confined_witness: "in_dir ''/r'' ''/r/p.png''"
proof -
  have "dir_ok lan_in_env \<and> ie_dir lan_in_env = ''/r''"
    unfolding dir_ok_def proper_dir_def lan_in_env_def
    by (auto intro!: exI [of _ 1] exI [of _ "[''r'']"] simp: good_part_def abs_path_def)
  then have "\<forall>(env, e) \<in> set [(lan_in_env, Resource ''l'' '''' (Contents ''new''))]. dir_ok env \<and> ie_dir env = ''/r''" by simp
  moreover have "in_files one_photo ''/r/p.png'' = Some ''old''" by (simp add: one_photo_def)
  moreover have "in_files (resource_concluded lan_in_env ''l'' '''' (Contents ''new'') one_photo) ''/r/p.png'' = Some ''new''"
    using resource_saved(1) [of one_photo "''l''" "photo ''p2''" "[]" lan_in_env "''/r/p.png''" "''''" "''new''"] lan_save
    by (simp add: one_photo_def fresh_inbox_def photo_def)
  ultimately show ?thesis using received_files_confined [of "[(lan_in_env, Resource ''l'' '''' (Contents ''new''))]" "''/r''" one_photo "''/r/p.png''"]
    by simp
qed

end
