(* ===== verification/PeerChoice.thy ===== *)
theory PeerChoice
  imports History DiscoveryEvents Sessions LinkLaws
begin

text \<open>
  Which peer the daemon means (\<open>rnsd/service.py\<close>): the row of the discovery table a connection
  goes to, whether a peer is on the pinned LAN, whether a hash is still current and what
  replaces it when it is not.  What discovery lists is read once per operation: the rows under
  the scope (\<open>_scoped_peers\<close>), all rows it lists, and all rows it holds.  Queries of the
  message engine return its state, as in \<open>LinkOps\<close>; the engine has started.
\<close>

record peer_view =
  pv_scoped :: "peer list"          \<comment> \<open>\<open>_scoped_peers()\<close>\<close>
  pv_listed :: "peer list"          \<comment> \<open>\<open>discovery.get_peers()\<close>\<close>
  pv_table :: "peer list"           \<comment> \<open>\<open>discovery.peers.values()\<close>\<close>
  pv_current :: "string \<Rightarrow> bool"    \<comment> \<open>\<open>discovery.peer_is_current(hash, scope)\<close>\<close>
  pv_discovery :: bool              \<comment> \<open>\<open>self.discovery\<close> is there\<close>
  pv_scope :: string                \<comment> \<open>\<open>_discovery_scope_ip()\<close>, empty when there is none\<close>
  pv_serial :: bool                 \<comment> \<open>\<open>serial_discovery_active()\<close>\<close>
  pv_serial_path :: "string \<Rightarrow> bool"\<comment> \<open>\<open>peer_path_on_family(hash, "serial")\<close>\<close>
  pv_dual :: bool                   \<comment> \<open>\<open>dual_transport_isolation_enabled()\<close>\<close>

section \<open>Reading the discovery table\<close>

text \<open>\<open>_scoped_peers\<close>, and the view of a discovery object; \<open>get_peers\<close> may raise.\<close>

definition scoped_peers :: "denv \<Rightarrow> string option \<Rightarrow> dstate \<Rightarrow> py_error + (peer list \<times> dstate)" where
  "scoped_peers env scope_ip s = get_peers env scope_ip (snd (purge_ipless_non_serial (snd (purge_misclassified_serial env s))))"

text \<open>\<open>_current_peer_for_ip\<close>: of the rows with an address the one seen last, the later of equals.\<close>

definition seen_at :: "peer \<Rightarrow> real" where
  "seen_at p = (case p_last_seen p of None \<Rightarrow> 0 | Some t \<Rightarrow> t)"

definition later_seen :: "peer \<Rightarrow> peer option \<Rightarrow> peer option" where
  "later_seen p best = (case best of None \<Rightarrow> Some p | Some b \<Rightarrow> if seen_at b \<le> seen_at p then Some p else Some b)"

definition current_peer_for_ip :: "peer_view \<Rightarrow> string \<Rightarrow> peer option" where
  "current_peer_for_ip v ip = (if ip = '''' \<or> \<not> pv_discovery v then None
     else fold later_seen (filter (\<lambda>p. p_ip p = Some ip) (pv_listed v)) None)"

text \<open>The last row of a list that satisfies a condition.\<close>

definition find_last :: "('a \<Rightarrow> bool) \<Rightarrow> 'a list \<Rightarrow> 'a option" where
  "find_last p xs = find p (rev xs)"

definition names_row :: "string \<Rightarrow> peer \<Rightarrow> bool" where
  "names_row clean p \<longleftrightarrow> clean \<noteq> '''' \<and> (normalize_hash (p_hash p) = clean \<or> normalize_hash (p_identity_hash p) = clean)"

abbreviation via_of :: "peer \<Rightarrow> string" where
  "via_of p \<equiv> stripE (p_via p)"

section \<open>Where a connection goes\<close>

text \<open>A peer that is announced on USB and over Reticulum on the LAN.\<close>

definition dual_choice :: "peer_view \<Rightarrow> string \<Rightarrow> peer \<Rightarrow> peer \<Rightarrow> peer" where
  "dual_choice v peer_ip by_serial by_rns = (let
     rns_ip = stripE (p_ip by_rns);
     in_scope = (rns_ip \<noteq> '''' \<and> (pv_scope v = '''' \<or> peer_in_scope (Some rns_ip) (Some (pv_scope v))));
     s_rtt = p_rtt_avg_ms by_serial; r_rtt = p_rtt_avg_ms by_rns in
     if peer_ip \<noteq> '''' \<and> rns_ip \<noteq> '''' \<and> peer_ip = rns_ip then by_rns
     else if peer_ip \<noteq> '''' \<and> rns_ip \<noteq> '''' \<and> peer_ip \<noteq> rns_ip then by_serial
     else if \<not> in_scope \<or> \<not> pv_serial v then by_serial
     else case (s_rtt, r_rtt) of
         (Some a, Some b) \<Rightarrow> if a \<le> b then by_serial else by_rns
       | (Some _, None) \<Rightarrow> by_serial
       | (None, Some _) \<Rightarrow> by_rns
       | (None, None) \<Rightarrow> if pv_dual v then by_serial else by_rns)"

definition serial_row :: "peer_view \<Rightarrow> string \<Rightarrow> peer option" where
  "serial_row v clean = find_last (\<lambda>p. names_row clean p \<and> via_of p = ''serial'') (pv_scoped v)"

definition rns_row :: "peer_view \<Rightarrow> string \<Rightarrow> peer option" where
  "rns_row v clean = find_last (\<lambda>p. names_row clean p \<and> via_of p = ''rns'') (pv_scoped v)"

definition other_row :: "peer_view \<Rightarrow> string \<Rightarrow> peer option" where
  "other_row v clean = find (\<lambda>p. names_row clean p \<and> via_of p \<noteq> ''serial'') (pv_scoped v)"

text \<open>Of the rows on USB, over Reticulum and under any other transport; the last one is taken for want of a hash.\<close>

definition choose_row :: "peer_view \<Rightarrow> string \<Rightarrow> string \<Rightarrow> peer option \<Rightarrow> peer option \<Rightarrow> peer option \<Rightarrow> peer option \<Rightarrow> peer option" where
  "choose_row v peer_ip requested by_serial by_rns by_hash by_ip = (
     if requested = ''serial'' then by_serial
     else if requested \<in> {''lan'', ''rns'', ''beacon''} then (if by_rns \<noteq> None then by_rns else by_hash)
     else case (by_serial, by_rns) of
         (Some s, Some r) \<Rightarrow> Some (dual_choice v peer_ip s r)
       | (Some s, None) \<Rightarrow> Some s
       | (None, Some r) \<Rightarrow> Some r
       | (None, None) \<Rightarrow> if by_hash \<noteq> None then by_hash else by_ip)"

definition discovery_peer_for_connect :: "peer_view \<Rightarrow> string \<Rightarrow> string \<Rightarrow> string \<Rightarrow> peer option" where
  "discovery_peer_for_connect v peer_ip hash_hex via = (if \<not> pv_discovery v then None
     else let clean = nhash hash_hex in
       choose_row v peer_ip (py_lower (py_strip via)) (serial_row v clean) (rns_row v clean) (other_row v clean)
         (if clean \<noteq> '''' \<or> peer_ip = '''' then None else find_last (\<lambda>p. p_ip p = Some peer_ip) (pv_scoped v)))"

section \<open>The pinned LAN\<close>

text \<open>The row of the table that decides: the last one on USB, else the first other one.\<close>

definition deciding_row :: "peer_view \<Rightarrow> string \<Rightarrow> peer option" where
  "deciding_row v target = (let
     matching = filter (\<lambda>p. target \<in> {normalize_hash (p_hash p), normalize_hash (p_identity_hash p)}) (pv_table v);
     serial_match = find_last (\<lambda>p. via_of p = ''serial'') matching;
     other_match = find (\<lambda>p. via_of p \<noteq> ''serial'') matching
     in if serial_match \<noteq> None then serial_match else other_match)"

definition scope_row :: "peer_view \<Rightarrow> string \<Rightarrow> string \<times> string" where
  "scope_row v target = (let
     row = (if pv_discovery v \<and> deciding_row v target \<noteq> None then deciding_row v target
            else discovery_peer_for_connect v '''' target '''')
     in case row of None \<Rightarrow> ('''', '''') | Some p \<Rightarrow> (stripE (p_ip p), via_of p))"

definition peer_in_discovery_scope :: "peer_view \<Rightarrow> link_env \<Rightarrow> string \<Rightarrow> string option \<Rightarrow> engine \<Rightarrow> bool \<times> engine" where
  "peer_in_discovery_scope v env peer_hash link s = (
     if (case link of None \<Rightarrow> False | Some l \<Rightarrow> fam_of env l = ''serial'') then (True, s)
     else if (case link of None \<Rightarrow> False | Some l \<Rightarrow> l_iface (e_info env l) \<noteq> None \<and> \<not> acceptable env s l peer_hash) then (False, s)
     else if is_hub_peer_hash peer_hash then (True, s)
     else if pv_scope v = '''' then (True, s)
     else let target = nhash peer_hash in
       if target = '''' then (False, s)
       else if pv_serial v \<and> pv_serial_path v target then (True, s)
       else case scope_row v target of (peer_ip, peer_via) \<Rightarrow>
         if peer_via = ''serial''
         then (pv_serial v \<or> (peer_ip \<noteq> '''' \<and> peer_in_scope (Some peer_ip) (Some (pv_scope v))), s)
         else case (if pv_serial v then link_for_peer env target '''' s else (None, s)) of (l, s) \<Rightarrow>
           (if (case l of None \<Rightarrow> False | Some l \<Rightarrow> fam_of env l = ''serial'') then True
            else if peer_ip = '''' then pv_serial v
            else peer_in_scope (Some peer_ip) (Some (pv_scope v)), s))"

section \<open>Current hashes\<close>

definition peer_matches_transport :: "peer \<Rightarrow> string \<Rightarrow> bool" where
  "peer_matches_transport p prefer_via = (if prefer_via = '''' then True
     else let requested = py_lower (py_strip prefer_via); pvia = py_lower (via_of p) in
       if requested = ''serial'' then pvia = ''serial''
       else pvia \<in> {''rns'', ''beacon'', ''lan'', ''''})"

definition contact_hash_for_transport :: "daemon \<Rightarrow> string \<Rightarrow> string \<Rightarrow> string" where
  "contact_hash_for_transport d peer_hash prefer_via = (
     case fst (find_contact_by_hash (he_contacts d) (Some (peer_dest_hash d peer_hash))) of
       None \<Rightarrow> ''''
     | Some c \<Rightarrow> let via = py_lower (py_strip prefer_via) in
         if via = ''serial'' then nocolon (orE (c_serial_hash c))
         else if via \<in> {''lan'', ''rns'', ''beacon'', ''udp'', ''tcp''} then nocolon (py_or (orE (c_lan_hash c)) (orE (c_hash c)))
         else '''')"

definition peer_is_current_here :: "daemon \<Rightarrow> peer_view \<Rightarrow> link_env \<Rightarrow> string \<Rightarrow> engine \<Rightarrow> bool \<times> engine" where
  "peer_is_current_here d v env peer_hash s = (let clean = peer_dest_hash (d\<lparr>he_maps := Some (maps s)\<rparr>) peer_hash in
     if clean = '''' then (False, s)
     else if fst (contact_has_hash (he_contacts d) (Some clean)) then (True, s)
     else case (if pv_scope v \<noteq> '''' \<and> \<not> is_hub_peer_hash clean then peer_in_discovery_scope v env clean None s else (True, s)) of
       (False, s) \<Rightarrow> (False, s)
     | (True, s) \<Rightarrow> (case peer_link_active env clean '''' '''' s of
         (True, s) \<Rightarrow> (True, s)
       | (False, s) \<Rightarrow>
           if active_peer_hash s \<noteq> '''' \<and> hashes_equivalent (maps s) clean (active_peer_hash s) then (True, s)
           else case linked_peers env s of (linked, s) \<Rightarrow>
             if list_ex (hashes_equivalent (maps s) clean) linked then (True, s)
             else (pv_discovery v \<and> pv_current v clean, s)))"

definition resolve_current_peer_hash :: "daemon \<Rightarrow> peer_view \<Rightarrow> link_env \<Rightarrow> string \<Rightarrow> string \<Rightarrow> string \<Rightarrow> engine \<Rightarrow> string \<times> engine" where
  "resolve_current_peer_hash d v env peer_hash peer_ip prefer_via s = (let
     d = d\<lparr>he_maps := Some (maps s)\<rparr>;
     clean = peer_dest_hash d peer_hash;
     transport_hash = contact_hash_for_transport d clean prefer_via;
     clean = (if transport_hash \<noteq> '''' then transport_hash else clean)
     in case peer_is_current_here d v env clean s of
       (True, s) \<Rightarrow> (clean, s)
     | (False, s) \<Rightarrow> let d = d\<lparr>he_maps := Some (maps s)\<rparr> in
         (case (case current_peer_for_ip v peer_ip of None \<Rightarrow> None
                | Some p \<Rightarrow> if peer_matches_transport p prefer_via then Some p else None) of
            Some p \<Rightarrow> (peer_dest_hash d (orE (p_hash p)), s)
          | None \<Rightarrow>
              (case find (\<lambda>p. peer_matches_transport p prefer_via
                     \<and> (peers_equivalent d (orE (p_hash p)) clean
                        \<or> (truthy (p_identity_hash p) \<and> peers_equivalent d (orE (p_identity_hash p)) clean)))
                  (if pv_discovery v then pv_scoped v else []) of
                 Some p \<Rightarrow> (peer_dest_hash d (orE (p_hash p)), s)
               | None \<Rightarrow> (clean, s))))"

section \<open>What these choose\<close>

lemma findD: "find p xs = Some x \<Longrightarrow> x \<in> set xs \<and> p x"
  by (auto simp: find_Some_iff)

lemma find_lastD: "find_last p xs = Some x \<Longrightarrow> x \<in> set xs \<and> p x"
  using findD [of p "rev xs"] by (simp add: find_last_def)

lemma find_last_None: "find_last p xs = None \<longleftrightarrow> (\<forall>x \<in> set xs. \<not> p x)"
  by (auto simp: find_last_def find_None_iff)

lemma dual_choice_cases: "dual_choice v ip s r \<in> {s, r}"
  by (simp add: dual_choice_def Let_def split: option.split)

text \<open>A row a connection to a hash may go to, given the transport that was asked for.\<close>

definition suits :: "string \<Rightarrow> string \<Rightarrow> peer \<Rightarrow> bool" where
  "suits clean requested p \<longleftrightarrow> names_row clean p \<and> (requested = ''serial'' \<longrightarrow> via_of p = ''serial'')
     \<and> (requested \<in> {''lan'', ''rns'', ''beacon''} \<longrightarrow> via_of p \<noteq> ''serial'')"

lemma serial_row_Some: "serial_row v c = Some p \<Longrightarrow> p \<in> set (pv_scoped v) \<and> names_row c p \<and> via_of p = ''serial''"
  unfolding serial_row_def by (drule find_lastD) simp

lemma rns_row_Some: "rns_row v c = Some p \<Longrightarrow> p \<in> set (pv_scoped v) \<and> names_row c p \<and> via_of p = ''rns''"
  unfolding rns_row_def by (drule find_lastD) simp

lemma other_row_Some: "other_row v c = Some p \<Longrightarrow> p \<in> set (pv_scoped v) \<and> names_row c p \<and> via_of p \<noteq> ''serial''"
  unfolding other_row_def by (drule findD) simp

lemma serial_row_None: "serial_row v c = None \<Longrightarrow> p \<in> set (pv_scoped v) \<Longrightarrow> names_row c p \<Longrightarrow> via_of p \<noteq> ''serial''"
  by (simp add: serial_row_def find_last_None)

lemma other_row_None: "other_row v c = None \<Longrightarrow> p \<in> set (pv_scoped v) \<Longrightarrow> names_row c p \<Longrightarrow> via_of p = ''serial''"
  by (auto simp: other_row_def find_None_iff)

lemmas row_Some = serial_row_Some rns_row_Some other_row_Some

lemma choose_row_Some:
  assumes "choose_row v ip req bs br bh None = Some p"
  shows "req = ''serial'' \<and> bs = Some p \<or> req \<in> {''lan'', ''rns'', ''beacon''} \<and> (br = Some p \<or> bh = Some p)
    \<or> req \<notin> {''serial'', ''lan'', ''rns'', ''beacon''} \<and> (bs = Some p \<or> br = Some p \<or> bh = Some p)"
  using assms dual_choice_cases [of v ip "the bs" "the br"]
  by (cases bs; cases br; cases bh; simp add: choose_row_def split: if_splits) auto

lemma choose_row_None:
  assumes "choose_row v ip req bs br bh by_ip = None"
  shows "(req \<notin> {''lan'', ''rns'', ''beacon''} \<longrightarrow> bs = None) \<and> (req \<noteq> ''serial'' \<longrightarrow> bh = None)"
  using assms by (cases bs; cases br; cases bh; simp add: choose_row_def split: if_splits)

lemma connect_suits:
  assumes "discovery_peer_for_connect v ip h via = Some p" "nhash h \<noteq> ''''"
  shows "p \<in> set (pv_scoped v) \<and> suits (nhash h) (py_lower (py_strip via)) p"
proof -
  have "choose_row v ip (py_lower (py_strip via)) (serial_row v (nhash h)) (rns_row v (nhash h)) (other_row v (nhash h)) None = Some p"
    using assms by (simp add: discovery_peer_for_connect_def Let_def split: if_splits)
  from choose_row_Some [OF this] show ?thesis
    unfolding suits_def by (elim disjE conjE) (auto dest: row_Some)
qed

lemma connect_none:
  assumes "discovery_peer_for_connect v ip h via = None" "pv_discovery v" "p \<in> set (pv_scoped v)"
  shows "\<not> suits (nhash h) (py_lower (py_strip via)) p"
proof -
  have "choose_row v ip (py_lower (py_strip via)) (serial_row v (nhash h)) (rns_row v (nhash h)) (other_row v (nhash h))
      (if nhash h \<noteq> '''' \<or> ip = '''' then None else find_last (\<lambda>p. p_ip p = Some ip) (pv_scoped v)) = None"
    using assms(1,2) unfolding discovery_peer_for_connect_def Let_def by simp
  from choose_row_None [OF this] show ?thesis
    unfolding suits_def using serial_row_None [OF _ assms(3)] other_row_None [OF _ assms(3)] by blast
qed

text \<open>C17: A connection goes to a row that carries the requested hash, and over the transport that was
  asked for: USB only to a row announced on USB, the LAN only to one that is not; without a
  wish any row of the peer will do, and there is one unless no row carries the hash.\<close>

theorem connect_row_matches:
  assumes "nhash h \<noteq> ''''" "pv_discovery v"
  shows "case discovery_peer_for_connect v ip h via of
      None \<Rightarrow> \<forall>p \<in> set (pv_scoped v). \<not> suits (nhash h) (py_lower (py_strip via)) p
    | Some p \<Rightarrow> p \<in> set (pv_scoped v) \<and> suits (nhash h) (py_lower (py_strip via)) p"
  using assms connect_suits connect_none by (simp split: option.split)

text \<open>C18: While the LAN is pinned and USB is off, a peer counts as in scope only if discovery has a row
  under its hash with an address on the pinned LAN (the group apart).\<close>

theorem scope_keeps_strangers_out:
  assumes "peer_in_discovery_scope v env h None s = (True, s')"
    and "pv_scope v \<noteq> ''''" "\<not> pv_serial v" "\<not> is_hub_peer_hash h"
  shows "\<exists>p \<in> set (pv_table v) \<union> set (pv_scoped v). names_row (nhash h) p
    \<and> stripE (p_ip p) \<noteq> '''' \<and> peer_in_scope (Some (stripE (p_ip p))) (Some (pv_scope v))"
proof -
  let ?t = "nhash h"
  have t: "?t \<noteq> ''''" using assms by (auto simp: peer_in_discovery_scope_def)
  obtain ip via where row: "scope_row v ?t = (ip, via)" by force
  have ip: "ip \<noteq> '''' \<and> peer_in_scope (Some ip) (Some (pv_scope v))"
    using assms row by (auto simp: peer_in_discovery_scope_def Let_def split: if_splits)
  define r where "r = (if pv_discovery v \<and> deciding_row v ?t \<noteq> None then deciding_row v ?t
      else discovery_peer_for_connect v '''' ?t '''')"
  have "(case r of None \<Rightarrow> ('''', '''') | Some p \<Rightarrow> (stripE (p_ip p), via_of p)) = (ip, via)"
    using row by (simp only: scope_row_def r_def Let_def)
  then obtain p where p: "r = Some p" "ip = stripE (p_ip p)"
    using ip by (cases r) auto
  have "p \<in> set (pv_table v) \<union> set (pv_scoped v) \<and> names_row ?t p"
  proof (cases "pv_discovery v \<and> deciding_row v ?t \<noteq> None")
    case True
    then have "deciding_row v ?t = Some p" using p by (simp add: r_def)
    then show ?thesis using t
      by (auto simp: deciding_row_def names_row_def Let_def split: if_splits dest!: find_lastD findD)
  next
    case False
    then have c: "discovery_peer_for_connect v '''' ?t '''' = Some p" using p by (auto simp: r_def)
    then have "pv_discovery v" by (auto simp: discovery_peer_for_connect_def split: if_splits)
    with connect_suits [OF c] t show ?thesis by (simp add: suits_def)
  qed
  with ip p(2) show ?thesis by auto
qed

section \<open>A sample view\<close>

text \<open>One peer, announced over Reticulum on the LAN and on USB.\<close>

definition on_lan :: peer where
  "on_lan = empty_peer\<lparr>p_hash := Some ''bb'', p_ip := Some ''10.0.0.9'', p_via := Some ''rns''\<rparr>"

definition on_usb :: peer where
  "on_usb = empty_peer\<lparr>p_hash := Some ''bb'', p_via := Some ''serial''\<rparr>"

definition both_view :: peer_view where
  "both_view = \<lparr>pv_scoped = [on_lan, on_usb], pv_listed = [on_lan, on_usb], pv_table = [on_lan],
     pv_current = (\<lambda>_. True), pv_discovery = True, pv_scope = ''10.0.0.1'', pv_serial = False,
     pv_serial_path = (\<lambda>_. False), pv_dual = False\<rparr>"

lemma connect_row_matches_witness:
  "discovery_peer_for_connect both_view '''' ''BB'' ''serial'' = Some on_usb
   \<and> suits (nhash ''BB'') ''serial'' on_usb"
proof -
  have r: "discovery_peer_for_connect both_view '''' ''BB'' ''serial'' = Some on_usb" "nhash ''BB'' \<noteq> ''''"
    "pv_discovery both_view" "py_lower (py_strip ''serial'') = ''serial''"
    by code_simp+
  with connect_row_matches [OF r(2,3), of "''serial''" "''''"] show ?thesis by simp
qed

lemma scope_keeps_strangers_out_witness:
  "\<exists>p \<in> set (pv_table both_view) \<union> set (pv_scoped both_view). names_row (nhash ''BB'') p
    \<and> stripE (p_ip p) \<noteq> '''' \<and> peer_in_scope (Some (stripE (p_ip p))) (Some (pv_scope both_view))"
proof -
  have r: "peer_in_discovery_scope both_view lan_link_env ''BB'' None linked_engine = (True, linked_engine)"
    "pv_scope both_view \<noteq> ''''" "\<not> pv_serial both_view" "\<not> is_hub_peer_hash ''BB''"
    by code_simp+
  show ?thesis by (rule scope_keeps_strangers_out [OF r])
qed

end
