(* ===== verification/Supersede.thy ===== *)
theory Supersede
  imports HistoryLaws Sessions ContactOps DiscoveryEvents
begin

text \<open>
  What the daemon does when discovery reports (\<open>rnsd/service.py\<close>).  A hash that was
  evicted (\<open>_supersede_peer_hashes\<close>): the peer was
  announced anew under another one, or is gone.  The daemon moves what it keeps under the
  old hash to the new one: the contact, the engine's names and links, the active and the
  viewed peer; or it forgets the peer: link, queue and history.  Here contacts, engine, queue and
  history are changed by one event.  A peer that was seen (\<open>_on_peer_discovered\<close>): its contact is
  brought up to date.  Purging Reticulum's paths is recorded, the broadcasts are left out; an
  exception ends the event, and the state at that point is not described.
\<close>

record node =
  nd_engine :: engine
  nd_outbox :: outbox
  nd_history :: history
  nd_contacts :: cstore
  nd_viewing :: string                  \<comment> \<open>\<open>_ui_state["viewing_peer"]\<close>\<close>
  nd_connecting :: bool                 \<comment> \<open>\<open>messaging._connect_in_progress\<close>\<close>
  nd_purged :: "string list"            \<comment> \<open>what \<open>purge_rns_paths_for_hashes\<close> was called with\<close>

definition daemon_at :: "daemon \<Rightarrow> node \<Rightarrow> daemon" where
  "daemon_at d w = d\<lparr>he_maps := Some (maps (nd_engine w)), he_contacts := nd_contacts w, he_viewing := nd_viewing w\<rparr>"

abbreviation same_name :: "node \<Rightarrow> string \<Rightarrow> string \<Rightarrow> bool" where
  "same_name w a b \<equiv> hashes_equivalent (maps (nd_engine w)) a b"

abbreviation ident_of :: "peer option \<Rightarrow> string" where
  "ident_of p \<equiv> (case p of None \<Rightarrow> '''' | Some p \<Rightarrow> orE (p_identity_hash p))"

abbreviation field :: "(peer \<Rightarrow> 'a option) \<Rightarrow> peer option \<Rightarrow> 'a option" where
  "field f p \<equiv> (case p of None \<Rightarrow> None | Some p \<Rightarrow> f p)"

text \<open>While a connection is being opened to the old hash, its paths are kept.\<close>

definition keeps_paths :: "node \<Rightarrow> string list \<Rightarrow> peer option \<Rightarrow> bool" where
  "keeps_paths w removed new_peer = (if \<not> nd_connecting w then False
     else let session = dest_hash_for (maps (nd_engine w)) (py_or (session_peer_hash (nd_engine w)) (active_peer_hash (nd_engine w)))
       in session \<noteq> '''' \<and> list_ex (\<lambda>old. same_name w old session
            \<or> (ident_of new_peer \<noteq> '''' \<and> same_name w old (ident_of new_peer))) removed)"

section \<open>One hash\<close>

definition is_same_peer :: "node \<Rightarrow> string \<Rightarrow> string \<Rightarrow> peer option \<Rightarrow> bool" where
  "is_same_peer w old replacement new_peer \<longleftrightarrow> replacement \<noteq> ''''
     \<and> (same_name w old replacement \<or> (ident_of new_peer \<noteq> '''' \<and> same_name w old (ident_of new_peer)))"

definition still_linked :: "link_env \<Rightarrow> string \<Rightarrow> string \<Rightarrow> engine \<Rightarrow> bool \<times> engine" where
  "still_linked env old replacement s = (case peer_link_active env old '''' '''' s of
     (True, s) \<Rightarrow> (True, s)
   | (False, s) \<Rightarrow> if replacement \<noteq> '''' then peer_link_active env replacement '''' '''' s else (False, s))"

definition register_both :: "string \<Rightarrow> string \<Rightarrow> string \<Rightarrow> engine \<Rightarrow> engine" where
  "register_both old replacement ident s = (if replacement = '''' then s
     else s\<lparr>maps := register_peer_mapping old (py_or ident replacement) (register_peer_mapping replacement ident (maps s))\<rparr>)"

definition rename_sessions :: "string \<Rightarrow> string \<Rightarrow> engine \<Rightarrow> engine" where
  "rename_sessions old canon s = (let
     s = (if active_peer_hash s \<noteq> '''' \<and> hashes_equivalent (maps s) (active_peer_hash s) old then s\<lparr>active_peer_hash := canon\<rparr> else s)
     in if session_peer_hash s \<noteq> '''' \<and> hashes_equivalent (maps s) (session_peer_hash s) old then s\<lparr>session_peer_hash := canon\<rparr> else s)"

definition relink :: "link_env \<Rightarrow> string \<Rightarrow> string \<Rightarrow> engine \<Rightarrow> engine" where
  "relink env old canon s = (case link_for_peer env canon '''' s of (by_new, s) \<Rightarrow>
     (case (if by_new \<noteq> None then (by_new, s) else link_for_peer env old '''' s) of (l, s) \<Rightarrow>
       (case (if l \<noteq> None then l else active_link s) of
         None \<Rightarrow> s
       | Some l \<Rightarrow> cache_link_peer env l canon (register_peer_link env l canon '''' s))))"

definition supersede_links :: "session_env \<Rightarrow> bool \<Rightarrow> bool \<Rightarrow> string \<Rightarrow> string \<Rightarrow> node \<Rightarrow> node" where
  "supersede_links se linked same_peer old replacement w = (
     if linked \<and> replacement \<noteq> ''''
     then w\<lparr>nd_engine := relink (se_link se) old replacement (rename_sessions old replacement (nd_engine w))\<rparr>
     else if \<not> same_peer
     then (let e = snd (disconnect_peer se old False '''' (nd_engine w))
           in w\<lparr>nd_engine := e, nd_outbox := clear_queue (maps e) old (nd_outbox w)\<rparr>)
     else w)"

definition supersede_records :: "daemon \<Rightarrow> bool \<Rightarrow> string \<Rightarrow> string \<Rightarrow> peer option \<Rightarrow> node \<Rightarrow> node" where
  "supersede_records d same_peer old replacement new_peer w = (let
     new_via = py_lower (stripE (field p_via new_peer));
     via = (if new_via = '''' then None else Some new_via);
     (contact, st) = find_contact_by_hash (nd_contacts w) (Some old)
     in if same_peer \<and> replacement \<noteq> ''''
        then w\<lparr>nd_contacts := snd (migrate_contact_hash st (Some old) (Some replacement) (field p_name new_peer)
               (field p_ip new_peer) (field p_port new_peer) (field p_identity_hash new_peer) via)\<rparr>
        else if contact \<noteq> None \<and> replacement \<noteq> ''''
        then w\<lparr>nd_contacts := snd (update_contact_transport_hash st (Some old) (Some replacement) via
               (field p_name new_peer) (field p_ip new_peer) (field p_port new_peer) (field p_identity_hash new_peer))\<rparr>
        else if contact \<noteq> None then w\<lparr>nd_contacts := st\<rparr>
        else let w = w\<lparr>nd_contacts := st\<rparr>; dm = daemon_at d w
          in w\<lparr>nd_history := snd (clear_history_for_peer dm old [] (nd_history w)),
               nd_outbox := snd (clear_queue_for_peer dm old (nd_outbox w))\<rparr>)"

definition supersede_views :: "string \<Rightarrow> string \<Rightarrow> node \<Rightarrow> node" where
  "supersede_views old replacement w = (let
     w = (if hs_active (nd_history w) \<noteq> '''' \<and> same_name w (hs_active (nd_history w)) old
          then w\<lparr>nd_history := (nd_history w)\<lparr>hs_active := replacement\<rparr>\<rparr> else w)
     in if nd_viewing w \<noteq> '''' \<and> same_name w (nd_viewing w) old then w\<lparr>nd_viewing := replacement\<rparr> else w)"

definition supersede_one :: "session_env \<Rightarrow> daemon \<Rightarrow> string \<Rightarrow> peer option \<Rightarrow> string \<Rightarrow> node \<Rightarrow> node" where
  "supersede_one se d replacement new_peer old w = (let
     same_peer = is_same_peer w old replacement new_peer;
     (linked, e) = still_linked (se_link se) old replacement (nd_engine w);
     w = w\<lparr>nd_engine := register_both old replacement (ident_of new_peer) e\<rparr>;
     w = supersede_links se linked same_peer old replacement w;
     w = supersede_records d same_peer old replacement new_peer w
     in supersede_views old replacement w)"

section \<open>The event\<close>

definition supersede_peer_hashes :: "session_env \<Rightarrow> daemon \<Rightarrow> string list \<Rightarrow> peer option \<Rightarrow> node \<Rightarrow> py_error + node" where
  "supersede_peer_hashes se d removed_hashes new_peer w = (let
     removed = filter (\<lambda>h. h \<noteq> '''') (map (peer_dest_hash (daemon_at d w)) removed_hashes)
     in if removed = [] then Inr w
        else let replacement = (case new_peer of None \<Rightarrow> '''' | Some p \<Rightarrow> peer_dest_hash (daemon_at d w) (orE (p_hash p)));
          moved = (if truthy (field p_ip new_peer)
             then (case migrate_contact_by_ip (nd_contacts w) (field p_ip new_peer) (Some replacement)
                     (field p_name new_peer) (field p_port new_peer) (field p_identity_hash new_peer) of
                     Inl err \<Rightarrow> Inl err | Inr (_, st) \<Rightarrow> Inr (w\<lparr>nd_contacts := st\<rparr>))
             else Inr w)
        in map_sum id (\<lambda>w. let w = (if keeps_paths w removed new_peer then w else w\<lparr>nd_purged := nd_purged w @ removed\<rparr>)
             in fold (supersede_one se d replacement new_peer) removed w) moved)"

section \<open>A peer that was seen\<close>

text \<open>\<open>_hash_from_peer_info\<close> of the engine: the destination of the identity Reticulum knows for one
  of the candidates.\<close>

fun info_dest :: "link_env \<Rightarrow> string list \<Rightarrow> engine \<Rightarrow> string \<times> engine" where
  "info_dest env [] s = ('''', s)"
| "info_dest env (c # cs) s = (if c = '''' \<or> length c \<noteq> 32 then info_dest env cs s
     else (case identity_for_hash env c s of
         (None, s) \<Rightarrow> info_dest env cs s
       | (Some ident, s) \<Rightarrow> (let dest = message_dest_hash_for_identity ident in
           if dest \<noteq> '''' then (dest, s\<lparr>maps := register_peer_mapping dest (nhash (snd ident)) (maps s)\<rparr>)
           else info_dest env cs s)))"

definition hash_from_peer_info :: "link_env \<Rightarrow> peer \<Rightarrow> engine \<Rightarrow> string \<times> engine" where
  "hash_from_peer_info env p s = (case info_dest env [normalize_hash (p_hash p), normalize_hash (p_identity_hash p)] s of
     (dest, s) \<Rightarrow> (py_or dest (normalize_hash (p_hash p)), s))"

text \<open>The contact a seen peer belongs to is brought up to date: matched by hash, identity or name,
  else by address.\<close>

definition refresh_contact :: "(string \<Rightarrow> string \<Rightarrow> bool) \<Rightarrow> string option \<Rightarrow> string \<Rightarrow> peer \<Rightarrow> cstore \<Rightarrow> py_error + cstore" where
  "refresh_contact eqv scope dest p st = (case sync_contact_from_discovery st (p\<lparr>p_hash := Some dest\<rparr>) (Some eqv) scope of
     (Some _, st) \<Rightarrow> Inr st
   | (None, st) \<Rightarrow> (if \<not> truthy (p_ip p) then Inr st
       else case list_contacts st of (contacts, st) \<Rightarrow>
         if list_ex (\<lambda>c. stripE (c_ip c) = orE (p_ip p)) contacts
         then map_sum id snd (migrate_contact_by_ip st (p_ip p) (Some dest) (p_name p) (p_port p) (p_identity_hash p))
         else Inr st))"

definition on_peer_discovered :: "link_env \<Rightarrow> string option \<Rightarrow> daemon \<Rightarrow> peer \<Rightarrow> node \<Rightarrow> py_error + node" where
  "on_peer_discovered env scope d p w = (case hash_from_peer_info env p (nd_engine w) of (info, e) \<Rightarrow> let
     w = w\<lparr>nd_engine := e\<rparr>;
     dest = py_or info (peer_dest_hash (daemon_at d w) (orE (p_hash p)));
     e = (if truthy (p_identity_hash p) then e\<lparr>maps := register_peer_mapping dest (orE (p_identity_hash p)) (maps e)\<rparr> else e);
     eqv = hashes_equivalent (maps e) in
     (case refresh_contact eqv scope dest p (nd_contacts w) of
       Inl err \<Rightarrow> Inl err
     | Inr st \<Rightarrow> map_sum id (\<lambda>(_, st). w\<lparr>nd_engine := e, nd_contacts := st\<rparr>)
         (update_contact_endpoint st (Some dest) (p_ip p) (p_port p) (p_identity_hash p) (Some eqv) (p_name p) scope)))"

text \<open>What discovery reports, in the order it reports it.  Registering an identity and pinning a
  path change Reticulum only.\<close>

fun on_effect :: "session_env \<Rightarrow> string option \<Rightarrow> daemon \<Rightarrow> effect \<Rightarrow> node \<Rightarrow> py_error + node" where
  "on_effect se scope d (PeerSeen p) w = on_peer_discovered (se_link se) scope d p w"
| "on_effect se scope d (PeerEvicted removed p) w = supersede_peer_hashes se d removed p w"
| "on_effect se scope d (RegisterIdentity p) w = Inr w"
| "on_effect se scope d (ReinforceSerial h) w = Inr w"

fun on_effects :: "session_env \<Rightarrow> string option \<Rightarrow> daemon \<Rightarrow> effect list \<Rightarrow> node \<Rightarrow> py_error + node" where
  "on_effects se scope d [] w = Inr w"
| "on_effects se scope d (e # es) w = (case on_effect se scope d e w of
     Inl err \<Rightarrow> Inl err | Inr w \<Rightarrow> on_effects se scope d es w)"

section \<open>A link that closed\<close>

definition on_link_closed :: "session_env \<Rightarrow> daemon \<Rightarrow> string \<Rightarrow> bool \<Rightarrow> bool \<Rightarrow> node \<Rightarrow> node" where
  "on_link_closed se d peer_hash handoff failover w = (if handoff \<or> failover then w
     else let peer = peer_dest_hash (daemon_at d w) peer_hash in
       case (if peer = '''' then (False, nd_engine w) else peer_link_active (se_link se) peer '''' '''' (nd_engine w)) of
         (linked, e) \<Rightarrow> let w = w\<lparr>nd_engine := e\<rparr>; active = hs_active (nd_history w) in
           if peer \<noteq> '''' \<and> active \<noteq> '''' \<and> same_name w peer active \<and> \<not> linked
           then w\<lparr>nd_history := (nd_history w)\<lparr>hs_active := active_peer_hash e\<rparr>\<rparr> else w)"

end
