(* ===== verification/SupersedeLaws.thy ===== *)
theory SupersedeLaws
  imports Supersede SessionLaws ContactProps DiscoveryProps OutboxLaws
begin

text \<open>
  What an eviction keeps and what it loses, over \<open>Supersede\<close>.
\<close>

section \<open>Conversations of contacts\<close>

lemma records_keep_history:
  assumes "same_peer \<and> replacement \<noteq> '''' \<or> fst (find_contact_by_hash (nd_contacts w) (Some old)) \<noteq> None"
  shows "nd_history (supersede_records d same_peer old replacement p w) = nd_history w"
proof -
  obtain c st where f: "find_contact_by_hash (nd_contacts w) (Some old) = (c, st)" by force
  have "c \<noteq> None \<or> (same_peer \<and> replacement \<noteq> '''')" using assms f by auto
  then show ?thesis by (auto simp: supersede_records_def f Let_def)
qed

lemma links_keep [simp]:
  "nd_history (supersede_links se b sp old rep w) = nd_history w" "nd_contacts (supersede_links se b sp old rep w) = nd_contacts w"
  by (simp_all add: supersede_links_def Let_def)

lemma views_keep [simp]:
  "hs_log (nd_history (supersede_views old rep w)) = hs_log (nd_history w)"
  "hs_disk (nd_history (supersede_views old rep w)) = hs_disk (nd_history w)"
  "nd_outbox (supersede_views old rep w) = nd_outbox w" "nd_engine (supersede_views old rep w) = nd_engine w"
  "nd_contacts (supersede_views old rep w) = nd_contacts w"
  by (simp_all add: supersede_views_def Let_def)


section \<open>The queue of a contact that is silent\<close>

lemma records_keep_queue:
  assumes "fst (find_contact_by_hash (nd_contacts w) (Some old)) \<noteq> None"
  shows "nd_outbox (supersede_records d False old '''' None w) = nd_outbox w"
proof -
  obtain c st where f: "find_contact_by_hash (nd_contacts w) (Some old) = (c, st)" by force
  then show ?thesis using assms by (auto simp: supersede_records_def Let_def)
qed

lemma clear_queue_of: "old \<noteq> '''' \<Longrightarrow> the_queue (clear_queue m old q) = filter (\<lambda>e. \<not> queue_matches_target m e old) (the_queue q)"
  by (simp add: clear_queue_def)

text \<open>A row that goes without a successor.\<close>

lemma supersede_gone:
  assumes "peer_dest_hash (daemon_at d w) h = old" "old \<noteq> ''''" "supersede_peer_hashes se d [h] None w = Inr w'"
  obtains n where "w' = supersede_one se d '''' None old (w\<lparr>nd_purged := n\<rparr>)"
  using assms that [of "nd_purged w"] that [of "nd_purged w @ [old]"]
  by (auto simp: supersede_peer_hashes_def Let_def split: if_splits)

lemma one_gone:
  assumes "old \<noteq> ''''" "fst (find_contact_by_hash (nd_contacts w) (Some old)) \<noteq> None"
  shows "\<exists>m. the_queue (nd_outbox (supersede_one se d '''' None old w)) = filter (\<lambda>e. \<not> queue_matches_target m e old) (the_queue (nd_outbox w))"
proof -
  obtain b e where l: "still_linked (se_link se) old '''' (nd_engine w) = (b, e)" by force
  have s: "\<not> is_same_peer w old '''' None" by (simp add: is_same_peer_def)
  show ?thesis unfolding supersede_one_def l Let_def prod.case
    using assms s by (auto simp: records_keep_queue supersede_links_def Let_def clear_queue_of)
qed

lemma own_target_matches: "q_target e = old \<Longrightarrow> nhash old \<noteq> '''' \<Longrightarrow> old \<noteq> '''' \<Longrightarrow> queue_matches_target m e old"
  by (auto simp: queue_matches_target_def hashes_equivalent_def dest_hash_for_def Let_def)

text \<open>C31: When discovery drops the row of a saved contact without a successor, no message queued for the
  contact is left: the engine's queue is emptied before the daemon looks whether the peer is a
  contact, whose queue and conversation it then means to keep.\<close>

theorem silent_contact_loses_queue:
  assumes "supersede_peer_hashes se d [h] None w = Inr w'" "peer_dest_hash (daemon_at d w) h = old"
    and "nhash old \<noteq> ''''" "is_saved_contact (daemon_at d w) old"
  shows "old \<notin> q_target ` set (the_queue (nd_outbox w'))"
proof -
  have o: "old \<noteq> ''''" using assms(3) by auto
  obtain n where w: "w' = supersede_one se d '''' None old (w\<lparr>nd_purged := n\<rparr>)"
    using supersede_gone [OF assms(2) o assms(1)] .
  have "fst (find_contact_by_hash (nd_contacts (w\<lparr>nd_purged := n\<rparr>)) (Some old)) \<noteq> None"
    using assms(4) by (simp add: is_saved_contact_def daemon_at_def)
  from one_gone [OF o this] obtain m where
    "the_queue (nd_outbox w') = filter (\<lambda>e. \<not> queue_matches_target m e old) (the_queue (nd_outbox w))"
    unfolding w by auto
  then show ?thesis using own_target_matches [OF _ assms(3) o] by auto
qed

section \<open>A sample node\<close>

text \<open>Bob is a saved contact; he has written once, and an answer waits for him.\<close>

definition quiet_engine :: engine where
  "quiet_engine = linked_engine\<lparr>links := [], link_peer_hashes := [], peer_links := [], active_link := None,
     active_peer_hash := '''', send_link := None, session_peer_hash := '''', session_transport := ''''\<rparr>"

definition bob_node :: node where
  "bob_node = \<lparr>nd_engine = quiet_engine, nd_outbox = enqueue ''f'' ''text'' ''hi'' ''bb02'' '''' ''m1'' empty_outbox,
     nd_history = on_message demo_daemon (hello (Num 7)) ''bb02'' no_history, nd_contacts = empty_store\<lparr>files := [(''bb02'', FJson bob)]\<rparr>, nd_viewing = '''',
     nd_connecting = False, nd_purged = []\<rparr>"

definition bob_seen :: peer where
  "bob_seen = empty_peer\<lparr>p_hash := Some ''bb02'', p_name := Some ''Bob'', p_ip := Some ''10.0.0.9'',
     p_via := Some ''beacon'', p_identity_hash := Some ''1d02''\<rparr>"

definition stranger :: peer where
  "stranger = empty_peer\<lparr>p_hash := Some ''cc03'', p_name := Some ''Bob'', p_ip := Some ''10.0.0.77'',
     p_via := Some ''beacon'', p_identity_hash := Some ''1d03''\<rparr>"

definition bob_moved :: peer where
  "bob_moved = stranger\<lparr>p_ip := Some ''10.0.0.9''\<rparr>"

definition lan_only :: denv where
  "lan_only = demo_env\<lparr>e_serial := False\<rparr>"

definition bob_table :: dstate where
  "bob_table = (snd (store_peer lan_only bob_seen new_discovery))\<lparr>effects := []\<rparr>"

lemma bob_saved: "is_saved_contact (daemon_at demo_daemon bob_node) ''bb02''"
  by code_simp


lemma silent_contact_loses_queue_witness:
  "\<exists>w'. supersede_peer_hashes lan_session_env demo_daemon [''bb02''] None bob_node = Inr w'
     \<and> ''bb02'' \<in> q_target ` set (the_queue (nd_outbox bob_node)) \<and> ''bb02'' \<notin> q_target ` set (the_queue (nd_outbox w'))"
proof -
  have old: "peer_dest_hash (daemon_at demo_daemon bob_node) ''bb02'' = ''bb02''" "nhash ''bb02'' \<noteq> ''''" by code_simp+
  obtain w' where w: "supersede_peer_hashes lan_session_env demo_daemon [''bb02''] None bob_node = Inr w'"
    by (cases "supersede_peer_hashes lan_session_env demo_daemon [''bb02''] None bob_node")
       (simp_all add: supersede_peer_hashes_def Let_def split: if_splits)
  have "''bb02'' \<in> q_target ` set (the_queue (nd_outbox bob_node))" by code_simp
  with w silent_contact_loses_queue [OF w old bob_saved] show ?thesis by blast
qed

section \<open>What a name and an address move\<close>


text \<open>A contact that comes back at its address with a new identity loses its conversation: the contact
  is moved to the new hash first, and then the rows under the old one are deleted as those of a
  peer that is no contact.\<close>

theorem moved_contact_loses_history:
  "case on_effects lan_session_env (Some ''10.0.0.1'') demo_daemon (effects (snd (store_peer lan_only bob_moved bob_table))) bob_node of
     Inl _ \<Rightarrow> False
   | Inr w \<Rightarrow> fst (find_contact_by_hash (nd_contacts w) (Some ''cc03'')) \<noteq> None
       \<and> hs_log (nd_history bob_node) \<noteq> [] \<and> hs_log (nd_history w) = [] \<and> hs_disk (nd_history w) = []"
  by code_simp

text \<open>A successor without an identity is filed as an alias of the hash it replaces.\<close>

lemma superseded_hash_returns:
  "map_sum id (\<lambda>w. dest_hash_for (maps (nd_engine w)) ''cc03'')
     (supersede_peer_hashes lan_session_env demo_daemon [''bb02''] (Some (stranger\<lparr>p_identity_hash := None\<rparr>)) bob_node) = Inr ''bb02''"
  by code_simp

end
